(* ===== verification/Prelude.thy ===== *)
theory Prelude
  imports Main "HOL-Library.Word" "HOL-Library.AList" "HOL-Library.Sublist"
begin

text \<open>
  What every component shares: the byte and integer types, errors as values, the string
  routines of the Rust standard library that the program calls (split_once, Display of an
  unsigned integer, join, UTF-8 validation), and association lists.

  A Rust \<open>String\<close> or \<open>&str\<close> is the HOL type string: a char of HOL is one byte, so a string is
  the list of the UTF-8 bytes of the text, which is what \<open>as_bytes\<close>, \<open>len\<close>, comparison,
  concatenation and splitting at an ASCII separator work on.
\<close>

section \<open>Types\<close>

type_synonym byte = "8 word"
type_synonym bytes = "byte list"
type_synonym u16 = "16 word"
type_synonym u32 = "32 word"
type_synonym u64 = "64 word"

text \<open>Errors are values: an I/O failure on a path, a failed bincode decode, an \<open>anyhow\<close>
  message of the program, and a panic (\<open>unwrap\<close> or \<open>expect\<close> on a failure).  A message is the
  program's text; what a library appends to it is left out.\<close>

datatype error = Io string | Decode string | Bail string | Panic string

type_synonym 'a res = "error + 'a"

fun is_ok :: "'e + 'a \<Rightarrow> bool" where
  "is_ok (Inl _) = False"
| "is_ok (Inr _) = True"

text \<open>\<open>Option::ok_or\<close>, and the early return of \<open>?\<close> on pure code.\<close>

fun ok_or :: "'a option \<Rightarrow> 'e \<Rightarrow> 'e + 'a" where
  "ok_or None e = Inl e"
| "ok_or (Some x) e = Inr x"

fun res_bind :: "'e + 'a \<Rightarrow> ('a \<Rightarrow> 'e + 'b) \<Rightarrow> 'e + 'b" where
  "res_bind (Inl e) f = Inl e"
| "res_bind (Inr x) f = f x"

fun res_option :: "'e + 'a \<Rightarrow> 'a option" where
  "res_option (Inl _) = None"
| "res_option (Inr x) = Some x"

named_theorems component_simps

lemma ok_or_Inr [simp]: "ok_or x e = Inr y \<longleftrightarrow> x = Some y"
  by (cases x) auto

lemma ok_or_Inl [simp]: "ok_or x e = Inl e' \<longleftrightarrow> x = None \<and> e' = e"
  by (cases x) auto

lemma res_bind_Inr [simp]: "res_bind r f = Inr y \<longleftrightarrow> (\<exists>x. r = Inr x \<and> f x = Inr y)"
  by (cases r) auto

lemma res_option_Some [simp]: "res_option r = Some x \<longleftrightarrow> r = Inr x"
  by (cases r) auto

lemma res_option_None [simp]: "res_option r = None \<longleftrightarrow> (\<exists>e. r = Inl e)"
  by (cases r) auto

lemma is_ok_iff: "is_ok r \<longleftrightarrow> (\<exists>x. r = Inr x)"
  by (cases r) auto

section \<open>Strings\<close>

definition str_bytes :: "string \<Rightarrow> bytes" where
  "str_bytes s = map (\<lambda>c. of_nat (of_char c)) s"

definition bytes_str :: "bytes \<Rightarrow> string" where
  "bytes_str bs = map (\<lambda>b. char_of (unat b)) bs"

lemma unat_byte_of_char [simp]: "unat (of_nat (of_char c) :: byte) = (of_char c :: nat)"
  by (simp add: unat_of_nat nat_of_char_less_256 take_bit_eq_mod)

lemma bytes_str_bytes [simp]: "bytes_str (str_bytes s) = s"
  by (simp add: bytes_str_def str_bytes_def comp_def del: of_nat_of_char)

lemma str_bytes_inject [simp]: "str_bytes s = str_bytes t \<longleftrightarrow> s = t"
  by (metis bytes_str_bytes)

lemma str_bytes_length [simp]: "length (str_bytes s) = length s"
  by (simp add: str_bytes_def)

lemma str_bytes_append: "str_bytes (s @ t) = str_bytes s @ str_bytes t"
  by (simp add: str_bytes_def)

text \<open>\<open>strip_prefix\<close>, \<open>starts_with\<close> and \<open>ends_with\<close>.\<close>

fun strip_prefix :: "'a list \<Rightarrow> 'a list \<Rightarrow> 'a list option" where
  "strip_prefix [] s = Some s"
| "strip_prefix (p # ps) [] = None"
| "strip_prefix (p # ps) (c # s) = (if p = c then strip_prefix ps s else None)"

definition starts_with :: "'a list \<Rightarrow> 'a list \<Rightarrow> bool" where
  "starts_with p s = (strip_prefix p s \<noteq> None)"

definition ends_with :: "'a list \<Rightarrow> 'a list \<Rightarrow> bool" where
  "ends_with p s = starts_with (rev p) (rev s)"

lemma strip_prefix_Some [simp]: "strip_prefix p s = Some t \<longleftrightarrow> s = p @ t"
  by (induction p s rule: strip_prefix.induct) auto

lemma strip_prefix_append [simp]: "strip_prefix p (p @ t) = Some t"
  by simp

lemma starts_with_iff: "starts_with p s \<longleftrightarrow> (\<exists>t. s = p @ t)"
  by (auto simp: starts_with_def)

lemma starts_with_append [simp]: "starts_with p (p @ s)"
  by (auto simp: starts_with_iff)

text \<open>\<open>split_once\<close> on a one-byte separator: the text before its first occurrence and the
  text after it.\<close>

fun split_once :: "'a \<Rightarrow> 'a list \<Rightarrow> ('a list \<times> 'a list) option" where
  "split_once c [] = None"
| "split_once c (x # xs) =
     (if x = c then Some ([], xs)
      else map_option (\<lambda>(a, b). (x # a, b)) (split_once c xs))"

lemma split_once_append [simp]: "c \<notin> set a \<Longrightarrow> split_once c (a @ c # b) = Some (a, b)"
  by (induction a) auto

lemma split_once_SomeD: "split_once c s = Some (a, b) \<Longrightarrow> s = a @ c # b \<and> c \<notin> set a"
  by (induction s arbitrary: a) (auto split: if_splits)

lemma split_once_None [simp]: "split_once c s = None \<longleftrightarrow> c \<notin> set s"
  by (induction s) auto

lemma separator_unique:
  assumes "a @ c # b = a' @ c # b'" "c \<notin> set a" "c \<notin> set a'"
  shows "a = a' \<and> b = b'"
  by (metis assms option.inject prod.inject split_once_append)

lemma separator_unique_last:
  assumes "a @ c # b = a' @ c # b'" "c \<notin> set b" "c \<notin> set b'"
  shows "a = a' \<and> b = b'"
proof -
  have "rev b @ c # rev a = rev b' @ c # rev a'"
    using arg_cong [OF assms(1), of rev] by simp
  from separator_unique [OF this] assms(2,3) show ?thesis by simp
qed

text \<open>\<open>split\<close> on a one-byte separator: always at least one piece.\<close>

fun split_all :: "'a \<Rightarrow> 'a list \<Rightarrow> 'a list list" where
  "split_all c [] = [[]]"
| "split_all c (x # xs) =
     (if x = c then [] # split_all c xs
      else (case split_all c xs of [] \<Rightarrow> [[x]] | w # ws \<Rightarrow> (x # w) # ws))"

fun join :: "'a list \<Rightarrow> 'a list list \<Rightarrow> 'a list" where
  "join sep [] = []"
| "join sep [w] = w"
| "join sep (w # v # ws) = w @ sep @ join sep (v # ws)"

lemma split_all_nonempty [simp]: "split_all c s \<noteq> []"
  by (cases s) (auto split: list.splits)

lemma join_split_all [simp]: "join [c] (split_all c s) = s"
proof (induction s)
  case (Cons x xs)
  then show ?case
    by (cases "split_all c xs" rule: list.exhaust; cases "tl (split_all c xs)") auto
qed simp

text \<open>\<open>to_ascii_lowercase\<close>, and \<open>trim\<close> for the ASCII white space.\<close>

definition ascii_lower :: "char \<Rightarrow> char" where
  "ascii_lower c = (let n = (of_char c :: nat) in
     if 65 \<le> n \<and> n \<le> 90 then char_of (n + 32) else c)"

definition to_lower :: "string \<Rightarrow> string" where
  "to_lower s = map ascii_lower s"

definition is_space :: "char \<Rightarrow> bool" where
  "is_space c = (let n = (of_char c :: nat) in n = 32 \<or> (9 \<le> n \<and> n \<le> 13))"

definition trim :: "string \<Rightarrow> string" where
  "trim s = rev (dropWhile is_space (rev (dropWhile is_space s)))"

section \<open>Decimal Display of an unsigned integer\<close>

definition digit_char :: "nat \<Rightarrow> char" where
  "digit_char d = char_of (48 + d)"

fun nat_str :: "nat \<Rightarrow> string" where
  "nat_str n = (if n < 10 then [digit_char n] else nat_str (n div 10) @ [digit_char (n mod 10)])"

declare nat_str.simps [simp del]

definition u64_str :: "u64 \<Rightarrow> string" where
  "u64_str w = nat_str (unat w)"

definition str_nat :: "string \<Rightarrow> nat" where
  "str_nat s = foldl (\<lambda>n c. 10 * n + (of_char c - 48)) 0 s"

lemma of_char_digit: "d < 10 \<Longrightarrow> (of_char (digit_char d) :: nat) = 48 + d"
  by (simp add: digit_char_def)

lemma str_nat_str [simp]: "str_nat (nat_str n) = n"
proof (induction n rule: nat_str.induct)
  case (1 n)
  then show ?case
    by (subst nat_str.simps) (simp add: str_nat_def of_char_digit)
qed

lemma nat_str_inject [simp]: "nat_str m = nat_str n \<longleftrightarrow> m = n"
  by (metis str_nat_str)

lemma u64_str_inject [simp]: "u64_str v = u64_str w \<longleftrightarrow> v = w"
  by (simp add: u64_str_def word_unat_eq_iff)

lemma nat_str_digits: "c \<in> set (nat_str n) \<Longrightarrow> (of_char c :: nat) \<in> {48..57}"
proof (induction n rule: nat_str.induct)
  case (1 n)
  then show ?case
    by (subst (asm) (2) nat_str.simps) (auto simp: of_char_digit split: if_splits)
qed

lemma colon_notin_u64_str [simp]: "CHR '':'' \<notin> set (u64_str w)"
  using nat_str_digits [of "CHR '':''"] by (auto simp: u64_str_def)

lemma nat_str_nonempty [simp]: "nat_str n \<noteq> []"
  by (subst nat_str.simps) auto

lemma u64_str_nonempty [simp]: "u64_str w \<noteq> []" "[] \<noteq> u64_str w"
  using nat_str_nonempty [of "unat w"] by (auto simp: u64_str_def simp del: nat_str_nonempty)

section \<open>UTF-8 validation\<close>

text \<open>\<open>String::from_utf8\<close> accepts exactly the well-formed sequences of the Unicode standard:
  no overlong form, no surrogate, nothing above U+10FFFF.\<close>

definition in_range :: "nat \<Rightarrow> nat \<Rightarrow> byte \<Rightarrow> bool" where
  "in_range lo hi b = (lo \<le> unat b \<and> unat b \<le> hi)"

fun utf8_valid :: "bytes \<Rightarrow> bool" where
  "utf8_valid [] = True"
| "utf8_valid (b # bs) =
     (if in_range 0 127 b then utf8_valid bs
      else if in_range 194 223 b then
        (case bs of c1 # r \<Rightarrow> in_range 128 191 c1 \<and> utf8_valid r | _ \<Rightarrow> False)
      else if in_range 224 239 b then
        (case bs of c1 # c2 # r \<Rightarrow>
           in_range (if unat b = 224 then 160 else 128) (if unat b = 237 then 159 else 191) c1
           \<and> in_range 128 191 c2 \<and> utf8_valid r
         | _ \<Rightarrow> False)
      else if in_range 240 244 b then
        (case bs of c1 # c2 # c3 # r \<Rightarrow>
           in_range (if unat b = 240 then 144 else 128) (if unat b = 244 then 143 else 191) c1
           \<and> in_range 128 191 c2 \<and> in_range 128 191 c3 \<and> utf8_valid r
         | _ \<Rightarrow> False)
      else False)"

definition from_utf8 :: "bytes \<Rightarrow> string option" where
  "from_utf8 bs = (if utf8_valid bs then Some (bytes_str bs) else None)"

definition is_ascii :: "string \<Rightarrow> bool" where
  "is_ascii s = list_all (\<lambda>c. (of_char c :: nat) < 128) s"

lemma utf8_valid_ascii: "is_ascii s \<Longrightarrow> utf8_valid (str_bytes s)"
  by (induction s) (auto simp: is_ascii_def str_bytes_def in_range_def simp del: of_nat_of_char)

lemma from_utf8_ascii [simp]: "is_ascii s \<Longrightarrow> from_utf8 (str_bytes s) = Some s"
  by (simp add: from_utf8_def utf8_valid_ascii)

section \<open>Lists and association lists\<close>

text \<open>\<open>Iterator::find_map\<close>.\<close>

fun find_map :: "('a \<Rightarrow> 'b option) \<Rightarrow> 'a list \<Rightarrow> 'b option" where
  "find_map f [] = None"
| "find_map f (x # xs) = (case f x of Some y \<Rightarrow> Some y | None \<Rightarrow> find_map f xs)"

lemma find_map_SomeD: "find_map f xs = Some y \<Longrightarrow> \<exists>x \<in> set xs. f x = Some y"
  by (induction xs) (auto split: option.splits)

lemma find_map_None [simp]: "find_map f xs = None \<longleftrightarrow> (\<forall>x \<in> set xs. f x = None)"
  by (induction xs) (auto split: option.splits)

lemma set_map_filter [simp]: "y \<in> set (List.map_filter f xs) \<longleftrightarrow> (\<exists>x \<in> set xs. f x = Some y)"
  by (force simp: List.map_filter_def)

text \<open>Little-endian fixed-width integers: \<open>to_le_bytes\<close> and \<open>from_le_bytes\<close>.\<close>

fun le_bytes :: "nat \<Rightarrow> nat \<Rightarrow> bytes" where
  "le_bytes 0 n = []"
| "le_bytes (Suc k) n = of_nat n # le_bytes k (n div 256)"

fun of_le_bytes :: "bytes \<Rightarrow> nat" where
  "of_le_bytes [] = 0"
| "of_le_bytes (b # bs) = unat b + 256 * of_le_bytes bs"

lemma le_bytes_length [simp]: "length (le_bytes k n) = k"
  by (induction k arbitrary: n) auto

lemma of_le_bytes_le_bytes: "n < 256 ^ k \<Longrightarrow> of_le_bytes (le_bytes k n) = n"
proof (induction k arbitrary: n)
  case (Suc k)
  then have "n div 256 < 256 ^ k"
    by (simp add: less_mult_imp_div_less mult.commute)
  with Suc.IH show ?case
    by (simp add: unat_of_nat take_bit_eq_mod)
qed simp

lemma of_le_bytes_bound: "of_le_bytes bs < 256 ^ length bs"
proof (induction bs)
  case (Cons b bs)
  then show ?case
    using unsigned_less [of b, where 'a = nat] by simp
qed simp

lemma take_append_exact [simp]: "length a = n \<Longrightarrow> take n (a @ b) = a"
  by simp

lemma drop_append_exact [simp]: "length a = n \<Longrightarrow> drop n (a @ b) = b"
  by simp

text \<open>\<open>HashMap\<close> as an association list; its iteration order is the order of the list.\<close>

lemma map_of_update [simp]: "map_of (AList.update k v m) = (map_of m)(k \<mapsto> v)"
  by (rule AList.update_conv')

lemma map_of_delete [simp]: "map_of (AList.delete k m) = (map_of m)(k := None)"
  by (rule AList.delete_conv')

end
