(* ===== verification/Host_IO.thy ===== *)
theory Host_IO
  imports Prelude
begin

text \<open>
  The file system the program runs on.  Its state is the list of the entries that exist, by full
  path, in the order a directory listing returns them.  Whether the operating system carries out
  a write, a rename, a removal or a listing is not the program's: it is the record \<open>host\<close>, an
  argument of every operation.  A write that fails may leave nothing, or a torn file.
\<close>

datatype fentry = File bytes | Unreadable

type_synonym fs = "(string \<times> fentry) list"

datatype write_result = Wrote | Write_Failed "bytes option"

record host =
  io_write :: "string \<Rightarrow> bytes \<Rightarrow> write_result"
  io_create_ok :: "string \<Rightarrow> bool"
  io_rename_ok :: "string \<Rightarrow> string \<Rightarrow> bool"
  io_remove_ok :: "string \<Rightarrow> bool"
  io_read_dir_ok :: "string \<Rightarrow> bool"

text \<open>\<open>fs::read\<close>, \<open>fs::try_exists(..).unwrap_or(false)\<close>, \<open>fs::write\<close>, \<open>fs::rename\<close>,
  \<open>fs::remove_file\<close>, and opening with \<open>create_new\<close> followed by \<open>write_all\<close>.\<close>

definition fs_read :: "string \<Rightarrow> fs \<Rightarrow> bytes res" where
  "fs_read p d = (case map_of d p of Some (File bs) \<Rightarrow> Inr bs | _ \<Rightarrow> Inl (Io p))"

definition fs_exists :: "string \<Rightarrow> fs \<Rightarrow> bool" where
  "fs_exists p d = (map_of d p \<noteq> None)"

definition fs_write :: "'e host_scheme \<Rightarrow> string \<Rightarrow> bytes \<Rightarrow> fs \<Rightarrow> fs \<times> unit res" where
  "fs_write E p bs d =
     (case io_write E p bs of
        Wrote \<Rightarrow> (AList.update p (File bs) d, Inr ())
      | Write_Failed None \<Rightarrow> (d, Inl (Io p))
      | Write_Failed (Some torn) \<Rightarrow> (AList.update p (File torn) d, Inl (Io p)))"

definition fs_rename :: "'e host_scheme \<Rightarrow> string \<Rightarrow> string \<Rightarrow> fs \<Rightarrow> fs \<times> unit res" where
  "fs_rename E src dst d =
     (case map_of d src of
        None \<Rightarrow> (d, Inl (Io src))
      | Some e \<Rightarrow>
          if io_rename_ok E src dst then (AList.update dst e (AList.delete src d), Inr ())
          else (d, Inl (Io src)))"

definition fs_remove :: "'e host_scheme \<Rightarrow> string \<Rightarrow> fs \<Rightarrow> fs \<times> unit res" where
  "fs_remove E p d =
     (if map_of d p \<noteq> None \<and> io_remove_ok E p then (AList.delete p d, Inr ())
      else (d, Inl (Io p)))"

text \<open>The names in a directory: the entries one level below it.\<close>

definition dir_name :: "string \<Rightarrow> string \<Rightarrow> string option" where
  "dir_name root p =
     (case strip_prefix (root @ ''/'') p of
        Some n \<Rightarrow> if n \<noteq> [] \<and> CHR ''/'' \<notin> set n then Some n else None
      | None \<Rightarrow> None)"

definition fs_read_dir :: "'e host_scheme \<Rightarrow> string \<Rightarrow> fs \<Rightarrow> string list res" where
  "fs_read_dir E root d =
     (if io_read_dir_ok E root then Inr (List.map_filter (\<lambda>(p, _). dir_name root p) d)
      else Inl (Io root))"

text \<open>\<open>Path::with_extension\<close> on the last component of a path.\<close>

definition with_extension :: "string \<Rightarrow> string \<Rightarrow> string" where
  "with_extension p ext =
     (let base = rev (takeWhile (\<lambda>c. c \<noteq> CHR ''/'') (rev p));
          dir = take (length p - length base) p;
          stem = (case split_once CHR ''.'' (rev base) of
                    Some (_, b) \<Rightarrow> if b = [] then base else rev b
                  | None \<Rightarrow> base)
      in dir @ stem @ ''.'' @ ext)"

section \<open>What the operations do to the map of paths\<close>

definition fs_file :: "fs \<Rightarrow> string \<Rightarrow> bytes option" where
  "fs_file d p = res_option (fs_read p d)"

lemma fs_read_Inr [simp]: "fs_read p d = Inr bs \<longleftrightarrow> map_of d p = Some (File bs)"
  by (auto simp: fs_read_def split: option.splits fentry.splits)

lemma fs_read_cong: "map_of d p = map_of d' p \<Longrightarrow> fs_read p d = fs_read p d'"
  by (simp add: fs_read_def)

lemma fs_write_frame:
  "fs_write E p bs d = (d', r) \<Longrightarrow> q \<noteq> p \<Longrightarrow> map_of d' q = map_of d q"
  by (auto simp: fs_write_def split: write_result.splits option.splits)

lemma fs_write_Inr:
  "fs_write E p bs d = (d', Inr u) \<Longrightarrow> map_of d' = (map_of d)(p \<mapsto> File bs)"
  by (auto simp: fs_write_def split: write_result.splits option.splits)

lemma fs_rename_frame:
  "fs_rename E s t d = (d', r) \<Longrightarrow> q \<noteq> s \<Longrightarrow> q \<noteq> t \<Longrightarrow> map_of d' q = map_of d q"
  by (auto simp: fs_rename_def split: option.splits if_splits)

lemma fs_rename_Inr:
  assumes "fs_rename E s t d = (d', Inr u)" "s \<noteq> t"
  shows "\<exists>e. map_of d s = Some e \<and> map_of d' = (map_of d)(s := None, t \<mapsto> e)"
  using assms by (auto simp: fs_rename_def split: option.splits if_splits)

lemma fs_rename_Inl: "fs_rename E s t d = (d', Inl e) \<Longrightarrow> d' = d"
  by (auto simp: fs_rename_def split: option.splits if_splits)

lemma fs_remove_Inr: "fs_remove E p d = (d', Inr u) \<Longrightarrow> map_of d' = (map_of d)(p := None)"
  by (auto simp: fs_remove_def split: if_splits)

lemma fs_remove_Inl: "fs_remove E p d = (d', Inl e) \<Longrightarrow> d' = d"
  by (auto simp: fs_remove_def split: if_splits)

lemma strip_dir [simp]: "strip_prefix (root @ ''/'') (root @ CHR ''/'' # n) = Some n"
  using strip_prefix_append [of "root @ ''/''" n] by simp

lemma dir_name_iff [simp]:
  "dir_name root p = Some n \<longleftrightarrow> p = root @ ''/'' @ n \<and> n \<noteq> [] \<and> CHR ''/'' \<notin> set n"
proof (cases "strip_prefix (root @ ''/'') p")
  case None
  hence "p \<noteq> (root @ ''/'') @ n"
    by (metis option.distinct(1) strip_prefix_append)
  with None show ?thesis by (simp add: dir_name_def)
qed (auto simp: dir_name_def)

lemma fs_read_dir_member:
  assumes "fs_read_dir E root d = Inr ns"
  shows "n \<in> set ns \<longleftrightarrow> n \<noteq> [] \<and> CHR ''/'' \<notin> set n \<and> fs_exists (root @ ''/'' @ n) d"
proof -
  have "ns = List.map_filter (\<lambda>(p, _). dir_name root p) d"
    using assms by (simp add: fs_read_dir_def split: if_splits)
  hence "n \<in> set ns \<longleftrightarrow> (\<exists>x \<in> set d. dir_name root (fst x) = Some n)"
    by (simp only: set_map_filter case_prod_beta)
  also have "\<dots> \<longleftrightarrow> n \<noteq> [] \<and> CHR ''/'' \<notin> set n \<and> root @ ''/'' @ n \<in> fst ` set d"
    by force
  also have "root @ ''/'' @ n \<in> fst ` set d \<longleftrightarrow> fs_exists (root @ ''/'' @ n) d"
    using map_of_eq_None_iff [of d] by (simp only: fs_exists_def) blast
  finally show ?thesis .
qed

section \<open>A host on which every operation succeeds\<close>

definition working_host :: "'m \<Rightarrow> 'm host_scheme" where
  "working_host m = \<lparr> io_write = (\<lambda>_ _. Wrote), io_create_ok = (\<lambda>_. True),
     io_rename_ok = (\<lambda>_ _. True), io_remove_ok = (\<lambda>_. True), io_read_dir_ok = (\<lambda>_. True),
     \<dots> = m \<rparr>"

lemma working_host_sel [simp]:
  "io_write (working_host m) p bs = Wrote" "io_create_ok (working_host m) p"
  "io_rename_ok (working_host m) p q" "io_remove_ok (working_host m) p"
  "io_read_dir_ok (working_host m) p" "host.more (working_host m) = m"
  by (simp_all add: working_host_def)

end
