(* ===== verification/Crypto.thy ===== *)
theory Crypto
  imports Host_IO
begin

unbundle bit_operations_syntax

text \<open>
  The cryptographic libraries (sha2, hex, libp2p-identity, chacha20poly1305, argon2, hkdf,
  x25519-dalek) are not code of the repository: each function the program calls is a field of
  the record \<open>crypto\<close>, which extends \<open>host\<close>.  The predicates after it state the documented
  behaviour the theorems rely on.  None of them says that a hash is injective or a signature
  unforgeable: a theorem that needs either has the collision or the forgery as an alternative.
\<close>

datatype PublicKey = PublicKey bytes
datatype Keypair = Keypair bytes

record crypto = host +
  sha256 :: "bytes \<Rightarrow> bytes"
  hex_encode :: "bytes \<Rightarrow> string"
  pk_decode :: "bytes \<Rightarrow> PublicKey option"
  pk_encode :: "PublicKey \<Rightarrow> bytes"
  pk_verify :: "PublicKey \<Rightarrow> bytes \<Rightarrow> bytes \<Rightarrow> bool"
  peer_id_str :: "PublicKey \<Rightarrow> string"
  kp_public :: "Keypair \<Rightarrow> PublicKey"
  kp_sign :: "Keypair \<Rightarrow> bytes \<Rightarrow> bytes option"
  kp_encode :: "Keypair \<Rightarrow> bytes option"
  kp_decode :: "bytes \<Rightarrow> Keypair option"
  kp_derive_secret :: "Keypair \<Rightarrow> bytes \<Rightarrow> bytes"
  x25519_public :: "bytes \<Rightarrow> bytes"
  x25519_dh :: "bytes \<Rightarrow> bytes \<Rightarrow> bytes"
  aead_encrypt :: "bytes \<Rightarrow> bytes \<Rightarrow> bytes \<Rightarrow> bytes option"
  aead_decrypt :: "bytes \<Rightarrow> bytes \<Rightarrow> bytes \<Rightarrow> bytes option"
  argon2_default :: "u32 \<times> u32 \<times> u32"
  argon2_params_ok :: "u32 \<times> u32 \<times> u32 \<Rightarrow> bool"
  argon2id :: "bytes \<Rightarrow> bytes \<Rightarrow> u32 \<times> u32 \<times> u32 \<Rightarrow> bytes option"
  hkdf_sha256 :: "bytes \<Rightarrow> bytes \<Rightarrow> bytes \<Rightarrow> bytes"

text \<open>A signature made with a key verifies under its public key, and encoded keys decode.\<close>

definition sign_ok :: "'e crypto_scheme \<Rightarrow> bool" where
  "sign_ok E = ((\<forall>pk. pk_decode E (pk_encode E pk) = Some pk) \<and>
     (\<forall>k m s. kp_sign E k m = Some s \<longrightarrow> pk_verify E (kp_public E k) m s))"

definition keypair_codec_ok :: "'e crypto_scheme \<Rightarrow> bool" where
  "keypair_codec_ok E = (\<forall>k bs. kp_encode E k = Some bs \<longrightarrow> kp_decode E bs = Some k)"

text \<open>XChaCha20-Poly1305: decryption with the key and nonce of the encryption gives the
  plaintext back, and the ciphertext is 16 bytes longer than it.\<close>

definition aead_ok :: "'e crypto_scheme \<Rightarrow> bool" where
  "aead_ok E = (\<forall>k n p c. aead_encrypt E k n p = Some c \<longrightarrow>
     aead_decrypt E k n c = Some p \<and> length c = length p + 16)"

text \<open>X25519: both sides derive the same secret, and public keys have 32 bytes.\<close>

definition x25519_ok :: "'e crypto_scheme \<Rightarrow> bool" where
  "x25519_ok E = ((\<forall>a b. x25519_dh E a (x25519_public E b) = x25519_dh E b (x25519_public E a)) \<and>
     (\<forall>a. length (x25519_public E a) = 32))"

text \<open>The default Argon2 parameters are valid ones, and hashing with valid parameters a salt of
  at least eight bytes does not fail.\<close>

definition argon2_ok :: "'e crypto_scheme \<Rightarrow> bool" where
  "argon2_ok E = (argon2_params_ok E (argon2_default E) \<and>
     (\<forall>pw salt ps. argon2_params_ok E ps \<and> 8 \<le> length salt \<longrightarrow> argon2id E pw salt ps \<noteq> None))"

lemma sign_okD:
  assumes "sign_ok E"
  shows "pk_decode E (pk_encode E pk) = Some pk"
    and "kp_sign E k m = Some s \<Longrightarrow> pk_verify E (kp_public E k) m s"
  using assms by (auto simp: sign_ok_def)

lemma aead_okD:
  assumes "aead_ok E" "aead_encrypt E k n p = Some c"
  shows "aead_decrypt E k n c = Some p" "length c = length p + 16"
  using assms by (auto simp: aead_ok_def)

lemma x25519_okD:
  assumes "x25519_ok E"
  shows "x25519_dh E a (x25519_public E b) = x25519_dh E b (x25519_public E a)"
    and "length (x25519_public E a) = 32"
  using assms by (auto simp: x25519_ok_def)

section \<open>A concrete instance\<close>

text \<open>An instance small enough to compute with, for the examples: checksums for the hash and
  the tags, and keys that are their own seeds.  It satisfies every law above.\<close>

definition pad32 :: "bytes \<Rightarrow> bytes" where
  "pad32 bs = take 32 (bs @ replicate 32 0)"

definition checksum :: "bytes \<Rightarrow> bytes" where
  "checksum bs = [sum_list bs, of_nat (length bs)]"

definition hex_digit :: "nat \<Rightarrow> char" where
  "hex_digit n = char_of (if n < 10 then 48 + n else 87 + n)"

definition sample_hex :: "bytes \<Rightarrow> string" where
  "sample_hex bs = concat (map (\<lambda>b. [hex_digit (unat b div 16), hex_digit (unat b mod 16)]) bs)"

definition sample_tag :: "bytes \<Rightarrow> bytes \<Rightarrow> bytes \<Rightarrow> bytes" where
  "sample_tag k n p = checksum (k @ n @ p) @ replicate 14 0"

definition sample_crypto :: "'m \<Rightarrow> 'm crypto_scheme" where
  "sample_crypto m = working_host \<lparr>
     sha256 = checksum, hex_encode = sample_hex,
     pk_decode = (\<lambda>bs. case bs of b # r \<Rightarrow> if b = 8 then Some (PublicKey r) else None | [] \<Rightarrow> None),
     pk_encode = (\<lambda>pk. case pk of PublicKey r \<Rightarrow> 8 # r),
     pk_verify = (\<lambda>pk m s. case pk of PublicKey r \<Rightarrow> s = r @ checksum m),
     peer_id_str = (\<lambda>pk. case pk of PublicKey r \<Rightarrow> sample_hex r),
     kp_public = (\<lambda>k. case k of Keypair r \<Rightarrow> PublicKey r),
     kp_sign = (\<lambda>k m. case k of Keypair r \<Rightarrow> Some (r @ checksum m)),
     kp_encode = (\<lambda>k. case k of Keypair r \<Rightarrow> Some (10 # of_nat (length r) # r)),
     kp_decode = (\<lambda>bs. case bs of a # n # r \<Rightarrow>
         if a = 10 \<and> n = of_nat (length r) then Some (Keypair r) else None | _ \<Rightarrow> None),
     kp_derive_secret = (\<lambda>k dom. case k of Keypair r \<Rightarrow> pad32 r),
     x25519_public = pad32,
     x25519_dh = (\<lambda>s p. map2 (XOR) (pad32 s) p),
     aead_encrypt = (\<lambda>k n p. Some (p @ sample_tag k n p)),
     aead_decrypt = (\<lambda>k n c. let p = take (length c - 16) c in
         if 16 \<le> length c \<and> drop (length c - 16) c = sample_tag k n p then Some p else None),
     argon2_default = (19456, 2, 1), argon2_params_ok = (\<lambda>ps. ps = (19456, 2, 1)),
     argon2id = (\<lambda>pw salt ps. if 8 \<le> length salt then Some (pad32 (pw @ salt)) else None),
     hkdf_sha256 = (\<lambda>salt ikm info. pad32 (checksum salt @ ikm @ checksum info)),
     \<dots> = m \<rparr>"

lemma sample_crypto_sel [simp]:
  "sha256 (sample_crypto m) = checksum" "hex_encode (sample_crypto m) = sample_hex"
  "pk_encode (sample_crypto m) (PublicKey r) = 8 # r"
  "pk_decode (sample_crypto m) (b # r) = (if b = 8 then Some (PublicKey r) else None)"
  "pk_verify (sample_crypto m) (PublicKey r) msg s = (s = r @ checksum msg)"
  "peer_id_str (sample_crypto m) (PublicKey r) = sample_hex r"
  "kp_public (sample_crypto m) (Keypair r) = PublicKey r"
  "kp_sign (sample_crypto m) (Keypair r) msg = Some (r @ checksum msg)"
  "kp_encode (sample_crypto m) (Keypair r) = Some (10 # of_nat (length r) # r)"
  "kp_derive_secret (sample_crypto m) (Keypair r) domain = pad32 r"
  "x25519_public (sample_crypto m) = pad32"
  "aead_encrypt (sample_crypto m) k n p = Some (p @ sample_tag k n p)"
  "argon2_default (sample_crypto m) = (19456, 2, 1)"
  "argon2_params_ok (sample_crypto m) ps = (ps = (19456, 2, 1))"
  "argon2id (sample_crypto m) pw salt ps = (if 8 \<le> length salt then Some (pad32 (pw @ salt)) else None)"
  by (simp_all add: sample_crypto_def working_host_def)

lemma sample_host_sel [simp]:
  "io_write (sample_crypto m) p bs = Wrote" "io_create_ok (sample_crypto m) p"
  "io_rename_ok (sample_crypto m) p q" "io_remove_ok (sample_crypto m) p"
  "io_read_dir_ok (sample_crypto m) p" "crypto.more (sample_crypto m) = m"
  by (simp_all add: sample_crypto_def working_host_def)

lemmas sample_crypto_simps = sample_crypto_def working_host_def checksum_def sample_hex_def
  hex_digit_def char_of_def bit_0

lemma sample_tag_length [simp]: "length (sample_tag k n p) = 16"
  by (simp add: sample_tag_def checksum_def)

lemma pad32_length [simp]: "length (pad32 bs) = 32"
  by (simp add: pad32_def)

lemma sample_sign_ok [simp]: "sign_ok (sample_crypto m)"
  by (auto simp: sign_ok_def sample_crypto_def working_host_def
      split: PublicKey.splits Keypair.splits)

lemma sample_keypair_codec_ok [simp]: "keypair_codec_ok (sample_crypto m)"
  by (auto simp: keypair_codec_ok_def sample_crypto_def working_host_def split: Keypair.splits)

lemma sample_aead_ok [simp]: "aead_ok (sample_crypto m)"
  by (auto simp: aead_ok_def sample_crypto_def working_host_def)

lemma map2_XOR_comm: "map2 (XOR) xs ys = map2 (XOR) ys (xs :: byte list)"
  by (induction xs ys rule: list_induct2') (auto simp: xor.commute)

lemma sample_x25519_ok [simp]: "x25519_ok (sample_crypto m)"
  by (simp add: x25519_ok_def sample_crypto_def working_host_def map2_XOR_comm)

lemma sample_argon2_ok [simp]: "argon2_ok (sample_crypto m)"
  by (simp add: argon2_ok_def sample_crypto_def working_host_def)

end
