(* ===== verification/Key_Envelope.thy ===== *)
theory Key_Envelope
  imports Crypto
begin

text \<open>
  The encrypted-at-rest envelope of an identity file, canopee-identity/src/identity.rs: a fixed
  header (magic, version, the three Argon2 costs, salt, nonce) followed by the ciphertext.
  \<open>key_file\<close> describes the layout once, as an abstract specification; the encoder and the decoder
  of the source, which work by offsets, are proved to be its two directions.  The random salt
  and nonce are arguments.
\<close>

definition ENCRYPTED_MAGIC :: bytes where
  "ENCRYPTED_MAGIC = str_bytes ''canopee-v1-ek''"

definition ENCRYPTED_VERSION :: bytes where
  "ENCRYPTED_VERSION = str_bytes ''argon2id/xchacha20''"

definition KEY_LEN :: nat where "KEY_LEN = 32"
definition KEY_SALT_LEN :: nat where "KEY_SALT_LEN = 16"
definition KEY_NONCE_LEN :: nat where "KEY_NONCE_LEN = 24"

definition KEY_HEADER_LEN :: nat where
  "KEY_HEADER_LEN = length ENCRYPTED_MAGIC + length ENCRYPTED_VERSION + 3 * 4
     + KEY_SALT_LEN + KEY_NONCE_LEN"

definition slice :: "nat \<Rightarrow> nat \<Rightarrow> 'a list \<Rightarrow> 'a list" where
  "slice a b xs = take (b - a) (drop a xs)"

definition is_encrypted_envelope :: "bytes \<Rightarrow> bool" where
  "is_encrypted_envelope bs =
     (KEY_HEADER_LEN < length bs \<and> take (length ENCRYPTED_MAGIC) bs = ENCRYPTED_MAGIC)"

definition derive_key_wrap :: "'e crypto_scheme \<Rightarrow> bytes \<Rightarrow> bytes \<Rightarrow> u32 \<times> u32 \<times> u32 \<Rightarrow> bytes res" where
  "derive_key_wrap E pass salt params =
     ok_or (argon2id E pass salt params) (Panic ''argon2 params are valid'')"

definition u32_le :: "u32 \<Rightarrow> bytes" where
  "u32_le w = le_bytes 4 (unat w)"

definition u32_of_le :: "bytes \<Rightarrow> u32" where
  "u32_of_le bs = of_nat (of_le_bytes bs)"

definition encrypt_key_envelope ::
  "'e crypto_scheme \<Rightarrow> bytes \<Rightarrow> bytes \<Rightarrow> bytes \<Rightarrow> bytes \<Rightarrow> bytes res" where
  "encrypt_key_envelope E salt nonce plaintext pass =
     (case argon2_default E of (m_cost, t_cost, p_cost) \<Rightarrow>
      case derive_key_wrap E pass salt (m_cost, t_cost, p_cost) of
        Inl e \<Rightarrow> Inl e
      | Inr key \<Rightarrow>
          (case aead_encrypt E key nonce plaintext of
             None \<Rightarrow> Inl (Bail ''encryption failed'')
           | Some ciphertext \<Rightarrow>
               Inr (ENCRYPTED_MAGIC @ ENCRYPTED_VERSION @ u32_le m_cost @ u32_le t_cost
                    @ u32_le p_cost @ salt @ nonce @ ciphertext)))"

definition decrypt_key_envelope :: "'e crypto_scheme \<Rightarrow> bytes \<Rightarrow> bytes \<Rightarrow> bytes res" where
  "decrypt_key_envelope E bs pass =
     (if \<not> is_encrypted_envelope bs then Inl (Bail ''not an encrypted-at-rest identity envelope'')
      else let version_end = length ENCRYPTED_MAGIC + length ENCRYPTED_VERSION;
               version = slice (length ENCRYPTED_MAGIC) version_end bs
      in if version \<noteq> ENCRYPTED_VERSION then Inl (Bail ''unsupported encrypted-at-rest version'')
      else let off = version_end;
               m_cost = u32_of_le (slice off (off + 4) bs);
               t_cost = u32_of_le (slice (off + 4) (off + 8) bs);
               p_cost = u32_of_le (slice (off + 8) (off + 12) bs);
               off = off + 12;
               salt = slice off (off + KEY_SALT_LEN) bs;
               off = off + KEY_SALT_LEN;
               nonce = slice off (off + KEY_NONCE_LEN) bs;
               off = off + KEY_NONCE_LEN;
               ciphertext = drop off bs
      in if \<not> argon2_params_ok E (m_cost, t_cost, p_cost)
         then Inl (Bail ''identity envelope declares invalid argon2 params'')
      else (case derive_key_wrap E pass salt (m_cost, t_cost, p_cost) of
              Inl e \<Rightarrow> Inl e
            | Inr key \<Rightarrow>
                ok_or (aead_decrypt E key nonce ciphertext)
                  (Bail ''wrong passphrase or tampered encrypted identity file'')))"

section \<open>The layout as a specification\<close>

definition key_file :: "u32 \<times> u32 \<times> u32 \<Rightarrow> bytes \<Rightarrow> bytes \<Rightarrow> bytes \<Rightarrow> bytes \<Rightarrow> bool" where
  "key_file ps salt nonce ct bs =
     (length salt = KEY_SALT_LEN \<and> length nonce = KEY_NONCE_LEN \<and> ct \<noteq> [] \<and>
      bs = ENCRYPTED_MAGIC @ ENCRYPTED_VERSION @ u32_le (fst ps) @ u32_le (fst (snd ps))
           @ u32_le (snd (snd ps)) @ salt @ nonce @ ct)"

lemma key_lengths [simp]:
  "length ENCRYPTED_MAGIC = 13" "length ENCRYPTED_VERSION = 18" "KEY_HEADER_LEN = 83"
  "KEY_SALT_LEN = 16" "KEY_NONCE_LEN = 24"
  by (simp_all add: ENCRYPTED_MAGIC_def ENCRYPTED_VERSION_def KEY_HEADER_LEN_def
      KEY_SALT_LEN_def KEY_NONCE_LEN_def)

lemma u32_le_length [simp]: "length (u32_le w) = 4"
  by (simp add: u32_le_def)

lemma u32_of_le_le [simp]: "u32_of_le (u32_le w) = w"
proof -
  have "of_le_bytes (le_bytes 4 (unat w)) = unat w"
    by (rule of_le_bytes_le_bytes) (use unsigned_less [of w, where 'a = nat] in simp)
  thus ?thesis by (simp add: u32_of_le_def u32_le_def)
qed

lemma le_bytes_of_le_bytes: "le_bytes (length bs) (of_le_bytes bs) = bs"
proof (induction bs)
  case (Cons b bs)
  have "unat b < 256" using unsigned_less [of b, where 'a = nat] by simp
  hence "(unat b + 256 * of_le_bytes bs) div 256 = of_le_bytes bs" by simp
  moreover have "(of_nat (unat b + 256 * of_le_bytes bs) :: byte) = b"
  proof -
    have z: "(256 :: byte) = 0" by simp
    show ?thesis by (simp only: of_nat_add of_nat_mult of_nat_numeral z) simp
  qed
  ultimately show ?case using Cons.IH by simp
qed simp

lemma u32_le_of_le [simp]:
  assumes "length bs = 4" shows "u32_le (u32_of_le bs) = bs"
proof -
  have "of_le_bytes bs < 2 ^ 32"
    using of_le_bytes_bound [of bs] assms by simp
  hence "unat (u32_of_le bs) = of_le_bytes bs"
    by (simp add: u32_of_le_def unat_of_nat take_bit_nat_eq_self)
  thus ?thesis using le_bytes_of_le_bytes [of bs] assms by (simp add: u32_le_def)
qed

lemma key_file_slices:
  assumes "key_file (m, t, p) salt nonce ct bs"
  shows "is_encrypted_envelope bs" "slice 13 31 bs = ENCRYPTED_VERSION"
    "u32_of_le (slice 31 35 bs) = m" "u32_of_le (slice 35 39 bs) = t"
    "u32_of_le (slice 39 43 bs) = p" "slice 43 59 bs = salt" "slice 59 83 bs = nonce"
    "drop 83 bs = ct"
  using assms by (auto simp: key_file_def slice_def is_encrypted_envelope_def)

lemma slice_step: "a \<le> b \<Longrightarrow> drop a xs = slice a b xs @ drop b xs"
  by (simp add: slice_def) (metis append_take_drop_id drop_drop le_add_diff_inverse2)

lemma key_file_exists:
  assumes "is_encrypted_envelope bs" "slice 13 31 bs = ENCRYPTED_VERSION"
  shows "key_file (u32_of_le (slice 31 35 bs), u32_of_le (slice 35 39 bs), u32_of_le (slice 39 43 bs))
           (slice 43 59 bs) (slice 59 83 bs) (drop 83 bs) bs"
proof -
  have len: "83 < length bs" and magic: "take 13 bs = ENCRYPTED_MAGIC"
    using assms by (auto simp: is_encrypted_envelope_def)
  have "bs = take 13 bs @ drop 13 bs" by simp
  also have "drop 13 bs = slice 13 31 bs @ slice 31 35 bs @ slice 35 39 bs @ slice 39 43 bs
       @ slice 43 59 bs @ slice 59 83 bs @ drop 83 bs"
    using slice_step [of 13 31 bs] slice_step [of 31 35 bs] slice_step [of 35 39 bs]
      slice_step [of 39 43 bs] slice_step [of 43 59 bs] slice_step [of 59 83 bs] by simp
  finally show ?thesis
    using len magic assms(2) by (simp add: key_file_def slice_def)
qed

text \<open>The decoder accepts exactly the files of the layout whose parameters are valid and whose
  ciphertext opens under the key derived from the salt and the costs the header declares.\<close>

lemma decrypt_key_envelope_iff:
  "decrypt_key_envelope E bs pass = Inr p \<longleftrightarrow>
     (\<exists>ps salt nonce ct key. key_file ps salt nonce ct bs \<and> argon2_params_ok E ps \<and>
        argon2id E pass salt ps = Some key \<and> aead_decrypt E key nonce ct = Some p)"
    (is "?dec \<longleftrightarrow> ?spec")
proof
  assume d: ?dec
  hence env: "is_encrypted_envelope bs" and ver: "slice 13 31 bs = ENCRYPTED_VERSION"
    by (auto simp: decrypt_key_envelope_def Let_def split: if_splits)
  let ?ps = "(u32_of_le (slice 31 35 bs), u32_of_le (slice 35 39 bs), u32_of_le (slice 39 43 bs))"
  have "argon2_params_ok E ?ps \<and> (\<exists>key. argon2id E pass (slice 43 59 bs) ?ps = Some key \<and>
          aead_decrypt E key (slice 59 83 bs) (drop 83 bs) = Some p)"
    using d env ver
    by (auto simp: decrypt_key_envelope_def derive_key_wrap_def Let_def
        split: if_splits sum.splits)
  with key_file_exists [OF env ver] show ?spec by blast
next
  assume ?spec
  then obtain m t c salt nonce ct key where
    kf: "key_file (m, t, c) salt nonce ct bs" and ok: "argon2_params_ok E (m, t, c)"
      "argon2id E pass salt (m, t, c) = Some key" "aead_decrypt E key nonce ct = Some p"
    by auto
  show ?dec
    using key_file_slices [OF kf] ok
    by (simp add: decrypt_key_envelope_def derive_key_wrap_def Let_def)
qed

lemma encrypt_key_envelope_file:
  assumes "aead_ok E" "length salt = 16" "length nonce = 24"
    and "encrypt_key_envelope E salt nonce p pass = Inr bs"
  shows "\<exists>key ct. key_file (argon2_default E) salt nonce ct bs \<and>
           argon2id E pass salt (argon2_default E) = Some key \<and> aead_decrypt E key nonce ct = Some p"
proof -
  obtain key ct where
    "argon2id E pass salt (argon2_default E) = Some key" "aead_encrypt E key nonce p = Some ct"
    and bs: "key_file (argon2_default E) salt nonce ct bs \<or> ct = []"
    using assms(2-4) by (cases "argon2_default E")
      (auto simp: encrypt_key_envelope_def key_file_def derive_key_wrap_def
        split: sum.splits option.splits)
  moreover from this have "aead_decrypt E key nonce ct = Some p" "length ct = length p + 16"
    using aead_okD [OF assms(1)] by auto
  ultimately show ?thesis by auto
qed

end
