(* ===== verification/Identities.thy ===== *)
theory Identities
  imports Key_Envelope
begin

text \<open>
  canopee-identity/src/identity.rs and device.rs: the identity key of a person and the device
  key of a machine.  \<open>Identity\<close> and \<open>DeviceKey\<close> are the structs.  A freshly generated key is an
  argument; the retry loop of \<open>create_if_absent\<close> and \<open>load_or_create\<close> reads the file at 25
  successive moments, given as a function from the attempt to the file system of that moment.
\<close>

type_synonym IdentityId = string

definition DH_DOMAIN :: bytes where
  "DH_DOMAIN = str_bytes ''canopee/dh/x25519/v1''"

record Identity =
  signing_key :: Keypair
  dh_secret :: bytes
  identity_id :: IdentityId

definition derive_dh_secret :: "'e crypto_scheme \<Rightarrow> Keypair \<Rightarrow> bytes" where
  "derive_dh_secret E k = kp_derive_secret E k DH_DOMAIN"

definition owner_of_key :: "'e crypto_scheme \<Rightarrow> PublicKey \<Rightarrow> IdentityId" where
  "owner_of_key E pk = ''canopee://identity/'' @ peer_id_str E pk"

definition from_keypair :: "'e crypto_scheme \<Rightarrow> Keypair \<Rightarrow> Identity" where
  "from_keypair E k = \<lparr> signing_key = k, dh_secret = derive_dh_secret E k,
     identity_id = owner_of_key E (kp_public E k) \<rparr>"

definition sign :: "'e crypto_scheme \<Rightarrow> Identity \<Rightarrow> bytes \<Rightarrow> bytes res" where
  "sign E i m = ok_or (kp_sign E (signing_key i) m) (Bail ''signing failed'')"

definition verify_own :: "'e crypto_scheme \<Rightarrow> Identity \<Rightarrow> bytes \<Rightarrow> bytes \<Rightarrow> bool" where
  "verify_own E i m s = pk_verify E (kp_public E (signing_key i)) m s"

definition public_key_bytes :: "'e crypto_scheme \<Rightarrow> Identity \<Rightarrow> bytes" where
  "public_key_bytes E i = pk_encode E (kp_public E (signing_key i))"

definition dh_public_key :: "'e crypto_scheme \<Rightarrow> Identity \<Rightarrow> bytes" where
  "dh_public_key E i = x25519_public E (dh_secret i)"

definition agree :: "'e crypto_scheme \<Rightarrow> Identity \<Rightarrow> bytes \<Rightarrow> bytes" where
  "agree E i their_pub = x25519_dh E (dh_secret i) their_pub"

definition encode_key :: "'e crypto_scheme \<Rightarrow> Keypair \<Rightarrow> bytes res" where
  "encode_key E k = ok_or (kp_encode E k) (Bail ''keypair encoding failed'')"

definition create_identity ::
  "'e crypto_scheme \<Rightarrow> Keypair \<Rightarrow> string \<Rightarrow> fs \<Rightarrow> fs \<times> Identity res" where
  "create_identity E k path d =
     (case encode_key E k of
        Inl e \<Rightarrow> (d, Inl e)
      | Inr bs \<Rightarrow>
          (case fs_write E path bs d of
             (d', Inl e) \<Rightarrow> (d', Inl e)
           | (d', Inr _) \<Rightarrow> (d', Inr (from_keypair E k))))"

definition load_identity :: "'e crypto_scheme \<Rightarrow> string \<Rightarrow> fs \<Rightarrow> Identity res" where
  "load_identity E path d =
     res_bind (fs_read path d) (\<lambda>bs.
     res_bind (ok_or (kp_decode E bs) (Bail ''invalid keypair file'')) (\<lambda>k.
     Inr (from_keypair E k)))"

fun load_retry :: "(nat \<Rightarrow> 'a res) \<Rightarrow> nat \<Rightarrow> 'a res" where
  "load_retry load 0 = Inl (Panic ''unreachable'')"
| "load_retry load (Suc k) =
     (let attempt = 24 - k in
      case load attempt of
        Inr x \<Rightarrow> Inr x
      | Inl e \<Rightarrow> if attempt < 24 then load_retry load k else Inl e)"

text \<open>Opening with \<open>create_new\<close> leaves an empty file until the bytes are written.\<close>

definition write_new :: "'e host_scheme \<Rightarrow> string \<Rightarrow> bytes \<Rightarrow> fs \<Rightarrow> fs \<times> unit res" where
  "write_new E path bs d = fs_write E path bs (AList.update path (File []) d)"

definition create_if_absent ::
  "'e crypto_scheme \<Rightarrow> Keypair \<Rightarrow> string \<Rightarrow> (nat \<Rightarrow> fs) \<Rightarrow> fs \<Rightarrow> fs \<times> Identity res" where
  "create_if_absent E k path later d =
     (case encode_key E k of
        Inl e \<Rightarrow> (d, Inl e)
      | Inr bs \<Rightarrow>
          if fs_exists path d then (d, load_retry (\<lambda>i. load_identity E path (later i)) 25)
          else if \<not> io_create_ok E path then (d, Inl (Io path))
          else (case write_new E path bs d of
                  (d', Inl e) \<Rightarrow> (d', Inl e)
                | (d', Inr _) \<Rightarrow> (d', Inr (from_keypair E k))))"

definition create_encrypted ::
  "'e crypto_scheme \<Rightarrow> Keypair \<Rightarrow> bytes \<Rightarrow> bytes \<Rightarrow> string \<Rightarrow> string \<Rightarrow> fs \<Rightarrow> fs \<times> Identity res" where
  "create_encrypted E k salt nonce path pass d =
     (case res_bind (encode_key E k)
             (\<lambda>plain. encrypt_key_envelope E salt nonce plain (str_bytes pass)) of
        Inl e \<Rightarrow> (d, Inl e)
      | Inr enc \<Rightarrow>
          (case fs_write E path enc d of
             (d', Inl e) \<Rightarrow> (d', Inl e)
           | (d', Inr _) \<Rightarrow> (d', Inr (from_keypair E k))))"

definition import_bytes_as :: "'e crypto_scheme \<Rightarrow> string \<Rightarrow> bytes \<Rightarrow> Identity res" where
  "import_bytes_as E msg bs =
     res_bind (ok_or (kp_decode E bs) (Bail msg)) (\<lambda>k. Inr (from_keypair E k))"

definition load_encrypted ::
  "'e crypto_scheme \<Rightarrow> string \<Rightarrow> string \<Rightarrow> fs \<Rightarrow> (Identity \<times> bool) res" where
  "load_encrypted E path pass d =
     res_bind (fs_read path d) (\<lambda>bs.
       if is_encrypted_envelope bs then
         res_bind (decrypt_key_envelope E bs (str_bytes pass)) (\<lambda>plain.
         res_bind (import_bytes_as E ''decrypted identity is not a valid keypair'' plain) (\<lambda>i.
         Inr (i, True)))
       else res_bind (load_identity E path d) (\<lambda>i. Inr (i, False)))"

definition export_bytes :: "'e crypto_scheme \<Rightarrow> Identity \<Rightarrow> bytes res" where
  "export_bytes E i = encode_key E (signing_key i)"

definition export_encrypted ::
  "'e crypto_scheme \<Rightarrow> bytes \<Rightarrow> bytes \<Rightarrow> Identity \<Rightarrow> string \<Rightarrow> bytes res" where
  "export_encrypted E salt nonce i pass =
     res_bind (export_bytes E i)
       (\<lambda>plain. encrypt_key_envelope E salt nonce plain (str_bytes pass))"

definition import_from_encrypted :: "'e crypto_scheme \<Rightarrow> bytes \<Rightarrow> string \<Rightarrow> Identity res" where
  "import_from_encrypted E bs pass =
     res_bind (decrypt_key_envelope E bs (str_bytes pass))
       (import_bytes_as E ''decrypted identity is not a valid keypair'')"

definition import_bytes :: "'e crypto_scheme \<Rightarrow> bytes \<Rightarrow> Identity res" where
  "import_bytes E bs = import_bytes_as E ''invalid identity keypair bytes'' bs"

section \<open>The device key\<close>

record DeviceKey =
  device_signing_key :: Keypair
  device_name :: string

definition device_peer_id :: "'e crypto_scheme \<Rightarrow> DeviceKey \<Rightarrow> string" where
  "device_peer_id E k = peer_id_str E (kp_public E (device_signing_key k))"

definition load_device_key :: "'e crypto_scheme \<Rightarrow> string \<Rightarrow> string \<Rightarrow> fs \<Rightarrow> DeviceKey res" where
  "load_device_key E path name d =
     res_bind (fs_read path d) (\<lambda>bs.
     res_bind (ok_or (kp_decode E bs) (Bail ''invalid device key file'')) (\<lambda>k.
     Inr \<lparr> device_signing_key = k, device_name = name \<rparr>))"

definition create_device_key ::
  "'e crypto_scheme \<Rightarrow> Keypair \<Rightarrow> string \<Rightarrow> string \<Rightarrow> fs \<Rightarrow> fs \<times> DeviceKey res" where
  "create_device_key E k path name d =
     (case encode_key E k of
        Inl e \<Rightarrow> (d, Inl e)
      | Inr bs \<Rightarrow>
          (case fs_write E path bs d of
             (d', Inl e) \<Rightarrow> (d', Inl e)
           | (d', Inr _) \<Rightarrow> (d', Inr \<lparr> device_signing_key = k, device_name = name \<rparr>)))"

definition load_or_create_device_key ::
  "'e crypto_scheme \<Rightarrow> Keypair \<Rightarrow> string \<Rightarrow> string \<Rightarrow> (nat \<Rightarrow> fs) \<Rightarrow> fs \<Rightarrow> fs \<times> DeviceKey res" where
  "load_or_create_device_key E k path name later d =
     (case encode_key E k of
        Inl e \<Rightarrow> (d, Inl e)
      | Inr bs \<Rightarrow>
          if fs_exists path d then (d, load_retry (\<lambda>i. load_device_key E path name (later i)) 25)
          else if \<not> io_create_ok E path then (d, Inl (Io path))
          else (case write_new E path bs d of
                  (d', Inl e) \<Rightarrow> (d', Inl e)
                | (d', Inr _) \<Rightarrow> (d', Inr \<lparr> device_signing_key = k, device_name = name \<rparr>)))"

section \<open>Well-formed identities\<close>

text \<open>Every identity the code builds comes from its key: the id and the key agreement secret
  are functions of it.\<close>

definition identity_wf :: "'e crypto_scheme \<Rightarrow> Identity \<Rightarrow> bool" where
  "identity_wf E i = (i = from_keypair E (signing_key i))"

lemma from_keypair_wf [simp]: "identity_wf E (from_keypair E k)"
  by (simp add: identity_wf_def from_keypair_def)

lemma from_keypair_sel [simp]:
  "signing_key (from_keypair E k) = k"
  "identity_id (from_keypair E k) = owner_of_key E (kp_public E k)"
  "dh_secret (from_keypair E k) = derive_dh_secret E k"
  by (simp_all add: from_keypair_def)

lemma owner_of_key_inject [simp]:
  "owner_of_key E a = owner_of_key E b \<longleftrightarrow> peer_id_str E a = peer_id_str E b"
  by (simp add: owner_of_key_def)

lemma import_export:
  assumes "keypair_codec_ok E" "identity_wf E i" "export_bytes E i = Inr bs"
  shows "import_bytes E bs = Inr i"
  using assms
  by (auto simp: export_bytes_def encode_key_def import_bytes_def import_bytes_as_def
      keypair_codec_ok_def identity_wf_def)

lemma load_identity_Inr:
  "load_identity E path d = Inr i \<longleftrightarrow>
     (\<exists>bs k. map_of d path = Some (File bs) \<and> kp_decode E bs = Some k \<and> i = from_keypair E k)"
  by (auto simp: load_identity_def)

text \<open>The retry loop gives the first success among the 25 attempts, and otherwise the last
  error; it never reaches the \<open>unreachable!\<close> behind it.\<close>

lemma load_retry_spec:
  "k \<le> 24 \<Longrightarrow> load_retry load (Suc k) =
     (case find (\<lambda>i. is_ok (load i)) [24 - k..<25] of Some i \<Rightarrow> load i | None \<Rightarrow> load 24)"
proof (induction k)
  case 0
  then show ?case by (cases "load 24") (auto simp: upt_rec)
next
  case (Suc k)
  have "Suc (24 - Suc k) = 24 - k"
    using Suc.prems by simp
  hence "[24 - Suc k..<25] = (24 - Suc k) # [24 - k..<25]"
    by (metis diff_le_self le_imp_less_Suc less_SucI numeral_nat(3) semiring_norm(3)
        upt_conv_Cons less_Suc_eq_le eval_nat_numeral(3))
  moreover have "load_retry load (Suc (Suc k)) =
      (case load (24 - Suc k) of Inr x \<Rightarrow> Inr x | Inl e \<Rightarrow> load_retry load (Suc k))"
    using Suc.prems by (auto simp del: load_retry.simps(2) simp: load_retry.simps(2) [of _ "Suc k"] Let_def split: sum.splits)
  ultimately show ?case
    using Suc by (auto simp del: load_retry.simps split: sum.splits)
qed

end
