(* ===== verification/Objects.thy ===== *)
theory Objects
  imports Identities
begin

text \<open>
  canopee-storage/src/object.rs, object_id.rs and export_bundle.rs: signed, content-addressed
  objects.  The bincode codec of the payload and of the object is a library, so its functions
  are fields of \<open>objenv\<close>, which extends \<open>crypto\<close>.  The clock is an argument \<open>now\<close>.
\<close>

type_synonym ObjectId = string

record AppManifest =
  manifest_name :: string
  manifest_owner :: IdentityId
  entrypoint :: ObjectId
  assets :: "(string \<times> ObjectId) list"

datatype ObjectType =
  Blob | AppManifestT | AppPointerT | ProfileT | ContactListT | HomeIndexT | CapabilityT
| CapabilityIndexT

record ObjectMetadata =
  created_at :: u64
  meta_size :: u64
  content_type :: "string option"

record ObjectPayload =
  payload_owner :: IdentityId
  metadata :: ObjectMetadata
  payload_type :: ObjectType
  payload_data :: bytes

record Object =
  obj_id :: ObjectId
  payload :: ObjectPayload
  obj_public_key :: bytes
  obj_signature :: bytes

record ObjectInfo =
  info_id :: ObjectId
  info_owner :: IdentityId
  info_size :: u64
  info_verified :: bool
  info_name :: "string option"
  info_type :: ObjectType

record ExportBundle =
  bundle_version :: u32
  bundle_object :: Object

record objenv = crypto +
  payload_enc :: "ObjectPayload \<Rightarrow> bytes"
  object_enc :: "Object \<Rightarrow> bytes"
  object_dec :: "bytes \<Rightarrow> Object option"

definition from_payload :: "'e objenv_scheme \<Rightarrow> ObjectPayload \<Rightarrow> ObjectId" where
  "from_payload E p = hex_encode E (sha256 E (payload_enc E p))"

definition from_data :: "'e crypto_scheme \<Rightarrow> bytes \<Rightarrow> ObjectId" where
  "from_data E bs = hex_encode E (sha256 E bs)"

definition new_payload :: "Identity \<Rightarrow> u64 \<Rightarrow> bytes \<Rightarrow> ObjectType \<Rightarrow> ObjectPayload" where
  "new_payload i now bs ty = \<lparr> payload_owner = identity_id i,
     metadata = \<lparr> created_at = now, meta_size = of_nat (length bs), content_type = None \<rparr>,
     payload_type = ty, payload_data = bs \<rparr>"

definition object_new ::
  "'e objenv_scheme \<Rightarrow> Identity \<Rightarrow> u64 \<Rightarrow> bytes \<Rightarrow> ObjectType \<Rightarrow> Object res" where
  "object_new E i now bs ty =
     (let p = new_payload i now bs ty in
      case sign E i (payload_enc E p) of
        Inl _ \<Rightarrow> Inl (Panic ''sign'')
      | Inr sig \<Rightarrow> Inr \<lparr> obj_id = from_payload E p, payload = p,
                           obj_public_key = public_key_bytes E i, obj_signature = sig \<rparr>)"

definition blob :: "'e objenv_scheme \<Rightarrow> Identity \<Rightarrow> u64 \<Rightarrow> bytes \<Rightarrow> Object res" where
  "blob E i now bs = object_new E i now bs Blob"

definition app_manifest_object ::
  "'e objenv_scheme \<Rightarrow> (AppManifest \<Rightarrow> bytes) \<Rightarrow> Identity \<Rightarrow> u64 \<Rightarrow> AppManifest \<Rightarrow> Object res" where
  "app_manifest_object E enc i now m = object_new E i now (enc m) AppManifestT"

definition decode_data :: "(bytes \<Rightarrow> 'a option) \<Rightarrow> Object \<Rightarrow> 'a res" where
  "decode_data dec ob = ok_or (dec (payload_data (payload ob))) (Decode (obj_id ob))"

definition object_type :: "Object \<Rightarrow> ObjectType" where
  "object_type ob = payload_type (payload ob)"

definition verify_id :: "'e objenv_scheme \<Rightarrow> Object \<Rightarrow> bool" where
  "verify_id E ob = (from_payload E (payload ob) = obj_id ob)"

definition object_verify :: "'e objenv_scheme \<Rightarrow> Object \<Rightarrow> bool" where
  "object_verify E ob =
     (if \<not> verify_id E ob then False
      else case pk_decode E (obj_public_key ob) of
             Some key \<Rightarrow> pk_verify E key (payload_enc E (payload ob)) (obj_signature ob)
           | None \<Rightarrow> False)"

definition export :: "'e objenv_scheme \<Rightarrow> Object \<Rightarrow> ExportBundle res" where
  "export E ob =
     (if \<not> object_verify E ob then Inl (Bail ''Cannot export invalid object'')
      else Inr \<lparr> bundle_version = 1, bundle_object = ob \<rparr>)"

text \<open>The concrete instance for the examples: the encodings are the data itself, and decoding
  finds the object with that data in a given list.\<close>

definition sample_objenv :: "Object list \<Rightarrow> 'm \<Rightarrow> 'm objenv_scheme" where
  "sample_objenv obs m = sample_crypto \<lparr> payload_enc = payload_data,
     object_enc = (\<lambda>ob. payload_data (payload ob)),
     object_dec = (\<lambda>bs. find (\<lambda>ob. payload_data (payload ob) = bs) obs), \<dots> = m \<rparr>"

definition sample_identity :: "byte \<Rightarrow> Identity" where
  "sample_identity b = from_keypair (sample_objenv [] ()) (Keypair [b])"

definition sample_object :: "byte \<Rightarrow> string \<Rightarrow> Object" where
  "sample_object b s = projr (object_new (sample_objenv [] ()) (sample_identity b) 1000
     (str_bytes s) Blob)"

lemmas sample_simps = sample_crypto_simps sample_objenv_def sample_identity_def sample_object_def
  object_new_def new_payload_def from_payload_def sign_def from_keypair_def public_key_bytes_def
  owner_of_key_def derive_dh_secret_def pad32_def str_bytes_def object_verify_def verify_id_def Let_def

section \<open>Facts\<close>

lemma new_payload_sel [simp]:
  "payload_owner (new_payload i now bs ty) = identity_id i"
  "payload_type (new_payload i now bs ty) = ty"
  "payload_data (new_payload i now bs ty) = bs"
  "meta_size (metadata (new_payload i now bs ty)) = of_nat (length bs)"
  "created_at (metadata (new_payload i now bs ty)) = now"
  by (simp_all add: new_payload_def)

lemma object_new_Inr:
  "object_new E i now bs ty = Inr ob \<longleftrightarrow>
     payload ob = new_payload i now bs ty \<and> obj_id ob = from_payload E (payload ob) \<and>
     obj_public_key ob = public_key_bytes E i \<and>
     kp_sign E (signing_key i) (payload_enc E (payload ob)) = Some (obj_signature ob)"
  by (cases ob) (auto simp: object_new_def sign_def Let_def split: sum.splits)

lemma object_new_sel:
  assumes "object_new E i now bs ty = Inr ob"
  shows "payload_data (payload ob) = bs" "payload_owner (payload ob) = identity_id i"
    "object_type ob = ty" "meta_size (metadata (payload ob)) = of_nat (length bs)"
  using assms by (auto simp: object_new_Inr object_type_def)

lemma object_new_verifies:
  assumes "sign_ok E" "object_new E i now bs ty = Inr ob"
  shows "object_verify E ob"
  using assms
  by (auto simp: object_new_Inr object_verify_def verify_id_def public_key_bytes_def sign_okD)

lemma object_verifyD:
  assumes "object_verify E ob"
  shows "obj_id ob = from_payload E (payload ob)"
    and "\<exists>key. pk_decode E (obj_public_key ob) = Some key \<and>
           pk_verify E key (payload_enc E (payload ob)) (obj_signature ob)"
  using assms by (auto simp: object_verify_def verify_id_def split: if_splits option.splits)

text \<open>Two different byte strings with one hash; a theorem about content addressing either holds
  or exhibits such a pair.\<close>

definition hash_collision :: "'e crypto_scheme \<Rightarrow> bytes \<Rightarrow> bytes \<Rightarrow> bool" where
  "hash_collision E x y = (x \<noteq> y \<and> hex_encode E (sha256 E x) = hex_encode E (sha256 E y))"

lemma verified_same_id:
  assumes "object_verify E a" "object_verify E b" "obj_id a = obj_id b"
  shows "payload_enc E (payload a) = payload_enc E (payload b) \<or>
         hash_collision E (payload_enc E (payload a)) (payload_enc E (payload b))"
  using assms object_verifyD(1) [of E a] object_verifyD(1) [of E b]
  by (auto simp: hash_collision_def from_payload_def)

end
