(* ===== verification/Keyed_Store.thy ===== *)
theory Keyed_Store
  imports Prelude
begin

text \<open>
  The interface of a store of values under keys that the values determine, and what a client of
  it may rely on.  \<open>good\<close> says which keys the store keeps apart, \<open>fits\<close> which values it can hold.
  A failed operation may change the state, but nothing a reader sees.
\<close>

locale keyed_store =
  fixes put :: "'v \<Rightarrow> 's \<Rightarrow> 's \<times> unit res"
    and get :: "'k \<Rightarrow> 's \<Rightarrow> 'v res"
    and del :: "'k \<Rightarrow> 's \<Rightarrow> 's \<times> unit res"
    and key_of :: "'v \<Rightarrow> 'k"
    and good :: "'k \<Rightarrow> bool"
    and fits :: "'v \<Rightarrow> bool"
  assumes put_get: "put v s = (s', Inr ()) \<Longrightarrow> fits v \<Longrightarrow> good (key_of v) \<Longrightarrow> get (key_of v) s' = Inr v"
    and put_other: "put v s = (s', r) \<Longrightarrow> good k \<Longrightarrow> good (key_of v) \<Longrightarrow> k \<noteq> key_of v \<Longrightarrow> get k s' = get k s"
    and put_failed: "put v s = (s', Inl e) \<Longrightarrow> good k \<Longrightarrow> good (key_of v) \<Longrightarrow> get k s' = get k s"
    and get_key: "get k s = Inr v \<Longrightarrow> key_of v = k"
    and del_get: "del k s = (s', Inr ()) \<Longrightarrow> good k \<Longrightarrow> \<not> is_ok (get k s')"
    and del_other: "del k s = (s', r) \<Longrightarrow> good j \<Longrightarrow> good k \<Longrightarrow> j \<noteq> k \<Longrightarrow> get j s' = get j s"
begin

fun put_all :: "'v list \<Rightarrow> 's \<Rightarrow> 's \<times> unit res" where
  "put_all [] s = (s, Inr ())"
| "put_all (v # vs) s =
     (case put v s of (s', Inl e) \<Rightarrow> (s', Inl e) | (s', Inr _) \<Rightarrow> put_all vs s')"

lemma put_all_other:
  "put_all vs s = (s', r) \<Longrightarrow> good k \<Longrightarrow> \<forall>v \<in> set vs. good (key_of v) \<and> key_of v \<noteq> k \<Longrightarrow>
   get k s' = get k s"
proof (induction vs arbitrary: s)
  case (Cons v vs)
  obtain s1 r1 where p: "put v s = (s1, r1)" by (cases "put v s")
  with Cons.prems have "get k s1 = get k s" by (auto intro: put_other [OF p])
  with Cons p show ?case by (cases r1) auto
qed simp

lemma put_all_gets:
  "put_all vs s = (s', Inr ()) \<Longrightarrow> distinct (map key_of vs) \<Longrightarrow>
   \<forall>v \<in> set vs. good (key_of v) \<and> fits v \<Longrightarrow> v \<in> set vs \<Longrightarrow> get (key_of v) s' = Inr v"
proof (induction vs arbitrary: s)
  case (Cons w vs)
  obtain s1 r1 where p: "put w s = (s1, r1)" by (cases "put w s")
  with Cons.prems(1) have q: "put_all vs s1 = (s', Inr ())" and [simp]: "r1 = Inr ()"
    by (cases r1; simp)+
  show ?case
  proof (cases "v = w")
    case True
    have "get (key_of w) s1 = Inr w"
      using p Cons.prems(3) by (intro put_get) auto
    moreover have "get (key_of w) s' = get (key_of w) s1"
      using Cons.prems(2,3) by (intro put_all_other [OF q]) (auto simp: image_iff)
    ultimately show ?thesis using True by simp
  next
    case False
    with Cons.prems show ?thesis by (intro Cons.IH [OF q]) auto
  qed
qed simp

text \<open>A delete undoes a put: nothing else has moved.\<close>

lemma put_del_other:
  assumes "put v s = (s1, r)" "del (key_of v) s1 = (s2, r')" "good (key_of v)" "good k" "k \<noteq> key_of v"
  shows "get k s2 = get k s"
  using assms del_other [OF assms(2)] put_other [OF assms(1)] by simp

end

text \<open>
  The interface of a set of tracked keys (the cache index, the shared set): adding and removing
  decide membership of that key and of no other, so membership after any history of operations
  is decided by the last operation on the key.
\<close>

datatype 'k track = Add 'k | Rem 'k

fun track_key :: "'k track \<Rightarrow> 'k" where
  "track_key (Add k) = k"
| "track_key (Rem k) = k"

locale tracked_set =
  fixes add :: "'k \<Rightarrow> 's \<Rightarrow> 's"
    and rem :: "'k \<Rightarrow> 's \<Rightarrow> 's"
    and mem :: "'s \<Rightarrow> 'k \<Rightarrow> bool"
  assumes mem_add: "mem (add k s) j \<longleftrightarrow> j = k \<or> mem s j"
    and mem_rem: "mem (rem k s) j \<longleftrightarrow> j \<noteq> k \<and> mem s j"
begin

fun track :: "'k track \<Rightarrow> 's \<Rightarrow> 's" where
  "track (Add k) s = add k s"
| "track (Rem k) s = rem k s"

lemma mem_history:
  "mem (fold track evs s) k \<longleftrightarrow>
     (case find (\<lambda>e. track_key e = k) (rev evs) of
        Some (Add _) \<Rightarrow> True | Some (Rem _) \<Rightarrow> False | None \<Rightarrow> mem s k)"
proof (induction evs rule: rev_induct)
  case (snoc e evs)
  then show ?case by (cases e) (auto simp: mem_add mem_rem)
qed simp

lemma add_commutes: "mem (add k (add j s)) i \<longleftrightarrow> mem (add j (add k s)) i"
  by (auto simp: mem_add)

end

end
