(* ===== verification/Object_Store.thy ===== *)
theory Object_Store
  imports Objects Keyed_Store
begin

text \<open>
  canopee-storage/src/storage.rs: the directory of objects.  Its state is the file system; the
  struct \<open>Storage\<close> is its root path.  Objects are files named by their id, names are sidecar files
  with a leading dot, and a write goes to a temporary name first.
\<close>

definition object_path :: "string \<Rightarrow> ObjectId \<Rightarrow> string" where
  "object_path root oid = root @ ''/'' @ oid"

definition tmp_path :: "string \<Rightarrow> ObjectId \<Rightarrow> string" where
  "tmp_path root oid = root @ ''/'' @ ''.'' @ oid @ ''.canopee-tmp''"

definition name_path :: "string \<Rightarrow> ObjectId \<Rightarrow> string" where
  "name_path root oid = root @ ''/'' @ ''.'' @ oid @ ''.name''"

definition put_verified :: "'e objenv_scheme \<Rightarrow> string \<Rightarrow> Object \<Rightarrow> fs \<Rightarrow> fs \<times> unit res" where
  "put_verified E root ob d =
     (if \<not> object_verify E ob then (d, Inl (Bail (''Invalid signature for object '' @ obj_id ob)))
      else let path = object_path root (obj_id ob); tmp = tmp_path root (obj_id ob)
           in case fs_write E tmp (object_enc E ob) d of
                (d1, Inl e) \<Rightarrow> (d1, Inl e)
              | (d1, Inr _) \<Rightarrow> fs_rename E tmp path d1)"

definition get_verified :: "'e objenv_scheme \<Rightarrow> string \<Rightarrow> ObjectId \<Rightarrow> fs \<Rightarrow> Object res" where
  "get_verified E root oid d =
     (case fs_read (object_path root oid) d of
        Inl e \<Rightarrow> Inl e
      | Inr bs \<Rightarrow>
          (case object_dec E bs of
             None \<Rightarrow> Inl (Decode oid)
           | Some ob \<Rightarrow>
               if obj_id ob \<noteq> oid then
                 Inl (Bail (''Object id mismatch: file holds '' @ obj_id ob @ '', requested '' @ oid))
               else if \<not> object_verify E ob then
                 Inl (Bail (''Invalid signature for object '' @ oid))
               else Inr ob))"

definition store_exists :: "string \<Rightarrow> ObjectId \<Rightarrow> fs \<Rightarrow> bool" where
  "store_exists root oid d = fs_exists (object_path root oid) d"

definition store_list :: "'e host_scheme \<Rightarrow> string \<Rightarrow> fs \<Rightarrow> ObjectId list res" where
  "store_list E root d =
     res_bind (fs_read_dir E root d) (\<lambda>names.
       Inr (filter (\<lambda>n. \<not> starts_with ''.'' n) names))"

definition read_name :: "string \<Rightarrow> ObjectId \<Rightarrow> fs \<Rightarrow> string option" where
  "read_name root oid d =
     (case fs_read (name_path root oid) d of
        Inl _ \<Rightarrow> None
      | Inr bs \<Rightarrow>
          (case from_utf8 bs of
             None \<Rightarrow> None
           | Some s \<Rightarrow> if s \<noteq> [] then Some s else None))"

definition object_info :: "'e objenv_scheme \<Rightarrow> string \<Rightarrow> fs \<Rightarrow> Object \<Rightarrow> ObjectInfo" where
  "object_info E root d ob =
     \<lparr> info_id = obj_id ob, info_owner = payload_owner (payload ob),
       info_size = meta_size (metadata (payload ob)), info_verified = object_verify E ob,
       info_name = read_name root (obj_id ob) d, info_type = object_type ob \<rparr>"

fun list_infos :: "'e objenv_scheme \<Rightarrow> string \<Rightarrow> fs \<Rightarrow> string list \<Rightarrow> ObjectInfo list res" where
  "list_infos E root d [] = Inr []"
| "list_infos E root d (n # ns) =
     (if starts_with ''.'' n then list_infos E root d ns
      else case fs_read (object_path root n) d of
             Inl e \<Rightarrow> Inl e
           | Inr bs \<Rightarrow>
               (case object_dec E bs of
                  None \<Rightarrow> list_infos E root d ns
                | Some ob \<Rightarrow>
                    res_bind (list_infos E root d ns) (\<lambda>rest.
                      Inr (object_info E root d ob # rest))))"

definition list_objects :: "'e objenv_scheme \<Rightarrow> string \<Rightarrow> fs \<Rightarrow> ObjectInfo list res" where
  "list_objects E root d = res_bind (fs_read_dir E root d) (list_infos E root d)"

definition store_import :: "'e objenv_scheme \<Rightarrow> string \<Rightarrow> Object \<Rightarrow> fs \<Rightarrow> fs \<times> unit res" where
  "store_import E root ob d = put_verified E root ob d"

definition set_name :: "'e host_scheme \<Rightarrow> string \<Rightarrow> ObjectId \<Rightarrow> string \<Rightarrow> fs \<Rightarrow> fs \<times> unit res" where
  "set_name E root oid name d = fs_write E (name_path root oid) (str_bytes name) d"

definition remove_if_exists :: "'e host_scheme \<Rightarrow> string \<Rightarrow> fs \<Rightarrow> fs \<times> unit res" where
  "remove_if_exists E p d = (if fs_exists p d then fs_remove E p d else (d, Inr ()))"

definition store_delete :: "'e host_scheme \<Rightarrow> string \<Rightarrow> ObjectId \<Rightarrow> fs \<Rightarrow> fs \<times> unit res" where
  "store_delete E root oid d =
     (case remove_if_exists E (object_path root oid) d of
        (d1, Inl e) \<Rightarrow> (d1, Inl e)
      | (d1, Inr _) \<Rightarrow> remove_if_exists E (name_path root oid) d1)"

section \<open>Paths\<close>

text \<open>An object id is visible when it has no leading dot, which is what a listing goes by;
  every id the code computes is a hex string.\<close>

definition visible :: "ObjectId \<Rightarrow> bool" where
  "visible oid = (\<not> starts_with ''.'' oid)"

lemma visible_neq: "visible a \<Longrightarrow> a \<noteq> CHR ''.'' # t"
  by (auto simp: visible_def starts_with_iff)

lemma path_inject [simp]:
  "object_path root a = object_path root b \<longleftrightarrow> a = b"
  "tmp_path root a = tmp_path root b \<longleftrightarrow> a = b"
  "name_path root a = name_path root b \<longleftrightarrow> a = b"
  by (simp_all add: object_path_def tmp_path_def name_path_def)

lemma visible_paths [simp]:
  assumes "visible a"
  shows "object_path root a \<noteq> tmp_path root b" "object_path root a \<noteq> name_path root b"
    "tmp_path root b \<noteq> object_path root a" "name_path root b \<noteq> object_path root a"
proof -
  have "a \<noteq> ''.'' @ t" for t
    using visible_neq [OF assms] by simp
  hence *: "root @ ''/'' @ a \<noteq> root @ ''/'' @ ''.'' @ t" for t
    by (simp only: same_append_eq not_False_eq_True)
  show "object_path root a \<noteq> tmp_path root b" "object_path root a \<noteq> name_path root b"
    unfolding object_path_def tmp_path_def name_path_def by (rule *)+
  thus "tmp_path root b \<noteq> object_path root a" "name_path root b \<noteq> object_path root a"
    by metis+
qed

lemma tmp_name_path [simp]: "tmp_path root a \<noteq> name_path root b" "name_path root b \<noteq> tmp_path root a"
proof -
  have "last (tmp_path root a) = CHR ''p''" and "last (name_path root b) = CHR ''e''"
    by (simp_all add: tmp_path_def name_path_def)
  hence "last (tmp_path root a) \<noteq> last (name_path root b)" by simp
  thus "tmp_path root a \<noteq> name_path root b" "name_path root b \<noteq> tmp_path root a"
    by metis+
qed

section \<open>What each operation does\<close>

lemma get_verified_Inr:
  "get_verified E root oid d = Inr ob \<longleftrightarrow>
     (\<exists>bs. map_of d (object_path root oid) = Some (File bs) \<and> object_dec E bs = Some ob \<and>
           obj_id ob = oid \<and> object_verify E ob)"
  by (auto simp: get_verified_def fs_read_def split: option.splits fentry.splits)

lemma get_verified_cong:
  "map_of d (object_path root oid) = map_of d' (object_path root oid) \<Longrightarrow>
   get_verified E root oid d = get_verified E root oid d'"
  by (simp add: get_verified_def fs_read_def)

lemma put_verified_Inr:
  assumes "put_verified E root ob d = (d', Inr u)" "visible (obj_id ob)"
  shows "object_verify E ob"
    and "map_of d' = (map_of d)(tmp_path root (obj_id ob) := None,
           object_path root (obj_id ob) \<mapsto> File (object_enc E ob))"
  using assms
  by (auto simp: put_verified_def Let_def split: if_splits prod.splits sum.splits
      dest!: fs_write_Inr fs_rename_Inr)

lemma put_verified_frame:
  assumes put: "put_verified E root ob d = (d', r)" and p: "p \<noteq> tmp_path root (obj_id ob)"
    and q: "p \<noteq> object_path root (obj_id ob) \<or> \<not> is_ok r"
  shows "map_of d' p = map_of d p"
proof (cases "object_verify E ob")
  case True
  obtain d1 r1 where w: "fs_write E (tmp_path root (obj_id ob)) (object_enc E ob) d = (d1, r1)"
    by (cases "fs_write E (tmp_path root (obj_id ob)) (object_enc E ob) d")
  have same: "map_of d1 p = map_of d p" using fs_write_frame [OF w p] .
  show ?thesis
  proof (cases r1)
    case (Inl e)
    with True put w same show ?thesis by (simp add: put_verified_def)
  next
    case (Inr u)
    with True put w
    have rn: "fs_rename E (tmp_path root (obj_id ob)) (object_path root (obj_id ob)) d1 = (d', r)"
      by (simp add: put_verified_def)
    show ?thesis
    proof (cases r)
      case (Inl e)
      with fs_rename_Inl rn same show ?thesis by metis
    next
      case (Inr u)
      with q fs_rename_frame [OF rn p] same show ?thesis by simp
    qed
  qed
qed (use put in \<open>simp add: put_verified_def\<close>)

lemma remove_if_exists_Inr:
  "remove_if_exists E p d = (d', Inr u) \<Longrightarrow> map_of d' = (map_of d)(p := None)"
  by (auto simp: remove_if_exists_def fs_exists_def fun_upd_idem split: if_splits dest: fs_remove_Inr)

lemma remove_if_exists_frame:
  "remove_if_exists E p d = (d', r) \<Longrightarrow> q \<noteq> p \<Longrightarrow> map_of d' q = map_of d q"
  by (auto simp: remove_if_exists_def fs_remove_def split: if_splits)

lemma store_delete_frame:
  "store_delete E root oid d = (d', r) \<Longrightarrow> q \<noteq> object_path root oid \<Longrightarrow>
   q \<noteq> name_path root oid \<Longrightarrow> map_of d' q = map_of d q"
  by (auto simp: store_delete_def split: prod.splits sum.splits dest!: remove_if_exists_frame)

lemma store_delete_Inr:
  assumes "store_delete E root oid d = (d', Inr u)"
  shows "map_of d' = (map_of d)(object_path root oid := None, name_path root oid := None)"
  using assms
  by (auto simp: store_delete_def split: prod.splits sum.splits dest!: remove_if_exists_Inr)

section \<open>The store satisfies the interface\<close>

definition decodes :: "'e objenv_scheme \<Rightarrow> Object \<Rightarrow> bool" where
  "decodes E ob = (object_dec E (object_enc E ob) = Some ob)"

interpretation objs: keyed_store "put_verified E root" "get_verified E root"
  "store_delete E root" obj_id visible "decodes E" for E root
proof unfold_locales
  fix v s s'
  assume "put_verified E root v s = (s', Inr ())" "decodes E v" "visible (obj_id v)"
  thus "get_verified E root (obj_id v) s' = Inr v"
    by (simp add: get_verified_Inr put_verified_Inr decodes_def)
next
  fix v s s' r k
  assume "put_verified E root v s = (s', r)" "visible k" "visible (obj_id v)" "k \<noteq> obj_id v"
  thus "get_verified E root k s' = get_verified E root k s"
    by (intro get_verified_cong put_verified_frame) auto
next
  fix v s s' e k
  assume "put_verified E root v s = (s', Inl e)" "visible k" "visible (obj_id v)"
  thus "get_verified E root k s' = get_verified E root k s"
    by (intro get_verified_cong put_verified_frame) auto
next
  fix k s v
  assume "get_verified E root k s = Inr v"
  thus "obj_id v = k" by (auto simp: get_verified_Inr)
next
  fix k s s'
  assume d: "store_delete E root k s = (s', Inr ())" and "visible k"
  hence "map_of s' (object_path root k) = None"
    by (simp add: store_delete_Inr [OF d])
  thus "\<not> is_ok (get_verified E root k s')"
    by (auto simp: is_ok_iff get_verified_Inr)
next
  fix k s s' r j
  assume "store_delete E root k s = (s', r)" "visible j" "visible k" "j \<noteq> k"
  thus "get_verified E root j s' = get_verified E root j s"
    by (intro get_verified_cong store_delete_frame) auto
qed

section \<open>Properties\<close>

text \<open>Property C1. A successful \<open>put_verified\<close> makes exactly that object readable under its id,
  and what every other visible id reads is unchanged.\<close>

theorem put_then_get:
  assumes "put_verified E root ob d = (d', Inr ())" "decodes E ob" "visible (obj_id ob)"
  shows "get_verified E root (obj_id ob) d' = Inr ob \<and>
    (\<forall>oid. visible oid \<and> oid \<noteq> obj_id ob \<longrightarrow>
       get_verified E root oid d' = get_verified E root oid d)"
  using objs.put_get [OF assms] objs.put_other [OF assms(1)] assms(3) by blast

definition ex_object :: Object where
  "ex_object = sample_object 65 ''hello''"

definition ex_env :: objenv where
  "ex_env = sample_objenv [ex_object] ()"

lemma ex_object_val: "ex_object = \<lparr> obj_id = ''1405'',
    payload = \<lparr> payload_owner = ''canopee://identity/41'',
       metadata = \<lparr> created_at = 1000, meta_size = 5, content_type = None \<rparr>,
       payload_type = Blob, payload_data = [104, 101, 108, 108, 111] \<rparr>,
    obj_public_key = [8, 65], obj_signature = [65, 20, 5] \<rparr>"
  by (simp add: ex_object_def sample_simps)

lemma ex_object_facts:
  "object_verify ex_env ex_object" "decodes ex_env ex_object" "visible (obj_id ex_object)"
  by (simp_all add: ex_env_def ex_object_val sample_simps decodes_def visible_def starts_with_def)

theorem put_then_get_witness:
  "get_verified ex_env ''r'' (obj_id ex_object) (fst (put_verified ex_env ''r'' ex_object [])) = Inr ex_object"
proof -
  have "put_verified ex_env ''r'' ex_object [] =
      (fst (put_verified ex_env ''r'' ex_object []), Inr ())"
    by (simp add: put_verified_def ex_object_facts fs_write_def fs_rename_def)
       (simp add: ex_env_def sample_simps)
  with ex_object_facts show ?thesis using put_then_get by blast
qed

text \<open>Property C2. Whatever a write does (also when it fails, or leaves a torn file), the files a
  reader looks at, every path but the temporary one, hold what they held before, except that a
  successful put has replaced the object's own file by its complete encoding.  Only a verified
  object is ever written.\<close>

theorem put_is_atomic:
  assumes "put_verified E root ob d = (d', r)" "visible (obj_id ob)"
  shows "(is_ok r \<or> d' \<noteq> d \<longrightarrow> object_verify E ob) \<and>
    (\<forall>p. p \<noteq> tmp_path root (obj_id ob) \<longrightarrow> map_of d' p =
      (if is_ok r \<and> p = object_path root (obj_id ob) then Some (File (object_enc E ob)) else map_of d p))"
proof
  show "is_ok r \<or> d' \<noteq> d \<longrightarrow> object_verify E ob"
    using assms(1) by (auto simp: put_verified_def split: if_splits)
  show "\<forall>p. p \<noteq> tmp_path root (obj_id ob) \<longrightarrow> map_of d' p =
      (if is_ok r \<and> p = object_path root (obj_id ob) then Some (File (object_enc E ob)) else map_of d p)"
    using put_verified_Inr(2) [of E root ob d d'] put_verified_frame [OF assms(1)] assms
    by (auto simp: is_ok_iff)
qed

definition ex_torn_env :: objenv where
  "ex_torn_env = ex_env \<lparr> io_write := (\<lambda>_ _. Write_Failed (Some [1])) \<rparr>"

theorem put_is_atomic_witness:
  "map_of (fst (put_verified ex_torn_env ''r'' ex_object [(''r/1405'', File [7])])) ''r/1405''
     = Some (File [7]) \<and>
   \<not> is_ok (snd (put_verified ex_torn_env ''r'' ex_object [(''r/1405'', File [7])]))"
proof -
  let ?d = "[(''r/1405'', File [7])]"
  let ?res = "put_verified ex_torn_env ''r'' ex_object ?d"
  have err: "\<not> is_ok (snd ?res)"
    by (simp add: put_verified_def fs_write_def ex_torn_env_def Let_def)
  moreover have "''r/1405'' \<noteq> tmp_path ''r'' (obj_id ex_object)"
    by (simp add: tmp_path_def ex_object_val)
  ultimately have "map_of (fst ?res) ''r/1405'' = map_of ?d ''r/1405''"
    using put_is_atomic [of ex_torn_env "''r''" ex_object ?d "fst ?res" "snd ?res"] ex_object_facts
    by auto
  with err show ?thesis by simp
qed

end
