(* ===== verification/Cache_Index.thy ===== *)
theory Cache_Index
  imports Object_Store
begin

text \<open>
  canopee-storage/src/cache.rs: the sidecar that says which stored objects are copies fetched
  from peers, and when each was last served.  \<open>CacheIndex\<close> is the map, \<open>Cache\<close> the handle the
  runtime holds.  The sum of the sizes is a 64-bit word, as in the code.
\<close>

type_synonym CacheIndex = "(ObjectId \<times> u64) list"

record cacheenv = objenv +
  index_enc :: "CacheIndex \<Rightarrow> bytes"
  index_dec :: "bytes \<Rightarrow> CacheIndex option"

definition index_load :: "'e cacheenv_scheme \<Rightarrow> string \<Rightarrow> fs \<Rightarrow> CacheIndex" where
  "index_load E path d =
     (case fs_read path d of
        Inr bs \<Rightarrow> (case index_dec E bs of Some ix \<Rightarrow> ix | None \<Rightarrow> [])
      | Inl _ \<Rightarrow> [])"

definition parent_dir :: "string \<Rightarrow> string option" where
  "parent_dir p = (case split_once CHR ''/'' (rev p) of Some (_, r) \<Rightarrow> Some (rev r) | None \<Rightarrow> None)"

definition index_save :: "'e cacheenv_scheme \<Rightarrow> string \<Rightarrow> CacheIndex \<Rightarrow> fs \<Rightarrow> fs \<times> unit res" where
  "index_save E path ix d =
     (case parent_dir path of
        Some parent \<Rightarrow>
          if \<not> io_create_ok E parent then (d, Inl (Io parent))
          else let tmp = with_extension path ''tmp'' in
               (case fs_write E tmp (index_enc E ix) d of
                  (d1, Inl e) \<Rightarrow> (d1, Inl e)
                | (d1, Inr _) \<Rightarrow> fs_rename E tmp path d1)
      | None \<Rightarrow>
          let tmp = with_extension path ''tmp'' in
          (case fs_write E tmp (index_enc E ix) d of
             (d1, Inl e) \<Rightarrow> (d1, Inl e)
           | (d1, Inr _) \<Rightarrow> fs_rename E tmp path d1))"

definition touch :: "ObjectId \<Rightarrow> u64 \<Rightarrow> CacheIndex \<Rightarrow> CacheIndex" where
  "touch oid now ix = AList.update oid now ix"

definition index_remove :: "ObjectId \<Rightarrow> CacheIndex \<Rightarrow> CacheIndex" where
  "index_remove oid ix = AList.delete oid ix"

definition index_is_cached :: "CacheIndex \<Rightarrow> ObjectId \<Rightarrow> bool" where
  "index_is_cached ix oid = (map_of ix oid \<noteq> None)"

definition refresh_served :: "ObjectId \<Rightarrow> u64 \<Rightarrow> CacheIndex \<Rightarrow> CacheIndex" where
  "refresh_served oid now ix =
     (case map_of ix oid of Some _ \<Rightarrow> AList.update oid now ix | None \<Rightarrow> ix)"

fun total_cached_bytes :: "'e objenv_scheme \<Rightarrow> string \<Rightarrow> fs \<Rightarrow> CacheIndex \<Rightarrow> u64 \<Rightarrow> u64" where
  "total_cached_bytes E root d [] acc = acc"
| "total_cached_bytes E root d ((oid, _) # ix) acc =
     (case get_verified E root oid d of
        Inr ob \<Rightarrow> total_cached_bytes E root d ix (acc + meta_size (metadata (payload ob)))
      | Inl _ \<Rightarrow> total_cached_bytes E root d ix acc)"

definition lru_cached_objects :: "'e objenv_scheme \<Rightarrow> string \<Rightarrow> fs \<Rightarrow> CacheIndex \<Rightarrow> Object list" where
  "lru_cached_objects E root d ix =
     List.map_filter (\<lambda>(oid, _). res_option (get_verified E root oid d)) (sort_key snd ix)"

record Cache =
  cache_index :: CacheIndex
  cache_path :: string
  own_identity :: IdentityId

definition cache_new :: "string \<Rightarrow> IdentityId \<Rightarrow> CacheIndex \<Rightarrow> Cache" where
  "cache_new path own ix = \<lparr> cache_index = ix, cache_path = path, own_identity = own \<rparr>"

definition persist :: "'e cacheenv_scheme \<Rightarrow> Cache \<Rightarrow> fs \<Rightarrow> fs \<times> unit res" where
  "persist E c d = index_save E (cache_path c) (cache_index c) d"

definition mark_cached :: "'e cacheenv_scheme \<Rightarrow> u64 \<Rightarrow> ObjectId \<Rightarrow> Cache \<Rightarrow> fs \<Rightarrow> Cache \<times> fs" where
  "mark_cached E now oid c d =
     (let c' = c \<lparr> cache_index := touch oid now (cache_index c) \<rparr> in (c', fst (persist E c' d)))"

definition touch_served :: "u64 \<Rightarrow> ObjectId \<Rightarrow> Cache \<Rightarrow> Cache" where
  "touch_served now oid c = c \<lparr> cache_index := refresh_served oid now (cache_index c) \<rparr>"

definition is_cached :: "Cache \<Rightarrow> ObjectId \<Rightarrow> bool" where
  "is_cached c oid = index_is_cached (cache_index c) oid"

definition is_owned :: "Cache \<Rightarrow> Object \<Rightarrow> bool" where
  "is_owned c ob = (payload_owner (payload ob) = own_identity c)"

definition cache_total_bytes :: "'e objenv_scheme \<Rightarrow> string \<Rightarrow> fs \<Rightarrow> Cache \<Rightarrow> u64" where
  "cache_total_bytes E root d c = total_cached_bytes E root d (cache_index c) 0"

definition cache_lru :: "'e objenv_scheme \<Rightarrow> string \<Rightarrow> fs \<Rightarrow> Cache \<Rightarrow> Object list" where
  "cache_lru E root d c = lru_cached_objects E root d (cache_index c)"

definition cache_remove :: "'e cacheenv_scheme \<Rightarrow> ObjectId \<Rightarrow> Cache \<Rightarrow> fs \<Rightarrow> Cache \<times> fs" where
  "cache_remove E oid c d =
     (let c' = c \<lparr> cache_index := index_remove oid (cache_index c) \<rparr> in (c', fst (persist E c' d)))"

section \<open>The index as a tracked set\<close>

interpretation cached: tracked_set "\<lambda>oid. touch oid now" index_remove index_is_cached for now
  by unfold_locales (auto simp: touch_def index_remove_def index_is_cached_def)

text \<open>Serving an object never starts tracking it: only \<open>mark_cached\<close> does.\<close>

lemma refresh_served_is_cached [simp]:
  "index_is_cached (refresh_served oid now ix) j = index_is_cached ix j"
  by (auto simp: refresh_served_def index_is_cached_def split: option.splits)

lemma refresh_served_time:
  "map_of (refresh_served oid now ix) j =
     (if j = oid \<and> index_is_cached ix oid then Some now else map_of ix j)"
  by (auto simp: refresh_served_def index_is_cached_def split: option.splits)

definition index_wf :: "CacheIndex \<Rightarrow> bool" where
  "index_wf ix = distinct (map fst ix)"

lemma index_wf_ops [simp]:
  "index_wf ix \<Longrightarrow> index_wf (touch oid now ix)"
  "index_wf ix \<Longrightarrow> index_wf (index_remove oid ix)"
  "index_wf ix \<Longrightarrow> index_wf (refresh_served oid now ix)"
  by (auto simp: index_wf_def touch_def index_remove_def refresh_served_def AList.distinct_update
      AList.distinct_delete split: option.splits)

section \<open>The eviction order\<close>

lemma readable_ids:
  "map obj_id (List.map_filter (\<lambda>(oid, _). res_option (get_verified E root oid d)) es) =
     map fst (filter (\<lambda>e. is_ok (get_verified E root (fst e) d)) es)"
proof (induction es)
  case (Cons e es)
  show ?case
  proof (cases "get_verified E root (fst e) d")
    case (Inl a)
    with Cons show ?thesis by (cases e) (simp add: List.map_filter_simps)
  next
    case (Inr ob)
    with Cons objs.get_key [OF Inr] show ?thesis by (cases e) (simp add: List.map_filter_simps)
  qed
qed (simp add: List.map_filter_simps)

lemma lru_ids:
  "map obj_id (lru_cached_objects E root d ix) =
     map fst (sort_key snd (filter (\<lambda>e. is_ok (get_verified E root (fst e) d)) ix))"
proof -
  have "map obj_id (lru_cached_objects E root d ix) =
      map fst (filter (\<lambda>e. is_ok (get_verified E root (fst e) d)) (sort_key snd ix))"
    unfolding lru_cached_objects_def by (rule readable_ids)
  also have "filter (\<lambda>e. is_ok (get_verified E root (fst e) d)) (sort_key snd ix) =
      sort_key snd (filter (\<lambda>e. is_ok (get_verified E root (fst e) d)) ix)"
    by (rule filter_sort)
  finally show ?thesis .
qed

lemma lru_member:
  "ob \<in> set (lru_cached_objects E root d ix) \<longleftrightarrow>
     (\<exists>oid. oid \<in> fst ` set ix \<and> get_verified E root oid d = Inr ob)"
  by (force simp: lru_cached_objects_def)

text \<open>The bytes are the sum over the readable tracked objects, modulo 2^64.\<close>

definition cached_sizes :: "'e objenv_scheme \<Rightarrow> string \<Rightarrow> fs \<Rightarrow> CacheIndex \<Rightarrow> u64 list" where
  "cached_sizes E root d ix =
     List.map_filter (\<lambda>(oid, _). map_option (\<lambda>ob. meta_size (metadata (payload ob)))
        (res_option (get_verified E root oid d))) ix"

lemma total_cached_bytes_sum:
  "total_cached_bytes E root d ix acc = acc + sum_list (cached_sizes E root d ix)"
  by (induction ix arbitrary: acc)
     (auto simp: cached_sizes_def List.map_filter_def split: sum.splits)

lemma unat_sum_list: "unat (sum_list (ws :: 'a::len word list)) = sum_list (map unat ws) mod 2 ^ LENGTH('a)"
  by (induction ws) (auto simp: unat_word_ariths mod_simps)

end
