(* ===== verification/Signed_Records.thy ===== *)
theory Signed_Records
  imports Cache_Index "HOL-Library.List_Lexorder" "HOL-Library.Char_ord" "HOL-Library.Multiset"
begin

text \<open>
  The signed records that name their signer: \<open>AppPointerRecord\<close> (canopee-storage/src/pointer.rs),
  \<open>Capability\<close> with its index (canopee-storage/src/capability.rs) and \<open>ServeRegistration\<close>
  (canopee-network/src/message.rs).  All three verify the same way: the claimed identity is the
  one of the attached key, and the signature is over a canonical text.  That contract is the
  locale \<open>signed_record\<close>, which each of them interprets.
\<close>

section \<open>The contract\<close>

locale signed_record =
  fixes E :: "'e crypto_scheme"
    and signer_of :: "'r \<Rightarrow> IdentityId"
    and key_of :: "'r \<Rightarrow> bytes"
    and sig_of :: "'r \<Rightarrow> bytes"
    and msg_of :: "'r \<Rightarrow> bytes"
    and bound :: "'r \<Rightarrow> bool"
    and check :: "'r \<Rightarrow> bool"
  assumes check_iff: "check r \<longleftrightarrow> bound r \<and>
    (\<exists>key. pk_decode E (key_of r) = Some key \<and> owner_of_key E key = signer_of r \<and>
       pk_verify E key (msg_of r) (sig_of r))"
begin

lemma check_signer:
  assumes "check r" "pk_decode E (key_of r) = Some key"
  shows "signer_of r = owner_of_key E key"
  using assms by (auto simp: check_iff)

lemma minted_checks:
  assumes "sign_ok E" "identity_wf E i" "bound r" "signer_of r = identity_id i"
    "key_of r = public_key_bytes E i" "kp_sign E (signing_key i) (msg_of r) = Some (sig_of r)"
  shows "check r"
proof -
  have "identity_id i = owner_of_key E (kp_public E (signing_key i))"
    using assms(2) by (metis from_keypair_sel(2) identity_wf_def)
  with assms show ?thesis
    by (auto simp: check_iff public_key_bytes_def sign_okD)
qed

lemma check_transfer:
  assumes "check r" "check r'" "signer_of r \<noteq> signer_of r'"
  shows "key_of r \<noteq> key_of r'"
  using assms by (auto simp: check_iff)

lemma check_bound: "check r \<Longrightarrow> bound r"
  by (simp add: check_iff)

end

section \<open>Pointer records\<close>

record AppPointerRecord =
  ptr_name :: string
  ptr_owner :: IdentityId
  ptr_manifest :: ObjectId
  published_at :: u64
  ptr_public_key :: bytes
  ptr_signature :: bytes

definition pointer_signing_bytes :: "string \<Rightarrow> IdentityId \<Rightarrow> ObjectId \<Rightarrow> u64 \<Rightarrow> bytes" where
  "pointer_signing_bytes name owner manifest published =
     str_bytes (name @ '':'' @ owner @ '':'' @ manifest @ '':'' @ u64_str published)"

definition pointer_sign ::
  "'e crypto_scheme \<Rightarrow> Identity \<Rightarrow> u64 \<Rightarrow> string \<Rightarrow> ObjectId \<Rightarrow> AppPointerRecord res" where
  "pointer_sign E i now name manifest =
     (let owner = identity_id i in
      res_bind (sign E i (pointer_signing_bytes name owner manifest now)) (\<lambda>s.
        Inr \<lparr> ptr_name = name, ptr_owner = owner, ptr_manifest = manifest, published_at = now,
              ptr_public_key = public_key_bytes E i, ptr_signature = s \<rparr>))"

definition pointer_key :: "'e crypto_scheme \<Rightarrow> IdentityId \<Rightarrow> string \<Rightarrow> bytes" where
  "pointer_key E owner name =
     sha256 E (str_bytes ''canopee-app-pointer:'' @ str_bytes owner @ str_bytes '':'' @ str_bytes name)"

definition pointer_verify :: "'e crypto_scheme \<Rightarrow> AppPointerRecord \<Rightarrow> bool" where
  "pointer_verify E r =
     (case pk_decode E (ptr_public_key r) of
        None \<Rightarrow> False
      | Some key \<Rightarrow>
          if owner_of_key E key \<noteq> ptr_owner r then False
          else pk_verify E key
                 (pointer_signing_bytes (ptr_name r) (ptr_owner r) (ptr_manifest r) (published_at r))
                 (ptr_signature r))"

definition pointer_msg :: "AppPointerRecord \<Rightarrow> bytes" where
  "pointer_msg r = pointer_signing_bytes (ptr_name r) (ptr_owner r) (ptr_manifest r) (published_at r)"

interpretation pointer: signed_record E ptr_owner ptr_public_key ptr_signature pointer_msg
  "\<lambda>_. True" "pointer_verify E" for E
  by unfold_locales (auto simp: pointer_verify_def pointer_msg_def split: option.splits)

section \<open>Capabilities\<close>

datatype Permission = Read | Write | Publish

fun permission_str :: "Permission \<Rightarrow> string" where
  "permission_str Read = ''read''"
| "permission_str Write = ''write''"
| "permission_str Publish = ''publish''"

definition permission_parse :: "string \<Rightarrow> Permission option" where
  "permission_parse s =
     (if s = ''read'' then Some Read else if s = ''write'' then Some Write
      else if s = ''publish'' then Some Publish else None)"

datatype Resource =
  ObjectRes ObjectId
| SharedName IdentityId string
| Channel string

fun canonical :: "Resource \<Rightarrow> string" where
  "canonical (ObjectRes oid) = ''object:'' @ oid"
| "canonical (SharedName owner name) = ''shared:'' @ owner @ '':'' @ name"
| "canonical (Channel topic) = ''channel:'' @ topic"

definition resource_parse :: "string \<Rightarrow> Resource res" where
  "resource_parse s =
     (case split_once CHR '':'' s of
        None \<Rightarrow> Inl (Bail ''resource must be object:<id> | channel:<topic> | shared:<owner>:<name>'')
      | Some (kind, rest) \<Rightarrow>
          if kind = ''object'' then Inr (ObjectRes rest)
          else if kind = ''channel'' then Inr (Channel rest)
          else if kind = ''shared'' then
            (case split_once CHR '':'' rest of
               None \<Rightarrow> Inl (Bail ''shared resource must be shared:<owner>:<name>'')
             | Some (owner, name) \<Rightarrow> Inr (SharedName owner name))
          else Inl (Bail (''unknown resource kind '' @ kind)))"

type_synonym CapabilityId = string

record Capability =
  cap_id :: CapabilityId
  cap_issuer :: IdentityId
  cap_subject :: IdentityId
  cap_resource :: Resource
  cap_permissions :: "Permission list"
  issued_at :: u64
  expires_at :: "u64 option"
  cap_public_key :: bytes
  cap_signature :: bytes

definition digest_hex :: "'e crypto_scheme \<Rightarrow> bytes \<Rightarrow> string" where
  "digest_hex E bs = hex_encode E (sha256 E bs)"

definition signing_fields ::
  "IdentityId \<Rightarrow> Resource \<Rightarrow> Permission list \<Rightarrow> u64 \<Rightarrow> u64 option \<Rightarrow> string" where
  "signing_fields subject resource perms issued expires =
     subject @ '':'' @ canonical resource @ '':'' @ join '','' (sort (map permission_str perms))
     @ '':'' @ u64_str issued @ '':'' @ (case expires of Some t \<Rightarrow> u64_str t | None \<Rightarrow> [])"

definition cap_signing_bytes :: "string \<Rightarrow> string \<Rightarrow> bytes" where
  "cap_signing_bytes cid flds = str_bytes (''canopee/capability/v1:'' @ cid @ '':'' @ flds)"

definition issue ::
  "'e crypto_scheme \<Rightarrow> Identity \<Rightarrow> u64 \<Rightarrow> IdentityId \<Rightarrow> Resource \<Rightarrow> Permission list \<Rightarrow> u64 option
   \<Rightarrow> Capability res" where
  "issue E i now subject resource perms expires =
     (let flds = signing_fields subject resource perms now expires;
          cid = digest_hex E (str_bytes flds) in
      res_bind (sign E i (cap_signing_bytes cid flds)) (\<lambda>s.
        Inr \<lparr> cap_id = cid, cap_issuer = identity_id i, cap_subject = subject,
              cap_resource = resource, cap_permissions = perms, issued_at = now,
              expires_at = expires, cap_public_key = public_key_bytes E i, cap_signature = s \<rparr>))"

definition cap_fields :: "Capability \<Rightarrow> string" where
  "cap_fields c = signing_fields (cap_subject c) (cap_resource c) (cap_permissions c)
     (issued_at c) (expires_at c)"

definition cap_verify :: "'e crypto_scheme \<Rightarrow> Capability \<Rightarrow> bool" where
  "cap_verify E c =
     (case pk_decode E (cap_public_key c) of
        None \<Rightarrow> False
      | Some key \<Rightarrow>
          if owner_of_key E key \<noteq> cap_issuer c then False
          else let flds = cap_fields c in
            if cap_id c \<noteq> digest_hex E (str_bytes flds) then False
            else pk_verify E key (cap_signing_bytes (cap_id c) flds) (cap_signature c))"

definition is_active_at :: "Capability \<Rightarrow> u64 \<Rightarrow> bool" where
  "is_active_at c now = (now \<ge> issued_at c \<and> (case expires_at c of Some t \<Rightarrow> now \<le> t | None \<Rightarrow> True))"

definition permits ::
  "'e crypto_scheme \<Rightarrow> Capability \<Rightarrow> IdentityId \<Rightarrow> Permission \<Rightarrow> Resource \<Rightarrow> u64 \<Rightarrow> bool" where
  "permits E c subject perm resource now =
     (subject = cap_subject c \<and> cap_resource c = resource \<and> perm \<in> set (cap_permissions c) \<and>
      cap_verify E c \<and> is_active_at c now)"

record ExportCapability =
  export_version :: byte
  export_cap :: Capability

definition cap_export :: "Capability \<Rightarrow> ExportCapability" where
  "cap_export c = \<lparr> export_version = 1, export_cap = c \<rparr>"

definition export_verify :: "'e crypto_scheme \<Rightarrow> ExportCapability \<Rightarrow> bool" where
  "export_verify E x = (export_version x = 1 \<and> cap_verify E (export_cap x))"

record CapabilityEntry =
  entry_cap :: Capability
  entry_revoked :: bool

record CapabilityIndex =
  cap_entries :: "CapabilityEntry list"
  capindex_version :: u64

definition cap_by_id :: "CapabilityIndex \<Rightarrow> CapabilityId \<Rightarrow> CapabilityEntry option" where
  "cap_by_id ix cid = find (\<lambda>e. cap_id (entry_cap e) = cid) (cap_entries ix)"

definition find_active ::
  "'e crypto_scheme \<Rightarrow> CapabilityIndex \<Rightarrow> IdentityId \<Rightarrow> Resource \<Rightarrow> Permission \<Rightarrow> u64
   \<Rightarrow> Capability option" where
  "find_active E ix subject resource perm now =
     find_map (\<lambda>e. let c = entry_cap e in
        if \<not> entry_revoked e \<and> permits E c subject perm resource now then Some c else None)
      (cap_entries ix)"

definition grants ::
  "'e crypto_scheme \<Rightarrow> CapabilityIndex \<Rightarrow> IdentityId \<Rightarrow> Resource \<Rightarrow> Permission \<Rightarrow> u64 \<Rightarrow> bool" where
  "grants E ix subject resource perm now = (find_active E ix subject resource perm now \<noteq> None)"

definition cap_msg :: "Capability \<Rightarrow> bytes" where
  "cap_msg c = cap_signing_bytes (cap_id c) (cap_fields c)"

definition cap_bound :: "'e crypto_scheme \<Rightarrow> Capability \<Rightarrow> bool" where
  "cap_bound E c = (cap_id c = digest_hex E (str_bytes (cap_fields c)))"

interpretation capability: signed_record E cap_issuer cap_public_key cap_signature cap_msg
  "cap_bound E" "cap_verify E" for E
  by unfold_locales (auto simp: cap_verify_def cap_msg_def cap_bound_def Let_def split: option.splits)

section \<open>Serve registrations\<close>

record ServeRegistration =
  reg_app_id :: string
  reg_identity :: IdentityId
  reg_public_key :: bytes
  reg_timestamp :: u64
  reg_signature :: bytes

definition registration_signing_bytes :: "string \<Rightarrow> IdentityId \<Rightarrow> u64 \<Rightarrow> bytes" where
  "registration_signing_bytes app ident ts =
     str_bytes (''canopee-serve-registration:v2:'' @ app @ '':'' @ ident @ '':'' @ u64_str ts)"

definition registration_sign ::
  "'e crypto_scheme \<Rightarrow> Identity \<Rightarrow> string \<Rightarrow> u64 \<Rightarrow> ServeRegistration res" where
  "registration_sign E i app ts =
     res_bind (sign E i (registration_signing_bytes app (identity_id i) ts)) (\<lambda>s.
       Inr \<lparr> reg_app_id = app, reg_identity = identity_id i, reg_public_key = public_key_bytes E i,
             reg_timestamp = ts, reg_signature = s \<rparr>)"

definition registration_verify :: "'e crypto_scheme \<Rightarrow> ServeRegistration \<Rightarrow> bool" where
  "registration_verify E r =
     (case pk_decode E (reg_public_key r) of
        None \<Rightarrow> False
      | Some key \<Rightarrow>
          if owner_of_key E key \<noteq> reg_identity r then False
          else pk_verify E key
                 (registration_signing_bytes (reg_app_id r) (reg_identity r) (reg_timestamp r))
                 (reg_signature r))"

text \<open>The first 32 bytes of the id, or all of it when that is shorter or would cut a character
  (no boundary at 32: a continuation byte there).\<close>

definition app_subdomain :: "string \<Rightarrow> string" where
  "app_subdomain app =
     (if length app < 32 \<or> (32 < length app \<and> in_range 128 191 (of_nat (of_char (app ! 32))))
      then app else take 32 app)"

definition registration_msg :: "ServeRegistration \<Rightarrow> bytes" where
  "registration_msg r = registration_signing_bytes (reg_app_id r) (reg_identity r) (reg_timestamp r)"

interpretation registration: signed_record E reg_identity reg_public_key reg_signature
  registration_msg "\<lambda>_. True" "registration_verify E" for E
  by unfold_locales (auto simp: registration_verify_def registration_msg_def split: option.splits)

section \<open>The canonical texts are unambiguous\<close>

definition canonical_owner :: "IdentityId \<Rightarrow> bool" where
  "canonical_owner i =
     (case strip_prefix ''canopee://identity/'' i of Some pid \<Rightarrow> CHR '':'' \<notin> set pid | None \<Rightarrow> False)"

lemma canonical_ownerE:
  assumes "canonical_owner i"
  obtains pid where "i = ''canopee://identity/'' @ pid" "CHR '':'' \<notin> set pid"
  using assms by (auto simp: canonical_owner_def split: option.splits)

lemma canonical_owner_prefix:
  assumes "i @ '':'' @ x = j @ '':'' @ y" "canonical_owner i" "canonical_owner j"
  shows "i = j \<and> x = y"
proof -
  obtain p q where "i = ''canopee://identity/'' @ p" "CHR '':'' \<notin> set p"
    "j = ''canopee://identity/'' @ q" "CHR '':'' \<notin> set q"
    using assms(2,3) by (auto elim!: canonical_ownerE)
  with assms(1) separator_unique [of p "CHR '':''" x q y] show ?thesis by simp
qed

definition resource_canonical :: "Resource \<Rightarrow> bool" where
  "resource_canonical r = (case r of SharedName owner _ \<Rightarrow> canonical_owner owner | _ \<Rightarrow> True)"

lemma canonical_inject:
  assumes "canonical r = canonical r'" "resource_canonical r" "resource_canonical r'"
  shows "r = r'"
proof (cases "\<exists>o1 n1 o2 n2. r = SharedName o1 n1 \<and> r' = SharedName o2 n2")
  case True
  then obtain o1 n1 o2 n2 where r: "r = SharedName o1 n1" "r' = SharedName o2 n2" by blast
  have e: "o1 @ '':'' @ n1 = o2 @ '':'' @ n2" using assms(1) r by simp
  have "canonical_owner o1" "canonical_owner o2"
    using assms(2,3) r by (simp_all add: resource_canonical_def)
  from canonical_owner_prefix [OF e this] r show ?thesis by simp
next
  case False
  with assms(1) show ?thesis by (cases r; cases r') simp_all
qed

lemma permission_str_colon: "w \<in> set (sort (map permission_str ps)) \<Longrightarrow> CHR '':'' \<notin> set w"
proof -
  have "CHR '':'' \<notin> set (permission_str p)" for p by (cases p) auto
  thus "w \<in> set (sort (map permission_str ps)) \<Longrightarrow> CHR '':'' \<notin> set w" by auto
qed

lemma colon_notin_join: "\<forall>w \<in> set ws. CHR '':'' \<notin> set w \<Longrightarrow> CHR '':'' \<notin> set (join '','' ws)"
  by (induction "'',''" ws rule: join.induct) auto

definition expires_str :: "u64 option \<Rightarrow> string" where
  "expires_str e = (case e of Some t \<Rightarrow> u64_str t | None \<Rightarrow> [])"

lemma expires_str_facts [simp]:
  "CHR '':'' \<notin> set (expires_str e)" "expires_str e = expires_str e' \<longleftrightarrow> e = e'"
  by (auto simp: expires_str_def split: option.splits)

lemma sorted_permissions_inject:
  assumes "join '','' (sort (map permission_str ps)) = join '','' (sort (map permission_str qs))"
  shows "set ps = set qs"
proof -
  have split: "ws = [] \<or> split_all CHR '','' (join '','' ws) = ws"
    if "\<forall>w \<in> set ws. CHR '','' \<notin> set w" for ws :: "string list"
    using that
  proof (induction "'',''" ws rule: join.induct)
    case (2 w)
    have "CHR '','' \<notin> set w \<Longrightarrow> split_all CHR '','' w = [w]"
      by (induction w) auto
    with 2 show ?case by simp
  next
    case (3 w v ws)
    have "CHR '','' \<notin> set w \<Longrightarrow> split_all CHR '','' (w @ CHR '','' # x) = w # split_all CHR '','' x" for x
      by (induction w) auto
    with 3 show ?case by simp
  qed simp
  have comma: "\<forall>w \<in> set (sort (map permission_str rs)). CHR '','' \<notin> set w \<and> w \<noteq> []" for rs
  proof
    fix w assume "w \<in> set (sort (map permission_str rs))"
    then obtain p where "w = permission_str p" by auto
    thus "CHR '','' \<notin> set w \<and> w \<noteq> []" by (cases p) auto
  qed
  have nonempty: "join '','' ws \<noteq> []" if "ws \<noteq> []" "\<forall>w \<in> set ws. w \<noteq> []" for ws :: "string list"
    using that by (cases "('','', ws)" rule: join.cases) auto
  have "sort (map permission_str ps) = sort (map permission_str qs)"
    using assms split [of "sort (map permission_str ps)"] split [of "sort (map permission_str qs)"]
      comma [of ps] comma [of qs] nonempty [of "sort (map permission_str ps)"]
      nonempty [of "sort (map permission_str qs)"]
    by (metis join.simps(1))
  hence "permission_str ` set ps = permission_str ` set qs"
    by (metis list.set_map set_sort)
  moreover have "inj permission_str"
  proof (rule injI)
    fix p q show "permission_str p = permission_str q \<Longrightarrow> p = q" by (cases p; cases q) auto
  qed
  ultimately show ?thesis by (simp add: inj_image_eq_iff)
qed

lemma signing_fields_inject:
  assumes eq: "signing_fields s r ps t e = signing_fields s' r' ps' t' e'"
    and own: "canonical_owner s" "canonical_owner s'" "resource_canonical r" "resource_canonical r'"
  shows "s = s' \<and> r = r' \<and> set ps = set ps' \<and> t = t' \<and> e = e'"
proof -
  let ?P = "\<lambda>qs. join '','' (sort (map permission_str qs))"
  have eq1: "s @ '':'' @ (canonical r @ '':'' @ ?P ps @ '':'' @ u64_str t @ '':'' @ expires_str e)
    = s' @ '':'' @ (canonical r' @ '':'' @ ?P ps' @ '':'' @ u64_str t' @ '':'' @ expires_str e')"
    using eq by (simp add: signing_fields_def expires_str_def)
  from canonical_owner_prefix [OF this own(1,2)]
  have s: "s = s'" and eq2: "(canonical r @ '':'' @ ?P ps @ '':'' @ u64_str t) @ CHR '':'' # expires_str e
    = (canonical r' @ '':'' @ ?P ps' @ '':'' @ u64_str t') @ CHR '':'' # expires_str e'" by auto
  from separator_unique_last [OF eq2]
  have e: "e = e'" and eq3: "(canonical r @ '':'' @ ?P ps) @ CHR '':'' # u64_str t
    = (canonical r' @ '':'' @ ?P ps') @ CHR '':'' # u64_str t'" by auto
  from separator_unique_last [OF eq3]
  have t: "t = t'" and eq4: "canonical r @ CHR '':'' # ?P ps = canonical r' @ CHR '':'' # ?P ps'" by auto
  have colon: "CHR '':'' \<notin> set (?P qs)" for qs
    using colon_notin_join permission_str_colon by blast
  from separator_unique_last [OF eq4 colon colon]
  have "canonical r = canonical r'" "?P ps = ?P ps'" by auto
  with canonical_inject own sorted_permissions_inject s t e show ?thesis by blast
qed

section \<open>Properties\<close>


definition ex_pointer :: "string \<Rightarrow> AppPointerRecord" where
  "ex_pointer name = projr (pointer_sign (sample_crypto ()) (sample_identity 65) 1700 name ''1405'')"


lemma issue_sel:
  assumes "issue E i now subject resource perms expires = Inr c"
  shows "cap_subject c = subject" "cap_resource c = resource" "cap_permissions c = perms"
    "issued_at c = now" "expires_at c = expires" "cap_issuer c = identity_id i"
    "cap_id c = digest_hex E (str_bytes (cap_fields c))"
  using assms by (auto simp: issue_def Let_def cap_fields_def)

lemma issued_capability_verifies:
  assumes "sign_ok E" "identity_wf E i" "issue E i now subject resource perms expires = Inr c"
  shows "cap_verify E c"
  using assms
  by (intro capability.minted_checks [of E i])
     (auto simp: issue_def sign_def Let_def cap_bound_def cap_msg_def cap_fields_def)

text \<open>Property C4. A capability an identity issues is accepted for exactly what was granted: that
  subject, that resource, a listed permission, from the issue time to the expiry.\<close>

theorem issued_capability_permits:
  assumes "sign_ok E" "identity_wf E i" "issue E i now subject resource perms expires = Inr c"
  shows "permits E c s p r t \<longleftrightarrow>
    s = subject \<and> r = resource \<and> p \<in> set perms \<and> now \<le> t \<and> (\<forall>x. expires = Some x \<longrightarrow> t \<le> x)"
proof -
  have "cap_verify E c" using issued_capability_verifies [OF assms] .
  thus ?thesis
    using assms(3)
    by (auto simp: permits_def is_active_at_def issue_def Let_def split: option.splits)
qed

definition ex_capability :: "Permission list \<Rightarrow> Capability" where
  "ex_capability ps = projr (issue (sample_crypto ()) (sample_identity 65) 1700
     ''canopee://identity/42'' (ObjectRes ''1405'') ps (Some 1800))"

lemma ex_capability_issued:
  "issue (sample_crypto ()) (sample_identity 65) 1700 ''canopee://identity/42'' (ObjectRes ''1405'')
     ps (Some 1800) = Inr (ex_capability ps)"
  by (simp add: ex_capability_def issue_def sample_simps)

lemma ex_identity_wf: "identity_wf (sample_crypto ()) (sample_identity 65)"
  by (simp add: identity_wf_def sample_simps)

theorem issued_capability_permits_witness:
  "permits (sample_crypto ()) (ex_capability [Read, Write]) ''canopee://identity/42'' Write
     (ObjectRes ''1405'') 1750 \<and>
   \<not> permits (sample_crypto ()) (ex_capability [Read, Write]) ''canopee://identity/42'' Write
     (ObjectRes ''1405'') 1801"
  using issued_capability_permits [OF sample_sign_ok ex_identity_wf ex_capability_issued] by simp


lemma ex_capability_verifies: "cap_verify (sample_crypto ()) (ex_capability ps)"
  using issued_capability_verifies [OF sample_sign_ok ex_identity_wf ex_capability_issued] .


text \<open>Property C11. \<open>Resource::parse\<close> reads back what \<open>Resource::canonical\<close> wrote for objects and
  channels, and for a shared name exactly when its owner has no colon; the owner of a shared
  name written by a real identity is cut at the colon of its scheme.\<close>

theorem resource_parse_canonical:
  "resource_parse (canonical (ObjectRes oid)) = Inr (ObjectRes oid) \<and>
   resource_parse (canonical (Channel topic)) = Inr (Channel topic) \<and>
   (resource_parse (canonical (SharedName owner name)) = Inr (SharedName owner name) \<longleftrightarrow>
      CHR '':'' \<notin> set owner) \<and>
   resource_parse (canonical (SharedName (''canopee://identity/'' @ pid) name)) =
      Inr (SharedName ''canopee'' (''//identity/'' @ pid @ '':'' @ name))"
proof -
  have kind: "split_once CHR '':'' (''shared:'' @ x) = Some (''shared'', x)" for x by simp
  have "CHR '':'' \<notin> set owner"
    if "resource_parse (canonical (SharedName owner name)) = Inr (SharedName owner name)"
    using that split_once_SomeD
    by (fastforce simp: resource_parse_def split: option.splits)
  thus ?thesis by (auto simp: resource_parse_def)
qed

end
