(* ===== verification/User_Data.thy ===== *)
theory User_Data
  imports Signed_Records
begin

text \<open>
  canopee-storage/src/user.rs: what a person publishes about themselves, every snapshot an object
  and every edit a new version.  \<open>userenv\<close> adds the bincode codecs of these types and of the
  records of \<open>Signed_Records\<close>.
\<close>

record 'a codec =
  enc :: "'a \<Rightarrow> bytes"
  dec :: "bytes \<Rightarrow> 'a option"

definition codec_at :: "'a codec \<Rightarrow> 'a \<Rightarrow> bool" where
  "codec_at c x = (dec c (enc c x) = Some x)"

definition RECORD_PROFILE :: string where "RECORD_PROFILE = ''profile''"
definition RECORD_CONTACTS :: string where "RECORD_CONTACTS = ''contacts''"
definition RECORD_HOME :: string where "RECORD_HOME = ''home''"
definition RECORD_USERNAME :: string where "RECORD_USERNAME = ''username''"
definition USERNAME_REGISTRY_PREFIX :: string where "USERNAME_REGISTRY_PREFIX = ''username:''"
definition RECORD_DEVICES :: string where "RECORD_DEVICES = ''devices''"
definition DEVICE_REGISTRY_PREFIX :: string where "DEVICE_REGISTRY_PREFIX = ''device:''"
definition RECORD_CAPABILITIES :: string where "RECORD_CAPABILITIES = ''capabilities''"

record Profile =
  display_name :: string
  profile_dh_key :: bytes
  avatar :: "ObjectId option"
  profile_version :: u64

record UsernameRecord =
  username :: string
  username_version :: u64

record Contact =
  contact_name :: string
  contact_peer_id :: string
  contact_dh_key :: bytes
  contact_note :: "string option"

record ContactList =
  contacts :: "Contact list"
  contacts_version :: u64

record HomeEntry =
  home_name :: string
  home_object :: ObjectId
  home_type :: ObjectType
  home_shared :: bool
  home_app :: "string option"

record HomeIndex =
  home_profile :: "ObjectId option"
  home_contacts :: "ObjectId option"
  home_entries :: "HomeEntry list"
  home_version :: u64

record DeviceEntry =
  device_entry_id :: string
  device_entry_name :: string
  added_at :: "int option"

record DeviceList =
  devices :: "DeviceEntry list"
  devices_version :: u64

record userenv = cacheenv +
  pointer_codec :: "AppPointerRecord codec"
  capability_codec :: "Capability codec"
  capindex_codec :: "CapabilityIndex codec"
  profile_codec :: "Profile codec"
  username_codec :: "UsernameRecord codec"
  contacts_codec :: "ContactList codec"
  home_codec :: "HomeIndex codec"
  devices_codec :: "DeviceList codec"

definition profile_object :: "'e userenv_scheme \<Rightarrow> Identity \<Rightarrow> u64 \<Rightarrow> Profile \<Rightarrow> Object res" where
  "profile_object E i now p = object_new E i now (enc (profile_codec E) p) ProfileT"

definition username_object :: "'e userenv_scheme \<Rightarrow> Identity \<Rightarrow> u64 \<Rightarrow> UsernameRecord \<Rightarrow> Object res" where
  "username_object E i now u = object_new E i now (enc (username_codec E) u) ProfileT"

definition contacts_object :: "'e userenv_scheme \<Rightarrow> Identity \<Rightarrow> u64 \<Rightarrow> ContactList \<Rightarrow> Object res" where
  "contacts_object E i now l = object_new E i now (enc (contacts_codec E) l) ContactListT"

definition contact_by_peer_id :: "ContactList \<Rightarrow> string \<Rightarrow> Contact option" where
  "contact_by_peer_id l pid = find (\<lambda>c. contact_peer_id c = pid) (contacts l)"

definition home_object_of :: "'e userenv_scheme \<Rightarrow> Identity \<Rightarrow> u64 \<Rightarrow> HomeIndex \<Rightarrow> Object res" where
  "home_object_of E i now h = object_new E i now (enc (home_codec E) h) HomeIndexT"

definition devices_object :: "'e userenv_scheme \<Rightarrow> Identity \<Rightarrow> u64 \<Rightarrow> DeviceList \<Rightarrow> Object res" where
  "devices_object E i now l = object_new E i now (enc (devices_codec E) l) ProfileT"

definition by_device_id :: "DeviceList \<Rightarrow> string \<Rightarrow> DeviceEntry option" where
  "by_device_id l did = find (\<lambda>d. device_entry_id d = did) (devices l)"

definition capability_object :: "'e userenv_scheme \<Rightarrow> Identity \<Rightarrow> u64 \<Rightarrow> Capability \<Rightarrow> Object res" where
  "capability_object E i now c = object_new E i now (enc (capability_codec E) c) CapabilityT"

definition capindex_object :: "'e userenv_scheme \<Rightarrow> Identity \<Rightarrow> u64 \<Rightarrow> CapabilityIndex \<Rightarrow> Object res" where
  "capindex_object E i now ix = object_new E i now (enc (capindex_codec E) ix) CapabilityIndexT"

lemma codec_atD [simp]: "codec_at c x \<Longrightarrow> dec c (enc c x) = Some x"
  by (simp add: codec_at_def)

end
