(* ===== verification/Object_Envelope.thy ===== *)
theory Object_Envelope
  imports Identities
begin

text \<open>
  canopee-identity/src/envelope.rs: recipient-scoped encryption of stored objects.  A header with
  the recipient count, one block per recipient that wraps the content key, then the ciphertext.
  The random bytes are an argument: the content key, the salt, the content nonce and, for the
  n-th recipient, an ephemeral secret and a nonce.
\<close>

definition ENV_MAGIC :: bytes where "ENV_MAGIC = str_bytes ''CNP1''"
definition ENV_VERSION :: byte where "ENV_VERSION = 1"
definition ENV_SALT_LEN :: nat where "ENV_SALT_LEN = 8"
definition CONTENT_NONCE_LEN :: nat where "CONTENT_NONCE_LEN = 24"
definition WRAP_NONCE_LEN :: nat where "WRAP_NONCE_LEN = 24"
definition TAG_LEN :: nat where "TAG_LEN = 16"
definition WRAPPED_KEY_LEN :: nat where "WRAPPED_KEY_LEN = KEY_LEN + TAG_LEN"
definition EPK_LEN :: nat where "EPK_LEN = 32"
definition PER_RECIPIENT_LEN :: nat where
  "PER_RECIPIENT_LEN = EPK_LEN + WRAP_NONCE_LEN + WRAPPED_KEY_LEN"
definition ENV_HEADER_LEN :: nat where
  "ENV_HEADER_LEN = 4 + 1 + 1 + 2 + ENV_SALT_LEN + CONTENT_NONCE_LEN"
definition WRAP_INFO :: bytes where "WRAP_INFO = str_bytes ''canopee/object-wrap/v1''"

definition is_envelope :: "bytes \<Rightarrow> bool" where
  "is_envelope bs = (ENV_HEADER_LEN < length bs \<and> take 4 bs = ENV_MAGIC)"

datatype EnvelopeError =
  NotEncrypted
| UnsupportedVersion byte
| Malformed string
| NoMatchingRecipient
| DecryptFailed

record env_random =
  rnd_content_key :: bytes
  rnd_salt :: bytes
  rnd_content_nonce :: bytes
  rnd_wrap :: "nat \<Rightarrow> bytes \<times> bytes"

definition derive_wrap_key :: "'e crypto_scheme \<Rightarrow> bytes \<Rightarrow> bytes \<Rightarrow> bytes \<Rightarrow> bytes \<Rightarrow> bytes" where
  "derive_wrap_key E shared salt epk recipient_pub =
     hkdf_sha256 E salt shared (WRAP_INFO @ epk @ recipient_pub)"

definition add_recipient :: "bytes \<Rightarrow> bytes list \<Rightarrow> bytes list" where
  "add_recipient pub rs = (if pub \<noteq> hd rs \<and> pub \<notin> set rs then rs @ [pub] else rs)"

definition recipients :: "'e crypto_scheme \<Rightarrow> Identity \<Rightarrow> bytes list \<Rightarrow> bytes list" where
  "recipients E i also_for = fold add_recipient also_for [dh_public_key E i]"

definition wrap_block ::
  "'e crypto_scheme \<Rightarrow> env_random \<Rightarrow> nat \<Rightarrow> bytes \<Rightarrow> EnvelopeError + bytes" where
  "wrap_block E rnd n pub =
     (let (esk, wrap_nonce) = rnd_wrap rnd n;
          epk = x25519_public E esk;
          shared = x25519_dh E esk pub;
          wrap_key = derive_wrap_key E shared (rnd_salt rnd) epk pub
      in case aead_encrypt E wrap_key wrap_nonce (rnd_content_key rnd) of
           None \<Rightarrow> Inl (Malformed ''content key wrap failed'')
         | Some wrapped \<Rightarrow> Inr (epk @ wrap_nonce @ wrapped))"

fun wrap_blocks ::
  "'e crypto_scheme \<Rightarrow> env_random \<Rightarrow> nat \<Rightarrow> bytes list \<Rightarrow> EnvelopeError + bytes" where
  "wrap_blocks E rnd n [] = Inr []"
| "wrap_blocks E rnd n (pub # pubs) =
     res_bind (wrap_block E rnd n pub) (\<lambda>b.
     res_bind (wrap_blocks E rnd (Suc n) pubs) (\<lambda>bs. Inr (b @ bs)))"

definition env_header :: "env_random \<Rightarrow> nat \<Rightarrow> bytes" where
  "env_header rnd n = ENV_MAGIC @ [ENV_VERSION] @ [0] @ le_bytes 2 (unat (of_nat n :: u16))
     @ rnd_salt rnd @ rnd_content_nonce rnd"

definition encrypt_for_recipients ::
  "'e crypto_scheme \<Rightarrow> env_random \<Rightarrow> Identity \<Rightarrow> bytes \<Rightarrow> bytes list \<Rightarrow> EnvelopeError + bytes" where
  "encrypt_for_recipients E rnd i plaintext also_for =
     (let rs = recipients E i also_for in
      case aead_encrypt E (rnd_content_key rnd) (rnd_content_nonce rnd) plaintext of
        None \<Rightarrow> Inl (Malformed ''content encryption failed'')
      | Some ciphertext \<Rightarrow>
          res_bind (wrap_blocks E rnd 0 rs) (\<lambda>blocks.
            Inr (env_header rnd (length rs) @ blocks @ ciphertext)))"

definition open_block ::
  "'e crypto_scheme \<Rightarrow> Identity \<Rightarrow> bytes \<Rightarrow> bytes \<Rightarrow> nat \<Rightarrow> bytes option" where
  "open_block E i bs salt n =
     (let base = ENV_HEADER_LEN + n * PER_RECIPIENT_LEN;
          epk = slice base (base + EPK_LEN) bs;
          wrap_nonce = slice (base + EPK_LEN) (base + EPK_LEN + WRAP_NONCE_LEN) bs;
          wrapped = slice (base + EPK_LEN + WRAP_NONCE_LEN) (base + PER_RECIPIENT_LEN) bs
      in if epk = replicate 32 0 then None
         else let shared = x25519_dh E (derive_dh_secret E (signing_key i)) epk;
                  wrap_key = derive_wrap_key E shared salt epk (dh_public_key E i)
              in case aead_decrypt E wrap_key wrap_nonce wrapped of
                   Some key \<Rightarrow> if length key = KEY_LEN then Some key else None
                 | None \<Rightarrow> None)"

definition decrypt_envelope ::
  "'e crypto_scheme \<Rightarrow> Identity \<Rightarrow> bytes \<Rightarrow> EnvelopeError + bytes" where
  "decrypt_envelope E i bs =
     (if \<not> is_envelope bs then Inl NotEncrypted
      else let version = bs ! 4 in
      if version \<noteq> ENV_VERSION then Inl (UnsupportedVersion version)
      else let count = of_le_bytes [bs ! 6, bs ! 7] in
      if count = 0 then Inl (Malformed ''envelope has no recipients'')
      else let salt = slice 8 (8 + ENV_SALT_LEN) bs;
               content_nonce = slice (8 + ENV_SALT_LEN) ENV_HEADER_LEN bs;
               recipients_end = ENV_HEADER_LEN + count * PER_RECIPIENT_LEN
      in if length bs < recipients_end then Inl (Malformed ''envelope is truncated'')
      else case find_map (open_block E i bs salt) [0..<count] of
             None \<Rightarrow> Inl NoMatchingRecipient
           | Some content_key \<Rightarrow>
               ok_or (aead_decrypt E content_key content_nonce (drop recipients_end bs)) DecryptFailed)"

definition decrypt_if_encrypted ::
  "'e crypto_scheme \<Rightarrow> Identity \<Rightarrow> bytes \<Rightarrow> EnvelopeError + bytes" where
  "decrypt_if_encrypted E i bs =
     (if \<not> is_envelope bs then Inr bs else decrypt_envelope E i bs)"

section \<open>The blocks of an envelope\<close>

lemma env_lengths [simp]:
  "ENV_HEADER_LEN = 40" "PER_RECIPIENT_LEN = 104" "ENV_SALT_LEN = 8" "CONTENT_NONCE_LEN = 24"
  "WRAP_NONCE_LEN = 24" "EPK_LEN = 32" "KEY_LEN = 32" "length ENV_MAGIC = 4"
  by (simp_all add: ENV_HEADER_LEN_def PER_RECIPIENT_LEN_def ENV_SALT_LEN_def CONTENT_NONCE_LEN_def
      WRAP_NONCE_LEN_def EPK_LEN_def WRAPPED_KEY_LEN_def KEY_LEN_def TAG_LEN_def ENV_MAGIC_def)

definition rnd_ok :: "'e crypto_scheme \<Rightarrow> env_random \<Rightarrow> bool" where
  "rnd_ok E rnd = (length (rnd_content_key rnd) = 32 \<and> length (rnd_salt rnd) = 8 \<and>
     length (rnd_content_nonce rnd) = 24 \<and>
     (\<forall>n. length (snd (rnd_wrap rnd n)) = 24 \<and>
          x25519_public E (fst (rnd_wrap rnd n)) \<noteq> replicate 32 0))"

lemma wrap_block_length:
  assumes "aead_ok E" "x25519_ok E" "rnd_ok E rnd" "wrap_block E rnd n pub = Inr b"
  shows "length b = 104"
proof -
  obtain esk nonce where r: "rnd_wrap rnd n = (esk, nonce)" by (cases "rnd_wrap rnd n")
  have "length nonce = 24" using assms(3) r unfolding rnd_ok_def by (metis snd_conv)
  with assms r show ?thesis
    by (auto simp: wrap_block_def Let_def rnd_ok_def x25519_okD dest: aead_okD(2)
        split: option.splits)
qed

lemma wrap_blocks_nth:
  assumes "aead_ok E" "x25519_ok E" "rnd_ok E rnd"
  shows "wrap_blocks E rnd n pubs = Inr bs \<Longrightarrow>
    length bs = 104 * length pubs \<and>
    (\<forall>j < length pubs. wrap_block E rnd (n + j) (pubs ! j) = Inr (take 104 (drop (104 * j) bs)))"
proof (induction pubs arbitrary: n bs)
  case (Cons pub pubs)
  then obtain b bs' where b: "wrap_block E rnd n pub = Inr b"
    and bs': "wrap_blocks E rnd (Suc n) pubs = Inr bs'" and bs: "bs = b @ bs'" by auto
  have len: "length b = 104" using wrap_block_length [OF assms b] .
  note IH = Cons.IH [OF bs']
  have "wrap_block E rnd (n + j) ((pub # pubs) ! j) = Inr (take 104 (drop (104 * j) bs))"
    if "j < length (pub # pubs)" for j
  proof (cases j)
    case 0
    with b bs len show ?thesis by simp
  next
    case (Suc k)
    with IH that bs len show ?thesis by auto
  qed
  with IH bs len show ?case by simp
qed simp

lemma slice_within:
  assumes "y \<le> m" shows "slice (base + x) (base + y) bs = slice x y (take m (drop base bs))"
  using assms by (simp add: slice_def drop_take min_def add.commute)

text \<open>The block wrapped for a key opens under the identity that has it.\<close>

lemma open_own_block:
  assumes laws: "aead_ok E" "x25519_ok E" "rnd_ok E rnd" "identity_wf E i"
    and b: "wrap_block E rnd k (dh_public_key E i) = Inr (take 104 (drop (40 + n * 104) bs))"
  shows "open_block E i bs (rnd_salt rnd) n = Some (rnd_content_key rnd)"
proof -
  let ?b = "take 104 (drop (40 + n * 104) bs)"
  obtain esk nonce where r: "rnd_wrap rnd k = (esk, nonce)" by (cases "rnd_wrap rnd k")
  have r': "length nonce = 24" "x25519_public E esk \<noteq> replicate 32 0"
    "length (rnd_content_key rnd) = 32"
    using laws(3) r unfolding rnd_ok_def by (metis fst_conv snd_conv)+
  let ?epk = "x25519_public E esk"
  have dh: "dh_secret i = derive_dh_secret E (signing_key i)"
    using laws(4) by (metis from_keypair_sel(3) identity_wf_def)
  define wk where "wk = derive_wrap_key E (x25519_dh E esk (dh_public_key E i)) (rnd_salt rnd) ?epk
      (dh_public_key E i)"
  obtain w where w: "aead_encrypt E wk nonce (rnd_content_key rnd) = Some w"
    and blk: "?b = ?epk @ nonce @ w"
    using b r by (auto simp: wrap_block_def Let_def wk_def split: option.splits)
  have "length ?epk = 32" "length w = 48"
    using x25519_okD(2) [OF laws(2)] aead_okD(2) [OF laws(1) w] r' by auto
  hence parts: "slice 0 32 ?b = ?epk" "slice 32 56 ?b = nonce" "slice 56 104 ?b = w"
    using r' unfolding blk by (auto simp: slice_def)
  have wk': "wk = derive_wrap_key E (x25519_dh E (derive_dh_secret E (signing_key i)) ?epk)
      (rnd_salt rnd) ?epk (dh_public_key E i)"
    using x25519_okD(1) [OF laws(2)] by (simp add: wk_def dh_public_key_def dh)
  have "aead_decrypt E wk nonce w = Some (rnd_content_key rnd)"
    using aead_okD(1) [OF laws(1) w] .
  with parts r' show ?thesis
    using slice_within [of 32 104 "40 + n * 104" 0 bs] slice_within [of 56 104 "40 + n * 104" 32 bs]
      slice_within [of 104 104 "40 + n * 104" 56 bs]
    by (simp add: open_block_def Let_def wk' [symmetric] add.assoc)
qed

lemma recipients_hd: "\<exists>rs. recipients E i also_for = dh_public_key E i # rs"
proof -
  have "\<exists>rs'. fold add_recipient ps (x # rs) = x # rs'" for ps x rs
    by (induction ps arbitrary: rs) (auto simp: add_recipient_def)
  thus ?thesis by (simp add: recipients_def)
qed

lemma recipients_set: "set (recipients E i also_for) = insert (dh_public_key E i) (set also_for)"
proof -
  have "set (fold add_recipient ps rs) = set rs \<union> set ps" if "rs \<noteq> []" for ps rs
    using that
  proof (induction ps arbitrary: rs)
    case (Cons p ps)
    have "add_recipient p rs \<noteq> []" "set (add_recipient p rs) = insert p (set rs)"
      using Cons.prems by (auto simp: add_recipient_def)
    with Cons.IH show ?case by auto
  qed simp
  thus ?thesis by (simp add: recipients_def)
qed

lemma recipients_distinct: "distinct (recipients E i also_for)"
proof -
  have "distinct (fold add_recipient ps rs)" if "distinct rs" for ps rs
    using that by (induction ps arbitrary: rs) (auto simp: add_recipient_def)
  thus ?thesis by (simp add: recipients_def)
qed

lemma recipients_length: "length (recipients E i also_for) \<le> Suc (length also_for)"
proof -
  have "length (fold add_recipient ps rs) \<le> length rs + length ps" for ps rs
  proof (induction ps arbitrary: rs)
    case (Cons p ps)
    have "length (add_recipient p rs) \<le> Suc (length rs)" by (simp add: add_recipient_def)
    with Cons [of "add_recipient p rs"] show ?case by simp
  qed simp
  from this [of also_for "[dh_public_key E i]"] show ?thesis by (simp add: recipients_def)
qed

text \<open>The count is kept in 16 bits: with 65536 recipients it is written as zero, and the envelope
  opens for nobody.\<close>

lemma too_many_recipients:
  assumes "rnd_ok E rnd" "encrypt_for_recipients E rnd i plaintext also_for = Inr bs" "bs \<noteq> env_header rnd 65536"
    "length (recipients E i also_for) = 65536"
  shows "decrypt_envelope E reader bs = Inl (Malformed ''envelope has no recipients'')"
proof -
  obtain r where bs: "bs = env_header rnd 65536 @ r" and r: "r \<noteq> []"
    using assms(2-4) by (auto simp: encrypt_for_recipients_def Let_def split: option.splits)
  have "(of_nat 65536 :: u16) = 0" by simp
  hence hdr: "env_header rnd 65536 = ENV_MAGIC @ [ENV_VERSION, 0, 0, 0] @ rnd_salt rnd @ rnd_content_nonce rnd"
    by (simp add: env_header_def numeral_2_eq_2 del: of_nat_numeral)
  have len: "length (env_header rnd 65536) = 40" and rpos: "0 < length r"
    using assms(1) r by (auto simp: hdr rnd_ok_def)
  have long: "40 < length bs" unfolding bs using len rpos by (metis length_append less_add_same_cancel1)
  have "of_le_bytes [bs ! 6, bs ! 7] = 0"
    by (simp add: bs hdr nth_append)
  moreover have "bs ! 4 = ENV_VERSION" "take 4 bs = ENV_MAGIC"
    by (simp_all add: bs hdr nth_append)
  ultimately show ?thesis
    using long by (simp add: decrypt_envelope_def is_envelope_def Let_def del: of_le_bytes.simps)
qed

text \<open>Everything the decoder reads from an envelope the encoder wrote.\<close>

lemma encrypted_layout:
  assumes laws: "aead_ok E" "x25519_ok E" "rnd_ok E rnd"
    and enc: "encrypt_for_recipients E rnd i plaintext also_for = Inr bs"
    and count: "length (recipients E i also_for) < 65536"
  defines "rs \<equiv> recipients E i also_for"
  shows "find_map (open_block E reader bs (rnd_salt rnd)) [0..<length rs] = Some (rnd_content_key rnd)
      \<Longrightarrow> decrypt_envelope E reader bs = Inr plaintext"
    and "\<forall>n < length rs. wrap_block E rnd n (rs ! n) = Inr (take 104 (drop (40 + n * 104) bs))"
    and "is_envelope bs"
proof -
  obtain ct blocks where ct: "aead_encrypt E (rnd_content_key rnd) (rnd_content_nonce rnd) plaintext = Some ct"
    and wb: "wrap_blocks E rnd 0 rs = Inr blocks" and bs: "bs = env_header rnd (length rs) @ blocks @ ct"
    using enc by (auto simp: encrypt_for_recipients_def Let_def rs_def split: option.splits)
  note nth = wrap_blocks_nth [OF laws wb]
  have hdr: "length (env_header rnd (length rs)) = 40"
    using laws(3) by (simp add: env_header_def rnd_ok_def)
  have "unat (of_nat (length rs) :: u16) = length rs"
    using count by (simp add: unat_of_nat take_bit_nat_eq_self rs_def)
  moreover have "of_le_bytes (le_bytes 2 (length rs)) = length rs"
    using count by (intro of_le_bytes_le_bytes) (simp add: rs_def)
  ultimately have cnt: "of_le_bytes [bs ! 6, bs ! 7] = length rs"
    by (simp add: bs env_header_def nth_append numeral_2_eq_2)
  have ver: "bs ! 4 = ENV_VERSION" "take 4 bs = ENV_MAGIC"
    by (simp_all add: bs env_header_def nth_append)
  have salt: "slice 8 16 bs = rnd_salt rnd" "slice 16 40 bs = rnd_content_nonce rnd"
    using laws(3) by (auto simp: bs env_header_def rnd_ok_def slice_def)
  have rest: "drop (40 + length rs * 104) bs = ct"
    using nth hdr by (simp add: bs)
  have "length rs \<noteq> 0" "length bs \<ge> 40 + length rs * 104"
    using nth hdr recipients_hd [of E i also_for] by (auto simp: bs rs_def)
  moreover from this have long: "40 < length bs" by (cases "length rs") auto
  ultimately show "decrypt_envelope E reader bs = Inr plaintext"
    if "find_map (open_block E reader bs (rnd_salt rnd)) [0..<length rs] = Some (rnd_content_key rnd)"
    using that cnt ver salt rest aead_okD(1) [OF laws(1) ct]
    by (simp add: decrypt_envelope_def is_envelope_def Let_def del: of_le_bytes.simps find_map_None)
  show "\<forall>n < length rs. wrap_block E rnd n (rs ! n) = Inr (take 104 (drop (40 + n * 104) bs))"
    using nth hdr by (auto simp: bs mult.commute)
  show "is_envelope bs" using long ver by (simp add: is_envelope_def)
qed

lemma find_map_nth:
  "n < length xs \<Longrightarrow> f (xs ! n) = Some y \<Longrightarrow>
   find_map f xs = Some y \<or> (\<exists>m < n. \<exists>z. f (xs ! m) = Some z \<and> z \<noteq> y)"
proof (induction xs arbitrary: n)
  case (Cons x xs)
  show ?case
  proof (cases n)
    case 0
    with Cons.prems show ?thesis by simp
  next
    case (Suc k)
    with Cons.IH [of k] Cons.prems
    have IH: "find_map f xs = Some y \<or> (\<exists>m < k. \<exists>z. f (xs ! m) = Some z \<and> z \<noteq> y)" by simp
    show ?thesis
    proof (cases "f x")
      case None
      with IH Suc show ?thesis by (metis Suc_mono find_map.simps(2) nth_Cons_Suc option.simps(4))
    next
      case (Some w)
      with Suc show ?thesis by (cases "w = y") (auto intro!: exI [of _ 0])
    qed
  qed
qed simp

lemma own_envelope_opens:
  assumes laws: "aead_ok E" "x25519_ok E" "rnd_ok E rnd" "identity_wf E i"
    and enc: "encrypt_for_recipients E rnd i plaintext also_for = Inr bs"
    and count: "length (recipients E i also_for) < 65536"
  shows "decrypt_envelope E i bs = Inr plaintext" "is_envelope bs"
proof -
  note layout = encrypted_layout [OF laws(1-3) enc count]
  obtain rs where rs: "recipients E i also_for = dh_public_key E i # rs"
    using recipients_hd by blast
  hence "wrap_block E rnd 0 (dh_public_key E i) = Inr (take 104 (drop (40 + 0 * 104) bs))"
    using layout(2) by auto
  from open_own_block [OF laws this]
  have "find_map (open_block E i bs (rnd_salt rnd)) [0..<length (recipients E i also_for)]
      = Some (rnd_content_key rnd)"
    using rs by (simp add: upt_conv_Cons del: upt_Suc)
  thus "decrypt_envelope E i bs = Inr plaintext" by (rule layout(1))
  show "is_envelope bs" by (rule layout(3))
qed

section \<open>Properties\<close>

text \<open>Property C3. Every recipient reads the plaintext back, unless a block of an earlier
  recipient opens under the reader's key to a different content key, which is a forgery against
  the cipher.  For the encrypting identity itself, which comes first, there is no exception.\<close>

theorem recipients_read_plaintext:
  assumes "aead_ok E" "x25519_ok E" "rnd_ok E rnd" "identity_wf E reader"
    "encrypt_for_recipients E rnd i plaintext also_for = Inr bs"
    "length (recipients E i also_for) < 65536"
    "dh_public_key E reader \<in> insert (dh_public_key E i) (set also_for)"
  shows "decrypt_envelope E reader bs = Inr plaintext \<or>
    (dh_public_key E reader \<noteq> dh_public_key E i \<and>
     (\<exists>m < length also_for. \<exists>key. open_block E reader bs (rnd_salt rnd) m = Some key \<and>
        key \<noteq> rnd_content_key rnd))"
proof -
  let ?rs = "recipients E i also_for"
  define n where "n = (LEAST n. n < length ?rs \<and> ?rs ! n = dh_public_key E reader)"
  have "\<exists>n. n < length ?rs \<and> ?rs ! n = dh_public_key E reader"
    using assms(7) recipients_set [of E i also_for] by (metis in_set_conv_nth)
  hence n: "n < length ?rs" "?rs ! n = dh_public_key E reader"
    unfolding n_def by (metis (mono_tags, lifting) LeastI)+
  have zero: "n = 0" if "dh_public_key E reader = dh_public_key E i"
    unfolding n_def using that recipients_hd [of E i also_for]
    by (intro Least_equality) auto
  note layout = encrypted_layout [OF assms(1,2,3,5,6)]
  from layout(2) n have "wrap_block E rnd n (dh_public_key E reader) = Inr (take 104 (drop (40 + n * 104) bs))"
    by metis
  from open_own_block [OF assms(1-4) this]
  have own: "open_block E reader bs (rnd_salt rnd) ([0..<length ?rs] ! n) = Some (rnd_content_key rnd)"
    using n by simp
  from find_map_nth [where f = "open_block E reader bs (rnd_salt rnd)", OF _ own] n
  consider "find_map (open_block E reader bs (rnd_salt rnd)) [0..<length ?rs] = Some (rnd_content_key rnd)"
    | m z where "m < n" "open_block E reader bs (rnd_salt rnd) m = Some z" "z \<noteq> rnd_content_key rnd"
    by auto
  thus ?thesis
  proof cases
    case 1
    with layout(1) [of reader] show ?thesis by simp
  next
    case 2
    with zero n recipients_length [of E i also_for] show ?thesis by (intro disjI2) (auto intro!: exI [of _ m])
  qed
qed

definition ex_rnd :: env_random where
  "ex_rnd = \<lparr> rnd_content_key = replicate 32 1, rnd_salt = replicate 8 2,
     rnd_content_nonce = replicate 24 3, rnd_wrap = (\<lambda>n. (replicate 32 5, replicate 24 (of_nat n))) \<rparr>"

definition ex_person :: "byte \<Rightarrow> Identity" where
  "ex_person b = from_keypair (sample_crypto ()) (Keypair [b])"

lemma ex_rnd_ok: "rnd_ok (sample_crypto ()) ex_rnd"
proof -
  have "replicate 32 (5 :: byte) \<noteq> replicate 32 0"
    by (simp add: list_eq_iff_nth_eq) (intro exI [of _ 0], simp)
  thus ?thesis by (simp add: rnd_ok_def ex_rnd_def pad32_def)
qed

lemma sample_wrap_blocks: "\<exists>bs. wrap_blocks (sample_crypto ()) rnd n pubs = Inr bs"
  by (induction pubs arbitrary: n)
     (auto simp: wrap_block_def Let_def split: prod.splits)

theorem recipients_read_plaintext_witness:
  "\<exists>bs. encrypt_for_recipients (sample_crypto ()) ex_rnd (ex_person 65) [104, 105]
          [dh_public_key (sample_crypto ()) (ex_person 66)] = Inr bs \<and>
        decrypt_envelope (sample_crypto ()) (ex_person 65) bs = Inr [104, 105]"
proof -
  let ?E = "sample_crypto ()" and ?also = "[dh_public_key (sample_crypto ()) (ex_person 66)]"
  obtain bs where bs: "encrypt_for_recipients ?E ex_rnd (ex_person 65) [104, 105] ?also = Inr bs"
    using sample_wrap_blocks [of ex_rnd 0 "recipients ?E (ex_person 65) ?also"]
    by (auto simp: encrypt_for_recipients_def Let_def)
  have "length (recipients ?E (ex_person 65) ?also) < 65536"
    using recipients_length [of ?E "ex_person 65" ?also] by simp
  with bs recipients_read_plaintext [of ?E ex_rnd "ex_person 65" "ex_person 65" "[104, 105]" ?also bs]
  show ?thesis by (auto simp: ex_rnd_ok ex_person_def)
qed

end
