(* ===== verification/Config_Uri.thy ===== *)
theory Config_Uri
  imports Host_IO Cache_Index "HOL-Library.List_Lexorder" "HOL-Library.Char_ord"
    "HOL-Library.Product_Lexorder"
begin

text \<open>
  canopee-config/src/lib.rs, the split of the per-app root and the per-user root with every path
  below them, and canopee-cli/src/uri.rs, \<open>canopee://\<close> addresses and the alias file.  Environment
  variables are arguments; the JSON codec of the alias map is the pair \<open>jdec\<close>, \<open>jenc\<close>.
\<close>

section \<open>Configuration\<close>

record Config =
  app_root :: string
  user_root :: string
  mdns_enabled :: bool

definition path_join :: "string \<Rightarrow> string \<Rightarrow> string" where
  "path_join a b = a @ ''/'' @ b"

definition config_new :: "string option \<Rightarrow> string \<Rightarrow> string option \<Rightarrow> Config" where
  "config_new app_root_var home_dir mdns_var =
     (let base = (case app_root_var of Some v \<Rightarrow> v | None \<Rightarrow> home_dir);
          root = path_join base ''.canopee'';
          mdns = (case mdns_var of
                    Some v \<Rightarrow> to_lower v \<notin> set [''0'', ''false'', ''no'', ''off'']
                  | None \<Rightarrow> True)
      in \<lparr> app_root = root, user_root = root, mdns_enabled = mdns \<rparr>)"

definition with_root :: "string \<Rightarrow> Config" where
  "with_root root = \<lparr> app_root = root, user_root = root, mdns_enabled = True \<rparr>"

definition with_app_root :: "string \<Rightarrow> Config \<Rightarrow> Config" where
  "with_app_root r c = c \<lparr> app_root := r \<rparr>"

definition with_user_root :: "string \<Rightarrow> Config \<Rightarrow> Config" where
  "with_user_root r c = c \<lparr> user_root := r \<rparr>"

definition with_roots :: "string \<Rightarrow> string \<Rightarrow> Config \<Rightarrow> Config" where
  "with_roots r u c = c \<lparr> app_root := r, user_root := u \<rparr>"

definition with_mdns :: "bool \<Rightarrow> Config \<Rightarrow> Config" where
  "with_mdns b c = c \<lparr> mdns_enabled := b \<rparr>"

definition identity_path :: "Config \<Rightarrow> string" where
  "identity_path c = path_join (user_root c) ''identity''"

definition device_key_path :: "Config \<Rightarrow> string" where
  "device_key_path c = path_join (identity_path c) ''device.key''"

definition storage_path :: "Config \<Rightarrow> string" where
  "storage_path c = path_join (user_root c) ''storage''"

definition records_path :: "Config \<Rightarrow> string" where
  "records_path c = path_join (user_root c) ''records''"

definition export_path :: "Config \<Rightarrow> string" where
  "export_path c = path_join (app_root c) ''exports''"

definition node_socket_path :: "Config \<Rightarrow> string" where
  "node_socket_path c = path_join (app_root c) ''node.sock''"

definition aliases_path :: "Config \<Rightarrow> string" where
  "aliases_path c = path_join (user_root c) ''aliases''"

definition uri_pending_path :: "Config \<Rightarrow> string" where
  "uri_pending_path c = path_join (app_root c) ''uri-pending''"

definition listen_addr :: "string option \<Rightarrow> string" where
  "listen_addr port_var = ''/ip4/0.0.0.0/tcp/'' @ (case port_var of Some p \<Rightarrow> p | None \<Rightarrow> ''0'')"

definition state_path :: "Config \<Rightarrow> string" where
  "state_path c = path_join (path_join (app_root c) ''state'') ''node.state''"

definition cache_file_path :: "Config \<Rightarrow> string" where
  "cache_file_path c = path_join (app_root c) ''cache.cache''"

section \<open>Addresses\<close>

definition split_uri :: "string \<Rightarrow> (string \<times> string) res" where
  "split_uri uri =
     (case strip_prefix ''canopee://'' uri of
        None \<Rightarrow> Inl (Bail (''not a canopee:// URI: '' @ uri))
      | Some rest \<Rightarrow>
          let segments = filter (\<lambda>s. s \<noteq> []) (split_all CHR ''/'' rest) in
          if segments = [] then Inl (Bail (''missing app name in '' @ uri))
          else let name = last segments; segments = butlast segments in
            if segments \<noteq> [] \<and> hd segments = ''identity'' \<and> 2 \<le> length segments then
              Inr (''canopee://'' @ join ''/'' segments, name)
            else if length segments = 1 then Inr (segments ! 0, name)
            else Inl (Bail (''malformed canopee:// URI: '' @ uri)))"

type_synonym aliases = "(string \<times> string) list"

definition read_to_string :: "string \<Rightarrow> fs \<Rightarrow> string option" where
  "read_to_string path d = (case fs_read path d of Inr bs \<Rightarrow> from_utf8 bs | Inl _ \<Rightarrow> None)"

definition load_aliases :: "(string \<Rightarrow> aliases option) \<Rightarrow> string \<Rightarrow> fs \<Rightarrow> aliases res" where
  "load_aliases jdec path d =
     (case read_to_string path d of
        None \<Rightarrow> Inr []
      | Some raw \<Rightarrow> ok_or (jdec raw) (Decode path))"

definition save_aliases ::
  "'e host_scheme \<Rightarrow> (aliases \<Rightarrow> string) \<Rightarrow> string \<Rightarrow> aliases \<Rightarrow> fs \<Rightarrow> fs \<times> unit res" where
  "save_aliases E jenc path al d =
     (case parent_dir path of
        Some parent \<Rightarrow>
          if \<not> io_create_ok E parent then (d, Inl (Io parent))
          else fs_write E path (str_bytes (jenc al)) d
      | None \<Rightarrow> fs_write E path (str_bytes (jenc al)) d)"

definition resolve_owner :: "(string \<Rightarrow> aliases option) \<Rightarrow> Config \<Rightarrow> string \<Rightarrow> fs \<Rightarrow> string res" where
  "resolve_owner jdec c owner d =
     (if starts_with ''canopee://identity/'' owner then Inr owner
      else res_bind (load_aliases jdec (aliases_path c) d) (\<lambda>al.
             ok_or (map_of al owner) (Bail (''no alias '' @ owner @ '' in '' @ aliases_path c))))"

definition set_alias ::
  "'e host_scheme \<Rightarrow> (string \<Rightarrow> aliases option) \<Rightarrow> (aliases \<Rightarrow> string) \<Rightarrow> Config \<Rightarrow> string \<Rightarrow> string
   \<Rightarrow> fs \<Rightarrow> fs \<times> unit res" where
  "set_alias E jdec jenc c name owner d =
     (case resolve_owner jdec c owner d of
        Inl e \<Rightarrow> (d, Inl e)
      | Inr resolved \<Rightarrow>
          (case load_aliases jdec (aliases_path c) d of
             Inl e \<Rightarrow> (d, Inl e)
           | Inr al \<Rightarrow> save_aliases E jenc (aliases_path c) (AList.update name resolved al) d))"

definition remove_alias ::
  "'e host_scheme \<Rightarrow> (string \<Rightarrow> aliases option) \<Rightarrow> (aliases \<Rightarrow> string) \<Rightarrow> Config \<Rightarrow> string
   \<Rightarrow> fs \<Rightarrow> fs \<times> bool res" where
  "remove_alias E jdec jenc c name d =
     (case load_aliases jdec (aliases_path c) d of
        Inl e \<Rightarrow> (d, Inl e)
      | Inr al \<Rightarrow>
          (case save_aliases E jenc (aliases_path c) (AList.delete name al) d of
             (d', Inl e) \<Rightarrow> (d', Inl e)
           | (d', Inr _) \<Rightarrow> (d', Inr (map_of al name \<noteq> None))))"

definition list_aliases :: "(string \<Rightarrow> aliases option) \<Rightarrow> Config \<Rightarrow> fs \<Rightarrow> aliases res" where
  "list_aliases jdec c d =
     res_bind (load_aliases jdec (aliases_path c) d) (\<lambda>al. Inr (sort al))"

section \<open>Properties\<close>

lemma split_all_single: "c \<notin> set w \<Longrightarrow> split_all c w = [w]"
  by (induction w) auto

lemma split_all_append: "c \<notin> set w \<Longrightarrow> split_all c (w @ c # s) = w # split_all c s"
  by (induction w) auto

text \<open>The two forms of address parse to their owner and app name: the canonical form
  gives back the identity, the short form the alias.\<close>

theorem split_uri_forms:
  assumes "pid \<noteq> []" "CHR ''/'' \<notin> set pid" "name \<noteq> []" "CHR ''/'' \<notin> set name"
  shows "split_uri ((''canopee://identity/'' @ pid) @ ''/'' @ name) = Inr (''canopee://identity/'' @ pid, name) \<and>
    split_uri (''canopee://'' @ pid @ ''/'' @ name) = Inr (pid, name)"
proof -
  have a: "split_all CHR ''/'' (pid @ CHR ''/'' # name) = [pid, name]"
    using assms by (simp add: split_all_append split_all_single)
  moreover have "split_all CHR ''/'' (''identity/'' @ pid @ CHR ''/'' # name) = [''identity'', pid, name]"
    using split_all_append [of "CHR ''/''" "''identity''" "pid @ CHR ''/'' # name"] a by simp
  ultimately show ?thesis using assms by (simp add: split_uri_def)
qed

theorem split_uri_forms_witness:
  "split_uri ((''canopee://identity/'' @ ''41'') @ ''/'' @ ''blog'') = Inr (''canopee://identity/'' @ ''41'', ''blog'') \<and>
   split_uri (''canopee://'' @ ''41'' @ ''/'' @ ''blog'') = Inr (''41'', ''blog'')"
  by (rule split_uri_forms) simp_all

end
