(* ===== verification/Stateful.thy ===== *)
theory Stateful
  imports Prelude
begin

text \<open>
  Operations that thread a state and may fail: what \<open>async fn .. -> Result\<close> is here.  A failure
  keeps the state reached so far, as in the code, where effects done before an early return stay.
\<close>

type_synonym ('s, 'a) op = "'s \<Rightarrow> 's \<times> 'a res"

definition ret :: "'a \<Rightarrow> ('s, 'a) op" where
  "ret x s = (s, Inr x)"

definition fail :: "error \<Rightarrow> ('s, 'a) op" where
  "fail e s = (s, Inl e)"

definition lift_res :: "'a res \<Rightarrow> ('s, 'a) op" where
  "lift_res r s = (s, r)"

text \<open>The \<open>?\<close> operator.\<close>

definition andThen :: "('s, 'a) op \<Rightarrow> ('a \<Rightarrow> ('s, 'b) op) \<Rightarrow> ('s, 'b) op" where
  "andThen m f s = (case m s of (s', Inl e) \<Rightarrow> (s', Inl e) | (s', Inr x) \<Rightarrow> f x s')"

text \<open>Running an operation and looking at its result: \<open>match\<close>, \<open>if let\<close> or \<open>let _\<close>.\<close>

definition attempt :: "('s, 'a) op \<Rightarrow> ('s, 'a res) op" where
  "attempt m s = (case m s of (s', r) \<Rightarrow> (s', Inr r))"

definition gets :: "('s \<Rightarrow> 'a) \<Rightarrow> ('s, 'a) op" where
  "gets f s = (s, Inr (f s))"

definition modify :: "('s \<Rightarrow> 's) \<Rightarrow> ('s, unit) op" where
  "modify f s = (f s, Inr ())"

fun each :: "('a \<Rightarrow> ('s, unit) op) \<Rightarrow> 'a list \<Rightarrow> ('s, unit) op" where
  "each f [] = ret ()"
| "each f (x # xs) = andThen (f x) (\<lambda>_. each f xs)"

lemma ret_apply [simp]: "ret x s = (s, Inr x)" by (simp add: ret_def)
lemma fail_apply [simp]: "fail e s = (s, Inl e)" by (simp add: fail_def)
lemma lift_res_apply [simp]: "lift_res r s = (s, r)" by (simp add: lift_res_def)
lemma gets_apply [simp]: "gets f s = (s, Inr (f s))" by (simp add: gets_def)
lemma modify_apply [simp]: "modify f s = (f s, Inr ())" by (simp add: modify_def)
lemma attempt_apply [simp]: "attempt m s = (fst (m s), Inr (snd (m s)))"
  by (simp add: attempt_def split: prod.splits)

lemma andThen_apply:
  "andThen m f s = (case snd (m s) of Inl e \<Rightarrow> (fst (m s), Inl e) | Inr x \<Rightarrow> f x (fst (m s)))"
  by (auto simp: andThen_def split: prod.splits sum.splits)

lemma andThen_Inr:
  "andThen m f s = (s', Inr y) \<longleftrightarrow> (\<exists>s1 x. m s = (s1, Inr x) \<and> f x s1 = (s', Inr y))"
  by (auto simp: andThen_def split: prod.splits sum.splits)

lemma andThen_simps [simp]:
  "m s = (s1, Inr x) \<Longrightarrow> andThen m f s = f x s1"
  "m s = (s1, Inl e) \<Longrightarrow> andThen m f s = (s1, Inl e)"
  by (simp_all add: andThen_def)

text \<open>A relation between the state before and after that sequencing respects.\<close>

definition keeps :: "('s \<Rightarrow> 's \<Rightarrow> bool) \<Rightarrow> ('s, 'a) op \<Rightarrow> bool" where
  "keeps R m = (\<forall>s. R s (fst (m s)))"

lemma keepsI: "(\<And>s. R s (fst (m s))) \<Longrightarrow> keeps R m"
  by (simp add: keeps_def)

lemma keepsD: "keeps R m \<Longrightarrow> R s (fst (m s))"
  by (simp add: keeps_def)

lemma keeps_attempt: "keeps R m \<Longrightarrow> keeps R (attempt m)"
  by (simp add: keeps_def)

lemma keeps_if: "keeps R a \<Longrightarrow> keeps R b \<Longrightarrow> keeps R (if c then a else b)"
  by simp

lemma keeps_option: "keeps R a \<Longrightarrow> (\<And>x. keeps R (b x)) \<Longrightarrow> keeps R (case m of None \<Rightarrow> a | Some x \<Rightarrow> b x)"
  by (simp split: option.split)

lemma keeps_sum:
  "(\<And>x. keeps R (a x)) \<Longrightarrow> (\<And>x. keeps R (b x)) \<Longrightarrow> keeps R (case m of Inl x \<Rightarrow> a x | Inr x \<Rightarrow> b x)"
  by (simp split: sum.split)

lemma keeps_prod: "(\<And>x y. keeps R (a x y)) \<Longrightarrow> keeps R (case m of (x, y) \<Rightarrow> a x y)"
  by (simp split: prod.split)

lemmas keeps_cases = keeps_if keeps_option keeps_sum keeps_prod

text \<open>A preorder on states is kept by a whole operation when each of its steps keeps it.\<close>

locale state_relation =
  fixes R :: "'s \<Rightarrow> 's \<Rightarrow> bool"
  assumes stays: "R s s" and follows: "R s t \<Longrightarrow> R t u \<Longrightarrow> R s u"
begin

lemma ret: "keeps R (ret x)"
  and fail: "keeps R (fail e)"
  and lift: "keeps R (lift_res r)"
  and gets: "keeps R (gets f)"
  by (simp_all add: keeps_def stays)

lemma bind: "keeps R m \<Longrightarrow> (\<And>x. keeps R (f x)) \<Longrightarrow> keeps R (andThen m f)"
  by (rule keepsI) (auto simp: andThen_apply keeps_def intro: follows stays split: sum.splits)

lemma loop: "(\<And>x. keeps R (f x)) \<Longrightarrow> keeps R (each f xs)"
  by (induction xs) (auto intro: ret bind)

text \<open>A tactic-free way to run an operation whose steps all keep the relation: these rules, with
  those of the basic operations, decide the goal by the shape of the operation.\<close>

lemmas steps = ret fail lift gets bind loop keeps_attempt [of R] keeps_cases [of R]

end

end
