(* ===== verification/Runtime_Base.thy ===== *)
theory Runtime_Base
  imports User_Data Object_Envelope Config_Uri Stateful
begin

text \<open>
  canopee-runtime/src/lib.rs and the fetch and announce operations of sharing.rs: the node that
  owns a store, a cache index and a serving set, and talks to the network.

  \<open>Runtime\<close> holds the fixed parts of the struct, \<open>rt\<close> its mutable state, with the log of the
  commands sent to the network task.  What the network answers is not the program's: \<open>rtenv\<close> adds
  one function per request of \<open>NetworkManager\<close>, the clock and the random bytes.  During one
  operation the same question has the same answer; \<open>net_slow\<close> says that a record lookup takes longer
  than \<open>RESOLVE_DHT_TIMEOUT\<close>.  A background task (\<open>tokio::spawn\<close>) that only
  sends a command is that command in the log.
\<close>

type_synonym peer_id = string

record NodeState =
  ns_identity :: IdentityId
  ns_created_at :: u64
  last_started_at :: "u64 option"
  started :: bool
  ns_version :: u32
  ns_peers :: "string list"

record OwnPairing =
  session_id :: string
  pairing_code :: string

datatype net_command =
  Announce ObjectId
| Unannounce ObjectId
| PutRecord bytes bytes
| Replicate ExportBundle
| SetPeerMeta peer_id "IdentityId option" "string option" "string option"

record Runtime =
  rt_config :: Config
  rt_identity :: Identity
  rt_device_key :: DeviceKey

record rt =
  rt_fs :: fs
  rt_cache :: Cache
  rt_shared :: "ObjectId list"
  rt_pairing :: "OwnPairing option"
  rt_state :: NodeState
  rt_log :: "net_command list"

record rtenv = userenv +
  now :: u64
  wall_time :: int
  env_rnd :: env_random
  state_enc :: "NodeState \<Rightarrow> bytes"
  bundle_enc :: "ExportBundle \<Rightarrow> bytes"
  parse_peer_id :: "string \<Rightarrow> peer_id option"
  peer_id_bytes :: "peer_id \<Rightarrow> bytes"
  identity_pass :: "string option"
  net_peers :: "peer_id list res"
  net_get_object :: "peer_id \<Rightarrow> ObjectId \<Rightarrow> ExportBundle res"
  net_find_providers :: "ObjectId \<Rightarrow> peer_id list res"
  net_get_record :: "bytes \<Rightarrow> bytes option res"
  net_slow :: "bytes \<Rightarrow> bool"
  net_announce :: "ObjectId \<Rightarrow> unit res"
  net_replicate :: "ExportBundle \<Rightarrow> unit res"

section \<open>Small parts\<close>

definition is_alphanumeric :: "char \<Rightarrow> bool" where
  "is_alphanumeric c = (let n = (of_char c :: nat) in
     (48 \<le> n \<and> n \<le> 57) \<or> (65 \<le> n \<and> n \<le> 90) \<or> (97 \<le> n \<and> n \<le> 122))"

definition normalize_username :: "string \<Rightarrow> string res" where
  "normalize_username name =
     (let normalized = to_lower (trim name) in
      if normalized = [] then Inl (Bail ''username must not be empty'')
      else if list_ex (\<lambda>c. \<not> (is_alphanumeric c \<or> c = CHR ''_'' \<or> c = CHR ''-'' \<or> c = CHR ''.'')) normalized
      then Inl (Bail (''username '' @ name @ '' contains invalid characters''))
      else Inr normalized)"

definition owner_peer_id :: "'e rtenv_scheme \<Rightarrow> IdentityId \<Rightarrow> peer_id option" where
  "owner_peer_id E owner =
     (case strip_prefix ''canopee://identity/'' owner of
        Some rest \<Rightarrow> parse_peer_id E (hd (split_all CHR ''/'' rest))
      | None \<Rightarrow> None)"

definition own_id :: "Runtime \<Rightarrow> IdentityId" where
  "own_id R = identity_id (rt_identity R)"

definition store_root :: "Runtime \<Rightarrow> string" where
  "store_root R = storage_path (rt_config R)"

definition shared_contains :: "ObjectId list \<Rightarrow> ObjectId \<Rightarrow> bool" where
  "shared_contains ids oid = (oid \<in> set ids)"

definition shared_insert :: "ObjectId \<Rightarrow> ObjectId list \<Rightarrow> ObjectId list" where
  "shared_insert oid ids = List.insert oid ids"

definition shared_remove :: "ObjectId \<Rightarrow> ObjectId list \<Rightarrow> ObjectId list" where
  "shared_remove oid ids = removeAll oid ids"

interpretation shared: tracked_set shared_insert shared_remove shared_contains
  by unfold_locales (auto simp: shared_insert_def shared_remove_def shared_contains_def)

text \<open>File operations and cache operations on the whole state.\<close>

definition on_fs :: "(fs \<Rightarrow> fs \<times> 'a res) \<Rightarrow> (rt, 'a) op" where
  "on_fs f s = (case f (rt_fs s) of (d, r) \<Rightarrow> (s \<lparr> rt_fs := d \<rparr>, r))"

definition read_fs :: "(fs \<Rightarrow> 'a res) \<Rightarrow> (rt, 'a) op" where
  "read_fs f s = (s, f (rt_fs s))"

definition on_cache :: "(Cache \<Rightarrow> fs \<Rightarrow> Cache \<times> fs) \<Rightarrow> (rt, unit) op" where
  "on_cache f s = (case f (rt_cache s) (rt_fs s) of (c, d) \<Rightarrow> (s \<lparr> rt_cache := c, rt_fs := d \<rparr>, Inr ()))"

definition send :: "net_command \<Rightarrow> (rt, unit) op" where
  "send c = modify (\<lambda>s. s \<lparr> rt_log := rt_log s @ [c] \<rparr>)"

definition create_dir :: "'e host_scheme \<Rightarrow> string \<Rightarrow> (rt, unit) op" where
  "create_dir E p = (if io_create_ok E p then ret () else fail (Io p))"

definition mark_shared :: "ObjectId \<Rightarrow> (rt, unit) op" where
  "mark_shared oid = modify (\<lambda>s. s \<lparr> rt_shared := shared_insert oid (rt_shared s) \<rparr>)"

definition is_shared :: "ObjectId \<Rightarrow> rt \<Rightarrow> bool" where
  "is_shared oid s = (shared_contains (rt_shared s) oid \<or> is_cached (rt_cache s) oid)"

definition announce :: "'e rtenv_scheme \<Rightarrow> ObjectId \<Rightarrow> (rt, unit) op" where
  "announce E oid =
     andThen (mark_shared oid) (\<lambda>_.
     andThen (send (Announce oid)) (\<lambda>_.
     lift_res (net_announce E oid)))"

section \<open>Serving peers\<close>

definition provide_object :: "'e rtenv_scheme \<Rightarrow> Runtime \<Rightarrow> ObjectId \<Rightarrow> rt \<Rightarrow> rt \<times> ExportBundle option" where
  "provide_object E R oid s =
     (case get_verified E (store_root R) oid (rt_fs s) of
        Inl _ \<Rightarrow> (s, None)
      | Inr ob \<Rightarrow>
          if is_cached (rt_cache s) oid then
            (s \<lparr> rt_cache := touch_served (now E) oid (rt_cache s) \<rparr>, res_option (export E ob))
          else if \<not> shared_contains (rt_shared s) oid then (s, None)
          else (s, res_option (export E ob)))"

definition accept_push :: "'e rtenv_scheme \<Rightarrow> Runtime \<Rightarrow> Object \<Rightarrow> (rt, unit) op" where
  "accept_push E R ob =
     andThen (on_fs (put_verified E (store_root R) ob)) (\<lambda>_.
     andThen (gets rt_cache) (\<lambda>c.
       if \<not> is_owned c ob then on_cache (mark_cached E (now E) (obj_id ob)) else ret ()))"

section \<open>Node state\<close>

definition save_state :: "'e rtenv_scheme \<Rightarrow> Runtime \<Rightarrow> (rt, unit) op" where
  "save_state E R =
     andThen (gets (\<lambda>s. state_enc E (rt_state s))) (\<lambda>bs.
       let path = state_path (rt_config R); tmp = with_extension path ''tmp'' in
       andThen (on_fs (fs_write E tmp bs)) (\<lambda>_. on_fs (fs_rename E tmp path)))"

definition mark_started :: "'e rtenv_scheme \<Rightarrow> Runtime \<Rightarrow> (rt, unit) op" where
  "mark_started E R =
     andThen (modify (\<lambda>s. s \<lparr> rt_state := (rt_state s) \<lparr> started := True, last_started_at := Some (now E) \<rparr> \<rparr>))
       (\<lambda>_. save_state E R)"

definition mark_stopped :: "'e rtenv_scheme \<Rightarrow> Runtime \<Rightarrow> (rt, unit) op" where
  "mark_stopped E R =
     andThen (modify (\<lambda>s. s \<lparr> rt_state := (rt_state s) \<lparr> started := False \<rparr> \<rparr>)) (\<lambda>_. save_state E R)"

section \<open>Storing objects\<close>

definition seal :: "'e rtenv_scheme \<Rightarrow> Runtime \<Rightarrow> bytes \<Rightarrow> bytes list \<Rightarrow> bytes res" where
  "seal E R bs rcpts =
     (case encrypt_for_recipients E (env_rnd E) (rt_identity R) bs rcpts of
        Inl _ \<Rightarrow> Inl (Bail ''encrypting object for its recipients failed'')
      | Inr c \<Rightarrow> Inr c)"

definition set_data :: "bytes \<Rightarrow> Object \<Rightarrow> Object" where
  "set_data bs ob = ob \<lparr> payload := (payload ob) \<lparr> payload_data := bs \<rparr> \<rparr>"

definition open_object :: "'e rtenv_scheme \<Rightarrow> Runtime \<Rightarrow> Object \<Rightarrow> Object res" where
  "open_object E R ob =
     (if \<not> is_envelope (payload_data (payload ob)) then Inr ob
      else case decrypt_envelope E (rt_identity R) (payload_data (payload ob)) of
             Inl _ \<Rightarrow> Inl (Bail (''decrypting object '' @ obj_id ob))
           | Inr plain \<Rightarrow> Inr (set_data plain ob))"

definition is_encrypted :: "Object \<Rightarrow> bool" where
  "is_encrypted ob = is_envelope (payload_data (payload ob))"

definition reseal :: "'e rtenv_scheme \<Rightarrow> Runtime \<Rightarrow> Object \<Rightarrow> (rt, Object) op" where
  "reseal E R ob =
     (let ob = ob \<lparr> obj_id := from_payload E (payload ob) \<rparr> in
      andThen (lift_res (sign E (rt_identity R) (payload_enc E (payload ob)))) (\<lambda>sig.
        let ob = ob \<lparr> obj_signature := sig \<rparr> in
        andThen (on_fs (put_verified E (store_root R) ob)) (\<lambda>_. ret ob)))"

definition name_object :: "'e rtenv_scheme \<Rightarrow> Runtime \<Rightarrow> ObjectId \<Rightarrow> string option \<Rightarrow> (rt, unit) op" where
  "name_object E R oid name =
     (case name of Some n \<Rightarrow> on_fs (set_name E (store_root R) oid n) | None \<Rightarrow> ret ())"

definition put_object_for ::
  "'e rtenv_scheme \<Rightarrow> Runtime \<Rightarrow> bytes \<Rightarrow> ObjectType \<Rightarrow> string option \<Rightarrow> bytes list \<Rightarrow> (rt, Object) op" where
  "put_object_for E R bs ty name rcpts =
     andThen (lift_res (object_new E (rt_identity R) (now E) bs ty)) (\<lambda>ob.
     andThen (lift_res (seal E R (payload_data (payload ob)) rcpts)) (\<lambda>c.
     andThen (reseal E R (set_data c ob)) (\<lambda>ob.
     andThen (name_object E R (obj_id ob) name) (\<lambda>_. ret ob))))"

definition put_object ::
  "'e rtenv_scheme \<Rightarrow> Runtime \<Rightarrow> bytes \<Rightarrow> ObjectType \<Rightarrow> string option \<Rightarrow> (rt, Object) op" where
  "put_object E R bs ty name = put_object_for E R bs ty name []"

definition rt_put :: "'e rtenv_scheme \<Rightarrow> Runtime \<Rightarrow> bytes \<Rightarrow> string option \<Rightarrow> (rt, ObjectId) op" where
  "rt_put E R bs name = andThen (put_object E R bs Blob name) (\<lambda>ob. ret (obj_id ob))"

definition put_object_public ::
  "'e rtenv_scheme \<Rightarrow> Runtime \<Rightarrow> bytes \<Rightarrow> ObjectType \<Rightarrow> string option \<Rightarrow> (rt, Object) op" where
  "put_object_public E R bs ty name =
     andThen (lift_res (object_new E (rt_identity R) (now E) bs ty)) (\<lambda>ob.
     andThen (on_fs (put_verified E (store_root R) ob)) (\<lambda>_.
     andThen (name_object E R (obj_id ob) name) (\<lambda>_. ret ob)))"

section \<open>Import, export, eviction\<close>

definition rt_export :: "'e rtenv_scheme \<Rightarrow> Runtime \<Rightarrow> ObjectId \<Rightarrow> (rt, ExportBundle) op" where
  "rt_export E R oid =
     andThen (read_fs (get_verified E (store_root R) oid)) (\<lambda>ob. lift_res (export E ob))"

definition export_to_file :: "'e rtenv_scheme \<Rightarrow> Runtime \<Rightarrow> ObjectId \<Rightarrow> (rt, ExportBundle) op" where
  "export_to_file E R oid =
     andThen (rt_export E R oid) (\<lambda>b.
     andThen (create_dir E (export_path (rt_config R))) (\<lambda>_.
     andThen (on_fs (fs_write E (path_join (export_path (rt_config R)) (oid @ ''.canopee''))
                (bundle_enc E b))) (\<lambda>_. ret b)))"

definition rt_import :: "'e rtenv_scheme \<Rightarrow> Runtime \<Rightarrow> ExportBundle \<Rightarrow> (rt, unit) op" where
  "rt_import E R bundle =
     (let ob = bundle_object bundle in
      andThen (gets (\<lambda>s. store_exists (store_root R) (obj_id ob) (rt_fs s))) (\<lambda>ex.
        if ex then fail (Bail ''Object already exists'')
        else let cached = payload_owner (payload ob) \<noteq> own_id R in
          andThen (on_fs (store_import E (store_root R) ob)) (\<lambda>_.
            if cached then on_cache (mark_cached E (now E) (obj_id ob)) else ret ())))"

definition evict :: "'e rtenv_scheme \<Rightarrow> Runtime \<Rightarrow> ObjectId \<Rightarrow> (rt, unit) op" where
  "evict E R oid =
     andThen (on_fs (store_delete E (store_root R) oid)) (\<lambda>_.
     andThen (on_cache (cache_remove E oid)) (\<lambda>_.
     andThen (modify (\<lambda>s. s \<lparr> rt_shared := shared_remove oid (rt_shared s) \<rparr>)) (\<lambda>_.
     send (Unannounce oid))))"

definition rt_list :: "'e rtenv_scheme \<Rightarrow> Runtime \<Rightarrow> (rt, ObjectInfo list) op" where
  "rt_list E R = read_fs (list_objects E (store_root R))"

definition cached_bytes :: "'e rtenv_scheme \<Rightarrow> Runtime \<Rightarrow> rt \<Rightarrow> u64" where
  "cached_bytes E R s = cache_total_bytes E (store_root R) (rt_fs s) (rt_cache s)"

definition lru_cached :: "'e rtenv_scheme \<Rightarrow> Runtime \<Rightarrow> rt \<Rightarrow> Object list" where
  "lru_cached E R s = cache_lru E (store_root R) (rt_fs s) (rt_cache s)"

section \<open>Fetching from the network\<close>

text \<open>Asking peers in turn: an error moves on to the next, a bundle is imported and ends the
  search, also when the import fails.\<close>

fun fetch_from :: "'e rtenv_scheme \<Rightarrow> Runtime \<Rightarrow> ObjectId \<Rightarrow> peer_id list \<Rightarrow> (rt, Object option) op" where
  "fetch_from E R oid [] = ret None"
| "fetch_from E R oid (p # ps) =
     (case net_get_object E p oid of
        Inr bundle \<Rightarrow> andThen (rt_import E R bundle) (\<lambda>_. ret (Some (bundle_object bundle)))
      | Inl _ \<Rightarrow> fetch_from E R oid ps)"

definition fetch_object ::
  "'e rtenv_scheme \<Rightarrow> Runtime \<Rightarrow> ObjectId \<Rightarrow> peer_id option \<Rightarrow> (rt, Object) op" where
  "fetch_object E R oid from =
     andThen (attempt (read_fs (get_verified E (store_root R) oid))) (\<lambda>local.
       case local of
         Inr ob \<Rightarrow> ret ob
       | Inl _ \<Rightarrow>
           andThen (lift_res (net_peers E)) (\<lambda>peers.
           andThen (fetch_from E R oid (filter (\<lambda>p. Some p \<noteq> from) peers)) (\<lambda>r1.
           case r1 of
             Some ob \<Rightarrow> ret ob
           | None \<Rightarrow>
               andThen (fetch_from E R oid (case from of Some p \<Rightarrow> [p] | None \<Rightarrow> [])) (\<lambda>r2.
               case r2 of
                 Some ob \<Rightarrow> ret ob
               | None \<Rightarrow>
                   andThen (lift_res (net_find_providers E oid)) (\<lambda>providers.
                   andThen (fetch_from E R oid providers) (\<lambda>r3.
                   case r3 of
                     Some ob \<Rightarrow> ret ob
                   | None \<Rightarrow> fail (Bail (''no provider for object '' @ oid))))))))"

definition get_or_fetch :: "'e rtenv_scheme \<Rightarrow> Runtime \<Rightarrow> ObjectId \<Rightarrow> (rt, Object) op" where
  "get_or_fetch E R oid =
     andThen (attempt (read_fs (get_verified E (store_root R) oid))) (\<lambda>local.
       case local of Inr ob \<Rightarrow> ret ob | Inl _ \<Rightarrow> fetch_object E R oid None)"

definition rt_get :: "'e rtenv_scheme \<Rightarrow> Runtime \<Rightarrow> ObjectId \<Rightarrow> (rt, Object) op" where
  "rt_get E R oid = andThen (get_or_fetch E R oid) (\<lambda>ob. lift_res (open_object E R ob))"

fun concat_data :: "'e rtenv_scheme \<Rightarrow> Runtime \<Rightarrow> ObjectId list \<Rightarrow> (rt, bytes) op" where
  "concat_data E R [] = ret []"
| "concat_data E R (oid # ids) =
     andThen (rt_get E R oid) (\<lambda>ob.
     andThen (concat_data E R ids) (\<lambda>rest. ret (payload_data (payload ob) @ rest)))"

definition concat_objects ::
  "'e rtenv_scheme \<Rightarrow> Runtime \<Rightarrow> ObjectId list \<Rightarrow> string option \<Rightarrow> (rt, ObjectId) op" where
  "concat_objects E R ids name =
     (if ids = [] then fail (Bail ''concat needs at least one object'')
      else andThen (concat_data E R ids) (\<lambda>bs.
           andThen (lift_res (object_new E (rt_identity R) (now E) bs Blob)) (\<lambda>ob.
           andThen (on_fs (put_verified E (store_root R) ob)) (\<lambda>_.
           andThen (name_object E R (obj_id ob) name) (\<lambda>_.
           andThen (announce E (obj_id ob)) (\<lambda>_.
           andThen (lift_res (export E ob)) (\<lambda>bundle.
           andThen (send (Replicate bundle)) (\<lambda>_. ret (obj_id ob)))))))))"

section \<open>Identity import\<close>

definition fs_copy :: "'e host_scheme \<Rightarrow> string \<Rightarrow> string \<Rightarrow> fs \<Rightarrow> fs \<times> unit res" where
  "fs_copy E src dst d = (case fs_read src d of Inl e \<Rightarrow> (d, Inl e) | Inr bs \<Rightarrow> fs_write E dst bs d)"

definition identity_file :: "Runtime \<Rightarrow> string" where
  "identity_file R = path_join (identity_path (rt_config R)) ''identity.key''"

text \<open>The tail that \<open>import_identity\<close> and \<open>set_identity_key\<close> share: back up, encode by the at-rest
  policy, write to a temporary name, rename.\<close>

definition int_str :: "int \<Rightarrow> string" where
  "int_str i = (if i < 0 then CHR ''-'' # nat_str (nat (- i)) else nat_str (nat i))"

definition backup_identity :: "'e rtenv_scheme \<Rightarrow> Runtime \<Rightarrow> (rt, unit) op" where
  "backup_identity E R =
     andThen (gets (\<lambda>s. fs_exists (identity_file R) (rt_fs s))) (\<lambda>ex.
       if ex then on_fs (fs_copy E (identity_file R)
                    (path_join (identity_path (rt_config R)) (''identity.key.bak-'' @ int_str (wall_time E))))
       else ret ())"

definition write_identity :: "'e rtenv_scheme \<Rightarrow> Runtime \<Rightarrow> bytes \<Rightarrow> bytes \<Rightarrow> Identity \<Rightarrow> (rt, unit) op" where
  "write_identity E R salt nonce imported =
     andThen (lift_res (case identity_pass E of
                Some pass \<Rightarrow> export_encrypted E salt nonce imported pass
              | None \<Rightarrow> export_bytes E imported)) (\<lambda>bs.
       let tmp = path_join (identity_path (rt_config R)) ''identity.key.tmp'' in
       andThen (on_fs (fs_write E tmp bs)) (\<lambda>_. on_fs (fs_rename E tmp (identity_file R))))"

definition import_identity ::
  "'e rtenv_scheme \<Rightarrow> Runtime \<Rightarrow> bytes \<Rightarrow> bytes \<Rightarrow> bytes \<Rightarrow> string \<Rightarrow> bool \<Rightarrow> (rt, IdentityId) op" where
  "import_identity E R salt nonce bs transfer_pass overwrite =
     andThen (lift_res (import_from_encrypted E bs transfer_pass)) (\<lambda>imported.
       if identity_id imported = own_id R then ret (own_id R)
       else andThen (gets (\<lambda>s. fs_exists (identity_file R) (rt_fs s))) (\<lambda>ex.
         if ex \<and> \<not> overwrite then fail (Bail (''an identity already exists at '' @ identity_file R))
         else andThen (backup_identity E R) (\<lambda>_.
              andThen (write_identity E R salt nonce imported) (\<lambda>_.
              ret (identity_id imported)))))"

end
