(* ===== verification/Runtime_Records.thy ===== *)
theory Runtime_Records
  imports Runtime_Base
begin

text \<open>
  canopee-runtime/src/records.rs and sync.rs: mutable records over immutable objects.  A pointer
  \<open>(owner, name)\<close> is a signed record in the local record cache, in the objects other devices
  pushed, and in the DHT; on top of it the profile, username, contacts and the list of devices
  that carry an identity.
\<close>

section \<open>Pointers\<close>

definition record_path :: "'e crypto_scheme \<Rightarrow> Runtime \<Rightarrow> bytes \<Rightarrow> string" where
  "record_path E R key = path_join (records_path (rt_config R)) (hex_encode E key @ ''.record'')"

definition push_pointer_record :: "'e rtenv_scheme \<Rightarrow> Runtime \<Rightarrow> bytes \<Rightarrow> (rt, unit) op" where
  "push_pointer_record E R bs =
     andThen (lift_res (object_new E (rt_identity R) (now E) bs AppPointerT)) (\<lambda>ob.
     andThen (on_fs (put_verified E (store_root R) ob)) (\<lambda>_.
     andThen (lift_res (export E ob)) (\<lambda>bundle.
     andThen (send (Replicate bundle)) (\<lambda>_.
     lift_res (net_replicate E bundle)))))"

definition publish_pointer :: "'e rtenv_scheme \<Rightarrow> Runtime \<Rightarrow> string \<Rightarrow> ObjectId \<Rightarrow> (rt, unit) op" where
  "publish_pointer E R name target =
     andThen (lift_res (pointer_sign E (rt_identity R) (now E) name target)) (\<lambda>record.
       let key = pointer_key E (ptr_owner record) name;
           path = record_path E R key;
           bs = enc (pointer_codec E) record;
           tmp = with_extension path ''tmp'' in
       andThen (create_dir E (records_path (rt_config R))) (\<lambda>_.
       andThen (on_fs (fs_write E tmp bs)) (\<lambda>_.
       andThen (on_fs (fs_rename E tmp path)) (\<lambda>_.
       andThen (attempt (push_pointer_record E R bs)) (\<lambda>_.
       send (PutRecord key bs))))))"

fun scan_pointers ::
  "'e rtenv_scheme \<Rightarrow> Runtime \<Rightarrow> IdentityId \<Rightarrow> string \<Rightarrow> fs \<Rightarrow> ObjectId list
   \<Rightarrow> AppPointerRecord option \<Rightarrow> AppPointerRecord option" where
  "scan_pointers E R owner name d [] newest = newest"
| "scan_pointers E R owner name d (oid # ids) newest =
     (case get_verified E (store_root R) oid d of
        Inl _ \<Rightarrow> None
      | Inr ob \<Rightarrow>
          if payload_owner (payload ob) \<noteq> owner \<or> object_type ob \<noteq> AppPointerT then
            scan_pointers E R owner name d ids newest
          else (case dec (pointer_codec E) (payload_data (payload ob)) of
                  None \<Rightarrow> None
                | Some record \<Rightarrow>
                    if ptr_name record \<noteq> name \<or> \<not> pointer_verify E record then
                      scan_pointers E R owner name d ids newest
                    else (case newest of
                            Some current \<Rightarrow>
                              if published_at current \<ge> published_at record
                              then scan_pointers E R owner name d ids newest
                              else scan_pointers E R owner name d ids (Some record)
                          | None \<Rightarrow> scan_pointers E R owner name d ids (Some record))))"

definition latest_pointer_record ::
  "'e rtenv_scheme \<Rightarrow> Runtime \<Rightarrow> IdentityId \<Rightarrow> string \<Rightarrow> fs \<Rightarrow> AppPointerRecord option" where
  "latest_pointer_record E R owner name d =
     (case store_list E (store_root R) d of
        Inl _ \<Rightarrow> None
      | Inr ids \<Rightarrow> scan_pointers E R owner name d ids None)"

definition pointer_for :: "'e rtenv_scheme \<Rightarrow> IdentityId \<Rightarrow> string \<Rightarrow> bytes \<Rightarrow> AppPointerRecord option" where
  "pointer_for E owner name bs =
     (case dec (pointer_codec E) bs of
        None \<Rightarrow> None
      | Some r \<Rightarrow> if ptr_owner r = owner \<and> ptr_name r = name \<and> pointer_verify E r then Some r else None)"

definition cached_pointer :: "'e rtenv_scheme \<Rightarrow> Runtime \<Rightarrow> IdentityId \<Rightarrow> string \<Rightarrow> fs \<Rightarrow> AppPointerRecord option" where
  "cached_pointer E R owner name d =
     (case fs_read (record_path E R (pointer_key E owner name)) d of
        Inl _ \<Rightarrow> None
      | Inr bs \<Rightarrow> pointer_for E owner name bs)"

definition dht_value :: "'e rtenv_scheme \<Rightarrow> bytes \<Rightarrow> bytes option" where
  "dht_value E key =
     (if net_slow E key then None
      else case net_get_record E key of Inr v \<Rightarrow> v | Inl _ \<Rightarrow> None)"

text \<open>Both stores of a found pointer ignore their failures.\<close>

definition remember_pointer :: "'e rtenv_scheme \<Rightarrow> Runtime \<Rightarrow> bytes \<Rightarrow> AppPointerRecord \<Rightarrow> (rt, unit) op" where
  "remember_pointer E R key r =
     andThen (attempt (create_dir E (records_path (rt_config R)))) (\<lambda>_.
     andThen (attempt (on_fs (fs_write E (record_path E R key) (enc (pointer_codec E) r)))) (\<lambda>_. ret ()))"

definition resolve_pointer ::
  "'e rtenv_scheme \<Rightarrow> Runtime \<Rightarrow> IdentityId \<Rightarrow> string \<Rightarrow> (rt, AppPointerRecord option) op" where
  "resolve_pointer E R owner name =
     (let key = pointer_key E owner name in
      andThen (gets (\<lambda>s. cached_pointer E R owner name (rt_fs s))) (\<lambda>from_cache.
      case from_cache of
        Some r \<Rightarrow> ret (Some r)
      | None \<Rightarrow>
          andThen (gets (\<lambda>s. latest_pointer_record E R owner name (rt_fs s))) (\<lambda>pushed.
          case pushed of
            Some r \<Rightarrow> andThen (remember_pointer E R key r) (\<lambda>_. ret (Some r))
          | None \<Rightarrow>
              (case Option.bind (dht_value E key) (pointer_for E owner name) of
                 Some r \<Rightarrow> andThen (remember_pointer E R key r) (\<lambda>_. ret (Some r))
               | None \<Rightarrow> ret None))))"

section \<open>Objects behind pointers\<close>

definition load_own ::
  "'e rtenv_scheme \<Rightarrow> Runtime \<Rightarrow> string \<Rightarrow> 'a codec \<Rightarrow> (rt, 'a option) op" where
  "load_own E R name c =
     andThen (resolve_pointer E R (own_id R) name) (\<lambda>r.
     case r of
       None \<Rightarrow> ret None
     | Some r \<Rightarrow>
         andThen (read_fs (get_verified E (store_root R) (ptr_manifest r))) (\<lambda>ob.
         andThen (lift_res (decode_data (dec c) ob)) (\<lambda>x. ret (Some x))))"

definition resolve_owner_object ::
  "'e rtenv_scheme \<Rightarrow> Runtime \<Rightarrow> IdentityId \<Rightarrow> string \<Rightarrow> (rt, Object option) op" where
  "resolve_owner_object E R owner name =
     andThen (resolve_pointer E R owner name) (\<lambda>r.
     case r of
       None \<Rightarrow> ret None
     | Some r \<Rightarrow>
         andThen (attempt (read_fs (get_verified E (store_root R) (ptr_manifest r)))) (\<lambda>local.
         case local of
           Inr ob \<Rightarrow> ret (if payload_owner (payload ob) = owner then Some ob else None)
         | Inl _ \<Rightarrow>
             andThen (attempt (fetch_object E R (ptr_manifest r) (owner_peer_id E owner))) (\<lambda>f.
             case f of
               Inr ob \<Rightarrow> ret (if payload_owner (payload ob) = owner then Some ob else None)
             | Inl _ \<Rightarrow> ret None)))"

definition resolve_decoded ::
  "'e rtenv_scheme \<Rightarrow> Runtime \<Rightarrow> IdentityId \<Rightarrow> string \<Rightarrow> 'a codec \<Rightarrow> (rt, 'a option) op" where
  "resolve_decoded E R owner name c =
     andThen (resolve_owner_object E R owner name) (\<lambda>ob.
     case ob of
       None \<Rightarrow> ret None
     | Some ob \<Rightarrow> andThen (lift_res (decode_data (dec c) ob)) (\<lambda>x. ret (Some x)))"

definition next_version :: "u64 option \<Rightarrow> u64" where
  "next_version v = (case v of Some n \<Rightarrow> n + 1 | None \<Rightarrow> 1)"

section \<open>Profile and username\<close>

definition load_profile :: "'e rtenv_scheme \<Rightarrow> Runtime \<Rightarrow> (rt, Profile option) op" where
  "load_profile E R = load_own E R RECORD_PROFILE (profile_codec E)"

definition save_profile :: "'e rtenv_scheme \<Rightarrow> Runtime \<Rightarrow> Profile \<Rightarrow> (rt, ObjectId) op" where
  "save_profile E R p =
     andThen (load_profile E R) (\<lambda>old.
       let p = p \<lparr> profile_version := next_version (map_option profile_version old),
                   profile_dh_key := dh_public_key E (rt_identity R) \<rparr> in
       andThen (lift_res (profile_object E (rt_identity R) (now E) p)) (\<lambda>ob.
       andThen (on_fs (put_verified E (store_root R) ob)) (\<lambda>_.
       andThen (announce E (obj_id ob)) (\<lambda>_.
       andThen (publish_pointer E R RECORD_PROFILE (obj_id ob)) (\<lambda>_.
       ret (obj_id ob))))))"

definition resolve_username :: "'e rtenv_scheme \<Rightarrow> Runtime \<Rightarrow> IdentityId \<Rightarrow> (rt, UsernameRecord option) op" where
  "resolve_username E R owner = resolve_decoded E R owner RECORD_USERNAME (username_codec E)"

definition resolve_profile :: "'e rtenv_scheme \<Rightarrow> Runtime \<Rightarrow> IdentityId \<Rightarrow> (rt, Profile option) op" where
  "resolve_profile E R owner = resolve_decoded E R owner RECORD_PROFILE (profile_codec E)"

definition claim_username :: "'e rtenv_scheme \<Rightarrow> Runtime \<Rightarrow> string \<Rightarrow> (rt, unit) op" where
  "claim_username E R name =
     andThen (lift_res (normalize_username name)) (\<lambda>name.
     andThen (resolve_username E R (own_id R)) (\<lambda>old.
       let u = \<lparr> username = name, username_version = next_version (map_option username_version old) \<rparr> in
       andThen (lift_res (username_object E (rt_identity R) (now E) u)) (\<lambda>ob.
       andThen (on_fs (put_verified E (store_root R) ob)) (\<lambda>_.
       andThen (announce E (obj_id ob)) (\<lambda>_.
       andThen (publish_pointer E R RECORD_USERNAME (obj_id ob)) (\<lambda>_.
       send (PutRecord (str_bytes (USERNAME_REGISTRY_PREFIX @ name)) (str_bytes (own_id R)))))))))"

fun username_owners ::
  "'e rtenv_scheme \<Rightarrow> Runtime \<Rightarrow> fs \<Rightarrow> ObjectId list \<Rightarrow> IdentityId list \<Rightarrow> IdentityId list option" where
  "username_owners E R d [] owners = Some owners"
| "username_owners E R d (oid # ids) owners =
     (case get_verified E (store_root R) oid d of
        Inl _ \<Rightarrow> None
      | Inr ob \<Rightarrow>
          if object_type ob \<noteq> AppPointerT then username_owners E R d ids owners
          else (case dec (pointer_codec E) (payload_data (payload ob)) of
                  None \<Rightarrow> None
                | Some r \<Rightarrow>
                    if ptr_name r \<noteq> RECORD_USERNAME \<or> \<not> pointer_verify E r then
                      username_owners E R d ids owners
                    else if ptr_owner r \<notin> set owners then
                      username_owners E R d ids (owners @ [ptr_owner r])
                    else username_owners E R d ids owners))"

fun first_claiming ::
  "'e rtenv_scheme \<Rightarrow> Runtime \<Rightarrow> string \<Rightarrow> IdentityId list \<Rightarrow> (rt, IdentityId option) op" where
  "first_claiming E R name [] = ret None"
| "first_claiming E R name (owner # owners) =
     andThen (attempt (resolve_username E R owner)) (\<lambda>u.
     case u of
       Inr (Some u) \<Rightarrow> if username u = name then ret (Some owner) else first_claiming E R name owners
     | _ \<Rightarrow> first_claiming E R name owners)"

definition owner_claiming_username :: "'e rtenv_scheme \<Rightarrow> Runtime \<Rightarrow> string \<Rightarrow> (rt, IdentityId option) op" where
  "owner_claiming_username E R name =
     andThen (gets (\<lambda>s. case store_list E (store_root R) (rt_fs s) of
                          Inl _ \<Rightarrow> None
                        | Inr ids \<Rightarrow> username_owners E R (rt_fs s) ids [])) (\<lambda>owners.
     case owners of None \<Rightarrow> ret None | Some owners \<Rightarrow> first_claiming E R name owners)"

definition resolve_owner_from_username ::
  "'e rtenv_scheme \<Rightarrow> Runtime \<Rightarrow> string \<Rightarrow> (rt, IdentityId option) op" where
  "resolve_owner_from_username E R name =
     andThen (lift_res (normalize_username name)) (\<lambda>name.
     andThen (owner_claiming_username E R name) (\<lambda>found.
     case found of
       Some owner \<Rightarrow> ret (Some owner)
     | None \<Rightarrow>
         andThen (lift_res (net_get_record E (str_bytes (USERNAME_REGISTRY_PREFIX @ name)))) (\<lambda>v.
         case v of
           None \<Rightarrow> ret None
         | Some bs \<Rightarrow>
             (case from_utf8 bs of
                None \<Rightarrow> fail (Bail ''username registry record is not valid utf-8'')
              | Some owner \<Rightarrow>
                  andThen (resolve_username E R owner) (\<lambda>u.
                  case u of
                    Some u \<Rightarrow> ret (if username u = name then Some owner else None)
                  | None \<Rightarrow> ret None)))))"

section \<open>Raw records\<close>

definition cache_record :: "'e rtenv_scheme \<Rightarrow> Runtime \<Rightarrow> bytes \<Rightarrow> bytes \<Rightarrow> (rt, unit) op" where
  "cache_record E R key val =
     (let path = record_path E R key; tmp = with_extension path ''tmp'' in
      andThen (create_dir E (records_path (rt_config R))) (\<lambda>_.
      andThen (on_fs (fs_write E tmp val)) (\<lambda>_. on_fs (fs_rename E tmp path))))"

definition publish_record :: "'e rtenv_scheme \<Rightarrow> Runtime \<Rightarrow> bytes \<Rightarrow> bytes \<Rightarrow> (rt, unit) op" where
  "publish_record E R key val =
     andThen (attempt (cache_record E R key val)) (\<lambda>_. send (PutRecord key val))"

definition resolve_record :: "'e rtenv_scheme \<Rightarrow> Runtime \<Rightarrow> bytes \<Rightarrow> (rt, bytes option) op" where
  "resolve_record E R key =
     andThen (attempt (read_fs (fs_read (record_path E R key)))) (\<lambda>local.
     case local of
       Inr bs \<Rightarrow> ret (Some bs)
     | Inl _ \<Rightarrow>
         (case dht_value E key of
            Some v \<Rightarrow> andThen (attempt (cache_record E R key v)) (\<lambda>_. ret (Some v))
          | None \<Rightarrow> ret None))"

section \<open>Devices\<close>

definition own_device :: "'e crypto_scheme \<Rightarrow> Runtime \<Rightarrow> peer_id" where
  "own_device E R = device_peer_id E (rt_device_key R)"

definition device_registry_key :: "peer_id \<Rightarrow> bytes" where
  "device_registry_key did = str_bytes (DEVICE_REGISTRY_PREFIX @ did)"

definition load_device_list :: "'e rtenv_scheme \<Rightarrow> Runtime \<Rightarrow> IdentityId \<Rightarrow> (rt, DeviceList option) op" where
  "load_device_list E R owner = resolve_decoded E R owner RECORD_DEVICES (devices_codec E)"

fun best_list ::
  "'e rtenv_scheme \<Rightarrow> Runtime \<Rightarrow> (ObjectId \<times> peer_id) list \<Rightarrow> DeviceList option \<Rightarrow> DeviceList option" where
  "best_list E R [] best = best"
| "best_list E R ((manifest, peer) # qs) best =
     (case net_get_object E peer manifest of
        Inl _ \<Rightarrow> best_list E R qs best
      | Inr bundle \<Rightarrow>
          if payload_owner (payload (bundle_object bundle)) \<noteq> own_id R then best_list E R qs best
          else (case dec (devices_codec E) (payload_data (payload (bundle_object bundle))) of
                  None \<Rightarrow> best_list E R qs best
                | Some l \<Rightarrow>
                    if (case best of None \<Rightarrow> True | Some b \<Rightarrow> devices_version l > devices_version b)
                    then best_list E R qs (Some l) else best_list E R qs best))"

definition fetch_freshest_device_list :: "'e rtenv_scheme \<Rightarrow> Runtime \<Rightarrow> (rt, DeviceList option) op" where
  "fetch_freshest_device_list E R =
     (let owner = own_id R; key = pointer_key E owner RECORD_DEVICES in
      andThen (attempt (resolve_pointer E R owner RECORD_DEVICES)) (\<lambda>r.
      andThen (gets (\<lambda>s. latest_pointer_record E R owner RECORD_DEVICES (rt_fs s))) (\<lambda>pushed.
        let m1 = (case r of Inr (Some p) \<Rightarrow> [ptr_manifest p] | _ \<Rightarrow> []);
            m2 = (case pushed of Some p \<Rightarrow> [ptr_manifest p] | None \<Rightarrow> []);
            m3 = (case Option.bind (dht_value E key) (pointer_for E owner RECORD_DEVICES) of
                    Some p \<Rightarrow> [ptr_manifest p] | None \<Rightarrow> []);
            manifests = remdups_adj (sort (m1 @ m2 @ m3));
            connected = (case net_peers E of Inr ps \<Rightarrow> ps | Inl _ \<Rightarrow> []);
            providers = concat (map (\<lambda>m. case net_find_providers E m of Inr ps \<Rightarrow> ps | Inl _ \<Rightarrow> []) manifests);
            peers = filter (\<lambda>p. p \<noteq> own_device E R)
                      (remdups_adj (sort_key (peer_id_bytes E) (connected @ providers)))
        in ret (best_list E R (List.product manifests peers) None))))"

fun merge_devices :: "DeviceEntry list \<Rightarrow> DeviceEntry list \<Rightarrow> DeviceEntry list" where
  "merge_devices mine [] = mine"
| "merge_devices mine (e # es) =
     (if list_ex (\<lambda>d. device_entry_id d = device_entry_id e) mine then merge_devices mine es
      else merge_devices (mine @ [e]) es)"

definition load_device_list_merged :: "'e rtenv_scheme \<Rightarrow> Runtime \<Rightarrow> (rt, DeviceList) op" where
  "load_device_list_merged E R =
     andThen (load_device_list E R (own_id R)) (\<lambda>local.
       let merged = (case local of Some l \<Rightarrow> l | None \<Rightarrow> \<lparr> devices = [], devices_version = 0 \<rparr>) in
       andThen (attempt (fetch_freshest_device_list E R)) (\<lambda>remote.
       case remote of
         Inr (Some r) \<Rightarrow>
           ret \<lparr> devices = merge_devices (devices merged) (devices r),
                 devices_version = max (devices_version merged) (devices_version r) \<rparr>
       | _ \<Rightarrow> ret merged))"

definition save_device_list :: "'e rtenv_scheme \<Rightarrow> Runtime \<Rightarrow> DeviceList \<Rightarrow> (rt, ObjectId) op" where
  "save_device_list E R l =
     andThen (load_device_list E R (own_id R)) (\<lambda>old.
       let l = l \<lparr> devices_version := next_version (map_option devices_version old) \<rparr> in
       andThen (lift_res (devices_object E (rt_identity R) (now E) l)) (\<lambda>ob.
       andThen (on_fs (put_verified E (store_root R) ob)) (\<lambda>_.
       andThen (announce E (obj_id ob)) (\<lambda>_.
       andThen (publish_pointer E R RECORD_DEVICES (obj_id ob)) (\<lambda>_.
       ret (obj_id ob))))))"

fun update_first :: "('a \<Rightarrow> bool) \<Rightarrow> ('a \<Rightarrow> 'a) \<Rightarrow> 'a list \<Rightarrow> 'a list" where
  "update_first P f [] = []"
| "update_first P f (x # xs) = (if P x then f x # xs else x # update_first P f xs)"

definition upsert_device :: "int \<Rightarrow> string \<Rightarrow> string \<Rightarrow> DeviceList \<Rightarrow> DeviceList" where
  "upsert_device t did name l =
     (let at = Option.bind (by_device_id l did) added_at;
          at' = (case at of Some a \<Rightarrow> Some a | None \<Rightarrow> Some t)
      in if \<not> list_ex (\<lambda>d. device_entry_id d = did) (devices l) then
           l \<lparr> devices := devices l @
               [\<lparr> device_entry_id = did, device_entry_name = name, added_at = at' \<rparr>] \<rparr>
         else l \<lparr> devices := update_first (\<lambda>d. device_entry_id d = did)
                    (\<lambda>d. d \<lparr> device_entry_name := name, added_at := at' \<rparr>) (devices l) \<rparr>)"

definition add_device :: "'e rtenv_scheme \<Rightarrow> Runtime \<Rightarrow> string \<Rightarrow> string \<Rightarrow> (rt, DeviceList) op" where
  "add_device E R did name =
     andThen (load_device_list_merged E R) (\<lambda>l.
       let l = upsert_device (wall_time E) did name l in
       andThen (save_device_list E R l) (\<lambda>_. ret l))"

definition remove_device :: "'e rtenv_scheme \<Rightarrow> Runtime \<Rightarrow> string \<Rightarrow> (rt, DeviceList) op" where
  "remove_device E R did =
     (if did = own_device E R \<or> parse_peer_id E did = Some (own_device E R) then
        fail (Bail ''the current device cannot be removed'')
      else andThen (load_device_list_merged E R) (\<lambda>l.
        let l = l \<lparr> devices := filter (\<lambda>d. device_entry_id d \<noteq> did) (devices l) \<rparr> in
        andThen (save_device_list E R l) (\<lambda>_. ret l)))"

definition publish_device_registry :: "'e rtenv_scheme \<Rightarrow> Runtime \<Rightarrow> (rt, unit) op" where
  "publish_device_registry E R =
     publish_record E R (device_registry_key (own_device E R)) (str_bytes (own_id R))"

definition register_device :: "'e rtenv_scheme \<Rightarrow> Runtime \<Rightarrow> (rt, unit) op" where
  "register_device E R =
     andThen (attempt (add_device E R (own_device E R) (device_name (rt_device_key R)))) (\<lambda>_.
     publish_device_registry E R)"

definition same_device_ids :: "DeviceList \<Rightarrow> DeviceList \<Rightarrow> bool" where
  "same_device_ids a b =
     (sort (map device_entry_id (devices a)) = sort (map device_entry_id (devices b)))"

definition reconcile_device_list :: "'e rtenv_scheme \<Rightarrow> Runtime \<Rightarrow> (rt, unit) op" where
  "reconcile_device_list E R =
     andThen (load_device_list_merged E R) (\<lambda>merged.
     andThen (load_device_list E R (own_id R)) (\<lambda>local.
       let self = own_device E R;
           wanted = (if \<not> list_ex (\<lambda>d. device_entry_id d = self) (devices merged) then
                       merged \<lparr> devices := devices merged @
                         [\<lparr> device_entry_id = self, device_entry_name = device_name (rt_device_key R),
                            added_at = Some (wall_time E) \<rparr>] \<rparr>
                     else merged)
       in if (case local of Some l \<Rightarrow> same_device_ids l wanted | None \<Rightarrow> False) then ret ()
          else andThen (save_device_list E R wanted) (\<lambda>_. ret ())))"

definition reannounce_devices :: "'e rtenv_scheme \<Rightarrow> Runtime \<Rightarrow> (rt, unit) op" where
  "reannounce_devices E R =
     (let key = pointer_key E (own_id R) RECORD_DEVICES in
      andThen (attempt (read_fs (fs_read (record_path E R key)))) (\<lambda>local.
      case local of
        Inl _ \<Rightarrow> ret ()
      | Inr bs \<Rightarrow>
          (case dec (pointer_codec E) bs of
             None \<Rightarrow> ret ()
           | Some r \<Rightarrow>
               if pointer_verify E r \<and> ptr_owner r = own_id R then
                 andThen (send (PutRecord key bs)) (\<lambda>_. send (Announce (ptr_manifest r)))
               else ret ())))"

definition republish_devices :: "'e rtenv_scheme \<Rightarrow> Runtime \<Rightarrow> (rt, unit) op" where
  "republish_devices E R =
     andThen (send (PutRecord (device_registry_key (own_device E R)) (str_bytes (own_id R)))) (\<lambda>_.
     andThen (reannounce_devices E R) (\<lambda>_.
     andThen (register_device E R) (\<lambda>_.
     register_device E R)))"

definition resolve_device_identity :: "'e rtenv_scheme \<Rightarrow> Runtime \<Rightarrow> peer_id \<Rightarrow> (rt, IdentityId option) op" where
  "resolve_device_identity E R did =
     andThen (resolve_record E R (device_registry_key did)) (\<lambda>v.
     case v of
       None \<Rightarrow> ret None
     | Some bs \<Rightarrow>
         (case from_utf8 bs of
            None \<Rightarrow> fail (Bail ''device registry record is not valid utf-8'')
          | Some s \<Rightarrow> ret (Some s)))"

definition resolve_device_peer_id :: "'e rtenv_scheme \<Rightarrow> Runtime \<Rightarrow> IdentityId \<Rightarrow> (rt, peer_id option) op" where
  "resolve_device_peer_id E R owner =
     (if owner = own_id R then ret (Some (own_device E R))
      else andThen (load_device_list E R owner) (\<lambda>l.
        case l of
          None \<Rightarrow> ret None
        | Some l \<Rightarrow> ret (find_map (\<lambda>d. parse_peer_id E (device_entry_id d)) (devices l))))"

section \<open>Contacts\<close>

definition load_contact_list :: "'e rtenv_scheme \<Rightarrow> Runtime \<Rightarrow> (rt, ContactList option) op" where
  "load_contact_list E R = load_own E R RECORD_CONTACTS (contacts_codec E)"

definition save_contact_list :: "'e rtenv_scheme \<Rightarrow> Runtime \<Rightarrow> ContactList \<Rightarrow> (rt, ObjectId) op" where
  "save_contact_list E R l =
     andThen (load_contact_list E R) (\<lambda>old.
       let l = l \<lparr> contacts_version := next_version (map_option contacts_version old) \<rparr> in
       andThen (lift_res (contacts_object E (rt_identity R) (now E) l)) (\<lambda>ob.
       andThen (on_fs (put_verified E (store_root R) ob)) (\<lambda>_.
       andThen (publish_pointer E R RECORD_CONTACTS (obj_id ob)) (\<lambda>_.
       ret (obj_id ob)))))"

section \<open>Enriching connected peers\<close>

definition flat_option :: "'a option res \<Rightarrow> 'a option" where
  "flat_option r = (case r of Inr x \<Rightarrow> x | Inl _ \<Rightarrow> None)"

definition enrich_peer :: "'e rtenv_scheme \<Rightarrow> Runtime \<Rightarrow> peer_id \<Rightarrow> (rt, unit) op" where
  "enrich_peer E R p =
     andThen (attempt (resolve_device_identity E R p)) (\<lambda>i.
       let (ident, resolved) = (case i of Inr (Some x) \<Rightarrow> (x, True) | _ \<Rightarrow> (''canopee://identity/'' @ p, False)) in
       andThen (attempt (resolve_username E R ident)) (\<lambda>u.
       andThen (attempt (resolve_profile E R ident)) (\<lambda>pr.
         let name = map_option username (flat_option u); disp = map_option display_name (flat_option pr) in
         if name = None \<and> disp = None \<and> \<not> resolved then ret ()
         else send (SetPeerMeta p (Some ident) name disp))))"

definition enrich_peers :: "'e rtenv_scheme \<Rightarrow> Runtime \<Rightarrow> (rt, unit) op" where
  "enrich_peers E R = andThen (lift_res (net_peers E)) (\<lambda>ps. each (enrich_peer E R) ps)"

section \<open>Synchronisation\<close>

record SyncResult =
  profile_updated :: bool
  contacts_updated :: bool
  devices_updated :: bool

definition any_updated :: "SyncResult \<Rightarrow> bool" where
  "any_updated r = (profile_updated r \<or> contacts_updated r \<or> devices_updated r)"

definition is_newer :: "AppPointerRecord \<Rightarrow> AppPointerRecord option \<Rightarrow> bool" where
  "is_newer r loc = (case loc of Some l \<Rightarrow> published_at r > published_at l | None \<Rightarrow> True)"

definition refresh :: "'e rtenv_scheme \<Rightarrow> Runtime \<Rightarrow> bytes \<Rightarrow> AppPointerRecord \<Rightarrow> (rt, bool) op" where
  "refresh E R key r =
     andThen (fetch_object E R (ptr_manifest r) None) (\<lambda>_.
     andThen (cache_record E R key (enc (pointer_codec E) r)) (\<lambda>_. ret True))"

definition sync_record :: "'e rtenv_scheme \<Rightarrow> Runtime \<Rightarrow> string \<Rightarrow> (rt, bool) op" where
  "sync_record E R name =
     (let owner = own_id R; key = pointer_key E owner name in
      andThen (gets (\<lambda>s. cached_pointer E R owner name (rt_fs s))) (\<lambda>local.
      andThen (gets (\<lambda>s. latest_pointer_record E R owner name (rt_fs s))) (\<lambda>pushed.
        let from_dht =
              (case Option.bind (dht_value E key) (pointer_for E owner name) of
                 None \<Rightarrow> ret False
               | Some r \<Rightarrow> if \<not> is_newer r local then ret False else refresh E R key r)
        in case pushed of
             Some p \<Rightarrow> if is_newer p local then refresh E R key p else from_dht
           | None \<Rightarrow> from_dht)))"

definition sync_records :: "'e rtenv_scheme \<Rightarrow> Runtime \<Rightarrow> (rt, SyncResult) op" where
  "sync_records E R =
     andThen (sync_record E R RECORD_PROFILE) (\<lambda>p.
     andThen (sync_record E R RECORD_CONTACTS) (\<lambda>c.
     andThen (sync_record E R RECORD_DEVICES) (\<lambda>d.
     ret \<lparr> profile_updated = p, contacts_updated = c, devices_updated = d \<rparr>)))"

definition sync_with_peer :: "'e rtenv_scheme \<Rightarrow> Runtime \<Rightarrow> peer_id \<Rightarrow> (rt, SyncResult) op" where
  "sync_with_peer E R p = sync_records E R"

definition sync_with_all_devices :: "'e rtenv_scheme \<Rightarrow> Runtime \<Rightarrow> (rt, SyncResult) op" where
  "sync_with_all_devices E R =
     andThen (load_device_list E R (own_id R)) (\<lambda>_. sync_records E R)"

definition periodic_sync :: "'e rtenv_scheme \<Rightarrow> Runtime \<Rightarrow> (rt, unit) op" where
  "periodic_sync E R =
     andThen (gets (\<lambda>s. started (rt_state s))) (\<lambda>on.
       if \<not> on then ret ()
       else if (case net_peers E of Inr ps \<Rightarrow> length ps | Inl _ \<Rightarrow> 0) = 0 then ret ()
       else andThen (attempt (sync_with_all_devices E R)) (\<lambda>_.
            andThen (attempt (reconcile_device_list E R)) (\<lambda>_. ret ())))"

end
