(* ===== verification/Runtime_Sharing.thy ===== *)
theory Runtime_Sharing
  imports Runtime_Records
begin

text \<open>
  canopee-runtime/src/sharing.rs and capabilities.rs, with \<open>delete_object\<close> and the start-up of
  lib.rs: the home index, whose \<open>shared\<close> flags decide what the node serves, and the grants an
  identity issues and revokes.
\<close>

section \<open>The home index\<close>

definition load_home_index :: "'e rtenv_scheme \<Rightarrow> Runtime \<Rightarrow> (rt, HomeIndex option) op" where
  "load_home_index E R = load_own E R RECORD_HOME (home_codec E)"

definition shared_ids :: "HomeIndex option \<Rightarrow> ObjectId list" where
  "shared_ids ix =
     (case ix of
        Some i \<Rightarrow> remdups (map home_object (filter home_shared (home_entries i)))
      | None \<Rightarrow> [])"

definition reconcile_shared :: "HomeIndex option \<Rightarrow> HomeIndex option \<Rightarrow> (rt, unit) op" where
  "reconcile_shared previous current =
     (let before = shared_ids previous; after = shared_ids current in
      andThen (each (\<lambda>oid. andThen (mark_shared oid) (\<lambda>_. send (Announce oid)))
                (filter (\<lambda>oid. oid \<notin> set before) after)) (\<lambda>_.
      each (\<lambda>oid. andThen (modify (\<lambda>s. s \<lparr> rt_shared := shared_remove oid (rt_shared s) \<rparr>))
              (\<lambda>_. send (Unannounce oid)))
        (filter (\<lambda>oid. oid \<notin> set after) before)))"

definition save_home_index :: "'e rtenv_scheme \<Rightarrow> Runtime \<Rightarrow> HomeIndex \<Rightarrow> (rt, ObjectId) op" where
  "save_home_index E R ix =
     andThen (load_home_index E R) (\<lambda>previous.
       let ix = ix \<lparr> home_version := next_version (map_option home_version previous) \<rparr> in
       andThen (lift_res (home_object_of E (rt_identity R) (now E) ix)) (\<lambda>ob.
       andThen (on_fs (put_verified E (store_root R) ob)) (\<lambda>_.
       andThen (publish_pointer E R RECORD_HOME (obj_id ob)) (\<lambda>_.
       andThen (reconcile_shared previous (Some ix)) (\<lambda>_.
       ret (obj_id ob))))))"

definition publish_entry_pointer :: "'e rtenv_scheme \<Rightarrow> Runtime \<Rightarrow> string \<Rightarrow> ObjectId \<Rightarrow> (rt, unit) op" where
  "publish_entry_pointer E R name oid =
     andThen (attempt (publish_pointer E R (''entry:'' @ name) oid)) (\<lambda>_. ret ())"

definition set_home_entry_shared :: "'e rtenv_scheme \<Rightarrow> Runtime \<Rightarrow> string \<Rightarrow> bool \<Rightarrow> (rt, ObjectId) op" where
  "set_home_entry_shared E R name sh =
     andThen (load_home_index E R) (\<lambda>ix.
     case ix of
       None \<Rightarrow> fail (Bail ''no home index yet'')
     | Some ix \<Rightarrow>
         (case find (\<lambda>e. home_name e = name) (home_entries ix) of
            None \<Rightarrow> fail (Bail (''no home entry named '' @ name))
          | Some entry \<Rightarrow>
              let ix' = ix \<lparr> home_entries := update_first (\<lambda>e. home_name e = name)
                           (\<lambda>e. e \<lparr> home_shared := sh \<rparr>) (home_entries ix) \<rparr> in
              andThen (save_home_index E R ix') (\<lambda>index_id.
              andThen (if sh then publish_entry_pointer E R name (home_object entry) else ret ()) (\<lambda>_.
              ret index_id))))"

definition upsert_home_entry ::
  "string \<Rightarrow> ObjectId \<Rightarrow> ObjectType \<Rightarrow> string option \<Rightarrow> HomeIndex \<Rightarrow> HomeIndex" where
  "upsert_home_entry name oid ty app ix =
     (case find (\<lambda>e. home_name e = name) (home_entries ix) of
        Some _ \<Rightarrow> ix \<lparr> home_entries := update_first (\<lambda>e. home_name e = name)
          (\<lambda>e. e \<lparr> home_object := oid, home_type := ty, home_shared := True, home_app := app \<rparr>)
          (home_entries ix) \<rparr>
      | None \<Rightarrow> ix \<lparr> home_entries := home_entries ix @
          [\<lparr> home_name = name, home_object = oid, home_type = ty, home_shared = True, home_app = app \<rparr>] \<rparr>)"

definition empty_home :: HomeIndex where
  "empty_home = \<lparr> home_profile = None, home_contacts = None, home_entries = [], home_version = 0 \<rparr>"

definition share_object_for ::
  "'e rtenv_scheme \<Rightarrow> Runtime \<Rightarrow> string \<Rightarrow> ObjectId \<Rightarrow> string option \<Rightarrow> bytes list \<Rightarrow> (rt, ObjectId) op" where
  "share_object_for E R name oid app rcpts =
     andThen (read_fs (get_verified E (store_root R) oid)) (\<lambda>ob.
     andThen (if rcpts = [] then ret oid
              else andThen (lift_res (open_object E R ob)) (\<lambda>opened.
                   andThen (put_object_for E R (payload_data (payload opened)) (object_type ob) None rcpts)
                     (\<lambda>sealed. ret (obj_id sealed)))) (\<lambda>shared_id.
     andThen (load_home_index E R) (\<lambda>ix.
       let ix = upsert_home_entry name shared_id (object_type ob) app
                  (case ix of Some i \<Rightarrow> i | None \<Rightarrow> empty_home) in
       andThen (save_home_index E R ix) (\<lambda>index_id.
       andThen (publish_entry_pointer E R name shared_id) (\<lambda>_.
       ret index_id)))))"

definition share_object ::
  "'e rtenv_scheme \<Rightarrow> Runtime \<Rightarrow> string \<Rightarrow> ObjectId \<Rightarrow> string option \<Rightarrow> (rt, ObjectId) op" where
  "share_object E R name oid app = share_object_for E R name oid app []"

section \<open>Deleting\<close>

fun remove_first :: "('a \<Rightarrow> bool) \<Rightarrow> 'a list \<Rightarrow> 'a list" where
  "remove_first P [] = []"
| "remove_first P (x # xs) = (if P x then xs else x # remove_first P xs)"

definition unlist_home :: "'e rtenv_scheme \<Rightarrow> Runtime \<Rightarrow> ObjectId \<Rightarrow> HomeIndex \<Rightarrow> (rt, unit) op" where
  "unlist_home E R oid home =
     (if home_profile home = Some oid \<or> home_contacts home = Some oid then
        fail (Bail ''profile and contact records cannot be deleted here'')
      else if list_ex (\<lambda>e. home_object e = oid) (home_entries home) then
        andThen (save_home_index E R (home \<lparr> home_entries :=
          remove_first (\<lambda>e. home_object e = oid) (home_entries home) \<rparr>)) (\<lambda>_. ret ())
      else ret ())"

definition delete_object :: "'e rtenv_scheme \<Rightarrow> Runtime \<Rightarrow> ObjectId \<Rightarrow> (rt, unit) op" where
  "delete_object E R oid =
     andThen (read_fs (get_verified E (store_root R) oid)) (\<lambda>ob.
       if payload_owner (payload ob) \<noteq> own_id R then
         fail (Bail ''only objects owned by this identity can be deleted'')
       else if object_type ob \<notin> {Blob, AppManifestT} then fail (Bail ''system records cannot be deleted'')
       else
         andThen (resolve_pointer E R (own_id R) RECORD_HOME) (\<lambda>r.
           let old_home = map_option ptr_manifest r in
           andThen (load_home_index E R) (\<lambda>home.
           andThen (case home of Some h \<Rightarrow> unlist_home E R oid h | None \<Rightarrow> ret ()) (\<lambda>_.
           andThen (evict E R oid) (\<lambda>_.
             case old_home of
               Some old \<Rightarrow>
                 if old \<noteq> oid then andThen (attempt (evict E R old)) (\<lambda>_. ret ()) else ret ()
             | None \<Rightarrow> ret ())))))"

section \<open>Capabilities\<close>

definition load_capability_index :: "'e rtenv_scheme \<Rightarrow> Runtime \<Rightarrow> (rt, CapabilityIndex option) op" where
  "load_capability_index E R = resolve_decoded E R (own_id R) RECORD_CAPABILITIES (capindex_codec E)"

definition save_capability_index :: "'e rtenv_scheme \<Rightarrow> Runtime \<Rightarrow> CapabilityIndex \<Rightarrow> (rt, ObjectId) op" where
  "save_capability_index E R ix =
     (let ix = ix \<lparr> capindex_version := capindex_version ix + 1 \<rparr> in
      andThen (lift_res (capindex_object E (rt_identity R) (now E) ix)) (\<lambda>ob.
      andThen (on_fs (put_verified E (store_root R) ob)) (\<lambda>_.
      andThen (publish_pointer E R RECORD_CAPABILITIES (obj_id ob)) (\<lambda>_.
      ret (obj_id ob)))))"

definition add_grant :: "Capability \<Rightarrow> CapabilityIndex option \<Rightarrow> CapabilityIndex" where
  "add_grant c ix =
     (let ix = (case ix of Some i \<Rightarrow> i | None \<Rightarrow> \<lparr> cap_entries = [], capindex_version = 0 \<rparr>) in
      ix \<lparr> cap_entries := cap_entries ix @ [\<lparr> entry_cap = c, entry_revoked = False \<rparr>] \<rparr>)"

definition grant_capability ::
  "'e rtenv_scheme \<Rightarrow> Runtime \<Rightarrow> IdentityId \<Rightarrow> Resource \<Rightarrow> Permission list \<Rightarrow> u64 option
   \<Rightarrow> (rt, Capability) op" where
  "grant_capability E R subject resource perms expires =
     andThen (lift_res (issue E (rt_identity R) (now E) subject resource perms expires)) (\<lambda>c.
     andThen (lift_res (capability_object E (rt_identity R) (now E) c)) (\<lambda>ob.
     andThen (on_fs (put_verified E (store_root R) ob)) (\<lambda>_.
     andThen (load_capability_index E R) (\<lambda>ix.
     andThen (save_capability_index E R (add_grant c ix)) (\<lambda>_.
     ret c)))))"

definition list_capabilities :: "'e rtenv_scheme \<Rightarrow> Runtime \<Rightarrow> (rt, CapabilityIndex option) op" where
  "list_capabilities E R = load_capability_index E R"

definition revoke_entry :: "CapabilityId \<Rightarrow> CapabilityIndex \<Rightarrow> CapabilityIndex option" where
  "revoke_entry cid ix =
     (if list_ex (\<lambda>e. cap_id (entry_cap e) = cid) (cap_entries ix) then
        Some (ix \<lparr> cap_entries := update_first (\<lambda>e. cap_id (entry_cap e) = cid)
          (\<lambda>e. e \<lparr> entry_revoked := True \<rparr>) (cap_entries ix) \<rparr>)
      else None)"

definition revoke_capability :: "'e rtenv_scheme \<Rightarrow> Runtime \<Rightarrow> CapabilityId \<Rightarrow> (rt, unit) op" where
  "revoke_capability E R cid =
     andThen (load_capability_index E R) (\<lambda>ix.
     case ix of
       None \<Rightarrow> fail (Bail ''no capabilities issued yet'')
     | Some ix \<Rightarrow>
         (case revoke_entry cid ix of
            None \<Rightarrow> fail (Bail (''no capability with id '' @ cid))
          | Some ix' \<Rightarrow> andThen (save_capability_index E R ix') (\<lambda>_. ret ())))"

definition revoked_in :: "CapabilityIndex option \<Rightarrow> CapabilityId \<Rightarrow> bool" where
  "revoked_in ix cid =
     (case Option.bind ix (\<lambda>i. cap_by_id i cid) of Some e \<Rightarrow> entry_revoked e | None \<Rightarrow> False)"

text \<open>\<open>slow\<close> says that the lookup of a remote index takes longer than its timeout.\<close>

definition check_remote_revocation ::
  "'e rtenv_scheme \<Rightarrow> Runtime \<Rightarrow> bool \<Rightarrow> IdentityId \<Rightarrow> CapabilityId \<Rightarrow> (rt, bool) op" where
  "check_remote_revocation E R slow owner cid =
     (if slow then ret False
      else andThen (attempt (resolve_owner_object E R owner RECORD_CAPABILITIES)) (\<lambda>r.
        case r of
          Inr (Some ob) \<Rightarrow> ret (revoked_in (dec (capindex_codec E) (payload_data (payload ob))) cid)
        | _ \<Rightarrow> ret False))"

definition check_capability ::
  "'e rtenv_scheme \<Rightarrow> Runtime \<Rightarrow> bool \<Rightarrow> Capability \<Rightarrow> (rt, bool \<times> string) op" where
  "check_capability E R slow c =
     (if \<not> cap_verify E c then ret (False, ''signature or content id invalid'')
      else if \<not> is_active_at c (now E) then
        ret (False, case expires_at c of
                      Some x \<Rightarrow> if now E > x then ''expired at '' @ u64_str x else ''not yet issued''
                    | None \<Rightarrow> ''not yet issued'')
      else andThen (if cap_issuer c = own_id R then
                      andThen (load_capability_index E R) (\<lambda>ix. ret (revoked_in ix (cap_id c)))
                    else check_remote_revocation E R slow (cap_issuer c) (cap_id c)) (\<lambda>revoked.
           if revoked then ret (False, ''revoked by the issuer'') else ret (True, ''grant verified'')))"

definition check_access ::
  "'e rtenv_scheme \<Rightarrow> Runtime \<Rightarrow> IdentityId \<Rightarrow> Permission \<Rightarrow> Resource \<Rightarrow> (rt, bool) op" where
  "check_access E R subject perm resource =
     andThen (load_capability_index E R) (\<lambda>ix.
     case ix of
       None \<Rightarrow> ret False
     | Some ix \<Rightarrow> ret (grants E ix subject resource perm (now E)))"

section \<open>Start-up\<close>

definition open_identity ::
  "'e rtenv_scheme \<Rightarrow> Keypair \<Rightarrow> bytes \<Rightarrow> bytes \<Rightarrow> (nat \<Rightarrow> fs) \<Rightarrow> string \<Rightarrow> fs \<Rightarrow> fs \<times> Identity res" where
  "open_identity E fresh salt nonce later path d =
     (case identity_pass E of
        Some pass \<Rightarrow>
          if \<not> fs_exists path d then create_encrypted E fresh salt nonce path pass d
          else (d, map_sum id fst (load_encrypted E path pass d))
      | None \<Rightarrow> create_if_absent E fresh path later d)"

definition default_device_name :: "string option \<Rightarrow> string option \<Rightarrow> string" where
  "default_device_name name_var hostname =
     (case name_var of
        Some s \<Rightarrow> if trim s \<noteq> [] then s else (case hostname of Some h \<Rightarrow> h | None \<Rightarrow> ''canopee-device'')
      | None \<Rightarrow> (case hostname of Some h \<Rightarrow> h | None \<Rightarrow> ''canopee-device''))"

definition reshare_record :: "'e rtenv_scheme \<Rightarrow> Runtime \<Rightarrow> string \<Rightarrow> (rt, unit) op" where
  "reshare_record E R name =
     andThen (attempt (read_fs (fs_read (record_path E R (pointer_key E (own_id R) name))))) (\<lambda>local.
     case local of
       Inl _ \<Rightarrow> ret ()
     | Inr bs \<Rightarrow>
         (case dec (pointer_codec E) bs of
            None \<Rightarrow> ret ()
          | Some r \<Rightarrow>
              if \<not> pointer_verify E r then ret ()
              else andThen (gets (\<lambda>s. store_exists (store_root R) (ptr_manifest r) (rt_fs s))) (\<lambda>ex.
                if ex then andThen (attempt (announce E (ptr_manifest r))) (\<lambda>_. ret ()) else ret ())))"

definition reshare_public_user_records :: "'e rtenv_scheme \<Rightarrow> Runtime \<Rightarrow> (rt, unit) op" where
  "reshare_public_user_records E R = each (reshare_record E R) [RECORD_PROFILE, RECORD_USERNAME, RECORD_DEVICES]"

text \<open>The end of \<open>open_with_config\<close>, once the struct is built.\<close>

definition start_runtime :: "'e rtenv_scheme \<Rightarrow> Runtime \<Rightarrow> (rt, unit) op" where
  "start_runtime E R =
     andThen (attempt (load_home_index E R)) (\<lambda>home.
     andThen (case home of Inr (Some ix) \<Rightarrow> reconcile_shared None (Some ix) | _ \<Rightarrow> ret ()) (\<lambda>_.
     andThen (reshare_public_user_records E R) (\<lambda>_.
     register_device E R)))"

end
