(* ===== verification/Pairing_Crypto.thy ===== *)
theory Pairing_Crypto
  imports Identities
begin

text \<open>
  canopee-identity/src/pairing.rs: the primitives of device pairing.  Random bytes are arguments.
\<close>

definition PAIR_NONCE_LEN :: nat where "PAIR_NONCE_LEN = 24"
definition SESSION_ID_LEN :: nat where "SESSION_ID_LEN = 16"
definition CODE_LEN :: nat where "CODE_LEN = 12"

definition CODE_ALPHABET :: string where
  "CODE_ALPHABET = ''ABCDEFGHIJKLMNOPQRSTUVWXYZ234567''"

unbundle bit_operations_syntax

definition generate_code :: "bytes \<Rightarrow> string" where
  "generate_code random = map (\<lambda>b. CODE_ALPHABET ! unat (b AND 31)) random"

definition lower_hex :: "nat \<Rightarrow> char" where
  "lower_hex n = char_of (if n < 10 then 48 + n else 87 + n)"

definition generate_session_id :: "bytes \<Rightarrow> string" where
  "generate_session_id random =
     concat (map (\<lambda>b. [lower_hex (unat b div 16), lower_hex (unat b mod 16)]) random)"

fun diff_bytes :: "byte \<Rightarrow> bytes \<Rightarrow> bytes \<Rightarrow> byte" where
  "diff_bytes diff (x # xs) (y # ys) = diff_bytes (diff OR (x XOR y)) xs ys"
| "diff_bytes diff _ _ = diff"

definition codes_match :: "string \<Rightarrow> string \<Rightarrow> bool" where
  "codes_match a b =
     (let a = str_bytes a; b = str_bytes b in
      if length a \<noteq> length b then False else diff_bytes 0 a b = 0)"

definition derive_session_key :: "'e crypto_scheme \<Rightarrow> string \<Rightarrow> bytes \<Rightarrow> bytes res" where
  "derive_session_key E code salt =
     ok_or (argon2id E (str_bytes code) salt (argon2_default E)) (Panic ''argon2 params are valid'')"

definition encrypt_payload :: "'e crypto_scheme \<Rightarrow> bytes \<Rightarrow> bytes \<Rightarrow> bytes \<Rightarrow> bytes res" where
  "encrypt_payload E nonce clear session_key =
     res_bind (ok_or (aead_encrypt E session_key nonce clear)
                (Bail ''pairing payload encryption failed'')) (\<lambda>ct. Inr (nonce @ ct))"

definition decrypt_payload :: "'e crypto_scheme \<Rightarrow> bytes \<Rightarrow> bytes \<Rightarrow> bytes res" where
  "decrypt_payload E framed session_key =
     (if length framed < PAIR_NONCE_LEN then Inl (Bail ''pairing payload is truncated'')
      else let nonce = take PAIR_NONCE_LEN framed; ct = drop PAIR_NONCE_LEN framed in
        ok_or (aead_decrypt E session_key nonce ct)
          (Bail ''wrong pairing code or tampered pairing payload''))"

section \<open>Facts\<close>

lemma diff_bytes_zero:
  "length xs = length ys \<Longrightarrow> diff_bytes d xs ys = 0 \<longleftrightarrow> d = 0 \<and> xs = ys"
proof (induction d xs ys rule: diff_bytes.induct)
  case (1 d x xs y ys)
  have "d OR (x XOR y) = 0 \<longleftrightarrow> d = 0 \<and> x = y"
    by (metis or_eq_0_iff xor.right_neutral xor_self_eq xor.assoc xor.left_neutral)
  with 1 show ?case by auto
qed auto

text \<open>The constant-time comparison decides equality.\<close>

lemma codes_match_iff: "codes_match a b \<longleftrightarrow> a = b"
proof (cases "length a = length b")
  case True
  with diff_bytes_zero [of "str_bytes a" "str_bytes b" 0] show ?thesis
    by (simp add: codes_match_def)
qed (auto simp: codes_match_def)

lemma code_chars: "c \<in> set (generate_code random) \<Longrightarrow> c \<in> set CODE_ALPHABET"
proof -
  have "unat (b AND 31) < length CODE_ALPHABET" for b :: byte
  proof -
    have "b AND 31 = take_bit 5 b" by (simp add: take_bit_eq_mask mask_eq_exp_minus_1)
    hence "unat (b AND 31) < 2 ^ 5"
      using take_bit_nat_less_exp [of 5 "unat b"] by (simp add: unsigned_take_bit_eq)
    thus ?thesis by (simp add: CODE_ALPHABET_def del: unsigned_take_bit_eq)
  qed
  thus "c \<in> set (generate_code random) \<Longrightarrow> c \<in> set CODE_ALPHABET"
    by (auto simp: generate_code_def)
qed

lemma payload_roundtrip:
  assumes "aead_ok E" "length nonce = 24" "encrypt_payload E nonce clear key = Inr framed"
  shows "decrypt_payload E framed key = Inr clear"
  using assms by (auto simp: encrypt_payload_def decrypt_payload_def PAIR_NONCE_LEN_def Let_def
      dest: aead_okD)

end
