(* ===== verification/Runtime_Pairing.thy ===== *)
theory Runtime_Pairing
  imports Runtime_Sharing Pairing_Crypto
begin

text \<open>
  canopee-runtime/src/pairing.rs: copying an identity to a second device over the LAN.  The new
  device mints a code and a session; the old one sends the encrypted key and records; the new one
  checks and adopts them.  The wire types are those of canopee-protocol and canopee-network;
  listen addresses and the clock are arguments.
\<close>

record PairingQrData =
  qr_version :: nat
  qr_device_id :: string
  qr_device_name :: string
  qr_lan_addr :: string
  qr_code :: string
  qr_session_id :: string

record PairingRecord =
  prec_name :: string
  prec_object :: Object
  prec_pointer :: AppPointerRecord

record PairingData =
  pd_version :: nat
  pd_identity_key :: bytes
  pd_records :: "PairingRecord list"

record CanopeePairingRequest =
  pair_from :: string
  pair_device_id :: string
  pair_session_id :: string
  pair_payload :: bytes

datatype CanopeePairingResponse = Accepted string | PairingError string

section \<open>The new device offers a session\<close>

definition is_ip :: "string \<Rightarrow> bool" where
  "is_ip s = (starts_with ''/ip4/'' s \<or> starts_with ''/ip6/'' s)"

definition is_loopback :: "string \<Rightarrow> bool" where
  "is_loopback s = (starts_with ''/ip4/127.'' s \<or> starts_with ''/ip6/::1'' s)"

fun before :: "string \<Rightarrow> string \<Rightarrow> string" where
  "before p [] = []"
| "before p (c # s) = (if starts_with p (c # s) then [] else c # before p s)"

definition dialable_lan_addr :: "'e rtenv_scheme \<Rightarrow> Runtime \<Rightarrow> string list res \<Rightarrow> string res" where
  "dialable_lan_addr E R listen =
     res_bind listen (\<lambda>addrs.
     res_bind (ok_or (case find (\<lambda>s. is_ip s \<and> \<not> is_loopback s) addrs of
                        Some a \<Rightarrow> Some a | None \<Rightarrow> find is_ip addrs)
                (Bail ''no listen address available to pair over'')) (\<lambda>pick.
       let base = before ''/p2p/'' pick in
       if \<not> is_ip base then Inl (Bail (''listen address '' @ pick @ '' is not a dialable ip address''))
       else Inr (base @ ''/p2p/'' @ own_device E R)))"

definition initiate_pairing ::
  "'e rtenv_scheme \<Rightarrow> Runtime \<Rightarrow> bytes \<Rightarrow> bytes \<Rightarrow> string list res \<Rightarrow> (rt, PairingQrData) op" where
  "initiate_pairing E R code_rnd session_rnd listen =
     (let code = generate_code code_rnd; sid = generate_session_id session_rnd in
      andThen (lift_res (dialable_lan_addr E R listen)) (\<lambda>lan.
      andThen (modify (\<lambda>s. s \<lparr> rt_pairing := Some \<lparr> session_id = sid, pairing_code = code \<rparr> \<rparr>)) (\<lambda>_.
      ret \<lparr> qr_version = 1, qr_device_id = own_device E R, qr_device_name = device_name (rt_device_key R),
            qr_lan_addr = lan, qr_code = code, qr_session_id = sid \<rparr>)))"

section \<open>The device that has the identity\<close>

definition pairing_salt :: "'e rtenv_scheme \<Rightarrow> string \<Rightarrow> peer_id \<Rightarrow> peer_id \<Rightarrow> bytes" where
  "pairing_salt E sid from to =
     str_bytes ''canopee/pairing/v1'' @ str_bytes sid @ peer_id_bytes E from @ peer_id_bytes E to"

definition pairing_session_key ::
  "'e rtenv_scheme \<Rightarrow> Runtime \<Rightarrow> PairingQrData \<Rightarrow> peer_id \<Rightarrow> string \<Rightarrow> bytes res" where
  "pairing_session_key E R qr new_device code =
     derive_session_key E code (pairing_salt E (qr_session_id qr) (own_device E R) new_device)"

definition pairing_record :: "'e rtenv_scheme \<Rightarrow> Runtime \<Rightarrow> fs \<Rightarrow> string \<Rightarrow> PairingRecord option" where
  "pairing_record E R d name =
     (case fs_read (record_path E R (pointer_key E (own_id R) name)) d of
        Inl _ \<Rightarrow> None
      | Inr bs \<Rightarrow>
          (case dec (pointer_codec E) bs of
             None \<Rightarrow> None
           | Some ptr \<Rightarrow>
               if ptr_owner ptr \<noteq> own_id R \<or> \<not> pointer_verify E ptr then None
               else (case get_verified E (store_root R) (ptr_manifest ptr) d of
                       Inl _ \<Rightarrow> None
                     | Inr ob \<Rightarrow>
                         if \<not> object_verify E ob \<or> payload_owner (payload ob) \<noteq> own_id R then None
                         else Some \<lparr> prec_name = name, prec_object = ob, prec_pointer = ptr \<rparr>)))"

definition encrypt_pairing_payload ::
  "'e rtenv_scheme \<Rightarrow> (PairingData \<Rightarrow> bytes) \<Rightarrow> Runtime \<Rightarrow> bytes \<Rightarrow> bytes \<Rightarrow> (rt, bytes) op" where
  "encrypt_pairing_payload E penc R nonce session_key =
     andThen (lift_res (export_bytes E (rt_identity R))) (\<lambda>identity_key.
     andThen (gets (\<lambda>s. List.map_filter (pairing_record E R (rt_fs s))
                [RECORD_DEVICES, RECORD_PROFILE, RECORD_CONTACTS])) (\<lambda>records.
     lift_res (encrypt_payload E nonce
       (penc \<lparr> pd_version = 1, pd_identity_key = identity_key, pd_records = records \<rparr>) session_key)))"

text \<open>\<open>deliver\<close> is \<open>send_pairing_request\<close>: dialling, waiting up to twenty seconds for the peer,
  and the answer.\<close>

definition complete_pairing ::
  "'e rtenv_scheme \<Rightarrow> (PairingData \<Rightarrow> bytes) \<Rightarrow> Runtime \<Rightarrow> bytes
   \<Rightarrow> (peer_id \<Rightarrow> string \<Rightarrow> CanopeePairingRequest \<Rightarrow> string res) \<Rightarrow> PairingQrData \<Rightarrow> string
   \<Rightarrow> (rt, string) op" where
  "complete_pairing E penc R nonce deliver qr code =
     (if qr_version qr \<noteq> 1 then fail (Bail ''unsupported pairing protocol version'')
      else if \<not> codes_match (qr_code qr) code then
        fail (Bail ''pairing code does not match the code on the device'')
      else case parse_peer_id E (qr_device_id qr) of
        None \<Rightarrow> fail (Bail ''device id in the QR is not a valid peer id'')
      | Some new_device \<Rightarrow>
          if new_device = own_device E R then fail (Bail ''this device is already the one carrying the identity'')
          else andThen (lift_res (pairing_session_key E R qr new_device code)) (\<lambda>key.
               andThen (encrypt_pairing_payload E penc R nonce key) (\<lambda>payload.
               lift_res (deliver new_device (qr_lan_addr qr)
                 \<lparr> pair_from = own_device E R, pair_device_id = qr_device_id qr,
                   pair_session_id = qr_session_id qr, pair_payload = payload \<rparr>))))"

section \<open>The new device takes the identity over\<close>

definition valid_record :: "'e objenv_scheme \<Rightarrow> Identity \<Rightarrow> PairingRecord \<Rightarrow> bool" where
  "valid_record E imported r =
     (ptr_owner (prec_pointer r) = identity_id imported \<and>
      ptr_manifest (prec_pointer r) = obj_id (prec_object r) \<and>
      ptr_name (prec_pointer r) = prec_name r \<and>
      pointer_verify E (prec_pointer r) \<and>
      object_verify E (prec_object r) \<and>
      payload_owner (payload (prec_object r)) = identity_id imported)"

definition set_identity_key :: "'e rtenv_scheme \<Rightarrow> Runtime \<Rightarrow> bytes \<Rightarrow> bytes \<Rightarrow> Identity \<Rightarrow> (rt, unit) op" where
  "set_identity_key E R salt nonce imported =
     andThen (backup_identity E R) (\<lambda>_. write_identity E R salt nonce imported)"

fun import_records ::
  "'e rtenv_scheme \<Rightarrow> Runtime \<Rightarrow> Identity \<Rightarrow> PairingRecord list \<Rightarrow> (rt, CanopeePairingResponse option) op" where
  "import_records E R imported [] = ret None"
| "import_records E R imported (r # rs) =
     andThen (attempt (on_fs (store_import E (store_root R) (prec_object r)))) (\<lambda>st.
     case st of
       Inl _ \<Rightarrow> ret (Some (PairingError (''record '' @ prec_name r @ '' could not be stored'')))
     | Inr _ \<Rightarrow>
         andThen (on_cache (mark_cached E (now E) (obj_id (prec_object r)))) (\<lambda>_.
         andThen (attempt (cache_record E R (pointer_key E (identity_id imported) (prec_name r))
                    (enc (pointer_codec E) (prec_pointer r)))) (\<lambda>_.
         import_records E R imported rs)))"

definition adopt ::
  "'e rtenv_scheme \<Rightarrow> Runtime \<Rightarrow> bytes \<Rightarrow> bytes \<Rightarrow> Identity \<Rightarrow> PairingRecord list
   \<Rightarrow> (rt, CanopeePairingResponse) op" where
  "adopt E R salt nonce imported records =
     (if \<not> list_all (valid_record E imported) records then
        ret (PairingError ''the transferred records do not verify against the transferred identity'')
      else andThen (attempt (set_identity_key E R salt nonce imported)) (\<lambda>k.
        case k of
          Inl _ \<Rightarrow> ret (PairingError ''the identity key could not be written'')
        | Inr _ \<Rightarrow>
            andThen (import_records E R imported records) (\<lambda>err.
            case err of
              Some e \<Rightarrow> ret e
            | None \<Rightarrow> ret (Accepted (''accepted - restart '' @ device_name (rt_device_key R) @ '' (''
                @ identity_id imported @ '' ) to take over the identity'')))))"

definition accept_pairing ::
  "'e rtenv_scheme \<Rightarrow> (bytes \<Rightarrow> PairingData option) \<Rightarrow> Runtime \<Rightarrow> bytes \<Rightarrow> bytes \<Rightarrow> peer_id
   \<Rightarrow> CanopeePairingRequest \<Rightarrow> (rt, CanopeePairingResponse) op" where
  "accept_pairing E pdec R salt nonce sender rq =
     andThen (gets rt_pairing) (\<lambda>session.
     andThen (modify (\<lambda>s. s \<lparr> rt_pairing := None \<rparr>)) (\<lambda>_.
     case session of
       None \<Rightarrow> ret (PairingError ''no pairing session for this request'')
     | Some session \<Rightarrow>
         if session_id session \<noteq> pair_session_id rq then
           ret (PairingError ''no pairing session for this request'')
         else if parse_peer_id E (pair_from rq) \<noteq> Some sender then
           ret (PairingError ''sender identity mismatch'')
         else if parse_peer_id E (pair_device_id rq) \<noteq> Some (own_device E R) then
           ret (PairingError ''wrong destination device'')
         else
           andThen (lift_res (derive_session_key E (pairing_code session)
                      (pairing_salt E (pair_session_id rq) sender (own_device E R)))) (\<lambda>key.
           case decrypt_payload E (pair_payload rq) key of
             Inl _ \<Rightarrow> ret (PairingError ''wrong pairing code or tampered pairing payload'')
           | Inr clear \<Rightarrow>
               (case pdec clear of
                  None \<Rightarrow> ret (PairingError ''malformed pairing payload'')
                | Some pd \<Rightarrow>
                    if pd_version pd \<noteq> 1 then ret (PairingError ''malformed pairing payload'')
                    else (case import_bytes E (pd_identity_key pd) of
                            Inl _ \<Rightarrow> ret (PairingError ''invalid identity keypair bytes'')
                          | Inr imported \<Rightarrow> adopt E R salt nonce imported (pd_records pd))))))"

end
