(* ===== verification/Runtime_Safety.thy ===== *)
theory Runtime_Safety
  imports Runtime_Pairing
begin

text \<open>
  What every operation of the runtime keeps.  Two relations between the state before and after are
  shown for each operation, each through the interface \<open>state_relation\<close>: \<open>store_step\<close>, an object
  file changes only to the encoding of a verified object of that id, and disappears only where a
  deletion is allowed; and \<open>exposure_step\<close>, the log of network commands only grows, and what joins
  the serving set was announced.
\<close>

section \<open>Where the runtime writes\<close>

text \<open>The object directory and the per-app root are the same root, or neither is inside the other.\<close>

definition roots_apart :: "Config \<Rightarrow> bool" where
  "roots_apart c = (app_root c = user_root c \<or>
     \<not> prefix (app_root c @ ''/'') (storage_path c @ ''/'') \<and>
     \<not> prefix (storage_path c @ ''/'') (app_root c @ ''/''))"

text \<open>What the hex encoding of a digest promises: no dot, so ids are visible in the store.\<close>

definition hex_ok :: "'e crypto_scheme \<Rightarrow> bool" where
  "hex_ok E = (\<forall>bs. visible (hex_encode E bs))"

definition object_file :: "Runtime \<Rightarrow> string \<Rightarrow> bool" where
  "object_file R p = (\<exists>oid. visible oid \<and> p = object_path (store_root R) oid)"

lemma object_fileI [intro]: "visible oid \<Longrightarrow> object_file R (object_path (store_root R) oid)"
  by (auto simp: object_file_def)

lemma storage_prefix: "object_file R p \<Longrightarrow> prefix (user_root (rt_config R) @ ''/storage/'') p"
  by (auto simp: object_file_def object_path_def store_root_def storage_path_def path_join_def prefix_def)

lemma user_file [simp]:
  assumes "\<not> prefix ''storage/'' q" "\<not> prefix q ''storage/''"
  shows "\<not> object_file R (user_root (rt_config R) @ CHR ''/'' # q)"
proof
  assume "object_file R (user_root (rt_config R) @ CHR ''/'' # q)"
  from storage_prefix [OF this] have "prefix (user_root (rt_config R) @ (''/'' @ ''storage/''))
      (user_root (rt_config R) @ (''/'' @ q))" by simp
  hence "prefix ''storage/'' q" by (simp only: same_prefix_prefix)
  with assms show False by simp
qed

lemma app_file:
  assumes "roots_apart (rt_config R)" "\<not> prefix ''storage/'' q" "\<not> prefix q ''storage/''"
  shows "\<not> object_file R (app_root (rt_config R) @ CHR ''/'' # q)"
proof (cases "app_root (rt_config R) = user_root (rt_config R)")
  case True
  with user_file [OF assms(2,3)] show ?thesis by metis
next
  case False
  let ?a = "app_root (rt_config R) @ ''/''" and ?u = "storage_path (rt_config R) @ ''/''"
  show ?thesis
  proof
    assume o: "object_file R (app_root (rt_config R) @ CHR ''/'' # q)"
    from o obtain oid where e: "app_root (rt_config R) @ CHR ''/'' # q = ?u @ oid"
      by (auto simp: object_file_def object_path_def store_root_def)
    hence "prefix ?a (?u @ oid)" by (metis append.assoc append_Cons append_Nil prefixI)
    hence "prefix ?a ?u \<or> prefix ?u ?a" using prefix_same_cases prefixI by blast
    with assms(1) False show False by (simp add: roots_apart_def)
  qed
qed

lemma with_extension_file:
  assumes "CHR ''/'' \<notin> set b"
  shows "with_extension (d @ CHR ''/'' # b) ext = d @ CHR ''/'' # with_extension b ext"
proof -
  have all: "takeWhile (\<lambda>c. c \<noteq> CHR ''/'') (rev b) = rev b"
    using assms by (auto simp: takeWhile_eq_all_conv)
  moreover have "takeWhile (\<lambda>c. c \<noteq> CHR ''/'') (rev b @ CHR ''/'' # rev d) = rev b"
    using assms by (subst takeWhile_append2) auto
  ultimately show ?thesis by (simp only: with_extension_def Let_def rev_append rev.simps append.assoc
      append.simps all) simp
qed

lemma with_extension_dir: "\<exists>q'. with_extension (d @ CHR ''/'' # q) ext = d @ CHR ''/'' # q'"
proof (cases "CHR ''/'' \<in> set q")
  case True
  then obtain x y where "q = x @ CHR ''/'' # y" "CHR ''/'' \<notin> set y"
    by (metis split_list_last)
  thus ?thesis using with_extension_file [of y "d @ CHR ''/'' # x" ext] by simp
qed (use with_extension_file in blast)

lemma user_tmp:
  assumes "\<not> prefix ''storage/'' (dir @ ''/'')" "\<not> prefix (dir @ ''/'') ''storage/''"
  shows "\<not> object_file R (with_extension (user_root (rt_config R) @ CHR ''/'' # dir @ CHR ''/'' # q) ext)"
proof -
  obtain q' where "with_extension ((user_root (rt_config R) @ CHR ''/'' # dir) @ CHR ''/'' # q) ext
      = (user_root (rt_config R) @ CHR ''/'' # dir) @ CHR ''/'' # q'"
    using with_extension_dir by blast
  hence e: "with_extension (user_root (rt_config R) @ CHR ''/'' # dir @ CHR ''/'' # q) ext
      = user_root (rt_config R) @ CHR ''/'' # (dir @ ''/'' @ q')" by simp
  have "\<not> prefix ''storage/'' ((dir @ ''/'') @ q')" "\<not> prefix ((dir @ ''/'') @ q') ''storage/''"
    using assms prefix_same_cases append_prefixD by blast+
  hence "\<not> object_file R (user_root (rt_config R) @ CHR ''/'' # (dir @ ''/'' @ q'))"
    by (intro user_file) simp_all
  with e show ?thesis by simp
qed

text \<open>Every path the runtime writes to, besides the objects themselves.\<close>

lemma other_files [simp]:
  "\<not> object_file R (record_path E R key)"
  "\<not> object_file R (with_extension (record_path E R key) ''tmp'')"
  "\<not> object_file R (identity_file R)"
  "\<not> object_file R (path_join (identity_path (rt_config R)) x)"
  by (simp_all add: record_path_def records_path_def identity_file_def identity_path_def path_join_def
      user_tmp [of "''records''", simplified])

lemma app_files:
  assumes "roots_apart (rt_config R)"
  shows "\<not> object_file R (state_path (rt_config R))"
    "\<not> object_file R (with_extension (state_path (rt_config R)) ''tmp'')"
    "\<not> object_file R (cache_file_path (rt_config R))"
    "\<not> object_file R (with_extension (cache_file_path (rt_config R)) ''tmp'')"
    "\<not> object_file R (path_join (export_path (rt_config R)) x)"
proof -
  have "with_extension (app_root (rt_config R) @ CHR ''/'' # ''state/node.state'') ''tmp''
      = app_root (rt_config R) @ CHR ''/'' # ''state/node.tmp''"
    using with_extension_file [of "''node.state''" "app_root (rt_config R) @ ''/state''"]
    by (simp add: with_extension_def)
  thus "\<not> object_file R (with_extension (state_path (rt_config R)) ''tmp'')"
    using app_file [OF assms, of "''state/node.tmp''"] by (simp add: state_path_def path_join_def)
  have "with_extension (app_root (rt_config R) @ CHR ''/'' # ''cache.cache'') ''tmp''
      = app_root (rt_config R) @ CHR ''/'' # ''cache.tmp''"
    by (simp add: with_extension_file) (simp add: with_extension_def)
  thus "\<not> object_file R (with_extension (cache_file_path (rt_config R)) ''tmp'')"
    using app_file [OF assms, of "''cache.tmp''"] by (simp add: cache_file_path_def path_join_def)
  show "\<not> object_file R (state_path (rt_config R))" "\<not> object_file R (cache_file_path (rt_config R))"
    "\<not> object_file R (path_join (export_path (rt_config R)) x)"
    using app_file [OF assms] by (simp_all add: state_path_def cache_file_path_def export_path_def path_join_def)
qed

lemma store_files [simp]:
  "\<not> object_file R (name_path (store_root R) oid)" "\<not> object_file R (tmp_path (store_root R) oid)"
  by (auto simp: object_file_def visible_paths)

section \<open>Objects stay\<close>

definition store_step :: "bool \<Rightarrow> 'e objenv_scheme \<Rightarrow> Runtime \<Rightarrow> rt \<Rightarrow> rt \<Rightarrow> bool" where
  "store_step lossy E R s t =
     (cache_path (rt_cache s) = cache_file_path (rt_config R) \<longrightarrow>
        cache_path (rt_cache t) = cache_path (rt_cache s) \<and>
        (\<forall>p. object_file R p \<longrightarrow>
           map_of (rt_fs t) p = map_of (rt_fs s) p \<or>
           (lossy \<and> map_of (rt_fs t) p = None) \<or>
           (\<exists>ob. object_verify E ob \<and> p = object_path (store_root R) (obj_id ob) \<and>
                 map_of (rt_fs t) p = Some (File (object_enc E ob)))))"

interpretation store: state_relation "store_step lossy E R" for lossy E R
proof
  fix s t u
  assume a: "store_step lossy E R s t" and b: "store_step lossy E R t u"
  show "store_step lossy E R s u"
    unfolding store_step_def
  proof (intro impI conjI allI)
    assume c: "cache_path (rt_cache s) = cache_file_path (rt_config R)"
    from a c have d: "cache_path (rt_cache t) = cache_path (rt_cache s)" by (simp add: store_step_def)
    with b c show "cache_path (rt_cache u) = cache_path (rt_cache s)" by (simp add: store_step_def)
    fix p assume "object_file R p"
    with a b c d show "map_of (rt_fs u) p = map_of (rt_fs s) p \<or> (lossy \<and> map_of (rt_fs u) p = None) \<or>
        (\<exists>ob. object_verify E ob \<and> p = object_path (store_root R) (obj_id ob) \<and>
          map_of (rt_fs u) p = Some (File (object_enc E ob)))"
      unfolding store_step_def by metis
  qed
qed (simp add: store_step_def)

definition sound_setup :: "'e crypto_scheme \<Rightarrow> Runtime \<Rightarrow> bool" where
  "sound_setup E R = (hex_ok E \<and> roots_apart (rt_config R))"

lemma keeps_on_fs:
  assumes "\<And>d d' r p. f d = (d', r) \<Longrightarrow> object_file R p \<Longrightarrow>
    map_of d' p = map_of d p \<or> (lossy \<and> map_of d' p = None) \<or>
    (\<exists>ob. object_verify E ob \<and> p = object_path (store_root R) (obj_id ob) \<and>
          map_of d' p = Some (File (object_enc E ob)))"
  shows "keeps (store_step lossy E R) (on_fs f)"
  unfolding keeps_def store_step_def on_fs_def using assms by (auto split: prod.splits)

lemma keeps_same_files:
  assumes "\<And>s. rt_fs (fst (m s)) = rt_fs s" "\<And>s. rt_cache (fst (m s)) = rt_cache s"
  shows "keeps (store_step lossy E R) m"
  using assms by (simp add: keeps_def store_step_def)

lemma store_put:
  assumes "sound_setup E R"
  shows "keeps (store_step lossy E R) (on_fs (put_verified E (store_root R) ob))"
proof (rule keeps_on_fs)
  fix d d' r p
  assume w: "put_verified E (store_root R) ob d = (d', r)" and p: "object_file R p"
  show "map_of d' p = map_of d p \<or> (lossy \<and> map_of d' p = None) \<or>
    (\<exists>ob. object_verify E ob \<and> p = object_path (store_root R) (obj_id ob) \<and>
          map_of d' p = Some (File (object_enc E ob)))"
  proof (cases "p \<noteq> object_path (store_root R) (obj_id ob) \<or> \<not> is_ok r")
    case True
    have "p \<noteq> tmp_path (store_root R) (obj_id ob)" using p by auto
    from put_verified_frame [OF w this True] show ?thesis by simp
  next
    case False
    then obtain u where r: "r = Inr u" by (auto simp: is_ok_iff)
    with w have v: "object_verify E ob" by (auto simp: put_verified_def split: if_splits)
    hence "visible (obj_id ob)"
      using assms object_verifyD(1) [OF v] by (simp add: sound_setup_def hex_ok_def from_payload_def)
    with put_verified_Inr [of E "store_root R" ob d d' u] w r False v show ?thesis by auto
  qed
qed

lemma store_imports:
  "sound_setup E R \<Longrightarrow> keeps (store_step lossy E R) (on_fs (store_import E (store_root R) ob))"
  using store_put [of E R lossy ob] by (simp add: store_import_def [abs_def])

lemma store_write:
  "\<not> object_file R q \<Longrightarrow> keeps (store_step lossy E R) (on_fs (fs_write F q bs))"
  by (rule keeps_on_fs) (metis fs_write_frame)

lemma store_rename:
  "\<not> object_file R q \<Longrightarrow> \<not> object_file R q' \<Longrightarrow> keeps (store_step lossy E R) (on_fs (fs_rename F q q'))"
  by (rule keeps_on_fs) (metis fs_rename_frame)

lemma store_copy:
  "\<not> object_file R q \<Longrightarrow> keeps (store_step lossy E R) (on_fs (fs_copy F src q))"
  by (rule keeps_on_fs) (auto simp: fs_copy_def split: sum.splits dest: fs_write_frame)

lemma store_set_name:
  "keeps (store_step lossy E R) (on_fs (set_name F (store_root R) oid n))"
  unfolding set_name_def by (rule store_write) simp

lemma store_removes: "keeps (store_step True E R) (on_fs (store_delete F (store_root R) oid))"
proof (rule keeps_on_fs)
  fix d d' :: fs and r p
  assume w: "store_delete F (store_root R) oid d = (d', r)"
  have "map_of d' p = map_of d p \<or> map_of d' p = None"
    using w
    by (auto simp: store_delete_def remove_if_exists_def fs_remove_def split: if_splits sum.splits prod.splits)
  thus "map_of d' p = map_of d p \<or> (True \<and> map_of d' p = None) \<or>
    (\<exists>ob. object_verify E ob \<and> p = object_path (store_root R) (obj_id ob) \<and>
          map_of d' p = Some (File (object_enc E ob)))" by blast
qed

lemma index_save_frame:
  assumes "index_save E path ix d = (d', r)" "p \<noteq> path" "p \<noteq> with_extension path ''tmp''"
  shows "map_of d' p = map_of d p"
  using assms
  by (auto simp: index_save_def Let_def split: option.splits if_splits prod.splits sum.splits
      dest!: fs_write_frame fs_rename_frame)

lemma keeps_on_cache:
  assumes "roots_apart (rt_config R)"
    and "\<And>c d c' d'. f c d = (c', d') \<Longrightarrow> cache_path c' = cache_path c \<and>
           (\<exists>ix. d' = fst (index_save F (cache_path c) ix d))"
  shows "keeps (store_step lossy E R) (on_cache f)"
proof (rule keepsI)
  fix s :: rt
  obtain c' d' where f: "f (rt_cache s) (rt_fs s) = (c', d')" by (cases "f (rt_cache s) (rt_fs s)")
  from assms(2) [OF f] obtain ix where path: "cache_path c' = cache_path (rt_cache s)"
    and d': "d' = fst (index_save F (cache_path (rt_cache s)) ix (rt_fs s))" by blast
  obtain r where w: "index_save F (cache_path (rt_cache s)) ix (rt_fs s) = (d', r)"
    using d' by (cases "index_save F (cache_path (rt_cache s)) ix (rt_fs s)") simp
  have "map_of d' p = map_of (rt_fs s) p"
    if "object_file R p" "cache_path (rt_cache s) = cache_file_path (rt_config R)" for p
    using index_save_frame [OF w, of p] app_files(3,4) [OF assms(1)] that by metis
  with path f show "store_step lossy E R s (fst (on_cache f s))"
    by (simp add: on_cache_def store_step_def)
qed

lemma store_cache:
  assumes "sound_setup E R"
  shows "keeps (store_step lossy E R) (on_cache (mark_cached F t oid))"
    and "keeps (store_step lossy E R) (on_cache (cache_remove F oid))"
proof -
  have "roots_apart (rt_config R)" using assms by (simp add: sound_setup_def)
  thus "keeps (store_step lossy E R) (on_cache (mark_cached F t oid))"
    and "keeps (store_step lossy E R) (on_cache (cache_remove F oid))"
    by (auto intro!: keeps_on_cache [where F = F] simp: mark_cached_def cache_remove_def Let_def persist_def)
qed

lemma store_paths:
  "keeps (store_step lossy E R) (on_fs (fs_write F (record_path E' R key) bs))"
  "keeps (store_step lossy E R) (on_fs (fs_write F (with_extension (record_path E' R key) ''tmp'') bs))"
  "keeps (store_step lossy E R) (on_fs (fs_rename F (with_extension (record_path E' R key) ''tmp'') (record_path E' R key)))"
  "keeps (store_step lossy E R) (on_fs (fs_write F (path_join (identity_path (rt_config R)) x) bs))"
  "keeps (store_step lossy E R) (on_fs (fs_rename F (path_join (identity_path (rt_config R)) x) (identity_file R)))"
  "keeps (store_step lossy E R) (on_fs (fs_copy F src (path_join (identity_path (rt_config R)) x)))"
  by (simp_all add: store_write store_rename store_copy)

lemma store_app_paths:
  assumes "sound_setup E' R"
  shows "keeps (store_step lossy E R) (on_fs (fs_write F (with_extension (state_path (rt_config R)) ''tmp'') bs))"
    "keeps (store_step lossy E R) (on_fs (fs_rename F (with_extension (state_path (rt_config R)) ''tmp'')
       (state_path (rt_config R))))"
    "keeps (store_step lossy E R) (on_fs (fs_write F (path_join (export_path (rt_config R)) x) bs))"
  using app_files [of R] assms by (simp_all add: sound_setup_def store_write store_rename)

section \<open>What is served was announced\<close>

definition exposure_step :: "rt \<Rightarrow> rt \<Rightarrow> bool" where
  "exposure_step s t = (\<exists>l. rt_log t = rt_log s @ l \<and>
     (\<forall>oid. shared_contains (rt_shared t) oid \<longrightarrow>
        shared_contains (rt_shared s) oid \<or> Announce oid \<in> set l))"

lemma exposure_same: "rt_log t = rt_log s \<Longrightarrow> rt_shared t = rt_shared s \<Longrightarrow> exposure_step s t"
  by (simp add: exposure_step_def)

interpretation exposure: state_relation exposure_step
proof
  fix s t u
  assume "exposure_step s t" "exposure_step t u"
  then obtain l l' where "rt_log t = rt_log s @ l" "rt_log u = rt_log t @ l'"
    "\<forall>oid. shared_contains (rt_shared t) oid \<longrightarrow> shared_contains (rt_shared s) oid \<or> Announce oid \<in> set l"
    "\<forall>oid. shared_contains (rt_shared u) oid \<longrightarrow> shared_contains (rt_shared t) oid \<or> Announce oid \<in> set l'"
    by (auto simp: exposure_step_def)
  thus "exposure_step s u" unfolding exposure_step_def by (intro exI [of _ "l @ l'"]) auto
qed (simp add: exposure_same)

section \<open>Both, for every operation\<close>

definition runtime_step :: "bool \<Rightarrow> 'e objenv_scheme \<Rightarrow> Runtime \<Rightarrow> rt \<Rightarrow> rt \<Rightarrow> bool" where
  "runtime_step lossy E R s t = (store_step lossy E R s t \<and> exposure_step s t)"

interpretation runtime: state_relation "runtime_step lossy E R" for lossy E R
  by unfold_locales
     (auto simp: runtime_step_def store.stays exposure.stays intro: store.follows exposure.follows)

lemma keeps_runtime:
  "keeps (store_step lossy E R) m \<Longrightarrow> keeps exposure_step m \<Longrightarrow> keeps (runtime_step lossy E R) m"
  by (simp add: keeps_def runtime_step_def)

named_theorems runtime_ops

lemma runtime_fs: "keeps (store_step lossy E R) (on_fs f) \<Longrightarrow> keeps (runtime_step lossy E R) (on_fs f)"
  by (erule keeps_runtime) (auto simp: keeps_def on_fs_def exposure_same split: prod.splits)

lemma runtime_cache:
  "keeps (store_step lossy E R) (on_cache f) \<Longrightarrow> keeps (runtime_step lossy E R) (on_cache f)"
  by (erule keeps_runtime) (auto simp: keeps_def on_cache_def exposure_same split: prod.splits)

lemmas runtime_files [runtime_ops] = store_put [THEN runtime_fs] store_imports [THEN runtime_fs]
  store_set_name [THEN runtime_fs] store_removes [THEN runtime_fs] store_paths [THEN runtime_fs]
  store_app_paths [THEN runtime_fs] store_cache [THEN runtime_cache]

lemma runtime_reads [runtime_ops]:
  "keeps (runtime_step lossy E R) (read_fs k)"
  "keeps (runtime_step lossy E R) (create_dir F p)"
  by (rule keeps_runtime;
      auto simp: keeps_def read_fs_def create_dir_def exposure_same store.stays)+

lemma runtime_fields [runtime_ops]:
  "keeps (runtime_step lossy E R) (send c)"
  "keeps (runtime_step lossy E R) (modify (\<lambda>s. s\<lparr>rt_shared := shared_remove oid (rt_shared s)\<rparr>))"
  "keeps (runtime_step lossy E R) (modify (\<lambda>s. s\<lparr>rt_pairing := g s\<rparr>))"
  "keeps (runtime_step lossy E R) (modify (\<lambda>s. s\<lparr>rt_state := h s\<rparr>))"
  by (rule keeps_runtime;
      auto simp: keeps_def send_def store_step_def exposure_step_def shared.mem_rem)+

text \<open>The serving set grows in one way only: together with an announcement.\<close>

lemma share_and_announce:
  "keeps (runtime_step lossy E R) (andThen (mark_shared oid) (\<lambda>_. send (Announce oid)))"
  by (rule keeps_runtime;
      auto simp: keeps_def mark_shared_def send_def andThen_apply store_step_def exposure_step_def shared.mem_add)

lemma announce_split:
  "announce E oid = andThen (andThen (mark_shared oid) (\<lambda>_. send (Announce oid))) (\<lambda>_. lift_res (net_announce E oid))"
  by (rule ext) (simp add: announce_def andThen_apply mark_shared_def send_def)

lemma runtime_announces [runtime_ops]:
  "keeps (runtime_step lossy E R) (announce E oid)"
  "keeps (runtime_step lossy E R) (reconcile_shared previous current)"
  unfolding announce_split reconcile_shared_def Let_def
  by (intro share_and_announce runtime_ops runtime.steps)+

lemma runtime_name_object [runtime_ops]: "keeps (runtime_step lossy E R) (name_object E R oid name)"
  unfolding name_object_def by (intro runtime_ops runtime.steps)

lemma runtime_save_state [runtime_ops]:
  "sound_setup E R \<Longrightarrow>
   keeps (runtime_step lossy E R) (save_state E R)"
  unfolding save_state_def Let_def by (intro runtime_ops runtime.steps)

lemma runtime_mark_started [runtime_ops]:
  "sound_setup E R \<Longrightarrow>
   keeps (runtime_step lossy E R) (mark_started E R)"
  unfolding mark_started_def Let_def by (intro runtime_ops runtime.steps)

lemma runtime_mark_stopped [runtime_ops]:
  "sound_setup E R \<Longrightarrow>
   keeps (runtime_step lossy E R) (mark_stopped E R)"
  unfolding mark_stopped_def Let_def by (intro runtime_ops runtime.steps)

lemma runtime_accept_push [runtime_ops]:
  "sound_setup E R \<Longrightarrow>
   keeps (runtime_step lossy E R) (accept_push E R ob)"
  unfolding accept_push_def Let_def by (intro runtime_ops runtime.steps)

lemma runtime_reseal [runtime_ops]:
  "sound_setup E R \<Longrightarrow>
   keeps (runtime_step lossy E R) (reseal E R ob)"
  unfolding reseal_def Let_def by (intro runtime_ops runtime.steps)

lemma runtime_put_object_for [runtime_ops]:
  "sound_setup E R \<Longrightarrow>
   keeps (runtime_step lossy E R) (put_object_for E R bs ty name rcpts)"
  unfolding put_object_for_def Let_def by (intro runtime_ops runtime.steps)

lemma runtime_put_object [runtime_ops]:
  "sound_setup E R \<Longrightarrow>
   keeps (runtime_step lossy E R) (put_object E R bs ty name)"
  unfolding put_object_def Let_def by (intro runtime_ops runtime.steps)

lemma runtime_rt_put [runtime_ops]:
  "sound_setup E R \<Longrightarrow>
   keeps (runtime_step lossy E R) (rt_put E R bs name)"
  unfolding rt_put_def Let_def by (intro runtime_ops runtime.steps)

lemma runtime_put_object_public [runtime_ops]:
  "sound_setup E R \<Longrightarrow>
   keeps (runtime_step lossy E R) (put_object_public E R bs ty name)"
  unfolding put_object_public_def Let_def by (intro runtime_ops runtime.steps)

lemma runtime_rt_export [runtime_ops]:
  "sound_setup E R \<Longrightarrow>
   keeps (runtime_step lossy E R) (rt_export E R oid)"
  unfolding rt_export_def Let_def by (intro runtime_ops runtime.steps)

lemma runtime_export_to_file [runtime_ops]:
  "sound_setup E R \<Longrightarrow>
   keeps (runtime_step lossy E R) (export_to_file E R oid)"
  unfolding export_to_file_def Let_def by (intro runtime_ops runtime.steps)

lemma runtime_rt_import [runtime_ops]:
  "sound_setup E R \<Longrightarrow>
   keeps (runtime_step lossy E R) (rt_import E R bundle)"
  unfolding rt_import_def Let_def by (intro runtime_ops runtime.steps)

lemma runtime_rt_list [runtime_ops]:
  "sound_setup E R \<Longrightarrow>
   keeps (runtime_step lossy E R) (rt_list E R)"
  unfolding rt_list_def Let_def by (intro runtime_ops runtime.steps)

lemma runtime_fetch_from [runtime_ops]:
  assumes "sound_setup E R"
  shows "keeps (runtime_step lossy E R) (fetch_from E R oid ps)"
  by (induction ps) (unfold fetch_from.simps, (intro runtime_ops runtime.steps assms | assumption)+)

lemma runtime_fetch_object [runtime_ops]:
  "sound_setup E R \<Longrightarrow>
   keeps (runtime_step lossy E R) (fetch_object E R oid from)"
  unfolding fetch_object_def Let_def by (intro runtime_ops runtime.steps)

lemma runtime_get_or_fetch [runtime_ops]:
  "sound_setup E R \<Longrightarrow>
   keeps (runtime_step lossy E R) (get_or_fetch E R oid)"
  unfolding get_or_fetch_def Let_def by (intro runtime_ops runtime.steps)

lemma runtime_rt_get [runtime_ops]:
  "sound_setup E R \<Longrightarrow>
   keeps (runtime_step lossy E R) (rt_get E R oid)"
  unfolding rt_get_def Let_def by (intro runtime_ops runtime.steps)

lemma runtime_concat_data [runtime_ops]:
  assumes "sound_setup E R"
  shows "keeps (runtime_step lossy E R) (concat_data E R ids)"
  by (induction ids) (unfold concat_data.simps, (intro runtime_ops runtime.steps assms | assumption)+)

lemma runtime_concat_objects [runtime_ops]:
  "sound_setup E R \<Longrightarrow>
   keeps (runtime_step lossy E R) (concat_objects E R ids name)"
  unfolding concat_objects_def Let_def by (intro runtime_ops runtime.steps)

lemma runtime_backup_identity [runtime_ops]:
  "sound_setup E R \<Longrightarrow>
   keeps (runtime_step lossy E R) (backup_identity E R)"
  unfolding backup_identity_def Let_def by (intro runtime_ops runtime.steps)

lemma runtime_write_identity [runtime_ops]:
  "sound_setup E R \<Longrightarrow>
   keeps (runtime_step lossy E R) (write_identity E R salt nonce imported)"
  unfolding write_identity_def Let_def by (intro runtime_ops runtime.steps)

lemma runtime_import_identity [runtime_ops]:
  "sound_setup E R \<Longrightarrow>
   keeps (runtime_step lossy E R) (import_identity E R salt nonce bs pass overwrite)"
  unfolding import_identity_def Let_def by (intro runtime_ops runtime.steps)

lemma runtime_push_pointer_record [runtime_ops]:
  "sound_setup E R \<Longrightarrow>
   keeps (runtime_step lossy E R) (push_pointer_record E R bs)"
  unfolding push_pointer_record_def Let_def by (intro runtime_ops runtime.steps)

lemma runtime_publish_pointer [runtime_ops]:
  "sound_setup E R \<Longrightarrow>
   keeps (runtime_step lossy E R) (publish_pointer E R name target)"
  unfolding publish_pointer_def Let_def by (intro runtime_ops runtime.steps)

lemma runtime_remember_pointer [runtime_ops]:
  "sound_setup E R \<Longrightarrow>
   keeps (runtime_step lossy E R) (remember_pointer E R key r)"
  unfolding remember_pointer_def Let_def by (intro runtime_ops runtime.steps)

lemma runtime_resolve_pointer [runtime_ops]:
  "sound_setup E R \<Longrightarrow>
   keeps (runtime_step lossy E R) (resolve_pointer E R owner name)"
  unfolding resolve_pointer_def Let_def by (intro runtime_ops runtime.steps)

lemma runtime_load_own [runtime_ops]:
  "sound_setup E R \<Longrightarrow>
   keeps (runtime_step lossy E R) (load_own E R name c)"
  unfolding load_own_def Let_def by (intro runtime_ops runtime.steps)

lemma runtime_resolve_owner_object [runtime_ops]:
  "sound_setup E R \<Longrightarrow>
   keeps (runtime_step lossy E R) (resolve_owner_object E R owner name)"
  unfolding resolve_owner_object_def Let_def by (intro runtime_ops runtime.steps)

lemma runtime_resolve_decoded [runtime_ops]:
  "sound_setup E R \<Longrightarrow>
   keeps (runtime_step lossy E R) (resolve_decoded E R owner name c)"
  unfolding resolve_decoded_def Let_def by (intro runtime_ops runtime.steps)

lemma runtime_load_profile [runtime_ops]:
  "sound_setup E R \<Longrightarrow>
   keeps (runtime_step lossy E R) (load_profile E R)"
  unfolding load_profile_def Let_def by (intro runtime_ops runtime.steps)

lemma runtime_save_profile [runtime_ops]:
  "sound_setup E R \<Longrightarrow>
   keeps (runtime_step lossy E R) (save_profile E R p)"
  unfolding save_profile_def Let_def by (intro runtime_ops runtime.steps)

lemma runtime_resolve_username [runtime_ops]:
  "sound_setup E R \<Longrightarrow>
   keeps (runtime_step lossy E R) (resolve_username E R owner)"
  unfolding resolve_username_def Let_def by (intro runtime_ops runtime.steps)

lemma runtime_resolve_profile [runtime_ops]:
  "sound_setup E R \<Longrightarrow>
   keeps (runtime_step lossy E R) (resolve_profile E R owner)"
  unfolding resolve_profile_def Let_def by (intro runtime_ops runtime.steps)

lemma runtime_claim_username [runtime_ops]:
  "sound_setup E R \<Longrightarrow>
   keeps (runtime_step lossy E R) (claim_username E R name)"
  unfolding claim_username_def Let_def by (intro runtime_ops runtime.steps)

lemma runtime_first_claiming [runtime_ops]:
  assumes "sound_setup E R"
  shows "keeps (runtime_step lossy E R) (first_claiming E R name owners)"
  by (induction owners) (unfold first_claiming.simps, (intro runtime_ops runtime.steps assms | assumption)+)

lemma runtime_owner_claiming_username [runtime_ops]:
  "sound_setup E R \<Longrightarrow>
   keeps (runtime_step lossy E R) (owner_claiming_username E R name)"
  unfolding owner_claiming_username_def Let_def by (intro runtime_ops runtime.steps)

lemma runtime_resolve_owner_from_username [runtime_ops]:
  "sound_setup E R \<Longrightarrow>
   keeps (runtime_step lossy E R) (resolve_owner_from_username E R name)"
  unfolding resolve_owner_from_username_def Let_def by (intro runtime_ops runtime.steps)

lemma runtime_cache_record [runtime_ops]:
  "sound_setup E R \<Longrightarrow>
   keeps (runtime_step lossy E R) (cache_record E R key val)"
  unfolding cache_record_def Let_def by (intro runtime_ops runtime.steps)

lemma runtime_publish_record [runtime_ops]:
  "sound_setup E R \<Longrightarrow>
   keeps (runtime_step lossy E R) (publish_record E R key val)"
  unfolding publish_record_def Let_def by (intro runtime_ops runtime.steps)

lemma runtime_resolve_record [runtime_ops]:
  "sound_setup E R \<Longrightarrow>
   keeps (runtime_step lossy E R) (resolve_record E R key)"
  unfolding resolve_record_def Let_def by (intro runtime_ops runtime.steps)

lemma runtime_load_device_list [runtime_ops]:
  "sound_setup E R \<Longrightarrow>
   keeps (runtime_step lossy E R) (load_device_list E R owner)"
  unfolding load_device_list_def Let_def by (intro runtime_ops runtime.steps)

lemma runtime_fetch_freshest_device_list [runtime_ops]:
  "sound_setup E R \<Longrightarrow>
   keeps (runtime_step lossy E R) (fetch_freshest_device_list E R)"
  unfolding fetch_freshest_device_list_def Let_def by (intro runtime_ops runtime.steps)

lemma runtime_load_device_list_merged [runtime_ops]:
  "sound_setup E R \<Longrightarrow>
   keeps (runtime_step lossy E R) (load_device_list_merged E R)"
  unfolding load_device_list_merged_def Let_def by (intro runtime_ops runtime.steps)

lemma runtime_save_device_list [runtime_ops]:
  "sound_setup E R \<Longrightarrow>
   keeps (runtime_step lossy E R) (save_device_list E R l)"
  unfolding save_device_list_def Let_def by (intro runtime_ops runtime.steps)

lemma runtime_add_device [runtime_ops]:
  "sound_setup E R \<Longrightarrow>
   keeps (runtime_step lossy E R) (add_device E R did name)"
  unfolding add_device_def Let_def by (intro runtime_ops runtime.steps)

lemma runtime_remove_device [runtime_ops]:
  "sound_setup E R \<Longrightarrow>
   keeps (runtime_step lossy E R) (remove_device E R did)"
  unfolding remove_device_def Let_def by (intro runtime_ops runtime.steps)

lemma runtime_publish_device_registry [runtime_ops]:
  "sound_setup E R \<Longrightarrow>
   keeps (runtime_step lossy E R) (publish_device_registry E R)"
  unfolding publish_device_registry_def Let_def by (intro runtime_ops runtime.steps)

lemma runtime_register_device [runtime_ops]:
  "sound_setup E R \<Longrightarrow>
   keeps (runtime_step lossy E R) (register_device E R)"
  unfolding register_device_def Let_def by (intro runtime_ops runtime.steps)

lemma runtime_reconcile_device_list [runtime_ops]:
  "sound_setup E R \<Longrightarrow>
   keeps (runtime_step lossy E R) (reconcile_device_list E R)"
  unfolding reconcile_device_list_def Let_def by (intro runtime_ops runtime.steps)

lemma runtime_reannounce_devices [runtime_ops]:
  "sound_setup E R \<Longrightarrow>
   keeps (runtime_step lossy E R) (reannounce_devices E R)"
  unfolding reannounce_devices_def Let_def by (intro runtime_ops runtime.steps)

lemma runtime_republish_devices [runtime_ops]:
  "sound_setup E R \<Longrightarrow>
   keeps (runtime_step lossy E R) (republish_devices E R)"
  unfolding republish_devices_def Let_def by (intro runtime_ops runtime.steps)

lemma runtime_resolve_device_identity [runtime_ops]:
  "sound_setup E R \<Longrightarrow>
   keeps (runtime_step lossy E R) (resolve_device_identity E R did)"
  unfolding resolve_device_identity_def Let_def by (intro runtime_ops runtime.steps)

lemma runtime_resolve_device_peer_id [runtime_ops]:
  "sound_setup E R \<Longrightarrow>
   keeps (runtime_step lossy E R) (resolve_device_peer_id E R owner)"
  unfolding resolve_device_peer_id_def Let_def by (intro runtime_ops runtime.steps)

lemma runtime_load_contact_list [runtime_ops]:
  "sound_setup E R \<Longrightarrow>
   keeps (runtime_step lossy E R) (load_contact_list E R)"
  unfolding load_contact_list_def Let_def by (intro runtime_ops runtime.steps)

lemma runtime_save_contact_list [runtime_ops]:
  "sound_setup E R \<Longrightarrow>
   keeps (runtime_step lossy E R) (save_contact_list E R l)"
  unfolding save_contact_list_def Let_def by (intro runtime_ops runtime.steps)

lemma runtime_enrich_peer [runtime_ops]:
  "sound_setup E R \<Longrightarrow>
   keeps (runtime_step lossy E R) (enrich_peer E R p)"
  unfolding enrich_peer_def Let_def by (intro runtime_ops runtime.steps)

lemma runtime_enrich_peers [runtime_ops]:
  "sound_setup E R \<Longrightarrow>
   keeps (runtime_step lossy E R) (enrich_peers E R)"
  unfolding enrich_peers_def Let_def by (intro runtime_ops runtime.steps)

lemma runtime_refresh [runtime_ops]:
  "sound_setup E R \<Longrightarrow>
   keeps (runtime_step lossy E R) (refresh E R key r)"
  unfolding refresh_def Let_def by (intro runtime_ops runtime.steps)

lemma runtime_sync_record [runtime_ops]:
  "sound_setup E R \<Longrightarrow>
   keeps (runtime_step lossy E R) (sync_record E R name)"
  unfolding sync_record_def Let_def by (intro runtime_ops runtime.steps)

lemma runtime_sync_records [runtime_ops]:
  "sound_setup E R \<Longrightarrow>
   keeps (runtime_step lossy E R) (sync_records E R)"
  unfolding sync_records_def Let_def by (intro runtime_ops runtime.steps)

lemma runtime_sync_with_peer [runtime_ops]:
  "sound_setup E R \<Longrightarrow>
   keeps (runtime_step lossy E R) (sync_with_peer E R p)"
  unfolding sync_with_peer_def Let_def by (intro runtime_ops runtime.steps)

lemma runtime_sync_with_all_devices [runtime_ops]:
  "sound_setup E R \<Longrightarrow>
   keeps (runtime_step lossy E R) (sync_with_all_devices E R)"
  unfolding sync_with_all_devices_def Let_def by (intro runtime_ops runtime.steps)

lemma runtime_periodic_sync [runtime_ops]:
  "sound_setup E R \<Longrightarrow>
   keeps (runtime_step lossy E R) (periodic_sync E R)"
  unfolding periodic_sync_def Let_def by (intro runtime_ops runtime.steps)

lemma runtime_load_home_index [runtime_ops]:
  "sound_setup E R \<Longrightarrow>
   keeps (runtime_step lossy E R) (load_home_index E R)"
  unfolding load_home_index_def Let_def by (intro runtime_ops runtime.steps)

lemma runtime_save_home_index [runtime_ops]:
  "sound_setup E R \<Longrightarrow>
   keeps (runtime_step lossy E R) (save_home_index E R ix)"
  unfolding save_home_index_def Let_def by (intro runtime_ops runtime.steps)

lemma runtime_publish_entry_pointer [runtime_ops]:
  "sound_setup E R \<Longrightarrow>
   keeps (runtime_step lossy E R) (publish_entry_pointer E R name oid)"
  unfolding publish_entry_pointer_def Let_def by (intro runtime_ops runtime.steps)

lemma runtime_set_home_entry_shared [runtime_ops]:
  "sound_setup E R \<Longrightarrow>
   keeps (runtime_step lossy E R) (set_home_entry_shared E R name sh)"
  unfolding set_home_entry_shared_def Let_def by (intro runtime_ops runtime.steps)

lemma runtime_share_object_for [runtime_ops]:
  "sound_setup E R \<Longrightarrow>
   keeps (runtime_step lossy E R) (share_object_for E R name oid app rcpts)"
  unfolding share_object_for_def Let_def by (intro runtime_ops runtime.steps)

lemma runtime_share_object [runtime_ops]:
  "sound_setup E R \<Longrightarrow>
   keeps (runtime_step lossy E R) (share_object E R name oid app)"
  unfolding share_object_def Let_def by (intro runtime_ops runtime.steps)

lemma runtime_unlist_home [runtime_ops]:
  "sound_setup E R \<Longrightarrow>
   keeps (runtime_step lossy E R) (unlist_home E R oid home)"
  unfolding unlist_home_def Let_def by (intro runtime_ops runtime.steps)

lemma runtime_load_capability_index [runtime_ops]:
  "sound_setup E R \<Longrightarrow>
   keeps (runtime_step lossy E R) (load_capability_index E R)"
  unfolding load_capability_index_def Let_def by (intro runtime_ops runtime.steps)

lemma runtime_save_capability_index [runtime_ops]:
  "sound_setup E R \<Longrightarrow>
   keeps (runtime_step lossy E R) (save_capability_index E R ix)"
  unfolding save_capability_index_def Let_def by (intro runtime_ops runtime.steps)

lemma runtime_grant_capability [runtime_ops]:
  "sound_setup E R \<Longrightarrow>
   keeps (runtime_step lossy E R) (grant_capability E R subject resource perms expires)"
  unfolding grant_capability_def Let_def by (intro runtime_ops runtime.steps)

lemma runtime_list_capabilities [runtime_ops]:
  "sound_setup E R \<Longrightarrow>
   keeps (runtime_step lossy E R) (list_capabilities E R)"
  unfolding list_capabilities_def Let_def by (intro runtime_ops runtime.steps)

lemma runtime_revoke_capability [runtime_ops]:
  "sound_setup E R \<Longrightarrow>
   keeps (runtime_step lossy E R) (revoke_capability E R cid)"
  unfolding revoke_capability_def Let_def by (intro runtime_ops runtime.steps)

lemma runtime_check_remote_revocation [runtime_ops]:
  "sound_setup E R \<Longrightarrow>
   keeps (runtime_step lossy E R) (check_remote_revocation E R slow owner cid)"
  unfolding check_remote_revocation_def Let_def by (intro runtime_ops runtime.steps)

lemma runtime_check_capability [runtime_ops]:
  "sound_setup E R \<Longrightarrow>
   keeps (runtime_step lossy E R) (check_capability E R slow c)"
  unfolding check_capability_def Let_def by (intro runtime_ops runtime.steps)

lemma runtime_check_access [runtime_ops]:
  "sound_setup E R \<Longrightarrow>
   keeps (runtime_step lossy E R) (check_access E R subject perm resource)"
  unfolding check_access_def Let_def by (intro runtime_ops runtime.steps)

lemma runtime_reshare_record [runtime_ops]:
  "sound_setup E R \<Longrightarrow>
   keeps (runtime_step lossy E R) (reshare_record E R name)"
  unfolding reshare_record_def Let_def by (intro runtime_ops runtime.steps)

lemma runtime_reshare_public_user_records [runtime_ops]:
  "sound_setup E R \<Longrightarrow>
   keeps (runtime_step lossy E R) (reshare_public_user_records E R)"
  unfolding reshare_public_user_records_def Let_def by (intro runtime_ops runtime.steps)

lemma runtime_start_runtime [runtime_ops]:
  "sound_setup E R \<Longrightarrow>
   keeps (runtime_step lossy E R) (start_runtime E R)"
  unfolding start_runtime_def Let_def by (intro runtime_ops runtime.steps)

lemma runtime_initiate_pairing [runtime_ops]:
  "sound_setup E R \<Longrightarrow>
   keeps (runtime_step lossy E R) (initiate_pairing E R code_rnd session_rnd listen)"
  unfolding initiate_pairing_def Let_def by (intro runtime_ops runtime.steps)

lemma runtime_encrypt_pairing_payload [runtime_ops]:
  "sound_setup E R \<Longrightarrow>
   keeps (runtime_step lossy E R) (encrypt_pairing_payload E penc R nonce key)"
  unfolding encrypt_pairing_payload_def Let_def by (intro runtime_ops runtime.steps)

lemma runtime_complete_pairing [runtime_ops]:
  "sound_setup E R \<Longrightarrow>
   keeps (runtime_step lossy E R) (complete_pairing E penc R nonce deliver qr code)"
  unfolding complete_pairing_def Let_def by (intro runtime_ops runtime.steps)

lemma runtime_set_identity_key [runtime_ops]:
  "sound_setup E R \<Longrightarrow>
   keeps (runtime_step lossy E R) (set_identity_key E R salt nonce imported)"
  unfolding set_identity_key_def Let_def by (intro runtime_ops runtime.steps)

lemma runtime_import_records [runtime_ops]:
  assumes "sound_setup E R"
  shows "keeps (runtime_step lossy E R) (import_records E R imported rs)"
  by (induction rs) (unfold import_records.simps, (intro runtime_ops runtime.steps assms | assumption)+)

lemma runtime_adopt [runtime_ops]:
  "sound_setup E R \<Longrightarrow>
   keeps (runtime_step lossy E R) (adopt E R salt nonce imported rs)"
  unfolding adopt_def Let_def by (intro runtime_ops runtime.steps)

lemma runtime_accept_pairing [runtime_ops]:
  "sound_setup E R \<Longrightarrow>
   keeps (runtime_step lossy E R) (accept_pairing E pdec R salt nonce sender rq)"
  unfolding accept_pairing_def Let_def by (intro runtime_ops runtime.steps)

lemma runtime_evict [runtime_ops]:
  "sound_setup E R \<Longrightarrow>
   keeps (runtime_step True E R) (evict E R oid)"
  unfolding evict_def Let_def by (intro runtime_ops runtime.steps)

lemma runtime_delete_object [runtime_ops]:
  "sound_setup E R \<Longrightarrow>
   keeps (runtime_step True E R) (delete_object E R oid)"
  unfolding delete_object_def Let_def by (intro runtime_ops runtime.steps)

end
