(* ===== verification/Runtime_Objects.thy ===== *)
theory Runtime_Objects
  imports Runtime_Safety
begin

text \<open>
  What the runtime does with objects: it stores them encrypted and reads them back, serves only
  what is cached or shared, imports under its ownership policy, and evicts.  The section
  \<open>Example\<close> builds the concrete environment, runtime and state that the witnesses of the
  runtime theories use.
\<close>

text \<open>The cache index is the file the configuration names, outside the object directory.\<close>

definition cache_apart :: "Runtime \<Rightarrow> rt \<Rightarrow> bool" where
  "cache_apart R s = (roots_apart (rt_config R) \<and> cache_path (rt_cache s) = cache_file_path (rt_config R))"

section \<open>Example\<close>

definition sample_codec :: "('a \<Rightarrow> bytes) \<Rightarrow> 'a list \<Rightarrow> 'a codec" where
  "sample_codec f xs = \<lparr> enc = f, dec = (\<lambda>bs. find (\<lambda>x. f x = bs) xs) \<rparr>"

text \<open>An environment that decodes the given objects and pointers, whose node has no peers.\<close>

definition sample_rtenv_with :: "Object list \<Rightarrow> AppPointerRecord list \<Rightarrow> 'm \<Rightarrow> 'm rtenv_scheme" where
  "sample_rtenv_with obs ptrs m = sample_objenv obs \<lparr>
     index_enc = (\<lambda>_. []), index_dec = (\<lambda>_. None),
     pointer_codec = sample_codec (\<lambda>p. str_bytes (ptr_name p @ ptr_manifest p)) ptrs,
     capability_codec = sample_codec (\<lambda>c. str_bytes (cap_id c)) [],
     capindex_codec = sample_codec (\<lambda>ix. [of_nat (length (cap_entries ix))]) [],
     profile_codec = sample_codec (\<lambda>p. str_bytes (display_name p)) [],
     username_codec = sample_codec (\<lambda>u. str_bytes (username u)) [],
     contacts_codec = sample_codec (\<lambda>l. [of_nat (length (contacts l))]) [],
     home_codec = sample_codec (\<lambda>h. [of_nat (length (home_entries h))]) [],
     devices_codec = sample_codec (\<lambda>l. [of_nat (length (devices l))]) [],
     now = 1000, wall_time = 1000, env_rnd = ex_rnd, state_enc = (\<lambda>_. [1]), bundle_enc = (\<lambda>_. [2]),
     parse_peer_id = Some, peer_id_bytes = str_bytes, identity_pass = None,
     net_peers = Inr [], net_get_object = (\<lambda>_ oid. Inl (Io oid)), net_find_providers = (\<lambda>_. Inr []),
     net_get_record = (\<lambda>_. Inr None), net_slow = (\<lambda>_. False), net_announce = (\<lambda>_. Inr ()),
     net_replicate = (\<lambda>_. Inr ()), \<dots> = m \<rparr>"

abbreviation sample_rtenv :: "Object list \<Rightarrow> AppPointerRecord list \<Rightarrow> rtenv" where
  "sample_rtenv obs ptrs \<equiv> sample_rtenv_with obs ptrs ()"

definition ex_runtime :: Runtime where
  "ex_runtime = \<lparr> rt_config = with_root ''/c'', rt_identity = sample_identity 65,
     rt_device_key = \<lparr> device_signing_key = Keypair [66], device_name = ''laptop'' \<rparr> \<rparr>"

definition ex_state :: "fs \<Rightarrow> rt" where
  "ex_state d = \<lparr> rt_fs = d, rt_cache = cache_new ''/c/cache.cache'' ''canopee://identity/41'' [],
     rt_shared = [], rt_pairing = None,
     rt_state = \<lparr> ns_identity = ''canopee://identity/41'', ns_created_at = 0, last_started_at = None,
                  started = False, ns_version = 1, ns_peers = [] \<rparr>, rt_log = [] \<rparr>"

lemma sample_rtenv_sel [simp]:
  "payload_enc (sample_rtenv_with obs ptrs m) = payload_data"
  "object_enc (sample_rtenv_with obs ptrs m) ob = payload_data (payload ob)"
  "object_dec (sample_rtenv_with obs ptrs m) bs = find (\<lambda>ob. payload_data (payload ob) = bs) obs"
  "now (sample_rtenv_with obs ptrs m) = 1000" "env_rnd (sample_rtenv_with obs ptrs m) = ex_rnd"
  "net_peers (sample_rtenv_with obs ptrs m) = Inr []" "net_announce (sample_rtenv_with obs ptrs m) oid = Inr ()"
  "io_create_ok (sample_rtenv_with obs ptrs m) p"
  by (simp_all add: sample_rtenv_with_def sample_objenv_def sample_crypto_def working_host_def)

lemma sample_rtenv_crypto [simp]:
  "sha256 (sample_rtenv_with obs ptrs m) = checksum" "hex_encode (sample_rtenv_with obs ptrs m) = sample_hex"
  "kp_sign (sample_rtenv_with obs ptrs m) (Keypair r) msg = Some (r @ checksum msg)"
  "kp_public (sample_rtenv_with obs ptrs m) (Keypair r) = PublicKey r"
  "pk_encode (sample_rtenv_with obs ptrs m) (PublicKey r) = 8 # r"
  "pk_decode (sample_rtenv_with obs ptrs m) (b # r) = (if b = 8 then Some (PublicKey r) else None)"
  "pk_verify (sample_rtenv_with obs ptrs m) (PublicKey r) msg g = (g = r @ checksum msg)"
  "x25519_public (sample_rtenv_with obs ptrs m) = pad32" "x25519_dh (sample_rtenv_with obs ptrs m) = x25519_dh (sample_crypto ())"
  "hkdf_sha256 (sample_rtenv_with obs ptrs m) = hkdf_sha256 (sample_crypto ())"
  "aead_encrypt (sample_rtenv_with obs ptrs m) k n p = Some (p @ sample_tag k n p)"
  "io_write (sample_rtenv_with obs ptrs m) q bs = Wrote" "io_rename_ok (sample_rtenv_with obs ptrs m) q q'"
  "io_remove_ok (sample_rtenv_with obs ptrs m) q" "io_read_dir_ok (sample_rtenv_with obs ptrs m) q"
  by (simp_all add: sample_rtenv_with_def sample_objenv_def sample_crypto_def working_host_def)

lemma sample_hex_visible: "visible (sample_hex bs)"
proof (cases bs)
  case (Cons b bs')
  let ?n = "unat b div 16"
  have n: "?n < 16" using unsigned_less [of b, where 'a = nat] by simp
  have "(of_char (hex_digit ?n) :: nat) \<noteq> of_char CHR ''.''"
    using n by (simp add: hex_digit_def of_char_of)
  hence "hex_digit ?n \<noteq> CHR ''.''" by metis
  with Cons show ?thesis by (simp add: visible_def starts_with_iff sample_hex_def)
qed (simp add: visible_def starts_with_iff sample_hex_def)

lemma sample_rtenv_laws [simp]:
  "sign_ok (sample_rtenv_with obs ptrs m)" "aead_ok (sample_rtenv_with obs ptrs m)"
  "x25519_ok (sample_rtenv_with obs ptrs m)" "hex_ok (sample_rtenv_with obs ptrs m)"
  "rnd_ok (sample_rtenv_with obs ptrs m) ex_rnd" "identity_wf (sample_rtenv_with obs ptrs m) (sample_identity b)"
  using ex_rnd_ok sample_hex_visible
  by (simp_all add: sample_rtenv_with_def sample_objenv_def hex_ok_def
      rnd_ok_def identity_wf_def sample_identity_def from_keypair_def derive_dh_secret_def owner_of_key_def)

lemma sample_put:
  "put_object_for (sample_rtenv obs ptrs) ex_runtime bs ty None [] s =
     put_object_for (sample_rtenv [] []) ex_runtime bs ty None [] s"
  "\<exists>ob. snd (put_object_for (sample_rtenv obs ptrs) ex_runtime bs ty None [] s) = Inr ob"
  by (simp_all add: put_object_for_def andThen_apply object_new_def sign_def ex_runtime_def sample_identity_def
   from_keypair_def Let_def seal_def encrypt_for_recipients_def recipients_def dh_public_key_def
   wrap_block_def derive_wrap_key_def reseal_def name_object_def from_payload_def on_fs_def put_verified_def object_verify_def
   verify_id_def public_key_bytes_def set_data_def fs_write_def fs_rename_def split: prod.splits)

text \<open>The plaintext \<open>hi\<close> as the example node stores it, and the environment that decodes it.\<close>

definition ex_sealed :: Object where
  "ex_sealed = projr (snd (put_object_for (sample_rtenv [] []) ex_runtime [104, 105] Blob None [] (ex_state [])))"

definition ex_renv :: rtenv where
  "ex_renv = sample_rtenv [ex_sealed] []"

definition ex_sealed_state :: rt where
  "ex_sealed_state = fst (put_object_for ex_renv ex_runtime [104, 105] Blob None [] (ex_state []))"

lemma ex_put: "put_object_for ex_renv ex_runtime [104, 105] Blob None [] (ex_state []) = (ex_sealed_state, Inr ex_sealed)"
proof -
  let ?p = "\<lambda>obs. put_object_for (sample_rtenv obs []) ex_runtime [104, 105] Blob None [] (ex_state [])"
  obtain ob where "snd (?p []) = Inr ob" using sample_put(2) by blast
  moreover have "?p [ex_sealed] = ?p []" by (rule sample_put(1))
  ultimately have "snd (?p [ex_sealed]) = Inr ex_sealed" by (simp add: ex_sealed_def)
  thus ?thesis by (simp add: ex_renv_def ex_sealed_state_def prod_eq_iff)
qed

lemma ex_renv_decodes: "decodes ex_renv ex_sealed"
  by (simp add: decodes_def ex_renv_def)

lemma ex_cache_apart: "cache_apart ex_runtime (ex_state d)"
  by (simp add: cache_apart_def roots_apart_def ex_runtime_def with_root_def ex_state_def cache_new_def
      cache_file_path_def path_join_def)

section \<open>Serving\<close>

text \<open>A file that holds the encoding of an object reads as that object or not at all.\<close>

lemma provide_object_Some:
  assumes "provide_object E R oid s = (s', Some b)"
  shows "get_verified E (store_root R) oid (rt_fs s) = Inr (bundle_object b)"
    and "bundle_version b = 1" and "is_cached (rt_cache s) oid \<or> shared_contains (rt_shared s) oid"
    and "s' = (if is_cached (rt_cache s) oid
               then s \<lparr> rt_cache := touch_served (now E) oid (rt_cache s) \<rparr> else s)"
  using assms
  by (auto simp: provide_object_def export_def split: sum.splits if_splits)

section \<open>Encrypted objects\<close>

lemma on_fs_Inr: "on_fs f s = (s', Inr x) \<longleftrightarrow> (\<exists>d. f (rt_fs s) = (d, Inr x) \<and> s' = s\<lparr>rt_fs := d\<rparr>)"
  by (auto simp: on_fs_def split: prod.splits)

lemma name_object_Inr:
  assumes "name_object E R oid name s = (s', Inr u)"
  shows "\<exists>d. s' = s\<lparr>rt_fs := d\<rparr> \<and> (\<forall>p. p \<noteq> name_path (store_root R) oid \<longrightarrow> map_of d p = map_of (rt_fs s) p)"
proof (cases name)
  case None
  with assms show ?thesis by (intro exI [of _ "rt_fs s"]) (simp add: name_object_def)
next
  case (Some n)
  with assms show ?thesis
    by (auto simp: name_object_def on_fs_Inr set_name_def dest: fs_write_frame)
qed

lemma stored_and_named:
  assumes "put_verified E (store_root R) ob (rt_fs s) = (d, Inr u)" "visible (obj_id ob)" "decodes E ob"
    "name_object E R (obj_id ob) name (s\<lparr>rt_fs := d\<rparr>) = (s', Inr v)"
  shows "get_verified E (store_root R) (obj_id ob) (rt_fs s') = Inr ob"
proof -
  obtain d' where s': "s' = (s\<lparr>rt_fs := d\<rparr>)\<lparr>rt_fs := d'\<rparr>"
    and same: "\<forall>p. p \<noteq> name_path (store_root R) (obj_id ob) \<longrightarrow> map_of d' p = map_of d p"
    using name_object_Inr [OF assms(4)] by auto
  have "get_verified E (store_root R) (obj_id ob) d = Inr ob"
    using objs.put_get [of E "store_root R" ob "rt_fs s" d] assms(1-3) by simp
  moreover have "get_verified E (store_root R) (obj_id ob) d' = get_verified E (store_root R) (obj_id ob) d"
    using same assms(2) by (intro get_verified_cong) auto
  ultimately show ?thesis by (simp add: s')
qed

lemma put_object_for_Inr:
  assumes "put_object_for E R bs ty name rcpts s = (s', Inr ob)"
  shows "\<exists>c d. encrypt_for_recipients E (env_rnd E) (rt_identity R) bs rcpts = Inr c \<and>
    payload ob = (new_payload (rt_identity R) (now E) bs ty)\<lparr>payload_data := c\<rparr> \<and>
    obj_id ob = from_payload E (payload ob) \<and>
    put_verified E (store_root R) ob (rt_fs s) = (d, Inr ()) \<and>
    name_object E R (obj_id ob) name (s\<lparr>rt_fs := d\<rparr>) = (s', Inr ())"
proof -
  from assms obtain ob1 c s1 where new: "object_new E (rt_identity R) (now E) bs ty = Inr ob1"
    and c: "seal E R (payload_data (payload ob1)) rcpts = Inr c"
    and r: "reseal E R (set_data c ob1) s = (s1, Inr ob)"
    and n: "name_object E R (obj_id ob) name s1 = (s', Inr ())"
    by (auto simp: put_object_for_def andThen_Inr)
  from r obtain d where "payload ob = payload (set_data c ob1)" "obj_id ob = from_payload E (payload ob)"
    "put_verified E (store_root R) ob (rt_fs s) = (d, Inr ())" "s1 = s\<lparr>rt_fs := d\<rparr>"
    by (auto simp: reseal_def Let_def andThen_Inr on_fs_Inr)
  moreover have "payload ob1 = new_payload (rt_identity R) (now E) bs ty" "payload_data (payload ob1) = bs"
    using new by (auto simp: object_new_Inr)
  ultimately show ?thesis using c n by (auto simp: seal_def set_data_def split: sum.splits)
qed

lemma put_object_for_stored:
  assumes "put_object_for E R bs ty name rcpts s = (s', Inr ob)" "hex_ok E" "decodes E ob"
  shows "get_verified E (store_root R) (obj_id ob) (rt_fs s') = Inr ob"
proof -
  from put_object_for_Inr [OF assms(1)] obtain d where i: "obj_id ob = from_payload E (payload ob)"
    and w: "put_verified E (store_root R) ob (rt_fs s) = (d, Inr ())"
    "name_object E R (obj_id ob) name (s\<lparr>rt_fs := d\<rparr>) = (s', Inr ())" by blast
  have "visible (obj_id ob)" using assms(2) i by (simp add: hex_ok_def from_payload_def)
  from stored_and_named [OF w(1) this assms(3) w(2)] show ?thesis .
qed

lemma rt_get_local:
  assumes "get_verified E (store_root R) oid (rt_fs s) = Inr ob"
  shows "rt_get E R oid s = (s, open_object E R ob)"
  using assms by (simp add: rt_get_def get_or_fetch_def read_fs_def andThen_def)

lemma put_then_opens:
  assumes "aead_ok E" "x25519_ok E" "rnd_ok E (env_rnd E)" "identity_wf E (rt_identity R)" "hex_ok E"
    "put_object_for E R bs ty name rcpts s = (s', Inr ob)" "decodes E ob"
    "length (recipients E (rt_identity R) rcpts) < 65536"
  shows "rt_get E R (obj_id ob) s' = (s', Inr (set_data bs ob))" and "is_encrypted ob"
proof -
  from put_object_for_Inr [OF assms(6)]
  obtain c where c: "encrypt_for_recipients E (env_rnd E) (rt_identity R) bs rcpts = Inr c"
    and p: "payload ob = (new_payload (rt_identity R) (now E) bs ty)\<lparr>payload_data := c\<rparr>" by blast
  note own = own_envelope_opens [OF assms(1-4) c assms(8)]
  show "is_encrypted ob" using own(2) p by (simp add: is_encrypted_def)
  have "open_object E R ob = Inr (set_data bs ob)"
    using own p by (simp add: open_object_def)
  thus "rt_get E R (obj_id ob) s' = (s', Inr (set_data bs ob))"
    using rt_get_local [OF put_object_for_stored [OF assms(6,5,7)]] by simp
qed

text \<open>Property C15. An object that was put is stored encrypted, with the type and the plaintext
  size in its metadata, and \<open>get\<close> gives the plaintext back to the owner.\<close>

theorem put_get_plaintext:
  assumes "aead_ok E" "x25519_ok E" "rnd_ok E (env_rnd E)" "identity_wf E (rt_identity R)" "hex_ok E"
    "put_object_for E R bs ty name rcpts s = (s', Inr ob)" "decodes E ob"
    "length (recipients E (rt_identity R) rcpts) < 65536"
  shows "is_encrypted ob \<and> object_type ob = ty \<and> meta_size (metadata (payload ob)) = of_nat (length bs) \<and>
    payload_owner (payload ob) = own_id R \<and>
    rt_get E R (obj_id ob) s' = (s', Inr (set_data bs ob))"
proof -
  from put_object_for_Inr [OF assms(6)]
  obtain c where "payload ob = (new_payload (rt_identity R) (now E) bs ty)\<lparr>payload_data := c\<rparr>" by blast
  thus ?thesis
    using put_then_opens [OF assms] by (simp add: object_type_def own_id_def new_payload_def)
qed

theorem put_get_plaintext_witness:
  "snd (rt_get ex_renv ex_runtime (obj_id ex_sealed) ex_sealed_state) = Inr (set_data [104, 105] ex_sealed) \<and>
   is_encrypted ex_sealed"
proof -
  have "length (recipients ex_renv (rt_identity ex_runtime) []) < 65536" by (simp add: recipients_def)
  with put_get_plaintext [OF _ _ _ _ _ ex_put ex_renv_decodes]
  show ?thesis by (simp add: ex_renv_def ex_runtime_def)
qed

section \<open>Importing, evicting, fetching\<close>

lemma on_cache_apply:
  "on_cache f s = (s\<lparr>rt_cache := fst (f (rt_cache s) (rt_fs s)), rt_fs := snd (f (rt_cache s) (rt_fs s))\<rparr>, Inr ())"
  by (simp add: on_cache_def split: prod.split)

lemma mark_cached_is_cached: "is_cached (fst (mark_cached E t oid c d)) j \<longleftrightarrow> j = oid \<or> is_cached c j"
  by (simp add: mark_cached_def is_cached_def Let_def cached.mem_add)

lemma cache_remove_is_cached: "is_cached (fst (cache_remove E oid c d)) j \<longleftrightarrow> j \<noteq> oid \<and> is_cached c j"
  by (simp add: cache_remove_def is_cached_def Let_def cached.mem_rem)

lemma cache_ops_files:
  assumes "p \<noteq> cache_path c" "p \<noteq> with_extension (cache_path c) ''tmp''"
  shows "map_of (snd (mark_cached E t oid c d)) p = map_of d p"
    and "map_of (snd (cache_remove E oid c d)) p = map_of d p"
proof -
  have "map_of (fst (index_save E (cache_path c) ix d)) p = map_of d p" for ix
    using index_save_frame [of E "cache_path c" ix d "fst (index_save E (cache_path c) ix d)", OF _ assms]
    by (metis prod.collapse)
  thus "map_of (snd (mark_cached E t oid c d)) p = map_of d p"
    "map_of (snd (cache_remove E oid c d)) p = map_of d p"
    by (simp_all add: mark_cached_def cache_remove_def Let_def persist_def)
qed

lemma cache_ops_objects:
  assumes "cache_apart R s" "visible oid"
  shows "get_verified E (store_root R) oid (snd (mark_cached F t j (rt_cache s) d)) =
      get_verified E (store_root R) oid d"
    and "get_verified E (store_root R) oid (snd (cache_remove F j (rt_cache s) d)) =
      get_verified E (store_root R) oid d"
proof -
  let ?p = "object_path (store_root R) oid"
  have "object_file R ?p" using assms(2) by auto
  with assms(1) app_files(3,4) have "?p \<noteq> cache_path (rt_cache s)"
    "?p \<noteq> with_extension (cache_path (rt_cache s)) ''tmp''"
    by (metis cache_apart_def)+
  note same = cache_ops_files [OF this]
  show "get_verified E (store_root R) oid (snd (mark_cached F t j (rt_cache s) d)) = get_verified E (store_root R) oid d"
    by (intro get_verified_cong same)
  show "get_verified E (store_root R) oid (snd (cache_remove F j (rt_cache s) d)) = get_verified E (store_root R) oid d"
    by (intro get_verified_cong same)
qed

lemma rt_import_Inr:
  assumes "rt_import E R bundle s = (s', Inr u)"
  shows "\<not> store_exists (store_root R) (obj_id (bundle_object bundle)) (rt_fs s) \<and>
    (\<exists>d. put_verified E (store_root R) (bundle_object bundle) (rt_fs s) = (d, Inr ()) \<and>
      s' = (if payload_owner (payload (bundle_object bundle)) = own_id R then s\<lparr>rt_fs := d\<rparr>
            else fst (on_cache (mark_cached E (now E) (obj_id (bundle_object bundle))) (s\<lparr>rt_fs := d\<rparr>))))"
  using assms
  by (auto simp: rt_import_def Let_def andThen_Inr on_fs_Inr store_import_def split: if_splits)

lemma rt_import_Inl:
  assumes "rt_import E R bundle s = (s', Inl e)"
  shows "store_exists (store_root R) (obj_id (bundle_object bundle)) (rt_fs s) \<and> s' = s \<or>
    (\<exists>d. put_verified E (store_root R) (bundle_object bundle) (rt_fs s) = (d, Inl e) \<and> s' = s\<lparr>rt_fs := d\<rparr>)"
  using assms
  by (auto simp: rt_import_def Let_def andThen_apply on_fs_def store_import_def on_cache_apply
      split: if_splits sum.splits prod.splits)

text \<open>Property C16. An import never replaces an object that is there, stores only a verified object,
  and tracks it in the cache exactly when it belongs to someone else, unless it was tracked
  already; a refused import leaves every readable object and the cache as they were.\<close>

theorem import_policy:
  assumes "rt_import E R bundle s = (s', r)" "hex_ok E" "cache_apart R s"
    "decodes E (bundle_object bundle)"
  defines "ob \<equiv> bundle_object bundle"
  shows "(if is_ok r then object_verify E ob \<and> \<not> store_exists (store_root R) (obj_id ob) (rt_fs s) \<and>
        get_verified E (store_root R) (obj_id ob) (rt_fs s') = Inr ob \<and>
        (\<forall>j. is_cached (rt_cache s') j =
          (is_cached (rt_cache s) j \<or> j = obj_id ob \<and> payload_owner (payload ob) \<noteq> own_id R))
      else rt_cache s' = rt_cache s) \<and>
    (\<forall>j. visible j \<and> (is_ok r \<longrightarrow> j \<noteq> obj_id ob) \<longrightarrow>
      get_verified E (store_root R) j (rt_fs s') = get_verified E (store_root R) j (rt_fs s))"
proof (cases r)
  case (Inr u)
  from rt_import_Inr assms(1) Inr obtain d where new: "\<not> store_exists (store_root R) (obj_id ob) (rt_fs s)"
    and w: "put_verified E (store_root R) ob (rt_fs s) = (d, Inr ())"
    and s': "s' = (if payload_owner (payload ob) = own_id R then s\<lparr>rt_fs := d\<rparr>
            else fst (on_cache (mark_cached E (now E) (obj_id ob)) (s\<lparr>rt_fs := d\<rparr>)))"
    by (metis ob_def)
  from w have v: "object_verify E ob" by (auto simp: put_verified_def split: if_splits)
  have vis: "visible (obj_id ob)"
    using assms(2) object_verifyD(1) [OF v] by (simp add: hex_ok_def from_payload_def)
  have read: "get_verified E (store_root R) j (rt_fs s') = get_verified E (store_root R) j d" if "visible j" for j
    using s' by (simp add: on_cache_apply cache_ops_objects(1) [OF assms(3) that])
  have "get_verified E (store_root R) (obj_id ob) d = Inr ob"
    using objs.put_get [OF w _ vis] assms(4) by (simp add: ob_def)
  moreover have "get_verified E (store_root R) j d = get_verified E (store_root R) j (rt_fs s)"
    if "visible j" "j \<noteq> obj_id ob" for j
    using objs.put_other [OF w that(1) vis that(2)] .
  moreover have "is_cached (rt_cache s') j =
      (is_cached (rt_cache s) j \<or> j = obj_id ob \<and> payload_owner (payload ob) \<noteq> own_id R)" for j
    using s' by (auto simp: on_cache_apply mark_cached_is_cached)
  ultimately show ?thesis using Inr v new vis read by simp
next
  case (Inl e)
  have same: "get_verified E (store_root R) j d = get_verified E (store_root R) j (rt_fs s)"
    if "put_verified E (store_root R) ob (rt_fs s) = (d, Inl e)" "visible j" for j d
    using that put_verified_frame [OF that(1), of "object_path (store_root R) j"]
    by (intro get_verified_cong) auto
  from rt_import_Inl assms(1) Inl consider "s' = s"
    | d where "put_verified E (store_root R) ob (rt_fs s) = (d, Inl e)" "s' = s\<lparr>rt_fs := d\<rparr>"
    by (metis ob_def)
  thus ?thesis by cases (use same Inl in simp_all)
qed

definition ex_foreign :: Object where
  "ex_foreign = sample_object 66 ''hello''"

definition ex_import_env :: rtenv where
  "ex_import_env = sample_rtenv [ex_foreign] []"

definition ex_bundle :: ExportBundle where
  "ex_bundle = \<lparr> bundle_version = 1, bundle_object = ex_foreign \<rparr>"

lemma ex_foreign_val: "ex_foreign = \<lparr> obj_id = ''1405'',
    payload = \<lparr> payload_owner = ''canopee://identity/42'',
       metadata = \<lparr> created_at = 1000, meta_size = 5, content_type = None \<rparr>,
       payload_type = Blob, payload_data = [104, 101, 108, 108, 111] \<rparr>,
    obj_public_key = [8, 66], obj_signature = [66, 20, 5] \<rparr>"
  by (simp add: ex_foreign_def sample_simps)

lemma ex_foreign_verifies: "object_verify (sample_rtenv_with obs ptrs m) ex_foreign"
  by (simp add: ex_foreign_val object_verify_def verify_id_def from_payload_def checksum_def sample_hex_def
      hex_digit_def char_of_def bit_0)

lemma ex_import: "\<exists>s'. rt_import ex_import_env ex_runtime ex_bundle (ex_state []) = (s', Inr ())"
  by (simp add: rt_import_def Let_def andThen_apply ex_bundle_def store_exists_def fs_exists_def ex_state_def
      on_fs_def store_import_def put_verified_def ex_import_env_def ex_foreign_verifies fs_write_def
      fs_rename_def on_cache_apply split: prod.splits)

theorem import_policy_witness:
  "\<exists>s'. rt_import ex_import_env ex_runtime ex_bundle (ex_state []) = (s', Inr ()) \<and>
     is_cached (rt_cache s') ''1405'' \<and>
     get_verified ex_import_env (store_root ex_runtime) ''1405'' (rt_fs s') = Inr ex_foreign"
proof -
  obtain s' where i: "rt_import ex_import_env ex_runtime ex_bundle (ex_state []) = (s', Inr ())"
    using ex_import by blast
  have "decodes ex_import_env (bundle_object ex_bundle)"
    by (simp add: decodes_def ex_import_env_def ex_bundle_def)
  with import_policy [OF i _ ex_cache_apart] have
    "get_verified ex_import_env (store_root ex_runtime) (obj_id ex_foreign) (rt_fs s') = Inr ex_foreign"
    "\<forall>j. is_cached (rt_cache s') j = (is_cached (rt_cache (ex_state [])) j \<or>
       j = obj_id ex_foreign \<and> payload_owner (payload ex_foreign) \<noteq> own_id ex_runtime)"
    by (simp_all add: ex_import_env_def ex_bundle_def)
  with i show ?thesis
    by (simp add: ex_foreign_val own_id_def ex_runtime_def sample_simps)
qed

text \<open>Property C17. After a successful eviction the object is gone: it cannot be read, is neither
  cached nor shared, is refused to every peer and withdrawn from the network; every other object
  reads as before and is as available as before.\<close>

theorem evicted_object_is_gone:
  assumes "evict E R oid s = (s', Inr ())" "visible oid" "cache_apart R s"
  shows "\<not> is_ok (get_verified E (store_root R) oid (rt_fs s')) \<and>
    \<not> is_shared oid s' \<and> provide_object E R oid s' = (s', None) \<and>
    rt_log s' = rt_log s @ [Unannounce oid] \<and>
    (\<forall>j. visible j \<and> j \<noteq> oid \<longrightarrow>
       get_verified E (store_root R) j (rt_fs s') = get_verified E (store_root R) j (rt_fs s) \<and>
       is_shared j s' = is_shared j s)"
proof -
  from assms(1) obtain d where w: "store_delete E (store_root R) oid (rt_fs s) = (d, Inr ())"
    and s': "s' = (s\<lparr>rt_fs := snd (cache_remove E oid (rt_cache s) d),
        rt_cache := fst (cache_remove E oid (rt_cache s) d), rt_shared := shared_remove oid (rt_shared s),
        rt_log := rt_log s @ [Unannounce oid]\<rparr>)"
    by (auto simp: evict_def andThen_Inr on_fs_Inr on_cache_apply send_def)
  have read: "get_verified E (store_root R) j (rt_fs s') = get_verified E (store_root R) j d" if "visible j" for j
    using s' by (simp add: cache_ops_objects(2) [OF assms(3) that])
  have gone: "\<not> is_ok (get_verified E (store_root R) oid (rt_fs s'))"
    using objs.del_get [OF w assms(2)] read [OF assms(2)] by simp
  then obtain e where "get_verified E (store_root R) oid (rt_fs s') = Inl e"
    by (cases "get_verified E (store_root R) oid (rt_fs s')") auto
  hence "provide_object E R oid s' = (s', None)" by (simp add: provide_object_def)
  moreover have "is_shared j s' = (j \<noteq> oid \<and> is_shared j s)" for j
    using s' by (auto simp: is_shared_def cache_remove_is_cached shared.mem_rem)
  moreover have "get_verified E (store_root R) j (rt_fs s') = get_verified E (store_root R) j (rt_fs s)"
    if "visible j" "j \<noteq> oid" for j
    using objs.del_other [OF w that(1) assms(2) that(2)] read [OF that(1)] by simp
  ultimately show ?thesis using gone s' by simp
qed

theorem evicted_object_is_gone_witness:
  "\<exists>s'. evict ex_import_env ex_runtime ''1405'' (ex_state [(''/c/storage/1405'', File [1])]) = (s', Inr ()) \<and>
     provide_object ex_import_env ex_runtime ''1405'' s' = (s', None)"
proof -
  have "\<exists>s'. evict ex_import_env ex_runtime ''1405'' (ex_state [(''/c/storage/1405'', File [1])]) = (s', Inr ())"
    by (simp add: evict_def andThen_apply on_fs_def store_delete_def remove_if_exists_def fs_exists_def
        fs_remove_def object_path_def store_root_def storage_path_def path_join_def ex_runtime_def with_root_def
        ex_state_def on_cache_apply name_path_def ex_import_env_def send_def split: prod.splits)
  moreover have "visible ''1405''" by (simp add: visible_def starts_with_iff)
  ultimately show ?thesis using evicted_object_is_gone [OF _ _ ex_cache_apart] by blast
qed

section \<open>What the code lets through\<close>



text \<open>A fetch takes what the first answering peer sends, whatever its id: the object it
  returns is the peer's, imported if it is signed, and is not compared with the id asked for.\<close>

theorem fetch_takes_any_object:
  assumes "\<not> is_ok (get_verified E (store_root R) oid (rt_fs s))" "net_peers E = Inr (p # ps)"
    "Some p \<noteq> from" "net_get_object E p oid = Inr bundle" "rt_import E R bundle s = (s', Inr ())"
  shows "fetch_object E R oid from s = (s', Inr (bundle_object bundle))"
proof -
  obtain e where "get_verified E (store_root R) oid (rt_fs s) = Inl e"
    using assms(1) by (cases "get_verified E (store_root R) oid (rt_fs s)") auto
  with assms(2-5) show ?thesis
    by (simp add: fetch_object_def andThen_apply read_fs_def)
qed

theorem fetch_takes_any_object_witness:
  "\<exists>s'. fetch_object (ex_import_env\<lparr>net_peers := Inr [''p''], net_get_object := (\<lambda>_ _. Inr ex_bundle)\<rparr>)
      ex_runtime ''ffff'' None (ex_state []) = (s', Inr ex_foreign) \<and> obj_id ex_foreign \<noteq> ''ffff''"
proof -
  let ?E = "ex_import_env\<lparr>net_peers := Inr [''p''], net_get_object := (\<lambda>_ _. Inr ex_bundle)\<rparr>"
  have same: "rt_import ?E ex_runtime ex_bundle (ex_state []) = rt_import ex_import_env ex_runtime ex_bundle (ex_state [])"
    by (simp add: ex_import_env_def sample_rtenv_with_def sample_objenv_def)
       (simp add: rt_import_def Let_def andThen_apply ex_bundle_def store_exists_def fs_exists_def ex_state_def
         on_fs_def store_import_def put_verified_def object_verify_def verify_id_def from_payload_def fs_write_def
         fs_rename_def on_cache_apply mark_cached_def persist_def index_save_def split: prod.splits option.splits)
  obtain s' where "rt_import ?E ex_runtime ex_bundle (ex_state []) = (s', Inr ())"
    using ex_import same by auto
  moreover have "\<not> is_ok (get_verified ?E (store_root ex_runtime) ''ffff'' (rt_fs (ex_state [])))"
    by (simp add: get_verified_def fs_read_def ex_state_def)
  ultimately have "fetch_object ?E ex_runtime ''ffff'' None (ex_state []) = (s', Inr (bundle_object ex_bundle))"
    by (intro fetch_takes_any_object) auto
  thus ?thesis by (simp add: ex_bundle_def) (simp add: ex_foreign_val)
qed

text \<open>Concatenation publishes plaintext: the object it stores, announces and hands to
  every connected peer holds the decrypted data of its inputs, in order, unencrypted.\<close>

theorem concat_publishes_plaintext:
  assumes "concat_objects E R ids name s = (s', Inr oid)"
  shows "\<exists>s1 bs ob. concat_data E R ids s = (s1, Inr bs) \<and> obj_id ob = oid \<and>
    payload_data (payload ob) = bs \<and> object_verify E ob \<and> shared_contains (rt_shared s') oid \<and>
    rt_log s' = rt_log s1 @ [Announce oid, Replicate \<lparr>bundle_version = 1, bundle_object = ob\<rparr>]"
proof -
  from assms obtain s1 bs ob s2 s3 bdl where d: "concat_data E R ids s = (s1, Inr bs)"
    and new: "object_new E (rt_identity R) (now E) bs Blob = Inr ob"
    and w: "on_fs (put_verified E (store_root R) ob) s1 = (s2, Inr ())"
    and n: "name_object E R (obj_id ob) name s2 = (s3, Inr ())"
    and x: "export E ob = Inr bdl" and oid: "oid = obj_id ob"
    and s': "s' = s3\<lparr>rt_shared := shared_insert (obj_id ob) (rt_shared s3),
        rt_log := rt_log s3 @ [Announce (obj_id ob), Replicate bdl]\<rparr>"
    by (auto simp: concat_objects_def andThen_Inr announce_def mark_shared_def send_def split: if_splits)
  from w have "rt_log s2 = rt_log s1" "object_verify E ob"
    by (auto simp: on_fs_Inr put_verified_def split: if_splits)
  moreover from name_object_Inr [OF n] have "rt_log s3 = rt_log s2" by auto
  moreover have "bdl = \<lparr>bundle_version = 1, bundle_object = ob\<rparr>"
    using x by (simp add: export_def split: if_splits)
  moreover have "payload_data (payload ob) = bs" using object_new_sel(1) [OF new] .
  ultimately show ?thesis
    using d oid s' by (intro exI [of _ s1] exI [of _ bs] exI [of _ ob]) (simp add: shared.mem_add)
qed

lemma ex_get:
  "rt_get ex_renv ex_runtime (obj_id ex_sealed) ex_sealed_state = (ex_sealed_state, Inr (set_data [104, 105] ex_sealed))"
proof -
  have "length (recipients ex_renv (rt_identity ex_runtime) []) < 65536" by (simp add: recipients_def)
  with put_then_opens(1) [OF _ _ _ _ _ ex_put ex_renv_decodes]
  show ?thesis by (simp add: ex_renv_def ex_runtime_def)
qed

theorem concat_publishes_plaintext_witness:
  "\<exists>s' ob. snd (concat_objects ex_renv ex_runtime [obj_id ex_sealed] None ex_sealed_state) = Inr (obj_id ob) \<and>
     fst (concat_objects ex_renv ex_runtime [obj_id ex_sealed] None ex_sealed_state) = s' \<and>
     payload_data (payload ob) = [104, 105] \<and> is_encrypted ex_sealed \<and>
     Replicate \<lparr>bundle_version = 1, bundle_object = ob\<rparr> \<in> set (rt_log s')"
proof -
  let ?c = "concat_objects ex_renv ex_runtime [obj_id ex_sealed] None ex_sealed_state"
  have d: "concat_data ex_renv ex_runtime [obj_id ex_sealed] ex_sealed_state = (ex_sealed_state, Inr [104, 105])"
    by (simp add: ex_get set_data_def)
  have "\<exists>oid. snd ?c = Inr oid"
    using d
    by (simp add: concat_objects_def andThen_apply ex_renv_def object_new_def sign_def ex_runtime_def
        sample_identity_def from_keypair_def Let_def on_fs_def put_verified_def object_verify_def verify_id_def
        from_payload_def public_key_bytes_def new_payload_def fs_write_def fs_rename_def name_object_def
        announce_def mark_shared_def send_def export_def del: concat_data.simps split: prod.splits)
  then obtain s' oid where c: "?c = (s', Inr oid)" by (metis prod.collapse)
  have "is_encrypted ex_sealed"
    using put_then_opens(2) [OF _ _ _ _ _ ex_put ex_renv_decodes]
    by (simp add: ex_renv_def ex_runtime_def recipients_def)
  with concat_publishes_plaintext [OF c] d c show ?thesis by auto
qed

text \<open>Property C18. A peer gets an object only when it is cached here or in the serving set; what it
  gets is the verified object of that id, and serving changes nothing but the time of last use.\<close>

theorem provide_object_gate:
  assumes "provide_object E R oid s = (s', r)"
  shows "(case r of
      Some b \<Rightarrow> is_shared oid s \<and> object_verify E (bundle_object b) \<and> obj_id (bundle_object b) = oid \<and>
        get_verified E (store_root R) oid (rt_fs s) = Inr (bundle_object b)
    | None \<Rightarrow> \<not> is_shared oid s \<or> \<not> is_ok (get_verified E (store_root R) oid (rt_fs s))) \<and>
    s'\<lparr>rt_cache := rt_cache s\<rparr> = s \<and> (\<forall>j. is_cached (rt_cache s') j = is_cached (rt_cache s) j)"
proof -
  have touch: "is_cached (touch_served t oid c) j = is_cached c j" for t c j
    by (simp add: is_cached_def touch_served_def)
  show ?thesis
  proof (cases "get_verified E (store_root R) oid (rt_fs s)")
    case (Inl e)
    with assms show ?thesis by (auto simp: provide_object_def)
  next
    case (Inr ob)
    hence "object_verify E ob" "obj_id ob = oid" by (auto simp: get_verified_Inr)
    with Inr assms touch show ?thesis
      by (auto simp: provide_object_def is_shared_def export_def split: if_splits)
  qed
qed

theorem provide_object_gate_witness:
  "snd (provide_object ex_renv ex_runtime (obj_id ex_sealed) ex_sealed_state) = None \<and>
   \<not> is_shared (obj_id ex_sealed) ex_sealed_state"
proof -
  have "\<not> is_shared (obj_id ex_sealed) (ex_state [])"
    by (simp add: is_shared_def ex_state_def shared_contains_def is_cached_def cache_new_def index_is_cached_def)
  moreover have "\<exists>d. (ex_state [])\<lparr>rt_fs := d\<rparr> = ex_sealed_state"
    using put_object_for_Inr [OF ex_put] by (auto simp: name_object_def)
  hence "rt_shared ex_sealed_state = rt_shared (ex_state []) \<and> rt_cache ex_sealed_state = rt_cache (ex_state [])"
    by (metis rt.select_convs(2,3) rt.surjective rt.update_convs(1))
  ultimately have "\<not> is_shared (obj_id ex_sealed) ex_sealed_state" by (simp add: is_shared_def)
  moreover obtain s' r where "provide_object ex_renv ex_runtime (obj_id ex_sealed) ex_sealed_state = (s', r)"
    by (cases "provide_object ex_renv ex_runtime (obj_id ex_sealed) ex_sealed_state")
  ultimately show ?thesis using provide_object_gate [of ex_renv ex_runtime "obj_id ex_sealed" ex_sealed_state s' r]
    by (simp split: option.splits)
qed

end
