(* ===== verification/Runtime_Open.thy ===== *)
theory Runtime_Open
  imports Runtime_Sharing Runtime_Objects
begin

text \<open>
  \<open>Runtime::open_with_config\<close>: from the files of a root to a running node.  \<open>openenv\<close> adds the
  decoder of the saved state, the parser of listening addresses, the start of the swarm under a key,
  the keys and random bytes that would be generated, and \<open>waits\<close>, the files that the i-th attempt at
  reading a key file sees, which another process may be writing.  The tasks that are spawned at the
  end (pairing, synchronisation, publication of the device) are the callers of their operations.
\<close>

record openenv = rtenv +
  state_dec :: "bytes \<Rightarrow> NodeState option"
  listen_addr_ok :: "string \<Rightarrow> bool"
  swarm_new :: "Keypair \<Rightarrow> string \<Rightarrow> bool \<Rightarrow> unit res"
  fresh_identity :: Keypair
  fresh_device :: Keypair
  fresh_salt :: bytes
  fresh_nonce :: bytes
  waits :: "fs \<Rightarrow> nat \<Rightarrow> fs"

definition identity_key_path :: "Config \<Rightarrow> string" where
  "identity_key_path c = path_join (identity_path c) ''identity.key''"

definition make_dirs :: "'e host_scheme \<Rightarrow> string \<Rightarrow> (fs, unit) op" where
  "make_dirs E p = (if io_create_ok E p then ret () else fail (Io p))"

definition fresh_state :: "'e rtenv_scheme \<Rightarrow> Identity \<Rightarrow> NodeState" where
  "fresh_state E i = \<lparr> ns_identity = identity_id i, ns_created_at = now E, last_started_at = None,
     started = False, ns_version = 1, ns_peers = [] \<rparr>"

definition load_state :: "'e openenv_scheme \<Rightarrow> Config \<Rightarrow> Identity \<Rightarrow> (fs, NodeState) op" where
  "load_state E c i d =
     (case fs_read (state_path c) d of
        Inr bs \<Rightarrow> (d, ok_or (state_dec E bs) (Decode ''NodeState''))
      | Inl _ \<Rightarrow>
          andThen (fs_write E (state_path c) (state_enc E (fresh_state E i))) (\<lambda>_. ret (fresh_state E i)) d)"

text \<open>The struct that is built, with the state behind its locks.\<close>

definition open_parts ::
  "'e openenv_scheme \<Rightarrow> Config \<Rightarrow> string option \<Rightarrow> string \<Rightarrow> (fs, Runtime \<times> rt) op" where
  "open_parts E c port_var device =
     andThen (make_dirs E (app_root c)) (\<lambda>_.
     andThen (make_dirs E (identity_path c)) (\<lambda>_.
     andThen (\<lambda>d. open_identity E (fresh_identity E) (fresh_salt E) (fresh_nonce E) (waits E d) (identity_key_path c) d) (\<lambda>i.
     andThen (make_dirs E (path_join (app_root c) ''state'')) (\<lambda>_.
     andThen (load_state E c i) (\<lambda>st.
     andThen (make_dirs E (storage_path c)) (\<lambda>_.
     andThen (gets (index_load E (cache_file_path c))) (\<lambda>ix.
     if \<not> listen_addr_ok E (listen_addr port_var) then fail (Decode (listen_addr port_var)) else
     andThen (make_dirs E (identity_path c)) (\<lambda>_.
     andThen (\<lambda>d. load_or_create_device_key E (fresh_device E) (device_key_path c) device (waits E d) d) (\<lambda>k.
     andThen (lift_res (swarm_new E (device_signing_key k) (listen_addr port_var) (mdns_enabled c))) (\<lambda>_.
     andThen (gets (\<lambda>d. d)) (\<lambda>d.
     ret (\<lparr> rt_config = c, rt_identity = i, rt_device_key = k \<rparr>,
          \<lparr> rt_fs = d, rt_cache = cache_new (cache_file_path c) (identity_id i) ix, rt_shared = [],
            rt_pairing = None, rt_state = st, rt_log = [] \<rparr>))))))))))))"

definition open_with_config ::
  "'e openenv_scheme \<Rightarrow> Config \<Rightarrow> string option \<Rightarrow> string \<Rightarrow> fs \<Rightarrow> (Runtime \<times> rt) res" where
  "open_with_config E c port_var device d =
     res_bind (snd (open_parts E c port_var device d)) (\<lambda>(R, s). Inr (R, fst (start_runtime E R s)))"

definition open_with_root ::
  "'e openenv_scheme \<Rightarrow> string \<Rightarrow> string option \<Rightarrow> string \<Rightarrow> fs \<Rightarrow> (Runtime \<times> rt) res" where
  "open_with_root E root = open_with_config E (with_root root)"

definition open_with_user_root ::
  "'e openenv_scheme \<Rightarrow> Config \<Rightarrow> string \<Rightarrow> string option \<Rightarrow> string \<Rightarrow> fs \<Rightarrow> (Runtime \<times> rt) res" where
  "open_with_user_root E base root = open_with_config E (with_mdns False (with_app_root root base))"

section \<open>Facts\<close>

lemma key_files_apart:
  "identity_key_path c \<noteq> device_key_path c" "identity_key_path c \<noteq> state_path c" "device_key_path c \<noteq> state_path c"
proof -
  show "identity_key_path c \<noteq> device_key_path c"
    by (simp add: identity_key_path_def device_key_path_def path_join_def)
  have "last (identity_key_path c) = CHR ''y''" "last (device_key_path c) = CHR ''y''" "last (state_path c) = CHR ''e''"
    by (simp_all add: identity_key_path_def device_key_path_def state_path_def path_join_def)
  then show "identity_key_path c \<noteq> state_path c" "device_key_path c \<noteq> state_path c" by auto
qed

text \<open>A key file that is there and readable is read at the first attempt on a quiet host.\<close>

definition quiet_host :: "'e openenv_scheme \<Rightarrow> bool" where
  "quiet_host E = (\<forall>d i. waits E d i = d)"

lemma load_retry_first: "load 0 = Inr x \<Longrightarrow> load_retry load 25 = Inr x"
  by (simp add: numeral_eq_Suc)

lemma load_retry_constant: "(\<And>i. load i = r) \<Longrightarrow> load_retry load 25 = r"
  using load_retry_spec [of 24 load] by (auto simp: is_ok_iff numeral_eq_Suc split: option.splits dest!: find_None_iff [THEN iffD1])

lemma open_parts_Inr:
  assumes "open_parts E c port_var device d = (d', Inr (R, s))"
  shows "\<exists>da db i st k. open_identity E (fresh_identity E) (fresh_salt E) (fresh_nonce E) (waits E d) (identity_key_path c) d = (da, Inr i) \<and>
    load_state E c i da = (db, Inr st) \<and>
    load_or_create_device_key E (fresh_device E) (device_key_path c) device (waits E db) db = (d', Inr k) \<and>
    R = \<lparr> rt_config = c, rt_identity = i, rt_device_key = k \<rparr> \<and> rt_state s = st \<and> rt_fs s = d'"
  using assms
  by (auto simp: open_parts_def andThen_Inr make_dirs_def Let_def simp del: andThen_simps split: if_splits)

lemma write_new_Inr: "write_new E path bs d = (d', Inr u) \<Longrightarrow>
    map_of d' path = Some (File bs) \<and> (\<forall>p. p \<noteq> path \<longrightarrow> map_of d' p = map_of d p)"
  by (auto simp: write_new_def fs_write_def update_conv' split: write_result.splits option.splits)

text \<open>A key file as it is after an opening, and what the next opening makes of it.\<close>

lemma identity_left:
  assumes "open_identity E k salt nonce (\<lambda>_. d) path d = (d', Inr i)" "identity_pass E = None" "keypair_codec_ok E"
  shows "\<exists>bs k. map_of d' path = Some (File bs) \<and> kp_decode E bs = Some k \<and> i = from_keypair E k"
    and "p \<noteq> path \<Longrightarrow> map_of d' p = map_of d p"
proof -
  have "(\<exists>bs k. map_of d' path = Some (File bs) \<and> kp_decode E bs = Some k \<and> i = from_keypair E k) \<and>
      (p \<noteq> path \<longrightarrow> map_of d' p = map_of d p)" for p
  proof (cases "fs_exists path d")
    case True
    with assms(1, 2) have "load_identity E path d = Inr i" "d' = d"
      by (auto simp: open_identity_def create_if_absent_def load_retry_constant [OF refl] simp del: load_retry.simps
          split: sum.splits)
    then show ?thesis by (auto simp: load_identity_Inr)
  next
    case False
    with assms(1, 2) obtain bs where "kp_encode E k = Some bs" "write_new E path bs d = (d', Inr ())" "i = from_keypair E k"
      by (auto simp: open_identity_def create_if_absent_def encode_key_def split: sum.splits if_splits prod.splits option.splits)
    with assms(3) write_new_Inr show ?thesis by (fastforce simp: keypair_codec_ok_def)
  qed
  then show "\<exists>bs k. map_of d' path = Some (File bs) \<and> kp_decode E bs = Some k \<and> i = from_keypair E k"
    and "p \<noteq> path \<Longrightarrow> map_of d' p = map_of d p" by blast+
qed

lemma identity_found:
  assumes "open_identity E k salt nonce (\<lambda>_. d) path d = (d', Inr i)" "identity_pass E = None"
    "map_of d path = Some (File bs)" "kp_decode E bs = Some k'"
  shows "d' = d \<and> i = from_keypair E k'"
proof -
  have "load_identity E path d = Inr (from_keypair E k')" using assms(3, 4) by (simp add: load_identity_Inr)
  with assms show ?thesis
    by (auto simp: open_identity_def create_if_absent_def load_retry_constant [OF refl] fs_exists_def
        simp del: load_retry.simps split: sum.splits)
qed

lemma load_device_key_Inr: "load_device_key E path name d = Inr x \<longleftrightarrow>
    (\<exists>bs k. map_of d path = Some (File bs) \<and> kp_decode E bs = Some k \<and>
      x = \<lparr> device_signing_key = k, device_name = name \<rparr>)"
  by (auto simp: load_device_key_def fs_read_def split: option.splits fentry.splits)

lemma device_left:
  assumes "load_or_create_device_key E k path name (\<lambda>_. d) d = (d', Inr x)" "keypair_codec_ok E"
  shows "\<exists>bs. map_of d' path = Some (File bs) \<and> kp_decode E bs = Some (device_signing_key x)"
    and "p \<noteq> path \<Longrightarrow> map_of d' p = map_of d p"
proof -
  have "(\<exists>bs. map_of d' path = Some (File bs) \<and> kp_decode E bs = Some (device_signing_key x)) \<and>
      (p \<noteq> path \<longrightarrow> map_of d' p = map_of d p)" for p
  proof (cases "fs_exists path d")
    case True
    with assms(1) have "load_device_key E path name d = Inr x" "d' = d"
      by (auto simp: load_or_create_device_key_def load_retry_constant [OF refl] simp del: load_retry.simps
          split: sum.splits)
    then show ?thesis by (auto simp: load_device_key_Inr)
  next
    case False
    with assms(1) obtain bs where "kp_encode E k = Some bs" "write_new E path bs d = (d', Inr ())"
        "x = \<lparr> device_signing_key = k, device_name = name \<rparr>"
      by (auto simp: load_or_create_device_key_def encode_key_def split: sum.splits if_splits prod.splits option.splits)
    with assms(2) write_new_Inr show ?thesis by (fastforce simp: keypair_codec_ok_def)
  qed
  then show "\<exists>bs. map_of d' path = Some (File bs) \<and> kp_decode E bs = Some (device_signing_key x)"
    and "p \<noteq> path \<Longrightarrow> map_of d' p = map_of d p" by blast+
qed

lemma device_found:
  assumes "load_or_create_device_key E k path name (\<lambda>_. d) d = (d', Inr x)"
    "map_of d path = Some (File bs)" "kp_decode E bs = Some k'"
  shows "d' = d \<and> device_signing_key x = k'"
proof -
  have "load_device_key E path name d = Inr \<lparr> device_signing_key = k', device_name = name \<rparr>"
    using assms(2, 3) by (simp add: load_device_key_Inr)
  with assms show ?thesis
    by (auto simp: load_or_create_device_key_def load_retry_constant [OF refl] fs_exists_def
        simp del: load_retry.simps split: sum.splits)
qed

lemma state_left:
  assumes "load_state E c i d = (d', Inr st)" "state_dec E (state_enc E (fresh_state E i)) = Some (fresh_state E i)"
  shows "\<exists>bs. map_of d' (state_path c) = Some (File bs) \<and> state_dec E bs = Some st"
    and "p \<noteq> state_path c \<Longrightarrow> map_of d' p = map_of d p"
  using assms
  by (auto simp: load_state_def fs_read_def fs_write_def andThen_Inr update_conv'
      split: option.splits fentry.splits write_result.splits)

lemma state_found:
  assumes "load_state E c i d = (d', Inr st)" "map_of d (state_path c) = Some (File bs)" "state_dec E bs = Some x"
  shows "d' = d \<and> st = x"
  using assms by (simp add: load_state_def fs_read_def)


definition ex_openenv :: "byte \<Rightarrow> openenv" where
  "ex_openenv b = sample_rtenv_with [] [] \<lparr>
     state_dec = (\<lambda>bs. if bs = [1] then Some (fresh_state (sample_rtenv [] []) (sample_identity 65)) else None),
     listen_addr_ok = (\<lambda>_. True), swarm_new = (\<lambda>_ _ _. Inr ()), fresh_identity = Keypair [b],
     fresh_device = Keypair [b + 1], fresh_salt = [], fresh_nonce = [], waits = (\<lambda>d _. d) \<rparr>"

lemma ex_openenv_sel [simp]:
  "io_create_ok (ex_openenv b) p" "io_write (ex_openenv b) p bs = Wrote" "kp_decode (ex_openenv b) = kp_decode (sample_crypto ())"
  "kp_encode (ex_openenv b) (Keypair r) = Some (10 # of_nat (length r) # r)" "identity_pass (ex_openenv b) = None"
  "state_enc (ex_openenv b) st = [1]" "from_keypair (ex_openenv b) = from_keypair (sample_objenv [] ())"
  "now (ex_openenv b) = 1000" "keypair_codec_ok (ex_openenv b)" "quiet_host (ex_openenv b)"
  "waits (ex_openenv b) d i = d" "listen_addr_ok (ex_openenv b) a" "swarm_new (ex_openenv b) k a m = Inr ()"
  "fresh_identity (ex_openenv b) = Keypair [b]" "fresh_device (ex_openenv b) = Keypair [b + 1]"
  "state_dec (ex_openenv b) [1] = Some (fresh_state (sample_rtenv [] []) (sample_identity 65))"
proof -
  show "keypair_codec_ok (ex_openenv b)"
    by (simp add: ex_openenv_def sample_rtenv_with_def sample_objenv_def)
  show "from_keypair (ex_openenv b) = from_keypair (sample_objenv [] ())"
    by (rule ext) (simp add: ex_openenv_def sample_rtenv_with_def sample_objenv_def sample_crypto_def from_keypair_def
        derive_dh_secret_def owner_of_key_def working_host_def)
qed (simp_all add: ex_openenv_def quiet_host_def sample_rtenv_with_def sample_objenv_def sample_crypto_def
    working_host_def)

lemma ex_key_decoded: "kp_decode (sample_crypto ()) [10, 1, b] = Some (Keypair [b])"
  by (simp add: sample_crypto_def working_host_def)

lemma ex_opened: "\<exists>d1 R s. open_parts (ex_openenv 65) (with_root ''/c'') None ''laptop'' [] = (d1, Inr (R, s)) \<and>
    rt_identity R = sample_identity 65 \<and>
    (\<exists>d2 Q t. open_parts (ex_openenv 70) (with_root ''/c'') (Some ''4001'') ''desktop'' d1 = (d2, Inr (Q, t)))"
  by (simp add: open_parts_def andThen_apply make_dirs_def open_identity_def create_if_absent_def encode_key_def
      fs_exists_def write_new_def fs_write_def load_state_def fs_read_def load_or_create_device_key_def update_conv'
      key_files_apart key_files_apart [THEN not_sym] sample_identity_def load_retry_constant [OF refl] load_identity_def
      load_device_key_def ex_key_decoded del: load_retry.simps)


end
