(* ===== verification/Http.thy ===== *)
theory Http
  imports Objects
begin

text \<open>
  canopee-runtime/src/http.rs: the static-file semantics of a served app, as pure functions of a
  request and the file map.  gzip is a library: the argument \<open>gz\<close>.  A slice of a string at an
  offset inside a character panics, so parsing a Range header returns a result.
\<close>

section \<open>Requests and responses\<close>

text \<open>The wire types of canopee-network/src/message.rs.\<close>

record ServeRequest =
  req_method :: string
  req_path :: string
  req_headers :: "(string \<times> string) list"

record ServeResponse =
  resp_status :: string
  resp_headers :: "(string \<times> string) list"
  resp_body :: bytes

definition SERVE_FORWARDED_HEADERS :: "string list" where
  "SERVE_FORWARDED_HEADERS = [''accept-encoding'', ''range'', ''if-none-match'']"

definition eq_ignore_case :: "string \<Rightarrow> string \<Rightarrow> bool" where
  "eq_ignore_case a b = (to_lower a = to_lower b)"

definition header :: "(string \<times> string) list \<Rightarrow> string \<Rightarrow> string option" where
  "header headers want = map_option snd (find (\<lambda>(k, _). eq_ignore_case k want) headers)"

definition request_get :: "ServeRequest \<Rightarrow> string \<Rightarrow> string option" where
  "request_get r name = map_option snd (find (\<lambda>(k, _). eq_ignore_case k name) (req_headers r))"

definition push_header :: "string \<Rightarrow> string \<Rightarrow> ServeResponse \<Rightarrow> ServeResponse" where
  "push_header name val r = r \<lparr> resp_headers := resp_headers r @ [(name, val)] \<rparr>"

section \<open>Strings\<close>

fun contains :: "'a list \<Rightarrow> 'a list \<Rightarrow> bool" where
  "contains p [] = (p = [])"
| "contains p (c # s) = (starts_with p (c # s) \<or> contains p s)"

definition trim_matches :: "'a \<Rightarrow> 'a list \<Rightarrow> 'a list" where
  "trim_matches c s = rev (dropWhile ((=) c) (rev (dropWhile ((=) c) s)))"

definition last_piece :: "'a \<Rightarrow> 'a list \<Rightarrow> 'a list" where
  "last_piece c s = last (split_all c s)"

definition is_digit :: "char \<Rightarrow> bool" where
  "is_digit c = (48 \<le> (of_char c :: nat) \<and> (of_char c :: nat) \<le> 57)"

text \<open>\<open>str::parse::<u64>\<close>: an optional plus sign, at least one digit, no overflow.\<close>

definition parse_u64 :: "string \<Rightarrow> nat option" where
  "parse_u64 s =
     (let ds = (case s of CHR ''+'' # r \<Rightarrow> r | _ \<Rightarrow> s) in
      if ds \<noteq> [] \<and> list_all is_digit ds \<and> str_nat ds < 2 ^ 64 then Some (str_nat ds) else None)"

text \<open>Whether an offset is a character boundary, which slicing requires.\<close>

definition char_boundary :: "nat \<Rightarrow> string \<Rightarrow> bool" where
  "char_boundary n s =
     (n = length s \<or> (n < length s \<and> \<not> in_range 128 191 (of_nat (of_char (s ! n)))))"

section \<open>The handler\<close>

definition MIN_COMPRESSIBLE_LEN :: nat where "MIN_COMPRESSIBLE_LEN = 256"

definition is_compressible :: "string \<Rightarrow> bool" where
  "is_compressible ct = (ct = ''application/javascript'' \<or> ct = ''application/json''
     \<or> ct = ''image/svg+xml'' \<or> starts_with ''text/'' ct)"

definition content_types :: "(string \<times> string) list" where
  "content_types = [(''html'', ''text/html; charset=utf-8''), (''htm'', ''text/html; charset=utf-8''),
     (''css'', ''text/css''), (''js'', ''application/javascript''), (''mjs'', ''application/javascript''),
     (''json'', ''application/json''), (''map'', ''application/json''),
     (''txt'', ''text/plain; charset=utf-8''), (''xml'', ''application/xml''),
     (''wasm'', ''application/wasm''), (''png'', ''image/png''), (''jpg'', ''image/jpeg''),
     (''jpeg'', ''image/jpeg''), (''gif'', ''image/gif''), (''webp'', ''image/webp''),
     (''avif'', ''image/avif''), (''svg'', ''image/svg+xml''), (''ico'', ''image/x-icon''),
     (''woff'', ''font/woff''), (''woff2'', ''font/woff2''), (''ttf'', ''font/ttf''),
     (''otf'', ''font/otf''), (''eot'', ''application/vnd.ms-fontobject''), (''mp4'', ''video/mp4''),
     (''webm'', ''video/webm''), (''mp3'', ''audio/mpeg'')]"

definition guess_content_type :: "string \<Rightarrow> string" where
  "guess_content_type path =
     (let name = (if path = ''/'' then ''index.html'' else path) in
      case map_of content_types (last_piece CHR ''.'' name) of
        Some ct \<Rightarrow> ct
      | None \<Rightarrow> ''application/octet-stream'')"

definition is_asset_request :: "string \<Rightarrow> bool" where
  "is_asset_request path = (CHR ''.'' \<in> set (last_piece CHR ''/'' path))"

datatype RangeSpec = Unsatisfiable | RangeBytes nat nat

definition parse_range :: "string option \<Rightarrow> nat \<Rightarrow> RangeSpec option res" where
  "parse_range hdr len =
     (case hdr of
        None \<Rightarrow> Inr None
      | Some h \<Rightarrow>
          let spec = trim h;
              spec = (case split_once CHR '':'' spec of Some (_, v) \<Rightarrow> trim v | None \<Rightarrow> spec)
          in if length spec < 6 then Inr None
             else if \<not> char_boundary 6 spec then Inl (Panic ''byte index is not a char boundary'')
             else if \<not> eq_ignore_case (take 6 spec) ''bytes='' then Inr None
             else let val = drop 6 spec in
               if CHR '','' \<in> set val then Inr None
               else let (start_str, end_str) =
                      (case split_once CHR ''-'' val of Some (a, b) \<Rightarrow> (a, b) | None \<Rightarrow> (val, []))
                 in if start_str = [] then
                      (if len = 0 then Inr (Some Unsatisfiable)
                       else case parse_u64 end_str of
                              None \<Rightarrow> Inr None
                            | Some n \<Rightarrow>
                                if n = 0 then Inr (Some Unsatisfiable)
                                else let tk = min n len in Inr (Some (RangeBytes (len - tk) (len - 1))))
                    else case parse_u64 start_str of
                           None \<Rightarrow> Inr None
                         | Some start \<Rightarrow>
                             if len \<le> start then Inr (Some Unsatisfiable)
                             else if end_str = [] then Inr (Some (RangeBytes start (len - 1)))
                             else (case parse_u64 end_str of
                                     None \<Rightarrow> Inr None
                                   | Some e \<Rightarrow>
                                       if e < start then Inr None
                                       else Inr (Some (RangeBytes start (min e (len - 1))))))"

definition etag :: "'e crypto_scheme \<Rightarrow> bytes \<Rightarrow> string" where
  "etag E body = CHR 0x22 # from_data E body @ [CHR 0x22]"

definition find_file :: "(string \<times> bytes) list \<Rightarrow> string \<Rightarrow> string \<times> bytes option" where
  "find_file files path =
     (case map_of files path of
        Some body \<Rightarrow> (path, Some body)
      | None \<Rightarrow>
          if \<not> is_asset_request path then
            (case map_of files ''/'' of
               Some entry \<Rightarrow> (''/'', Some entry)
             | None \<Rightarrow> (path, None))
          else (path, None))"

definition push_etag :: "string option \<Rightarrow> ServeResponse \<Rightarrow> ServeResponse" where
  "push_etag et r = (case et of Some v \<Rightarrow> push_header ''ETag'' v r | None \<Rightarrow> r)"

definition empty_response :: ServeResponse where
  "empty_response = \<lparr> resp_status = [], resp_headers = [], resp_body = [] \<rparr>"

definition full_response ::
  "(bytes \<Rightarrow> bytes option) \<Rightarrow> bool \<Rightarrow> bool \<Rightarrow> string \<Rightarrow> string option \<Rightarrow> bytes \<Rightarrow> ServeResponse" where
  "full_response gz accepts_gzip send_body ct et body =
     (let encoded =
            (if accepts_gzip \<and> MIN_COMPRESSIBLE_LEN \<le> length body \<and> is_compressible ct then
               (case gz body of Some z \<Rightarrow> if length z < length body then Some z else None | None \<Rightarrow> None)
             else None);
          payload = (case encoded of Some z \<Rightarrow> z | None \<Rightarrow> body);
          r = empty_response \<lparr> resp_status := ''200 OK'' \<rparr>;
          r = push_header ''Content-Type'' ct r;
          r = push_header ''Content-Length'' (nat_str (length payload)) r;
          r = push_etag et r;
          r = push_header ''Accept-Ranges'' ''bytes'' r;
          r = (if is_compressible ct then
                 (let r = push_header ''Vary'' ''Accept-Encoding'' r in
                  if encoded \<noteq> None then push_header ''Content-Encoding'' ''gzip'' r else r)
               else r)
      in if send_body then r \<lparr> resp_body := payload \<rparr> else r)"

definition range_response :: "string \<Rightarrow> string option \<Rightarrow> bytes \<Rightarrow> RangeSpec \<Rightarrow> ServeResponse" where
  "range_response ct et body spec =
     (case spec of
        Unsatisfiable \<Rightarrow>
          push_header ''Content-Range'' (''bytes */'' @ nat_str (length body))
            (push_header ''Accept-Ranges'' ''bytes'' (push_header ''Content-Type'' ct
              (empty_response \<lparr> resp_status := ''416 Range Not Satisfiable'' \<rparr>)))
      | RangeBytes start e \<Rightarrow>
          (push_etag et (push_header ''Content-Range''
             (''bytes '' @ nat_str start @ ''-'' @ nat_str e @ ''/'' @ nat_str (length body))
             (push_header ''Accept-Ranges'' ''bytes''
               (push_header ''Content-Length'' (nat_str (e - start + 1))
                 (push_header ''Content-Type'' ct
                   (empty_response \<lparr> resp_status := ''206 Partial Content'' \<rparr>))))))
          \<lparr> resp_body := take (e + 1 - start) (drop start body) \<rparr>)"

definition accepts_gzip :: "(string \<times> string) list \<Rightarrow> bool" where
  "accepts_gzip headers =
     (case header headers ''accept-encoding'' of Some v \<Rightarrow> contains ''gzip'' v | None \<Rightarrow> False)"

definition etag_matches :: "string option \<Rightarrow> string option \<Rightarrow> bool" where
  "etag_matches et if_none_match =
     (case (et, if_none_match) of
        (Some ours, Some sent) \<Rightarrow> trim (trim_matches (CHR 0x22) sent) = trim_matches (CHR 0x22) ours
      | _ \<Rightarrow> False)"

definition not_modified :: "string \<Rightarrow> string option \<Rightarrow> ServeResponse" where
  "not_modified ct et = push_etag et (push_header ''Content-Type'' ct
     (empty_response \<lparr> resp_status := ''304 Not Modified'' \<rparr>))"

definition missing_file :: "string \<Rightarrow> ServeResponse" where
  "missing_file ct = push_header ''Content-Type'' ct (empty_response \<lparr> resp_status := ''404 Not Found'' \<rparr>)"

definition render_response ::
  "'e crypto_scheme \<Rightarrow> (bytes \<Rightarrow> bytes option) \<Rightarrow> (string \<times> bytes) list \<Rightarrow> string \<Rightarrow> string
   \<Rightarrow> (string \<times> string) list \<Rightarrow> ServeResponse res" where
  "render_response E gz files meth path headers =
     (let range = header headers ''range'';
          if_none_match = header headers ''if-none-match'';
          (served_key, found) = find_file files path;
          ct = guess_content_type served_key;
          is_get_or_head = (meth = ''GET'' \<or> meth = ''HEAD'');
          et = map_option (etag E) found
      in if is_get_or_head \<and> etag_matches et if_none_match then Inr (not_modified ct et)
         else case found of
           None \<Rightarrow> Inr (missing_file ct)
         | Some body \<Rightarrow>
             if meth = ''GET'' then
               (case parse_range range (length body) of
                  Inl e \<Rightarrow> Inl e
                | Inr (Some spec) \<Rightarrow> Inr (range_response ct et body spec)
                | Inr None \<Rightarrow> Inr (full_response gz (accepts_gzip headers) True ct et body))
             else Inr (full_response gz (accepts_gzip headers) False ct et body))"

section \<open>Facts\<close>

lemma parse_range_bounds:
  assumes "parse_range h len = Inr (Some (RangeBytes a b))"
  shows "a \<le> b \<and> b < len"
proof (cases "len = 0")
  case False
  with assms show ?thesis
    by (auto simp: parse_range_def Let_def split: option.splits if_splits prod.splits)
qed (use assms in \<open>auto simp: parse_range_def Let_def split: option.splits if_splits prod.splits\<close>)

lemma push_header_sel [simp]:
  "resp_headers (push_header n v r) = resp_headers r @ [(n, v)]"
  "resp_status (push_header n v r) = resp_status r"
  "resp_body (push_header n v r) = resp_body r"
  by (simp_all add: push_header_def)

lemma push_etag_sel [simp]:
  "resp_headers (push_etag et r) =
     resp_headers r @ (case et of Some v \<Rightarrow> [(''ETag'', v)] | None \<Rightarrow> [])"
  "resp_status (push_etag et r) = resp_status r"
  "resp_body (push_etag et r) = resp_body r"
  by (auto simp: push_etag_def split: option.splits)

lemma empty_response_sel [simp]:
  "resp_headers empty_response = []" "resp_status empty_response = []" "resp_body empty_response = []"
  by (simp_all add: empty_response_def)

lemma header_append [simp]:
  "header (xs @ ys) n = (case header xs n of None \<Rightarrow> header ys n | Some v \<Rightarrow> Some v)"
  by (induction xs) (auto simp: header_def split: option.splits)

lemma header_Cons [simp]:
  "header ((k, v) # xs) n = (if eq_ignore_case k n then Some v else header xs n)"
  "header [] n = None"
  by (auto simp: header_def)

lemma response_status [simp]:
  "resp_status (not_modified ct et) = ''304 Not Modified''"
  "resp_status (missing_file ct) = ''404 Not Found''"
  "resp_status (full_response gz g sb ct et body) = ''200 OK''"
  "resp_status (range_response ct et body Unsatisfiable) = ''416 Range Not Satisfiable''"
  "resp_status (range_response ct et body (RangeBytes a b)) = ''206 Partial Content''"
  by (simp_all add: not_modified_def missing_file_def full_response_def range_response_def Let_def)

lemma render_206:
  assumes "render_response E gz files ''GET'' path headers = Inr r" "resp_status r = ''206 Partial Content''"
  shows "\<exists>k body a b. find_file files path = (k, Some body) \<and>
    parse_range (header headers ''range'') (length body) = Inr (Some (RangeBytes a b)) \<and>
    r = range_response (guess_content_type k) (Some (etag E body)) body (RangeBytes a b)"
proof -
  obtain k found where f: "find_file files path = (k, found)" by (cases "find_file files path")
  have "\<not> etag_matches (map_option (etag E) found) (header headers ''if-none-match'')"
    using assms f by (auto simp: render_response_def Let_def split: if_splits)
  with assms f obtain body where b: "found = Some body"
    by (cases found) (auto simp: render_response_def Let_def)
  show ?thesis
  proof (cases "parse_range (header headers ''range'') (length body)")
    case (Inl e)
    with assms f b show ?thesis by (auto simp: render_response_def Let_def split: if_splits)
  next
    case (Inr sp)
    with assms f b obtain spec where sp: "sp = Some spec"
      by (cases sp) (auto simp: render_response_def Let_def split: if_splits)
    with assms f b Inr have "r = range_response (guess_content_type k) (Some (etag E body)) body spec"
      by (auto simp: render_response_def Let_def split: if_splits)
    moreover from this assms(2) obtain x y where "spec = RangeBytes x y"
      by (cases spec) auto
    ultimately show ?thesis using f b Inr sp by blast
  qed
qed

section \<open>Properties\<close>

text \<open>Property C9. A range the server answers with 206 lies inside the file, its body is exactly
  those bytes, and Content-Length and Content-Range say so.\<close>

theorem partial_content_exact:
  assumes "render_response E gz files ''GET'' path headers = Inr r" "resp_status r = ''206 Partial Content''"
  shows "\<exists>body a b. snd (find_file files path) = Some body \<and> a \<le> b \<and> b < length body \<and>
    resp_body r = map ((!) body) [a..<Suc b] \<and>
    header (resp_headers r) ''content-length'' = Some (nat_str (length (resp_body r))) \<and>
    header (resp_headers r) ''content-range'' =
      Some (''bytes '' @ nat_str a @ ''-'' @ nat_str b @ ''/'' @ nat_str (length body))"
proof -
  obtain k body a b where f: "find_file files path = (k, Some body)"
    and p: "parse_range (header headers ''range'') (length body) = Inr (Some (RangeBytes a b))"
    and r: "r = range_response (guess_content_type k) (Some (etag E body)) body (RangeBytes a b)"
    using render_206 [OF assms] by blast
  have ab: "a \<le> b" "b < length body" using parse_range_bounds [OF p] by auto
  have "resp_body r = take (Suc b - a) (drop a body)" by (simp add: r range_response_def)
  also have "\<dots> = map ((!) body) [a..<Suc b]"
    using ab by (intro nth_equalityI) (auto simp del: upt_Suc)
  finally have body: "resp_body r = map ((!) body) [a..<Suc b]" .
  have "eq_ignore_case ''Content-Length'' ''content-length''"
    "eq_ignore_case ''Content-Range'' ''content-range''" "\<not> eq_ignore_case ''Content-Type'' ''content-length''"
    "\<not> eq_ignore_case ''Content-Type'' ''content-range''" "\<not> eq_ignore_case ''Content-Length'' ''content-range''"
    "\<not> eq_ignore_case ''Accept-Ranges'' ''content-range''"
    by (simp_all add: eq_ignore_case_def to_lower_def ascii_lower_def Let_def char_of_def bit_0)
  hence "header (resp_headers r) ''content-length'' = Some (nat_str (b - a + 1))"
    "header (resp_headers r) ''content-range'' =
       Some (''bytes '' @ nat_str a @ ''-'' @ nat_str b @ ''/'' @ nat_str (length body))"
    by (simp_all add: r range_response_def)
  moreover have "length (resp_body r) = b - a + 1" using ab by (simp add: body del: upt_Suc)
  ultimately show ?thesis
    using f ab body by (metis snd_conv)
qed

theorem partial_content_exact_witness:
  "\<exists>r body a b. render_response (sample_crypto ()) (\<lambda>_. None) [(''/a.bin'', [10, 11, 12, 13, 14, 15])]
      ''GET'' ''/a.bin'' [(''Range'', ''bytes=2-4'')] = Inr r \<and>
    snd (find_file [(''/a.bin'', [10, 11, 12, 13, 14, 15])] ''/a.bin'') = Some body \<and>
    b < length body \<and> resp_body r = map ((!) body) [a..<Suc b]"
proof -
  let ?files = "[(''/a.bin'', [10, 11, 12, 13, 14, 15])]" and ?hs = "[(''Range'', ''bytes=2-4'')]"
  let ?sp = "RangeBytes 2 4"
  have p: "parse_range (Some ''bytes=2-4'') (length [10, 11, 12, 13, 14, 15 :: byte]) = Inr (Some ?sp)"
    by (simp add: parse_range_def trim_def is_space_def char_boundary_def eq_ignore_case_def
        to_lower_def ascii_lower_def parse_u64_def is_digit_def str_nat_def in_range_def Let_def char_of_def bit_0)
  have h: "header ?hs ''range'' = Some ''bytes=2-4''" "header ?hs ''if-none-match'' = None"
    by (simp_all add: eq_ignore_case_def to_lower_def ascii_lower_def Let_def char_of_def bit_0)
  have "render_response (sample_crypto ()) (\<lambda>_. None) ?files ''GET'' ''/a.bin'' ?hs
      = Inr (range_response (guess_content_type ''/a.bin'') (Some (etag (sample_crypto ()) [10, 11, 12, 13, 14, 15]))
          [10, 11, 12, 13, 14, 15] ?sp)"
    using p by (simp add: render_response_def find_file_def h etag_matches_def Let_def del: header_Cons)
  from partial_content_exact [OF this response_status(5)] this show ?thesis by blast
qed

end
