(* ===== verification/Serve_Session.thy ===== *)
theory Serve_Session
  imports Runtime_Sharing Http
begin

text \<open>
  canopee-runtime/src/serve.rs, with the multiaddr helpers of canopee-network: pinning the files of
  a published app, registering with an edge, answering the requests it forwards, the heartbeat and
  the deregistration.  A session is a value in the slot \<open>sv_session\<close>; what was sent to edges is the
  list \<open>sv_sent\<close>.  \<open>serveenv\<close> holds what the swarm and the edge answer, the bincode codec of the
  manifest, gzip and the multiaddr parser; the wait for the connection is one answer.
\<close>

section \<open>Multiaddrs\<close>

datatype proto = P2p peer_id | P2pCircuit | OtherProto string

type_synonym Multiaddr = "proto list"

fun last_p2p :: "Multiaddr \<Rightarrow> peer_id option \<Rightarrow> peer_id option" where
  "last_p2p [] acc = acc"
| "last_p2p (P2p pid # ps) acc = last_p2p ps (Some pid)"
| "last_p2p (_ # ps) acc = last_p2p ps acc"

definition peer_id_from_multiaddr :: "Multiaddr \<Rightarrow> peer_id option" where
  "peer_id_from_multiaddr addr = last_p2p addr None"

fun relay_peer_id_from :: "Multiaddr \<Rightarrow> peer_id option \<Rightarrow> peer_id option" where
  "relay_peer_id_from [] acc = None"
| "relay_peer_id_from (P2p pid # ps) acc = relay_peer_id_from ps (Some pid)"
| "relay_peer_id_from (P2pCircuit # ps) acc = acc"
| "relay_peer_id_from (OtherProto _ # ps) acc = relay_peer_id_from ps acc"

definition relay_peer_id_from_circuit_addr :: "Multiaddr \<Rightarrow> peer_id option" where
  "relay_peer_id_from_circuit_addr addr = relay_peer_id_from addr None"

section \<open>The session\<close>

datatype RegistrationReply = ReplyOk | ReplyError string

record ServeSession =
  ss_running :: bool
  ss_edge_peer_id :: peer_id
  ss_app_id :: string
  ss_files :: "(string \<times> bytes) list"

record serveenv = rtenv +
  manifest_dec :: "bytes \<Rightarrow> AppManifest option"
  gzip :: "bytes \<Rightarrow> bytes option"
  addr_parse :: "string \<Rightarrow> Multiaddr option"
  net_dial :: "Multiaddr \<Rightarrow> unit res"
  edge_connects :: "peer_id \<Rightarrow> bool"
  edge_reply :: "peer_id \<Rightarrow> ServeRegistration \<Rightarrow> RegistrationReply res"

record serving =
  sv_rt :: rt
  sv_session :: "ServeSession option"
  sv_sent :: "(peer_id \<times> ServeRegistration) list"

definition root_url :: "ServeSession \<Rightarrow> string \<Rightarrow> string" where
  "root_url session public_base_domain =
     ''https://'' @ app_subdomain (ss_app_id session) @ ''.'' @ public_base_domain @ ''/''"

definition DEREGISTER_TIMESTAMP :: u64 where "DEREGISTER_TIMESTAMP = 0"

section \<open>Pinning the app\<close>

text \<open>An asset that is not stored is skipped, one that does not open ends the load.\<close>

fun add_assets ::
  "'e rtenv_scheme \<Rightarrow> Runtime \<Rightarrow> fs \<Rightarrow> (string \<times> ObjectId) list \<Rightarrow> (string \<times> bytes) list
   \<Rightarrow> (string \<times> bytes) list res" where
  "add_assets E R d [] files = Inr files"
| "add_assets E R d ((path, asset_id) # as) files =
     (case get_verified E (store_root R) asset_id d of
        Inl _ \<Rightarrow> add_assets E R d as files
      | Inr asset \<Rightarrow>
          res_bind (open_object E R asset) (\<lambda>opened.
            add_assets E R d as (AList.update path (payload_data (payload opened)) files)))"

definition load_app_files :: "'e serveenv_scheme \<Rightarrow> Runtime \<Rightarrow> ObjectId \<Rightarrow> rt \<Rightarrow> (string \<times> bytes) list res" where
  "load_app_files E R app_id s =
     (let d = rt_fs s in
      case get_verified E (store_root R) app_id d of
        Inl _ \<Rightarrow> Inl (Bail (''app manifest '' @ app_id @ '' is not stored here''))
      | Inr manifest_object \<Rightarrow>
          if payload_owner (payload manifest_object) \<noteq> own_id R then
            Inl (Bail (''app manifest '' @ app_id @ '' belongs to another identity''))
          else if \<not> shared_contains (rt_shared s) app_id then
            Inl (Bail (''app manifest '' @ app_id @ '' is not shared; publish it first so the edge can verify it''))
          else res_bind (open_object E R manifest_object) (\<lambda>opened.
               res_bind (decode_data (manifest_dec E) opened) (\<lambda>manifest.
               case get_verified E (store_root R) (entrypoint manifest) d of
                 Inl _ \<Rightarrow> Inl (Bail (''entrypoint for app '' @ app_id @ '' missing''))
               | Inr ep \<Rightarrow> res_bind (open_object E R ep) (\<lambda>entry.
                   add_assets E R d (assets manifest) [(''/'', payload_data (payload entry))]))))"

section \<open>Start, stop, heartbeat\<close>

definition on_rt :: "(rt, 'a) op \<Rightarrow> (serving, 'a) op" where
  "on_rt m s = (case m (sv_rt s) of (t, r) \<Rightarrow> (s \<lparr> sv_rt := t \<rparr>, r))"

definition register ::
  "'e serveenv_scheme \<Rightarrow> peer_id \<Rightarrow> ServeRegistration \<Rightarrow> (serving, RegistrationReply) op" where
  "register E edge reg =
     andThen (modify (\<lambda>s. s \<lparr> sv_sent := sv_sent s @ [(edge, reg)] \<rparr>)) (\<lambda>_. lift_res (edge_reply E edge reg))"

definition stop_serve_session :: "'e serveenv_scheme \<Rightarrow> Runtime \<Rightarrow> (serving, unit) op" where
  "stop_serve_session E R s =
     (case sv_session s of
        None \<Rightarrow> (s, Inr ())
      | Some session \<Rightarrow>
          andThen (modify (\<lambda>s. s \<lparr> sv_session := None \<rparr>)) (\<lambda>_.
            case registration_sign E (rt_identity R) (ss_app_id session) DEREGISTER_TIMESTAMP of
              Inl _ \<Rightarrow> ret ()
            | Inr dereg \<Rightarrow> andThen (attempt (register E (ss_edge_peer_id session) dereg)) (\<lambda>_. ret ())) s)"

definition start_serve_session ::
  "'e serveenv_scheme \<Rightarrow> Runtime \<Rightarrow> string \<Rightarrow> ObjectId \<Rightarrow> (serving, ServeSession \<times> string) op" where
  "start_serve_session E R edge_addr app_id =
     andThen (stop_serve_session E R) (\<lambda>_.
     andThen (\<lambda>s. (s, load_app_files E R app_id (sv_rt s))) (\<lambda>files.
     case addr_parse E edge_addr of
       None \<Rightarrow> fail (Bail (''invalid edge address '' @ edge_addr))
     | Some addr \<Rightarrow>
         (case peer_id_from_multiaddr addr of
            None \<Rightarrow> fail (Bail (''edge address must end with /p2p/<peer-id>: '' @ edge_addr))
          | Some edge \<Rightarrow>
              andThen (lift_res (net_dial E addr)) (\<lambda>_.
              if \<not> edge_connects E edge then fail (Bail (''could not connect to the edge at '' @ edge_addr))
              else andThen (lift_res (registration_sign E (rt_identity R) app_id (now E))) (\<lambda>reg.
                   andThen (register E edge reg) (\<lambda>reply.
                   case reply of
                     ReplyError e \<Rightarrow> fail (Bail (''edge refused serving '' @ app_id @ '': '' @ e))
                   | ReplyOk \<Rightarrow>
                       let session = \<lparr> ss_running = True, ss_edge_peer_id = edge, ss_app_id = app_id,
                                       ss_files = files \<rparr> in
                       andThen (modify (\<lambda>s. s \<lparr> sv_session := Some session \<rparr>)) (\<lambda>_.
                       ret (session, app_id))))))))"

text \<open>One turn of the heartbeat, after its interval: whether the loop goes on.\<close>

definition heartbeat :: "'e serveenv_scheme \<Rightarrow> Runtime \<Rightarrow> ServeSession \<Rightarrow> (serving, bool) op" where
  "heartbeat E R session =
     (if \<not> ss_running session then ret False
      else case registration_sign E (rt_identity R) (ss_app_id session) (now E) of
             Inl _ \<Rightarrow> ret True
           | Inr reg \<Rightarrow> andThen (attempt (register E (ss_edge_peer_id session) reg)) (\<lambda>_. ret True))"

section \<open>Answering a forwarded request\<close>

definition request_path :: "string \<Rightarrow> string" where
  "request_path p =
     (let no_query = hd (split_all CHR ''?'' p);
          q = (if no_query \<noteq> [] then no_query else p)
      in if starts_with ''/'' q then q else ''/'')"

definition serve_request ::
  "'e serveenv_scheme \<Rightarrow> (string \<times> bytes) list \<Rightarrow> ServeRequest \<Rightarrow> ServeResponse res" where
  "serve_request E files rq =
     render_response E (gzip E) files (req_method rq) (request_path (req_path rq)) (req_headers rq)"

end
