(* ===== verification/Node.thy ===== *)
theory Node
  imports Runtime_Objects Serve_Session
begin

text \<open>
  canopee-node/src/lib.rs over the commands and answers of canopee-protocol/src/lib.rs: the framing
  of the socket, the dispatcher \<open>handle\<close>, and the sweep that keeps the cache under its cap.  The
  state is that of the runtime with the serve slot.  \<open>nodeenv\<close> adds what the swarm answers to the
  remaining requests, the random bytes of keys and pairing, the codec of the pairing payload and
  the text of an error, which for the operating system and the libraries is not the program's.
\<close>

section \<open>Commands and responses\<close>

datatype (plugins only: code) NodeCommand =
  CmdPut bytes "string option"
| CmdPutObject bytes ObjectType "string option"
| CmdConcat "ObjectId list" "string option"
| CmdGet ObjectId
| CmdList
| CmdDeleteObject ObjectId
| CmdSetName ObjectId string
| CmdExport ObjectId
| CmdImport ExportBundle
| CmdStatus
| CmdIdentity
| CmdShutdown
| CmdDial string
| CmdListenViaRelay string
| CmdPublish string bytes
| CmdSubscribe string
| CmdPeers
| CmdRelayReservations
| CmdFindProviders ObjectId
| CmdFetchObject string ObjectId
| CmdAnnounce ObjectId
| CmdPublishAppPointer string ObjectId
| CmdResolveAppPointer IdentityId string
| CmdPublishPointer string ObjectId
| CmdResolvePointer IdentityId string
| CmdSaveProfile Profile
| CmdLoadProfile
| CmdSaveContactList ContactList
| CmdLoadContactList
| CmdSaveHomeIndex HomeIndex
| CmdLoadHomeIndex
| CmdSetHomeEntryShared string bool
| CmdDhPublicKey
| CmdPutObjectPublic bytes ObjectType "string option"
| CmdShareObject string ObjectId "string option" "bytes list"
| CmdClaimUsername string
| CmdResolveUsername string
| CmdResolveProfile IdentityId
| CmdExportIdentity string
| CmdImportIdentity bytes string bool
| CmdShowUsername
| CmdDevice
| CmdDeviceList
| CmdResolveOwnerDevice IdentityId
| CmdAddDevice string string
| CmdRemoveDevice string
| CmdInitiatePairing
| CmdCompletePairing PairingQrData string
| CmdSyncFromPeer string
| CmdSyncDeviceList
| CmdGrantCapability IdentityId Resource "Permission list" "u64 option"
| CmdListCapabilities
| CmdRevokeCapability CapabilityId
| CmdCheckCapability Capability
| CmdCheckAccess IdentityId Permission Resource
| CmdStartServeSession string ObjectId
| CmdStopServeSession

record PeerInfo =
  peer_info_id :: string
  peer_identity :: "IdentityId option"
  peer_username :: "string option"
  peer_display_name :: "string option"
  peer_addresses :: "string list"

record RelayReservationInfo =
  relay_peer_id :: string
  relay_renewal :: bool
  relay_listen_addrs :: "string list"

record DeviceInfo =
  device_info_id :: string
  device_info_name :: string

record PubSubPush =
  push_topic :: string
  push_source :: "string option"
  push_data :: bytes

datatype (plugins only: code) NodeResponse =
  RspObjectCreated ObjectId
| RspDhPublicKey bytes
| RspConcatenated ObjectId
| RspNameSet
| RspObject Object
| RspObjects "ObjectInfo list"
| RspObjectDeleted
| RspExported ExportBundle
| RspImported
| RspStatus string nat nat
| RspError string
| RspIdentity IdentityId
| RspShutdownAccepted
| RspDialed
| RspListeningViaRelay
| RspPublished
| RspSubscribed
| RspPubSub PubSubPush
| RspPeers "PeerInfo list"
| RspRelayReservations "RelayReservationInfo list"
| RspProviders "string list"
| RspAnnounced
| RspAppPointerPublished
| RspAppPointer "AppPointerRecord option"
| RspPointerPublished
| RspPointer "AppPointerRecord option"
| RspProfileSaved ObjectId
| RspProfile "Profile option"
| RspContactListSaved ObjectId
| RspContactList "ContactList option"
| RspHomeIndexSaved ObjectId
| RspHomeIndex "HomeIndex option"
| RspUsernameClaimed
| RspUsername "string option"
| RspUsernameOwner "IdentityId option"
| RspIdentityExported bytes
| RspIdentityImported IdentityId
| RspDevice string string
| RspDeviceList "DeviceInfo list"
| RspOwnerDevice "string option"
| RspDeviceAdded
| RspDeviceRemoved
| RspPairingQr PairingQrData
| RspPairingComplete string
| RspSyncComplete SyncResult
| RspCapabilityGranted Capability
| RspCapabilities "CapabilityIndex option"
| RspCapabilityRevoked
| RspCapabilityCheck bool string
| RspAccessAllowed bool
| RspServeSessionStarted string string
| RspServeSessionStopped

record nodeenv = serveenv +
  error_text :: "error \<Rightarrow> string"
  key_salt :: bytes
  key_nonce :: bytes
  code_rnd :: bytes
  session_rnd :: bytes
  pairing_nonce :: bytes
  pairing_enc :: "PairingData \<Rightarrow> bytes"
  pairing_dec :: "bytes \<Rightarrow> PairingData option"
  pairing_deliver :: "peer_id \<Rightarrow> string \<Rightarrow> CanopeePairingRequest \<Rightarrow> string res"
  net_listen_addrs :: "string list res"
  net_listen_via_relay :: "Multiaddr \<Rightarrow> unit res"
  net_publish :: "string \<Rightarrow> bytes \<Rightarrow> unit res"
  net_put_record :: "bytes \<Rightarrow> bytes \<Rightarrow> unit res"
  net_peer_infos :: "PeerInfo list res"
  net_relay_reservations :: "RelayReservationInfo list res"
  remote_slow :: bool
  public_base_domain :: "string option"

section \<open>The dispatcher\<close>

text \<open>An error becomes an error response; a panic ends the connection's task without one.\<close>

definition answer :: "'e nodeenv_scheme \<Rightarrow> ('a \<Rightarrow> NodeResponse) \<Rightarrow> ('s, 'a) op \<Rightarrow> ('s, NodeResponse) op" where
  "answer E f m s =
     (case m s of
        (s', Inr x) \<Rightarrow> (s', Inr (f x))
      | (s', Inl (Panic p)) \<Rightarrow> (s', Inl (Panic p))
      | (s', Inl e) \<Rightarrow> (s', Inr (RspError (error_text E e))))"

definition publish_app_pointer :: "'e nodeenv_scheme \<Rightarrow> Runtime \<Rightarrow> string \<Rightarrow> ObjectId \<Rightarrow> (rt, unit) op" where
  "publish_app_pointer E R name manifest =
     andThen (lift_res (pointer_sign E (rt_identity R) (now E) name manifest)) (\<lambda>r.
       let key = pointer_key E (ptr_owner r) name; bs = enc (pointer_codec E) r in
       andThen (send (PutRecord key bs)) (\<lambda>_. lift_res (net_put_record E key bs)))"

definition resolve_app_pointer :: "'e nodeenv_scheme \<Rightarrow> IdentityId \<Rightarrow> string \<Rightarrow> NodeResponse" where
  "resolve_app_pointer E owner name =
     (case net_get_record E (pointer_key E owner name) of
        Inl e \<Rightarrow> RspError (error_text E e)
      | Inr None \<Rightarrow> RspAppPointer None
      | Inr (Some bs) \<Rightarrow>
          (case dec (pointer_codec E) bs of
             Some r \<Rightarrow> RspAppPointer (Some r)
           | None \<Rightarrow> RspError (''Corrupt app pointer record: '' @ error_text E (Decode owner))))"

definition device_infos :: "DeviceList option \<Rightarrow> DeviceInfo list" where
  "device_infos l =
     (case l of
        Some l \<Rightarrow> map (\<lambda>d. \<lparr> device_info_id = device_entry_id d, device_info_name = device_entry_name d \<rparr>)
                    (devices l)
      | None \<Rightarrow> [])"

definition or_empty :: "'a list res \<Rightarrow> 'a list" where
  "or_empty r = (case r of Inr xs \<Rightarrow> xs | Inl _ \<Rightarrow> [])"

fun node_handle :: "'e nodeenv_scheme \<Rightarrow> Runtime \<Rightarrow> NodeCommand \<Rightarrow> (serving, NodeResponse) op" where
  "node_handle E R CmdIdentity = on_rt (ret (RspIdentity (own_id R)))"
| "node_handle E R (CmdPut bs name) = on_rt (answer E RspObjectCreated (rt_put E R bs name))"
| "node_handle E R (CmdConcat ids name) = on_rt (answer E RspConcatenated (concat_objects E R ids name))"
| "node_handle E R (CmdSetName oid name) = on_rt (
     answer E (\<lambda>_. RspNameSet) (on_fs (set_name E (store_root R) oid name)))"
| "node_handle E R (CmdGet oid) = on_rt (answer E RspObject (rt_get E R oid))"
| "node_handle E R CmdList = on_rt (answer E RspObjects (rt_list E R))"
| "node_handle E R (CmdDeleteObject oid) = on_rt (
     answer E (\<lambda>_. RspObjectDeleted) (delete_object E R oid))"
| "node_handle E R CmdStatus = on_rt (
     andThen (attempt (rt_list E R)) (\<lambda>l.
     ret (RspStatus (own_id R) (length (or_empty l)) (length (or_empty (net_peers E))))))"
| "node_handle E R (CmdExport oid) = on_rt (answer E RspExported (export_to_file E R oid))"
| "node_handle E R (CmdImport bundle) = on_rt (answer E (\<lambda>_. RspImported) (rt_import E R bundle))"
| "node_handle E R CmdShutdown = on_rt (ret RspShutdownAccepted)"
| "node_handle E R (CmdDial addr) = on_rt (
     (case addr_parse E addr of
        Some a \<Rightarrow> answer E (\<lambda>_. RspDialed) (lift_res (net_dial E a))
      | None \<Rightarrow> ret (RspError (''Invalid address: '' @ error_text E (Decode addr)))))"
| "node_handle E R (CmdListenViaRelay addr) = on_rt (
     (case addr_parse E addr of
        Some a \<Rightarrow> answer E (\<lambda>_. RspListeningViaRelay) (lift_res (net_listen_via_relay E a))
      | None \<Rightarrow> ret (RspError (''Invalid address: '' @ error_text E (Decode addr)))))"
| "node_handle E R (CmdPublish topic bs) = on_rt (
     answer E (\<lambda>_. RspPublished) (lift_res (net_publish E topic bs)))"
| "node_handle E R (CmdSubscribe topic) = on_rt (
     ret (RspError ''Subscribe must be handled as a streaming connection''))"
| "node_handle E R CmdPeers = on_rt (
     andThen (attempt (enrich_peers E R)) (\<lambda>_. answer E RspPeers (lift_res (net_peer_infos E))))"
| "node_handle E R CmdRelayReservations = on_rt (
     answer E RspRelayReservations (lift_res (net_relay_reservations E)))"
| "node_handle E R (CmdFindProviders oid) = on_rt (
     answer E RspProviders (lift_res (net_find_providers E oid)))"
| "node_handle E R (CmdFetchObject p oid) = on_rt (
     (case parse_peer_id E p of
        Some pid \<Rightarrow> answer E RspExported (lift_res (net_get_object E pid oid))
      | None \<Rightarrow> ret (RspError (''Invalid peer id: '' @ error_text E (Decode p)))))"
| "node_handle E R (CmdAnnounce oid) = on_rt (answer E (\<lambda>_. RspAnnounced) (announce E oid))"
| "node_handle E R (CmdPutObject bs ty name) = on_rt (
     answer E (\<lambda>ob. RspObjectCreated (obj_id ob)) (put_object E R bs ty name))"
| "node_handle E R (CmdPublishAppPointer name m) = on_rt (
     answer E (\<lambda>_. RspAppPointerPublished) (publish_app_pointer E R name m))"
| "node_handle E R (CmdResolveAppPointer owner name) = on_rt (ret (resolve_app_pointer E owner name))"
| "node_handle E R (CmdPublishPointer name target) = on_rt (
     answer E (\<lambda>_. RspPointerPublished) (publish_pointer E R name target))"
| "node_handle E R (CmdResolvePointer owner name) = on_rt (
     answer E RspPointer (resolve_pointer E R owner name))"
| "node_handle E R (CmdSaveProfile p) = on_rt (answer E RspProfileSaved (save_profile E R p))"
| "node_handle E R CmdLoadProfile = on_rt (answer E RspProfile (load_profile E R))"
| "node_handle E R (CmdSaveContactList l) = on_rt (answer E RspContactListSaved (save_contact_list E R l))"
| "node_handle E R CmdLoadContactList = on_rt (answer E RspContactList (load_contact_list E R))"
| "node_handle E R (CmdSaveHomeIndex ix) = on_rt (answer E RspHomeIndexSaved (save_home_index E R ix))"
| "node_handle E R CmdLoadHomeIndex = on_rt (answer E RspHomeIndex (load_home_index E R))"
| "node_handle E R (CmdSetHomeEntryShared name sh) = on_rt (
     answer E RspHomeIndexSaved (set_home_entry_shared E R name sh))"
| "node_handle E R CmdDhPublicKey = on_rt (ret (RspDhPublicKey (dh_public_key E (rt_identity R))))"
| "node_handle E R (CmdPutObjectPublic bs ty name) = on_rt (
     answer E (\<lambda>ob. RspObjectCreated (obj_id ob)) (put_object_public E R bs ty name))"
| "node_handle E R (CmdShareObject name oid app rcpts) = on_rt (
     answer E RspHomeIndexSaved (share_object_for E R name oid app rcpts))"
| "node_handle E R (CmdClaimUsername u) = on_rt (
     answer E (\<lambda>_. RspUsernameClaimed) (claim_username E R u))"
| "node_handle E R (CmdResolveUsername u) = on_rt (
     answer E RspUsernameOwner (resolve_owner_from_username E R u))"
| "node_handle E R (CmdResolveProfile owner) = on_rt (answer E RspProfile (resolve_profile E R owner))"
| "node_handle E R CmdShowUsername = on_rt (
     answer E (\<lambda>r. RspUsername (map_option username r)) (resolve_username E R (own_id R)))"
| "node_handle E R (CmdExportIdentity pass) = on_rt (
     answer E RspIdentityExported
       (lift_res (export_encrypted E (key_salt E) (key_nonce E) (rt_identity R) pass)))"
| "node_handle E R (CmdImportIdentity bs pass overwrite) = on_rt (
     answer E RspIdentityImported (import_identity E R (key_salt E) (key_nonce E) bs pass overwrite))"
| "node_handle E R CmdDevice = on_rt (ret (RspDevice (own_device E R) (device_name (rt_device_key R))))"
| "node_handle E R CmdDeviceList = on_rt (
     answer E (\<lambda>l. RspDeviceList (device_infos l)) (load_device_list E R (own_id R)))"
| "node_handle E R (CmdResolveOwnerDevice owner) = on_rt (
     answer E RspOwnerDevice (resolve_device_peer_id E R owner))"
| "node_handle E R (CmdAddDevice did name) = on_rt (
     answer E (\<lambda>_. RspDeviceAdded) (add_device E R did name))"
| "node_handle E R (CmdRemoveDevice did) = on_rt (
     answer E (\<lambda>_. RspDeviceRemoved) (remove_device E R did))"
| "node_handle E R CmdInitiatePairing = on_rt (
     answer E RspPairingQr (initiate_pairing E R (code_rnd E) (session_rnd E) (net_listen_addrs E)))"
| "node_handle E R (CmdCompletePairing qr code) = on_rt (
     answer E RspPairingComplete
       (complete_pairing E (pairing_enc E) R (pairing_nonce E) (pairing_deliver E) qr code))"
| "node_handle E R (CmdSyncFromPeer p) = on_rt (
     (case parse_peer_id E p of
        Some pid \<Rightarrow> answer E RspSyncComplete (sync_with_peer E R pid)
      | None \<Rightarrow> ret (RspError (''invalid peer id: '' @ error_text E (Decode p)))))"
| "node_handle E R CmdSyncDeviceList = on_rt (answer E RspSyncComplete (sync_with_all_devices E R))"
| "node_handle E R (CmdGrantCapability subject resource perms expires) = on_rt (
     answer E RspCapabilityGranted (grant_capability E R subject resource perms expires))"
| "node_handle E R CmdListCapabilities = on_rt (answer E RspCapabilities (list_capabilities E R))"
| "node_handle E R (CmdRevokeCapability cid) = on_rt (
     answer E (\<lambda>_. RspCapabilityRevoked) (revoke_capability E R cid))"
| "node_handle E R (CmdCheckCapability c) = on_rt (
     answer E (\<lambda>(valid, reason). RspCapabilityCheck valid reason) (check_capability E R (remote_slow E) c))"
| "node_handle E R (CmdCheckAccess subject perm resource) = on_rt (
     answer E RspAccessAllowed (check_access E R subject perm resource))"
| "node_handle E R (CmdStartServeSession edge_addr app_id) =
     answer E (\<lambda>(session, app_id). RspServeSessionStarted app_id
         (root_url session (case public_base_domain E of Some b \<Rightarrow> b | None \<Rightarrow> ''canopee.network'')))
       (start_serve_session E R edge_addr app_id)"
| "node_handle E R CmdStopServeSession = answer E (\<lambda>_. RspServeSessionStopped) (stop_serve_session E R)"

section \<open>The socket\<close>

definition be32 :: "nat \<Rightarrow> bytes" where
  "be32 n = rev (le_bytes 4 (n mod 2 ^ 32))"

definition frame_message :: "bytes \<Rightarrow> bytes" where
  "frame_message bs = be32 (length bs) @ bs"

definition unframe_message :: "bytes \<Rightarrow> bytes res" where
  "unframe_message bs =
     (if length bs < 4 then Inl (Io ''unexpected end of file'')
      else let size = of_le_bytes (rev (take 4 bs)); rest = drop 4 bs in
        if length rest < size then Inl (Io ''unexpected end of file'') else Inr (take size rest))"

definition read_command :: "(bytes \<Rightarrow> NodeCommand option) \<Rightarrow> bytes \<Rightarrow> NodeCommand res" where
  "read_command cdec bs = res_bind (unframe_message bs) (\<lambda>buffer. ok_or (cdec buffer) (Decode ''NodeCommand''))"

definition write_node_response :: "(NodeResponse \<Rightarrow> bytes) \<Rightarrow> NodeResponse \<Rightarrow> bytes" where
  "write_node_response renc r = frame_message (renc r)"

section \<open>The cache sweep\<close>

definition cache_cap_bytes :: "string option \<Rightarrow> nat" where
  "cache_cap_bytes v =
     (let mb = (case Option.bind v (\<lambda>v. parse_u64 (trim v)) of Some mb \<Rightarrow> mb | None \<Rightarrow> 256)
      in min (mb * (1024 * 1024)) (2 ^ 64 - 1))"

lemma evict_cache:
  "evict E R oid s = (s', Inr u) \<Longrightarrow>
   cache_index (rt_cache s') = index_remove oid (cache_index (rt_cache s))"
  by (auto simp: evict_def andThen_Inr on_fs_Inr on_cache_apply send_def cache_remove_def Let_def)

lemma lru_cached_tracked:
  assumes "ob \<in> set (lru_cached E R s)"
  shows "obj_id ob \<in> fst ` set (cache_index (rt_cache s))"
  using assms by (auto simp: lru_cached_def cache_lru_def lru_member objs.get_key dest: objs.get_key)

lemma index_remove_shorter: "oid \<in> fst ` set ix \<Longrightarrow> length (index_remove oid ix) < length ix"
  unfolding index_remove_def AList.delete_eq by (auto intro: length_filter_less)

lemma sweep_shrinks:
  assumes "lru_cached E R s = ob # obs" "(s', Inr u) = evict E R (obj_id ob) s"
  shows "length (cache_index (rt_cache s')) < length (cache_index (rt_cache s))"
  using lru_cached_tracked [of ob E R s] assms evict_cache [OF assms(2) [symmetric]]
  by (simp add: index_remove_shorter)

text \<open>Each round takes one entry out of the index, so the sweep ends.\<close>

function evict_if_over_cap :: "'e rtenv_scheme \<Rightarrow> Runtime \<Rightarrow> nat \<Rightarrow> rt \<Rightarrow> rt" where
  "evict_if_over_cap E R cap s =
     (if unat (cached_bytes E R s) \<le> cap then s
      else case lru_cached E R s of
             [] \<Rightarrow> s
           | ob # _ \<Rightarrow>
               (case evict E R (obj_id ob) s of
                  (s', Inl _) \<Rightarrow> s'
                | (s', Inr _) \<Rightarrow> evict_if_over_cap E R cap s'))"
  by pat_completeness auto

termination
  by (relation "measure (\<lambda>(E, R, cap, s). length (cache_index (rt_cache s)))")
     (auto intro: sweep_shrinks)

declare evict_if_over_cap.simps [simp del]

end
