(* ===== verification/Sdk_Client.thy ===== *)
theory Sdk_Client
  imports Node
begin

text \<open>
  canopee-sdk: the client that applications use.  A client is its transport, one request to the node
  with its response over some state, and the text that \<open>Debug\<close> prints for a response.  Each method
  sends one command and reads the response that belongs to it; every other response is an error.
\<close>

record 's client =
  sdk_request :: "NodeCommand \<Rightarrow> ('s, NodeResponse) op"
  debug_text :: "NodeResponse \<Rightarrow> string"

record NodeStatus =
  ns_identity :: string
  ns_objects :: nat
  ns_peers :: nat

definition unexpected :: "'s client \<Rightarrow> NodeResponse \<Rightarrow> error" where
  "unexpected C r =
     (case r of RspError message \<Rightarrow> Bail message | _ \<Rightarrow> Bail (''Unexpected response: '' @ debug_text C r))"

text \<open>The body that the methods share: \<open>match self.request(command).await? { .. }\<close>.\<close>

definition expecting :: "'s client \<Rightarrow> NodeCommand \<Rightarrow> (NodeResponse \<Rightarrow> 'a option) \<Rightarrow> ('s, 'a) op" where
  "expecting C command pick =
     andThen (sdk_request C command) (\<lambda>r. lift_res (ok_or (pick r) (unexpected C r)))"

section \<open>What a response carries\<close>

definition is_rsp :: "NodeResponse \<Rightarrow> NodeResponse \<Rightarrow> unit option" where
  "is_rsp wanted r = (if r = wanted then Some () else None)"

definition created_id :: "NodeResponse \<Rightarrow> ObjectId option" where
  "created_id r = (case r of RspObjectCreated oid \<Rightarrow> Some oid | _ \<Rightarrow> None)"

definition home_saved_id :: "NodeResponse \<Rightarrow> ObjectId option" where
  "home_saved_id r = (case r of RspHomeIndexSaved oid \<Rightarrow> Some oid | _ \<Rightarrow> None)"

definition exported_bundle :: "NodeResponse \<Rightarrow> ExportBundle option" where
  "exported_bundle r = (case r of RspExported bundle \<Rightarrow> Some bundle | _ \<Rightarrow> None)"

definition profile_answer :: "NodeResponse \<Rightarrow> Profile option option" where
  "profile_answer r = (case r of RspProfile p \<Rightarrow> Some p | _ \<Rightarrow> None)"

definition sync_answer :: "NodeResponse \<Rightarrow> SyncResult option" where
  "sync_answer r = (case r of RspSyncComplete x \<Rightarrow> Some x | _ \<Rightarrow> None)"

section \<open>Identity\<close>

definition sdk_status :: "'s client \<Rightarrow> ('s, NodeStatus) op" where
  "sdk_status C = expecting C CmdStatus (\<lambda>r. case r of
     RspStatus identity objects peers \<Rightarrow>
       Some \<lparr> ns_identity = identity, ns_objects = objects, ns_peers = peers \<rparr>
   | _ \<Rightarrow> None)"

definition sdk_identity :: "'s client \<Rightarrow> ('s, IdentityId) op" where
  "sdk_identity C = expecting C CmdIdentity (\<lambda>r. case r of RspIdentity i \<Rightarrow> Some i | _ \<Rightarrow> None)"

definition sdk_export_identity :: "'s client \<Rightarrow> string \<Rightarrow> ('s, bytes) op" where
  "sdk_export_identity C passphrase =
     expecting C (CmdExportIdentity passphrase) (\<lambda>r. case r of RspIdentityExported bs \<Rightarrow> Some bs | _ \<Rightarrow> None)"

definition sdk_import_identity :: "'s client \<Rightarrow> bytes \<Rightarrow> string \<Rightarrow> bool \<Rightarrow> ('s, IdentityId) op" where
  "sdk_import_identity C bs passphrase overwrite =
     expecting C (CmdImportIdentity bs passphrase overwrite)
       (\<lambda>r. case r of RspIdentityImported i \<Rightarrow> Some i | _ \<Rightarrow> None)"

section \<open>Storage\<close>

definition sdk_put :: "'s client \<Rightarrow> bytes \<Rightarrow> string option \<Rightarrow> ('s, ObjectId) op" where
  "sdk_put C bs name = expecting C (CmdPut bs name) created_id"

definition sdk_set_name :: "'s client \<Rightarrow> ObjectId \<Rightarrow> string \<Rightarrow> ('s, unit) op" where
  "sdk_set_name C oid name = expecting C (CmdSetName oid name) (is_rsp RspNameSet)"

definition sdk_put_object :: "'s client \<Rightarrow> bytes \<Rightarrow> ObjectType \<Rightarrow> string option \<Rightarrow> ('s, ObjectId) op" where
  "sdk_put_object C bs ty name = expecting C (CmdPutObject bs ty name) created_id"

definition sdk_dh_public_key :: "'s client \<Rightarrow> ('s, bytes) op" where
  "sdk_dh_public_key C = expecting C CmdDhPublicKey (\<lambda>r. case r of RspDhPublicKey k \<Rightarrow> Some k | _ \<Rightarrow> None)"

definition sdk_put_object_public :: "'s client \<Rightarrow> bytes \<Rightarrow> ObjectType \<Rightarrow> string option \<Rightarrow> ('s, ObjectId) op" where
  "sdk_put_object_public C bs ty name = expecting C (CmdPutObjectPublic bs ty name) created_id"

definition sdk_put_public_file :: "'s client \<Rightarrow> string \<Rightarrow> bytes \<Rightarrow> ('s, ObjectId) op" where
  "sdk_put_public_file C name bs = sdk_put_object_public C bs Blob (Some name)"

definition sdk_put_file :: "'s client \<Rightarrow> string \<Rightarrow> bytes \<Rightarrow> ('s, ObjectId) op" where
  "sdk_put_file C name bs =
     andThen (sdk_request C (CmdPutObject bs Blob (Some name))) (\<lambda>r. lift_res (case r of
       RspObjectCreated oid \<Rightarrow> Inr oid
     | RspError message \<Rightarrow> Inl (Bail message)
     | _ \<Rightarrow> Inl (Bail ''unexpected response'')))"

definition sdk_get :: "'s client \<Rightarrow> ObjectId \<Rightarrow> ('s, Object) op" where
  "sdk_get C oid = expecting C (CmdGet oid) (\<lambda>r. case r of RspObject ob \<Rightarrow> Some ob | _ \<Rightarrow> None)"

definition sdk_list :: "'s client \<Rightarrow> ('s, ObjectInfo list) op" where
  "sdk_list C = expecting C CmdList (\<lambda>r. case r of RspObjects obs \<Rightarrow> Some obs | _ \<Rightarrow> None)"

definition sdk_export :: "'s client \<Rightarrow> ObjectId \<Rightarrow> ('s, ExportBundle) op" where
  "sdk_export C oid = expecting C (CmdExport oid) exported_bundle"

definition sdk_import :: "'s client \<Rightarrow> ExportBundle \<Rightarrow> ('s, unit) op" where
  "sdk_import C bundle = expecting C (CmdImport bundle) (is_rsp RspImported)"

definition sdk_concat :: "'s client \<Rightarrow> ObjectId list \<Rightarrow> string option \<Rightarrow> ('s, ObjectId) op" where
  "sdk_concat C ids name =
     expecting C (CmdConcat ids name) (\<lambda>r. case r of RspConcatenated oid \<Rightarrow> Some oid | _ \<Rightarrow> None)"

definition sdk_delete_object :: "'s client \<Rightarrow> ObjectId \<Rightarrow> ('s, unit) op" where
  "sdk_delete_object C oid = expecting C (CmdDeleteObject oid) (is_rsp RspObjectDeleted)"

section \<open>Network\<close>

definition sdk_peers :: "'s client \<Rightarrow> ('s, PeerInfo list) op" where
  "sdk_peers C = expecting C CmdPeers (\<lambda>r. case r of RspPeers ps \<Rightarrow> Some ps | _ \<Rightarrow> None)"

definition sdk_dial :: "'s client \<Rightarrow> string \<Rightarrow> ('s, unit) op" where
  "sdk_dial C addr = expecting C (CmdDial addr) (is_rsp RspDialed)"

definition sdk_listen_via_relay :: "'s client \<Rightarrow> string \<Rightarrow> ('s, unit) op" where
  "sdk_listen_via_relay C addr = expecting C (CmdListenViaRelay addr) (is_rsp RspListeningViaRelay)"

definition sdk_relay_reservations :: "'s client \<Rightarrow> ('s, RelayReservationInfo list) op" where
  "sdk_relay_reservations C =
     expecting C CmdRelayReservations (\<lambda>r. case r of RspRelayReservations rs \<Rightarrow> Some rs | _ \<Rightarrow> None)"

definition sdk_announce :: "'s client \<Rightarrow> ObjectId \<Rightarrow> ('s, unit) op" where
  "sdk_announce C oid = expecting C (CmdAnnounce oid) (is_rsp RspAnnounced)"

definition sdk_find_providers :: "'s client \<Rightarrow> ObjectId \<Rightarrow> ('s, string list) op" where
  "sdk_find_providers C oid =
     expecting C (CmdFindProviders oid) (\<lambda>r. case r of RspProviders ps \<Rightarrow> Some ps | _ \<Rightarrow> None)"

definition sdk_publish_app_pointer :: "'s client \<Rightarrow> string \<Rightarrow> ObjectId \<Rightarrow> ('s, unit) op" where
  "sdk_publish_app_pointer C name manifest =
     expecting C (CmdPublishAppPointer name manifest) (is_rsp RspAppPointerPublished)"

text \<open>A record whose signature does not verify counts as none.\<close>

definition sdk_resolve_app_pointer ::
  "'e objenv_scheme \<Rightarrow> 's client \<Rightarrow> IdentityId \<Rightarrow> string \<Rightarrow> ('s, ObjectId option) op" where
  "sdk_resolve_app_pointer E C owner name =
     expecting C (CmdResolveAppPointer owner name) (\<lambda>r. case r of
       RspAppPointer (Some p) \<Rightarrow> Some (if pointer_verify E p then Some (ptr_manifest p) else None)
     | RspAppPointer None \<Rightarrow> Some None
     | _ \<Rightarrow> None)"

definition sdk_publish_pointer :: "'s client \<Rightarrow> string \<Rightarrow> ObjectId \<Rightarrow> ('s, unit) op" where
  "sdk_publish_pointer C name target =
     expecting C (CmdPublishPointer name target) (is_rsp RspPointerPublished)"

definition sdk_resolve_pointer :: "'s client \<Rightarrow> IdentityId \<Rightarrow> string \<Rightarrow> ('s, AppPointerRecord option) op" where
  "sdk_resolve_pointer C owner name =
     expecting C (CmdResolvePointer owner name) (\<lambda>r. case r of RspPointer p \<Rightarrow> Some p | _ \<Rightarrow> None)"

section \<open>User records\<close>

definition sdk_save_profile :: "'s client \<Rightarrow> Profile \<Rightarrow> ('s, ObjectId) op" where
  "sdk_save_profile C p =
     expecting C (CmdSaveProfile p) (\<lambda>r. case r of RspProfileSaved oid \<Rightarrow> Some oid | _ \<Rightarrow> None)"

definition sdk_load_profile :: "'s client \<Rightarrow> ('s, Profile option) op" where
  "sdk_load_profile C = expecting C CmdLoadProfile profile_answer"

definition sdk_resolve_profile :: "'s client \<Rightarrow> IdentityId \<Rightarrow> ('s, Profile option) op" where
  "sdk_resolve_profile C owner = expecting C (CmdResolveProfile owner) profile_answer"

definition sdk_claim_username :: "'s client \<Rightarrow> string \<Rightarrow> ('s, unit) op" where
  "sdk_claim_username C u = expecting C (CmdClaimUsername u) (is_rsp RspUsernameClaimed)"

definition sdk_show_username :: "'s client \<Rightarrow> ('s, string option) op" where
  "sdk_show_username C = expecting C CmdShowUsername (\<lambda>r. case r of RspUsername u \<Rightarrow> Some u | _ \<Rightarrow> None)"

definition sdk_start_serve_session :: "'s client \<Rightarrow> string \<Rightarrow> ObjectId \<Rightarrow> ('s, string \<times> string) op" where
  "sdk_start_serve_session C edge_addr app_id =
     expecting C (CmdStartServeSession edge_addr app_id)
       (\<lambda>r. case r of RspServeSessionStarted app url \<Rightarrow> Some (app, url) | _ \<Rightarrow> None)"

definition sdk_stop_serve_session :: "'s client \<Rightarrow> ('s, unit) op" where
  "sdk_stop_serve_session C = expecting C CmdStopServeSession (is_rsp RspServeSessionStopped)"

definition sdk_resolve_username :: "'s client \<Rightarrow> string \<Rightarrow> ('s, IdentityId option) op" where
  "sdk_resolve_username C u =
     expecting C (CmdResolveUsername u) (\<lambda>r. case r of RspUsernameOwner i \<Rightarrow> Some i | _ \<Rightarrow> None)"

definition sdk_save_contact_list :: "'s client \<Rightarrow> ContactList \<Rightarrow> ('s, ObjectId) op" where
  "sdk_save_contact_list C l =
     expecting C (CmdSaveContactList l) (\<lambda>r. case r of RspContactListSaved oid \<Rightarrow> Some oid | _ \<Rightarrow> None)"

definition sdk_load_contact_list :: "'s client \<Rightarrow> ('s, ContactList option) op" where
  "sdk_load_contact_list C =
     expecting C CmdLoadContactList (\<lambda>r. case r of RspContactList l \<Rightarrow> Some l | _ \<Rightarrow> None)"

definition sdk_save_home_index :: "'s client \<Rightarrow> HomeIndex \<Rightarrow> ('s, ObjectId) op" where
  "sdk_save_home_index C ix = expecting C (CmdSaveHomeIndex ix) home_saved_id"

definition sdk_load_home_index :: "'s client \<Rightarrow> ('s, HomeIndex option) op" where
  "sdk_load_home_index C = expecting C CmdLoadHomeIndex (\<lambda>r. case r of RspHomeIndex ix \<Rightarrow> Some ix | _ \<Rightarrow> None)"

definition sdk_set_home_entry_shared :: "'s client \<Rightarrow> string \<Rightarrow> bool \<Rightarrow> ('s, ObjectId) op" where
  "sdk_set_home_entry_shared C name sh = expecting C (CmdSetHomeEntryShared name sh) home_saved_id"

definition sdk_share_object_for ::
  "'s client \<Rightarrow> string \<Rightarrow> ObjectId \<Rightarrow> string option \<Rightarrow> bytes list \<Rightarrow> ('s, ObjectId) op" where
  "sdk_share_object_for C name oid app rcpts = expecting C (CmdShareObject name oid app rcpts) home_saved_id"

definition sdk_share_object :: "'s client \<Rightarrow> string \<Rightarrow> ObjectId \<Rightarrow> string option \<Rightarrow> ('s, ObjectId) op" where
  "sdk_share_object C name oid app = sdk_share_object_for C name oid app []"

definition sdk_unshare :: "'s client \<Rightarrow> string \<Rightarrow> ('s, ObjectId) op" where
  "sdk_unshare C name = sdk_set_home_entry_shared C name False"

section \<open>Devices and pairing\<close>

definition sdk_device :: "'s client \<Rightarrow> ('s, string \<times> string) op" where
  "sdk_device C = expecting C CmdDevice (\<lambda>r. case r of RspDevice p name \<Rightarrow> Some (p, name) | _ \<Rightarrow> None)"

definition sdk_device_list :: "'s client \<Rightarrow> ('s, DeviceInfo list) op" where
  "sdk_device_list C = expecting C CmdDeviceList (\<lambda>r. case r of RspDeviceList ds \<Rightarrow> Some ds | _ \<Rightarrow> None)"

definition sdk_add_device :: "'s client \<Rightarrow> string \<Rightarrow> string \<Rightarrow> ('s, unit) op" where
  "sdk_add_device C did name = expecting C (CmdAddDevice did name) (is_rsp RspDeviceAdded)"

definition sdk_remove_device :: "'s client \<Rightarrow> string \<Rightarrow> ('s, unit) op" where
  "sdk_remove_device C did = expecting C (CmdRemoveDevice did) (is_rsp RspDeviceRemoved)"

definition sdk_resolve_owner_device :: "'s client \<Rightarrow> IdentityId \<Rightarrow> ('s, string option) op" where
  "sdk_resolve_owner_device C owner =
     expecting C (CmdResolveOwnerDevice owner) (\<lambda>r. case r of RspOwnerDevice p \<Rightarrow> Some p | _ \<Rightarrow> None)"

definition sdk_pair_initiate :: "'s client \<Rightarrow> ('s, PairingQrData) op" where
  "sdk_pair_initiate C = expecting C CmdInitiatePairing (\<lambda>r. case r of RspPairingQr qr \<Rightarrow> Some qr | _ \<Rightarrow> None)"

definition sdk_pair_complete :: "'s client \<Rightarrow> PairingQrData \<Rightarrow> string \<Rightarrow> ('s, string) op" where
  "sdk_pair_complete C qr code =
     expecting C (CmdCompletePairing qr code) (\<lambda>r. case r of RspPairingComplete m \<Rightarrow> Some m | _ \<Rightarrow> None)"

definition sdk_sync_with_peer :: "'s client \<Rightarrow> string \<Rightarrow> ('s, SyncResult) op" where
  "sdk_sync_with_peer C p = expecting C (CmdSyncFromPeer p) sync_answer"

definition sdk_sync_with_all_devices :: "'s client \<Rightarrow> ('s, SyncResult) op" where
  "sdk_sync_with_all_devices C = expecting C CmdSyncDeviceList sync_answer"

section \<open>Capabilities\<close>

definition sdk_grant_capability ::
  "'s client \<Rightarrow> IdentityId \<Rightarrow> Resource \<Rightarrow> Permission list \<Rightarrow> u64 option \<Rightarrow> ('s, Capability) op" where
  "sdk_grant_capability C subject resource perms expires =
     expecting C (CmdGrantCapability subject resource perms expires)
       (\<lambda>r. case r of RspCapabilityGranted c \<Rightarrow> Some c | _ \<Rightarrow> None)"

definition sdk_list_capabilities :: "'s client \<Rightarrow> ('s, CapabilityIndex option) op" where
  "sdk_list_capabilities C =
     expecting C CmdListCapabilities (\<lambda>r. case r of RspCapabilities ix \<Rightarrow> Some ix | _ \<Rightarrow> None)"

definition sdk_revoke_capability :: "'s client \<Rightarrow> CapabilityId \<Rightarrow> ('s, unit) op" where
  "sdk_revoke_capability C cid = expecting C (CmdRevokeCapability cid) (is_rsp RspCapabilityRevoked)"

definition sdk_check_capability :: "'s client \<Rightarrow> Capability \<Rightarrow> ('s, bool \<times> string) op" where
  "sdk_check_capability C c =
     expecting C (CmdCheckCapability c)
       (\<lambda>r. case r of RspCapabilityCheck valid reason \<Rightarrow> Some (valid, reason) | _ \<Rightarrow> None)"

definition sdk_check_access :: "'s client \<Rightarrow> IdentityId \<Rightarrow> Permission \<Rightarrow> Resource \<Rightarrow> ('s, bool) op" where
  "sdk_check_access C subject perm resource =
     expecting C (CmdCheckAccess subject perm resource)
       (\<lambda>r. case r of RspAccessAllowed allowed \<Rightarrow> Some allowed | _ \<Rightarrow> None)"

section \<open>Peers, topics, shutdown\<close>

definition sdk_fetch_object :: "'s client \<Rightarrow> string \<Rightarrow> ObjectId \<Rightarrow> ('s, ExportBundle) op" where
  "sdk_fetch_object C p oid = expecting C (CmdFetchObject p oid) exported_bundle"

definition sdk_publish :: "'s client \<Rightarrow> string \<Rightarrow> bytes \<Rightarrow> ('s, unit) op" where
  "sdk_publish C topic bs = expecting C (CmdPublish topic bs) (is_rsp RspPublished)"

definition sdk_shutdown :: "'s client \<Rightarrow> ('s, unit) op" where
  "sdk_shutdown C = expecting C CmdShutdown (is_rsp RspShutdownAccepted)"

lemmas sdk_methods =
  sdk_status_def sdk_identity_def sdk_export_identity_def sdk_import_identity_def sdk_put_def sdk_set_name_def
  sdk_put_object_def sdk_dh_public_key_def sdk_put_object_public_def sdk_put_public_file_def sdk_put_file_def
  sdk_get_def sdk_list_def sdk_export_def sdk_import_def sdk_concat_def sdk_delete_object_def sdk_peers_def
  sdk_dial_def sdk_listen_via_relay_def sdk_relay_reservations_def sdk_announce_def sdk_find_providers_def
  sdk_publish_app_pointer_def sdk_resolve_app_pointer_def sdk_publish_pointer_def sdk_resolve_pointer_def
  sdk_save_profile_def sdk_load_profile_def sdk_resolve_profile_def sdk_claim_username_def
  sdk_show_username_def sdk_start_serve_session_def sdk_stop_serve_session_def sdk_resolve_username_def
  sdk_save_contact_list_def sdk_load_contact_list_def sdk_save_home_index_def sdk_load_home_index_def
  sdk_set_home_entry_shared_def sdk_share_object_for_def sdk_share_object_def sdk_unshare_def sdk_device_def
  sdk_device_list_def sdk_add_device_def sdk_remove_device_def sdk_resolve_owner_device_def
  sdk_pair_initiate_def sdk_pair_complete_def sdk_sync_with_peer_def sdk_sync_with_all_devices_def
  sdk_grant_capability_def sdk_list_capabilities_def sdk_revoke_capability_def sdk_check_capability_def
  sdk_check_access_def sdk_fetch_object_def sdk_publish_def sdk_shutdown_def

lemmas sdk_answers = is_rsp_def created_id_def home_saved_id_def exported_bundle_def profile_answer_def
  sync_answer_def

end
