(* ===== verification/Node_Connection.thy ===== *)
theory Node_Connection
  imports Sdk_Client
begin

text \<open>
  The Unix socket between client and node: \<open>Node::handle_connection\<close> and \<open>handle_subscribe\<close> of
  canopee-node/src/lib.rs, and the transport of canopee-sdk (node_client.rs, subscription.rs).  A
  connection is the bytes the client wrote and the bytes the node writes before it closes.  The
  bincode codecs are parameters; \<open>writes n\<close> says whether the n-th response of a connection still
  reaches its client.
\<close>

record wire =
  command_codec :: "NodeCommand codec"
  response_codec :: "NodeResponse codec"

section \<open>The node's side\<close>

text \<open>What the loop of a subscription waits for: a message of any topic, an error of the channel (it
  closed, or the reader fell more than its capacity behind), the node's shutdown.\<close>

datatype sub_event = SubMessage string "peer_id option" bytes | SubError | SubShutdown

definition respond :: "wire \<Rightarrow> NodeResponse \<Rightarrow> bytes" where
  "respond W r = write_node_response (enc (response_codec W)) r"

text \<open>The bytes written, and whether the loop was left.\<close>

fun stream_topic :: "(nat \<Rightarrow> bool) \<Rightarrow> wire \<Rightarrow> string \<Rightarrow> nat \<Rightarrow> sub_event list \<Rightarrow> bytes \<times> bool" where
  "stream_topic writes W topic n [] = ([], False)"
| "stream_topic writes W topic n (SubMessage t source bs # evs) =
     (if t \<noteq> topic then stream_topic writes W topic n evs
      else if writes n then
        (case stream_topic writes W topic (Suc n) evs of
           (out, left) \<Rightarrow>
             (respond W (RspPubSub \<lparr> push_topic = t, push_source = source, push_data = bs \<rparr>) @ out, left))
      else ([], True))"
| "stream_topic writes W topic n (SubError # evs) = ([], True)"
| "stream_topic writes W topic n (SubShutdown # evs) = ([], True)"

record served =
  cn_out :: bytes
  cn_unsubscribed :: bool
  cn_shutdown :: bool

text \<open>\<open>sub\<close> is what the network answers to the subscription, with the events that follow.\<close>

definition handle_subscribe ::
  "'e nodeenv_scheme \<Rightarrow> (nat \<Rightarrow> bool) \<Rightarrow> wire \<Rightarrow> string \<Rightarrow> unit res \<times> sub_event list \<Rightarrow> served res" where
  "handle_subscribe E writes W topic sub =
     (case sub of
        (Inl e, _) \<Rightarrow>
          Inr \<lparr> cn_out = (if writes 0 then respond W (RspError (error_text E e)) else []),
                cn_unsubscribed = False, cn_shutdown = False \<rparr>
      | (Inr _, evs) \<Rightarrow>
          if \<not> writes 0 then Inl (Io ''broken pipe'')
          else (case stream_topic writes W topic 1 evs of
                  (out, left) \<Rightarrow>
                    Inr \<lparr> cn_out = respond W RspSubscribed @ out, cn_unsubscribed = left, cn_shutdown = False \<rparr>))"

definition handle_connection ::
  "'e nodeenv_scheme \<Rightarrow> Runtime \<Rightarrow> (nat \<Rightarrow> bool) \<Rightarrow> wire \<Rightarrow> (string \<Rightarrow> unit res \<times> sub_event list)
   \<Rightarrow> bytes \<Rightarrow> (serving, served) op" where
  "handle_connection E R writes W sub bs =
     andThen (lift_res (read_command (dec (command_codec W)) bs)) (\<lambda>command.
       case command of
         CmdSubscribe topic \<Rightarrow> lift_res (handle_subscribe E writes W topic (sub topic))
       | _ \<Rightarrow>
           andThen (node_handle E R command) (\<lambda>response.
             ret \<lparr> cn_out = (if writes 0 then respond W response else []), cn_unsubscribed = False,
                   cn_shutdown = (command = CmdShutdown) \<rparr>))"

section \<open>The client's side\<close>

definition client_write_frame :: "bytes \<Rightarrow> bytes" where
  "client_write_frame bs = be32 (length bs) @ bs"

definition client_read_frame :: "'a codec \<Rightarrow> bytes \<Rightarrow> 'a res" where
  "client_read_frame K bs = res_bind (unframe_message bs) (\<lambda>buffer. ok_or (dec K buffer) (Decode ''NodeResponse''))"

text \<open>What a read frame leaves on the stream.\<close>

definition after_frame :: "bytes \<Rightarrow> bytes" where
  "after_frame bs = drop (4 + of_le_bytes (rev (take 4 bs))) bs"

text \<open>\<open>read_frame_opt\<close>: the message with the rest of the stream, \<open>None\<close> at its end.\<close>

definition read_frame_opt :: "'a codec \<Rightarrow> bytes \<Rightarrow> ('a \<times> bytes) option res" where
  "read_frame_opt K bs =
     (case bs of
        [] \<Rightarrow> Inr None
      | first # rest \<Rightarrow>
          if length rest < 3 then Inl (Io ''unexpected end of file'')
          else let size = of_le_bytes (first # take 3 rest); rest = drop 3 rest in
            if length rest < size then Inl (Io ''unexpected end of file'')
            else res_bind (ok_or (dec K (take size rest)) (Decode ''NodeResponse'')) (\<lambda>x.
                   Inr (Some (x, drop size rest))))"

text \<open>A node as its clients see it: the bytes it writes to a connection, over its state.\<close>

type_synonym 's server = "bytes \<Rightarrow> 's \<Rightarrow> 's \<times> bytes"

definition node_request :: "wire \<Rightarrow> 's server \<Rightarrow> NodeCommand \<Rightarrow> ('s, NodeResponse) op" where
  "node_request W serve command s =
     (case serve (client_write_frame (enc (command_codec W) command)) s of
        (s', out) \<Rightarrow> (s', client_read_frame (response_codec W) out))"

definition socket_client :: "wire \<Rightarrow> 's server \<Rightarrow> (NodeResponse \<Rightarrow> string) \<Rightarrow> 's client" where
  "socket_client W serve txt = \<lparr> sdk_request = node_request W serve, debug_text = txt \<rparr>"

definition node_server ::
  "'e nodeenv_scheme \<Rightarrow> Runtime \<Rightarrow> (nat \<Rightarrow> bool) \<Rightarrow> wire \<Rightarrow> (string \<Rightarrow> unit res \<times> sub_event list) \<Rightarrow> serving server" where
  "node_server E R writes W sub bs s =
     (case handle_connection E R writes W sub bs s of
        (s', Inr c) \<Rightarrow> (s', cn_out c)
      | (s', Inl _) \<Rightarrow> (s', []))"

record Subscription =
  sub_stream :: bytes
  sub_topic :: string

definition subscription_open :: "wire \<Rightarrow> (NodeResponse \<Rightarrow> string) \<Rightarrow> 's server \<Rightarrow> string \<Rightarrow> ('s, Subscription) op" where
  "subscription_open W txt serve topic s =
     (case serve (client_write_frame (enc (command_codec W) (CmdSubscribe topic))) s of
        (s', out) \<Rightarrow>
          (s', res_bind (client_read_frame (response_codec W) out) (\<lambda>r. case r of
             RspSubscribed \<Rightarrow>
               Inr \<lparr> sub_stream = after_frame out, sub_topic = topic \<rparr>
           | RspError message \<Rightarrow> Inl (Bail message)
           | _ \<Rightarrow> Inl (Bail (''Unexpected response: '' @ txt r)))))"

definition subscription_next ::
  "wire \<Rightarrow> (NodeResponse \<Rightarrow> string) \<Rightarrow> Subscription \<Rightarrow> (PubSubPush option \<times> Subscription) res" where
  "subscription_next W txt S =
     res_bind (read_frame_opt (response_codec W) (sub_stream S)) (\<lambda>r. case r of
       None \<Rightarrow> Inr (None, S)
     | Some (RspPubSub message, rest) \<Rightarrow> Inr (Some message, S\<lparr>sub_stream := rest\<rparr>)
     | Some (other, _) \<Rightarrow> Inl (Bail (''Unexpected response: '' @ txt other)))"

end
