(* ===== verification/Node_Safety.thy ===== *)
theory Node_Safety
  imports Node
begin

text \<open>
  The node as a state machine: client commands, objects pulled and pushed by peers, pairing requests,
  heartbeats, the periodic synchronisation and the cache sweep, in any order and with any answers
  from the network.  Every reachable state keeps the store intact, and serves only what it announced.
\<close>

section \<open>Every command keeps the runtime relation\<close>

definition node_rel :: "bool \<Rightarrow> 'e objenv_scheme \<Rightarrow> Runtime \<Rightarrow> serving \<Rightarrow> serving \<Rightarrow> bool" where
  "node_rel lossy E R s t = runtime_step lossy E R (sv_rt s) (sv_rt t)"

interpretation node: state_relation "node_rel lossy E R" for lossy E R
  by unfold_locales (auto simp: node_rel_def runtime.stays intro: runtime.follows)

named_theorems node_ops

lemma node_on_rt [node_ops]: "keeps (runtime_step lossy E R) m \<Longrightarrow> keeps (node_rel lossy E R) (on_rt m)"
  by (auto simp: keeps_def on_rt_def node_rel_def split: prod.splits) (metis fst_conv)

lemma keeps_answer: "keeps Q m \<Longrightarrow> keeps Q (answer E f m)"
  by (auto simp: keeps_def answer_def split: prod.splits sum.splits error.splits) (metis fst_conv)+

lemma node_fields [node_ops]:
  "keeps (node_rel lossy E R) (modify (\<lambda>s. s\<lparr>sv_session := g s\<rparr>))"
  "keeps (node_rel lossy E R) (modify (\<lambda>s. s\<lparr>sv_sent := h s\<rparr>))"
  "keeps (node_rel lossy E R) (\<lambda>s. (s, k s))"
  by (simp_all add: keeps_def node_rel_def runtime.stays)

lemma node_register [node_ops]: "keeps (node_rel lossy E R) (register F edge reg)"
  unfolding register_def by (intro node_ops node.steps)

lemma node_stop [node_ops]: "keeps (node_rel lossy E R) (stop_serve_session F R)"
proof (rule keepsI)
  fix s
  have "keeps (node_rel lossy E R) (andThen (modify (\<lambda>s. s \<lparr> sv_session := None \<rparr>)) (\<lambda>_.
            case registration_sign F (rt_identity R) (ss_app_id session) DEREGISTER_TIMESTAMP of
              Inl _ \<Rightarrow> ret ()
            | Inr dereg \<Rightarrow> andThen (attempt (register F (ss_edge_peer_id session) dereg)) (\<lambda>_. ret ())))" for session
    by (intro node_ops node.steps)
  from keepsD [OF this] show "node_rel lossy E R s (fst (stop_serve_session F R s))"
    by (auto simp: stop_serve_session_def node.stays split: option.split)
qed

lemma keeps_reply:
  "keeps Q a \<Longrightarrow> (\<And>e. keeps Q (b e)) \<Longrightarrow> keeps Q (case m of ReplyOk \<Rightarrow> a | ReplyError e \<Rightarrow> b e)"
  by (simp split: RegistrationReply.split)

lemma node_start [node_ops]: "keeps (node_rel lossy E R) (start_serve_session F R addr app)"
  unfolding start_serve_session_def Let_def by (intro node_ops node.steps keeps_reply)

lemma node_heartbeat: "keeps (node_rel lossy E R) (heartbeat F R session)"
  unfolding heartbeat_def by (intro node_ops node.steps)

lemma runtime_publish_app [runtime_ops]: "keeps (runtime_step lossy E R) (publish_app_pointer F R name m)"
  unfolding publish_app_pointer_def Let_def by (intro runtime_ops runtime.steps)

text \<open>Only deleting an object may take an object file away.\<close>

fun deletes :: "NodeCommand \<Rightarrow> bool" where
  "deletes (CmdDeleteObject _) = True"
| "deletes _ = False"

lemma handle_keeps:
  assumes "sound_setup E R" "lossy \<or> \<not> deletes c"
  shows "keeps (node_rel lossy E R) (node_handle E R c)"
proof (cases "deletes c")
  case True
  then obtain oid where c: "c = CmdDeleteObject oid" by (cases c) auto
  with assms(2) have lossy by simp
  with assms(1) show ?thesis
    unfolding c node_handle.simps by (simp only:) (intro node_ops runtime_ops runtime.steps keeps_answer)
next
  case False
  with assms(1) show ?thesis
    by (cases c; simp only: node_handle.simps deletes.simps not_True_eq_False;
        intro node_ops runtime_ops runtime.steps node.steps keeps_answer)
qed

lemma provide_object_step: "runtime_step lossy E R s (fst (provide_object F R oid s))"
  by (auto simp: provide_object_def runtime_step_def store_step_def touch_served_def exposure_same store.stays
      split: sum.splits)

lemma sweep_step:
  assumes "sound_setup E R"
  shows "runtime_step True E R s (evict_if_over_cap E R cap s)"
  using assms
proof (induction E R cap s rule: evict_if_over_cap.induct)
  case (1 E R cap s)
  show ?case
  proof (cases "lru_cached E R s")
    case (Cons ob obs)
    obtain t r where e: "evict E R (obj_id ob) s = (t, r)" by (cases "evict E R (obj_id ob) s")
    have step: "runtime_step True E R s t"
      using runtime_evict [OF 1(2)] keepsD e by (metis fst_conv)
    with 1 Cons e show ?thesis
      by (cases r) (auto simp: evict_if_over_cap.simps [of E R cap s] runtime.stays intro: runtime.follows)
  qed (simp add: evict_if_over_cap.simps [of E R cap s] runtime.stays)
qed

section \<open>Reachable states\<close>

text \<open>Turns differ in the clock, the random bytes and the answers of the network and the host; what
  stays the same is how objects are checked and encoded.\<close>

definition same_objects :: "'e objenv_scheme \<Rightarrow> 'e objenv_scheme \<Rightarrow> bool" where
  "same_objects E F = (object_verify F = object_verify E \<and> object_enc F = object_enc E \<and>
     hex_encode F = hex_encode E)"

inductive node_reach ::
  "bool \<Rightarrow> 'e nodeenv_scheme \<Rightarrow> Runtime \<Rightarrow> serving \<Rightarrow> serving \<Rightarrow> bool" for lossy E R s0 where
  start: "node_reach lossy E R s0 s0"
| command: "node_reach lossy E R s0 s \<Longrightarrow> same_objects E F \<Longrightarrow> lossy \<or> \<not> deletes c \<Longrightarrow>
    node_reach lossy E R s0 (fst (node_handle F R c s))"
| pull: "node_reach lossy E R s0 s \<Longrightarrow> same_objects E F \<Longrightarrow>
    node_reach lossy E R s0 (s\<lparr>sv_rt := fst (provide_object F R oid (sv_rt s))\<rparr>)"
| push: "node_reach lossy E R s0 s \<Longrightarrow> same_objects E F \<Longrightarrow>
    node_reach lossy E R s0 (fst (on_rt (accept_push F R ob) s))"
| pairing: "node_reach lossy E R s0 s \<Longrightarrow> same_objects E F \<Longrightarrow>
    node_reach lossy E R s0 (fst (on_rt (accept_pairing F (pairing_dec F) R (key_salt F) (key_nonce F) sender rq) s))"
| boot: "node_reach lossy E R s0 s \<Longrightarrow> same_objects E F \<Longrightarrow>
    node_reach lossy E R s0 (fst (on_rt (andThen (start_runtime F R) (\<lambda>_. mark_started F R)) s))"
| sync: "node_reach lossy E R s0 s \<Longrightarrow> same_objects E F \<Longrightarrow>
    node_reach lossy E R s0 (fst (on_rt (periodic_sync F R) s))"
| beat: "node_reach lossy E R s0 s \<Longrightarrow> same_objects E F \<Longrightarrow>
    node_reach lossy E R s0 (fst (heartbeat F R session s))"
| sweep: "node_reach lossy E R s0 s \<Longrightarrow> same_objects E F \<Longrightarrow> lossy \<Longrightarrow>
    node_reach lossy E R s0 (s\<lparr>sv_rt := evict_if_over_cap F R cap (sv_rt s)\<rparr>)"

lemma same_objects_setup: "same_objects E F \<Longrightarrow> sound_setup E R \<Longrightarrow> sound_setup F R"
  by (simp add: same_objects_def sound_setup_def hex_ok_def)

lemma same_objects_step: "same_objects E F \<Longrightarrow> runtime_step lossy F R s t \<Longrightarrow> runtime_step lossy E R s t"
  by (simp add: same_objects_def runtime_step_def store_step_def)

lemma reach_more:
  assumes "runtime_step lossy E R (sv_rt s0) (sv_rt s)" "same_objects E F" "node_rel lossy F R s t"
  shows "runtime_step lossy E R (sv_rt s0) (sv_rt t)"
  using assms(3) unfolding node_rel_def
  by (rule runtime.follows [OF assms(1) same_objects_step [OF assms(2)]])

lemma reach_op:
  assumes "runtime_step lossy E R (sv_rt s0) (sv_rt s)" "same_objects E F" "keeps (node_rel lossy F R) m"
  shows "runtime_step lossy E R (sv_rt s0) (sv_rt (fst (m s)))"
  using reach_more [OF assms(1,2) keepsD [OF assms(3)]] .

lemma reach_step:
  assumes "sound_setup E R" "node_reach lossy E R s0 s"
  shows "runtime_step lossy E R (sv_rt s0) (sv_rt s)"
  using assms(2)
proof induction
  case start
  show ?case by (rule runtime.stays)
next
  case (command s F c)
  show ?case
    using handle_keeps [OF same_objects_setup [OF command(2) assms(1)] command(3)]
    by (rule reach_op [OF command(4,2)])
next
  case (pull s F oid)
  show ?case
    by (rule reach_more [OF pull(3,2)]) (simp add: node_rel_def provide_object_step)
next
  case (push s F ob)
  show ?case
    using same_objects_setup [OF push(2) assms(1)]
    by (intro reach_op [OF push(3,2)] node_ops runtime_ops)
next
  case (pairing s F sender rq)
  show ?case
    using same_objects_setup [OF pairing(2) assms(1)]
    by (intro reach_op [OF pairing(3,2)] node_ops runtime_ops)
next
  case (boot s F)
  show ?case
    using same_objects_setup [OF boot(2) assms(1)]
    by (intro reach_op [OF boot(3,2)] node_ops runtime_ops runtime.steps)
next
  case (sync s F)
  show ?case
    using same_objects_setup [OF sync(2) assms(1)]
    by (intro reach_op [OF sync(3,2)] node_ops runtime_ops)
next
  case (beat s F session)
  show ?case by (intro reach_op [OF beat(3,2)] node_heartbeat)
next
  case (sweep s F cap)
  show ?case
    using sweep_step [OF same_objects_setup [OF sweep(2) assms(1)]] sweep(3)
    by (intro reach_more [OF sweep(4,2)]) (simp add: node_rel_def)
qed

section \<open>Example\<close>

text \<open>The example node of \<open>Runtime_Objects\<close> with no edge and no clients' extras.\<close>

definition ex_nodeenv :: nodeenv where
  "ex_nodeenv = sample_rtenv_with [ex_foreign] [] \<lparr>
     manifest_dec = (\<lambda>_. None), gzip = Some, addr_parse = (\<lambda>_. None), net_dial = (\<lambda>_. Inr ()),
     edge_connects = (\<lambda>_. False), edge_reply = (\<lambda>_ _. Inr ReplyOk),
     error_text = (\<lambda>_. ''error''), key_salt = [], key_nonce = [], code_rnd = [], session_rnd = [],
     pairing_nonce = [], pairing_enc = (\<lambda>_. []), pairing_dec = (\<lambda>_. None),
     pairing_deliver = (\<lambda>_ _ _. Inr []), net_listen_addrs = Inr [], net_listen_via_relay = (\<lambda>_. Inr ()),
     net_publish = (\<lambda>_ _. Inr ()), net_put_record = (\<lambda>_ _. Inr ()), net_peer_infos = Inr [],
     net_relay_reservations = Inr [], remote_slow = False, public_base_domain = None \<rparr>"

definition ex_serving :: "fs \<Rightarrow> serving" where
  "ex_serving d = \<lparr> sv_rt = ex_state d, sv_session = None, sv_sent = [] \<rparr>"

definition ex_files :: fs where
  "ex_files = [(''/c/storage/1405'', File [104, 101, 108, 108, 111])]"

lemma ex_node_setup: "sound_setup ex_nodeenv ex_runtime" "same_objects ex_nodeenv ex_nodeenv"
  "cache_path (rt_cache (sv_rt (ex_serving d))) = cache_file_path (rt_config ex_runtime)"
  using ex_cache_apart [of d]
  by (simp_all add: sound_setup_def same_objects_def ex_nodeenv_def cache_apart_def ex_serving_def)

lemma ex_store_root: "store_root ex_runtime = ''/c/storage''"
  by (simp add: store_root_def storage_path_def path_join_def ex_runtime_def with_root_def)

section \<open>Properties\<close>

text \<open>The object files of a store hold complete encodings of verified objects, each under its id.\<close>

definition store_intact :: "'e objenv_scheme \<Rightarrow> Runtime \<Rightarrow> fs \<Rightarrow> bool" where
  "store_intact E R d = (\<forall>oid f. visible oid \<and> map_of d (object_path (store_root R) oid) = Some f \<longrightarrow>
     (\<exists>ob. object_verify E ob \<and> obj_id ob = oid \<and> f = File (object_enc E ob)))"

lemma intact_step:
  assumes "runtime_step lossy E R (sv_rt s0) (sv_rt s)"
    "cache_path (rt_cache (sv_rt s0)) = cache_file_path (rt_config R)"
    "store_intact E R (rt_fs (sv_rt s0))"
  shows "store_intact E R (rt_fs (sv_rt s))"
  unfolding store_intact_def
proof (intro allI impI)
  fix oid f
  assume f: "visible oid \<and> map_of (rt_fs (sv_rt s)) (object_path (store_root R) oid) = Some f"
  let ?p = "object_path (store_root R) oid"
  have "object_file R ?p" using f by auto
  hence "map_of (rt_fs (sv_rt s)) ?p = map_of (rt_fs (sv_rt s0)) ?p \<or>
      map_of (rt_fs (sv_rt s)) ?p = None \<or>
      (\<exists>ob. object_verify E ob \<and> ?p = object_path (store_root R) (obj_id ob) \<and>
        map_of (rt_fs (sv_rt s)) ?p = Some (File (object_enc E ob)))"
    using assms(1, 2) unfolding runtime_step_def store_step_def by metis
  then consider "map_of (rt_fs (sv_rt s)) ?p = map_of (rt_fs (sv_rt s0)) ?p"
    | "map_of (rt_fs (sv_rt s)) ?p = None"
    | ob where "object_verify E ob" "?p = object_path (store_root R) (obj_id ob)"
        "map_of (rt_fs (sv_rt s)) ?p = Some (File (object_enc E ob))"
    by metis
  thus "\<exists>ob. object_verify E ob \<and> obj_id ob = oid \<and> f = File (object_enc E ob)"
  proof cases
    case 1
    with assms(3) f show ?thesis unfolding store_intact_def by metis
  qed (use f in auto)
qed

text \<open>Property C12. Whatever the clients and peers of a node do, in any order, and whatever the network
  and the disk answer, every object file of the store is the complete encoding of a verified object
  of that id, if that was so at the start.\<close>

theorem node_keeps_store_intact:
  assumes "node_reach lossy E R s0 s" "sound_setup E R"
    "cache_path (rt_cache (sv_rt s0)) = cache_file_path (rt_config R)"
    "store_intact E R (rt_fs (sv_rt s0))"
  shows "store_intact E R (rt_fs (sv_rt s))"
  by (rule intact_step [OF reach_step [OF assms(2, 1)] assms(3, 4)])

definition ex_pushed :: serving where
  "ex_pushed = fst (on_rt (accept_push ex_nodeenv ex_runtime ex_foreign) (ex_serving []))"

theorem node_keeps_store_intact_witness:
  "store_exists (store_root ex_runtime) ''1405'' (rt_fs (sv_rt ex_pushed)) \<and>
   store_intact ex_nodeenv ex_runtime (rt_fs (sv_rt ex_pushed))"
proof -
  have "node_reach False ex_nodeenv ex_runtime (ex_serving []) ex_pushed"
    unfolding ex_pushed_def by (intro node_reach.intros ex_node_setup)
  moreover have "store_intact ex_nodeenv ex_runtime (rt_fs (sv_rt (ex_serving [])))"
    by (simp add: store_intact_def ex_serving_def ex_state_def)
  ultimately have "store_intact ex_nodeenv ex_runtime (rt_fs (sv_rt ex_pushed))"
    by (rule node_keeps_store_intact [OF _ ex_node_setup(1,3)])
  moreover have "store_exists (store_root ex_runtime) ''1405'' (rt_fs (sv_rt ex_pushed))"
    by (simp add: ex_pushed_def on_rt_def accept_push_def andThen_apply on_fs_def put_verified_def
        ex_foreign_verifies ex_nodeenv_def fs_write_def fs_rename_def Let_def is_owned_def ex_serving_def
        ex_state_def cache_new_def on_cache_apply mark_cached_def persist_def index_save_def store_exists_def
        fs_exists_def object_path_def tmp_path_def ex_store_root split: prod.splits option.splits)
       (simp add: ex_foreign_val with_extension_def)
  ultimately show ?thesis by simp
qed

text \<open>Property C13. A node loses no object by itself: as long as no client deletes one and the cache is
  not swept, every object in the store stays there, through every other command, every peer and
  every failure of the disk.\<close>

theorem node_loses_nothing:
  assumes "node_reach False E R s0 s" "sound_setup E R"
    "cache_path (rt_cache (sv_rt s0)) = cache_file_path (rt_config R)"
    "visible oid" "store_exists (store_root R) oid (rt_fs (sv_rt s0))"
  shows "store_exists (store_root R) oid (rt_fs (sv_rt s))"
proof -
  have "object_file R (object_path (store_root R) oid)" using assms(4) by auto
  with reach_step [OF assms(2,1)] assms(3,5) show ?thesis
    unfolding runtime_step_def store_step_def store_exists_def fs_exists_def by (metis option.distinct(1))
qed

definition ex_announced :: serving where
  "ex_announced = fst (node_handle ex_nodeenv ex_runtime (CmdAnnounce ''1405'') (ex_serving ex_files))"

lemma ex_announced_reach: "node_reach lossy ex_nodeenv ex_runtime (ex_serving ex_files) ex_announced"
  unfolding ex_announced_def by (intro node_reach.intros ex_node_setup) simp

theorem node_loses_nothing_witness:
  "store_exists (store_root ex_runtime) ''1405'' (rt_fs (sv_rt ex_announced))"
proof -
  have "store_exists (store_root ex_runtime) ''1405'' (rt_fs (sv_rt (ex_serving ex_files)))"
    by (simp add: store_exists_def fs_exists_def ex_store_root object_path_def ex_serving_def ex_state_def ex_files_def)
  moreover have "visible ''1405''" by (simp add: visible_def starts_with_iff)
  ultimately show ?thesis
    using node_loses_nothing [OF ex_announced_reach ex_node_setup(1,3)] by blast
qed

text \<open>Property C14. Nothing leaks: an object that was neither cached nor in the serving set at the
  start is handed to a peer only when it is a cached copy, or after the node announced it itself.\<close>

theorem served_objects_were_announced:
  assumes "node_reach lossy E R s0 s" "sound_setup E R"
    "provide_object F R oid (sv_rt s) = (t, Some b)" "\<not> shared_contains (rt_shared (sv_rt s0)) oid"
  shows "is_cached (rt_cache (sv_rt s)) oid \<or>
    (\<exists>l. rt_log (sv_rt s) = rt_log (sv_rt s0) @ l \<and> Announce oid \<in> set l)"
  using reach_step [OF assms(2,1)] provide_object_Some(3) [OF assms(3)] assms(4)
  unfolding runtime_step_def exposure_step_def by blast

lemma ex_announced_val:
  "sv_rt ex_announced = (ex_state ex_files)\<lparr>rt_shared := [''1405''], rt_log := [Announce ''1405'']\<rparr>"
  by (simp add: ex_announced_def answer_def on_rt_def announce_def andThen_apply mark_shared_def send_def
      shared_insert_def ex_serving_def ex_nodeenv_def) (simp add: ex_state_def)

theorem served_objects_were_announced_witness:
  "(\<exists>t b. provide_object ex_nodeenv ex_runtime ''1405'' (sv_rt ex_announced) = (t, Some b)) \<and>
   (\<exists>l. rt_log (sv_rt ex_announced) = rt_log (sv_rt (ex_serving ex_files)) @ l \<and> Announce ''1405'' \<in> set l)"
proof -
  have no: "\<not> is_cached (rt_cache (sv_rt ex_announced)) ''1405''"
    by (simp add: ex_announced_val is_cached_def index_is_cached_def) (simp add: ex_state_def cache_new_def)
  have "get_verified ex_nodeenv (store_root ex_runtime) ''1405'' (rt_fs (sv_rt ex_announced)) = Inr ex_foreign"
    unfolding get_verified_Inr
    by (intro exI [of _ "[104, 101, 108, 108, 111]"])
       (simp add: ex_announced_val ex_store_root object_path_def ex_files_def ex_nodeenv_def ex_foreign_verifies,
        simp add: ex_state_def ex_foreign_val)
  hence "\<exists>t b. provide_object ex_nodeenv ex_runtime ''1405'' (sv_rt ex_announced) = (t, Some b)"
    using no
    by (simp add: provide_object_def export_def ex_nodeenv_def ex_foreign_verifies)
       (simp add: ex_announced_val shared_contains_def)
  moreover from this obtain t b
    where p: "provide_object ex_nodeenv ex_runtime ''1405'' (sv_rt ex_announced) = (t, Some b)" by blast
  have "\<not> shared_contains (rt_shared (sv_rt (ex_serving ex_files))) ''1405''"
    by (simp add: ex_serving_def ex_state_def shared_contains_def)
  with served_objects_were_announced [OF ex_announced_reach ex_node_setup(1) p] no
  have "\<exists>l. rt_log (sv_rt ex_announced) = rt_log (sv_rt (ex_serving ex_files)) @ l \<and> Announce ''1405'' \<in> set l"
    by blast
  ultimately show ?thesis by blast
qed

end
