(* ===== verification/Edge.thy ===== *)
theory Edge
  imports Http Signed_Records
begin

text \<open>
  The public edge, canopee-edge/src/registry.rs and httpd.rs.  The registry maps the subdomain of
  an app to the publisher connection that serves it; the front door parses a browser request,
  routes it by its Host header and relays the publisher's answer.  The network calls are
  arguments: \<open>fetch\<close> is \<open>NetworkManager::get_object\<close>, \<open>send\<close> is \<open>send_serve_request\<close>.  Instants
  and Unix times are seconds.
\<close>

section \<open>The registry\<close>

type_synonym PeerId = string

definition REGISTRY_TTL :: nat where "REGISTRY_TTL = 90"
definition MAX_TIMESTAMP_SKEW_SECS :: nat where "MAX_TIMESTAMP_SKEW_SECS = 120"

record Entry =
  entry_peer :: PeerId
  entry_identity :: string
  last_seen :: nat

type_synonym Registry = "(string \<times> Entry) list"

datatype RegistrationResponse = RegOk | RegError string

definition resolve :: "nat \<Rightarrow> string \<Rightarrow> Registry \<Rightarrow> PeerId option" where
  "resolve now subdomain reg =
     (case map_of reg (to_lower subdomain) of
        Some e \<Rightarrow> if now - last_seen e \<le> REGISTRY_TTL then Some (entry_peer e) else None
      | None \<Rightarrow> None)"

definition abs_diff :: "nat \<Rightarrow> nat \<Rightarrow> nat" where
  "abs_diff a b = (if a \<le> b then b - a else a - b)"

definition validate ::
  "'e objenv_scheme \<Rightarrow> (bytes \<Rightarrow> AppManifest option) \<Rightarrow> (PeerId \<Rightarrow> ObjectId \<Rightarrow> ExportBundle res)
   \<Rightarrow> u64 \<Rightarrow> PeerId \<Rightarrow> ServeRegistration \<Rightarrow> string + unit" where
  "validate E mdec fetch now peer r =
     (if \<not> registration_verify E r then Inl ''registration signature does not verify''
      else let skew = abs_diff (unat now) (unat (reg_timestamp r)) in
      if skew > MAX_TIMESTAMP_SKEW_SECS then
        Inl (''registration timestamp '' @ nat_str skew @ ''s from the edge clock is stale'')
      else let app = trim (reg_app_id r) in
      case fetch peer app of
        Inl _ \<Rightarrow> Inl ''could not fetch the app manifest from you''
      | Inr bundle \<Rightarrow>
          if from_payload E (payload (bundle_object bundle)) \<noteq> app then
            Inl ''the manifest you served does not hash to the claimed app id''
          else (case decode_data mdec (bundle_object bundle) of
            Inl _ \<Rightarrow> Inl ''the app id is not an app manifest''
          | Inr manifest \<Rightarrow>
              if manifest_owner manifest \<noteq> reg_identity r then
                Inl (''app '' @ app_subdomain (reg_app_id r) @ '' belongs to '' @ manifest_owner manifest
                     @ '', not '' @ reg_identity r)
              else Inr ()))"

definition handle ::
  "'e objenv_scheme \<Rightarrow> (bytes \<Rightarrow> AppManifest option) \<Rightarrow> (PeerId \<Rightarrow> ObjectId \<Rightarrow> ExportBundle res)
   \<Rightarrow> nat \<Rightarrow> u64 \<Rightarrow> PeerId \<Rightarrow> ServeRegistration \<Rightarrow> Registry \<Rightarrow> Registry \<times> RegistrationResponse" where
  "handle E mdec fetch instant now peer r reg =
     (let subdomain = app_subdomain (trim (reg_app_id r)) in
      if reg_timestamp r = 0 then (AList.delete subdomain reg, RegOk)
      else let heartbeat = (case map_of reg subdomain of
                 Some e \<Rightarrow> entry_peer e = peer \<and> entry_identity e = reg_identity r \<and> registration_verify E r
               | None \<Rightarrow> False)
      in if heartbeat then
           (AList.update subdomain
              \<lparr> entry_peer = peer, entry_identity = reg_identity r, last_seen = instant \<rparr> reg, RegOk)
         else (case validate E mdec fetch now peer r of
                 Inr _ \<Rightarrow>
                   (AList.update subdomain
                      \<lparr> entry_peer = peer, entry_identity = reg_identity r, last_seen = instant \<rparr> reg, RegOk)
               | Inl msg \<Rightarrow> (reg, RegError msg)))"

section \<open>The front door\<close>

record Request =
  rq_method :: string
  rq_path :: string
  rq_username :: string
  close_after_response :: bool
  forwarded :: "(string \<times> string) list"

text \<open>What reading a line gives: a line with its terminator, the idle timeout, or an I/O error;
  no further event is the end of the stream.\<close>

datatype line_event = Line string | TimedOut | ReadError

definition split_whitespace :: "string \<Rightarrow> string list" where
  "split_whitespace s =
     filter (\<lambda>w. w \<noteq> []) (split_all CHR '' '' (map (\<lambda>c. if is_space c then CHR '' '' else c) s))"

definition host_subdomain :: "string \<Rightarrow> string" where
  "host_subdomain host =
     (let host = trim (hd (split_all CHR '':'' host)) in to_lower (hd (split_all CHR ''.'' host)))"

record head_fields =
  hf_close :: bool
  hf_range :: "string option"
  hf_gzip :: bool
  hf_none_match :: "string option"
  hf_host :: "string option"

definition header_line :: "string \<Rightarrow> head_fields \<Rightarrow> head_fields" where
  "header_line line h =
     (let lower = to_lower line in
      case strip_prefix ''connection:'' lower of
        Some v \<Rightarrow> h \<lparr> hf_close := (trim v = ''close'') \<rparr>
      | None \<Rightarrow> (case strip_prefix ''host:'' lower of
        Some v \<Rightarrow> h \<lparr> hf_host := Some (trim v) \<rparr>
      | None \<Rightarrow> (case strip_prefix ''range:'' lower of
        Some v \<Rightarrow> h \<lparr> hf_range := Some (trim v) \<rparr>
      | None \<Rightarrow> (case strip_prefix ''accept-encoding:'' lower of
        Some v \<Rightarrow> h \<lparr> hf_gzip := contains ''gzip'' v \<rparr>
      | None \<Rightarrow> (case strip_prefix ''if-none-match:'' lower of
        Some v \<Rightarrow> h \<lparr> hf_none_match := Some (trim v) \<rparr>
      | None \<Rightarrow> h)))))"

text \<open>The header loop: an error, \<open>None\<close> on the idle timeout, or the fields and the rest.\<close>

fun read_headers ::
  "head_fields \<Rightarrow> line_event list \<Rightarrow> (head_fields \<times> line_event list) option res" where
  "read_headers h [] = Inr (Some (h, []))"
| "read_headers h (TimedOut # es) = Inr None"
| "read_headers h (ReadError # es) = Inl (Io ''connection'')"
| "read_headers h (Line line # es) =
     (if line = [] \<or> line = [CHR 0x0D, CHR 0x0A] \<or> line = [CHR 0x0A] then Inr (Some (h, es))
      else read_headers (header_line line h) es)"

definition forwarded_headers :: "head_fields \<Rightarrow> (string \<times> string) list" where
  "forwarded_headers h =
     (case hf_range h of Some r \<Rightarrow> [(''range'', r)] | None \<Rightarrow> []) @
     (if hf_gzip h then [(''accept-encoding'', ''gzip'')] else []) @
     (case hf_none_match h of Some v \<Rightarrow> [(''if-none-match'', v)] | None \<Rightarrow> [])"

fun nth_or :: "'a list \<Rightarrow> nat \<Rightarrow> 'a \<Rightarrow> 'a" where
  "nth_or xs n y = (if n < length xs then xs ! n else y)"

fun read_request :: "line_event list \<Rightarrow> (Request \<times> line_event list) option res" where
  "read_request [] = Inr None"
| "read_request (TimedOut # es) = Inr None"
| "read_request (ReadError # es) = Inl (Io ''connection'')"
| "read_request (Line line # es) =
     (if line = [] then Inr None
      else if trim line = [] then read_request es
      else let parts = split_whitespace line;
               meth = nth_or parts 0 ''GET'';
               path = hd (split_all CHR ''?'' (nth_or parts 1 ''/''));
               version = nth_or parts 2 ''HTTP/1.1'';
               h0 = \<lparr> hf_close = (version = ''HTTP/1.0''), hf_range = None, hf_gzip = False,
                      hf_none_match = None, hf_host = None \<rparr>
      in case read_headers h0 es of
           Inl e \<Rightarrow> Inl e
         | Inr None \<Rightarrow> Inr None
         | Inr (Some (h, rest)) \<Rightarrow>
             Inr (Some (\<lparr> rq_method = meth, rq_path = path,
                  rq_username = (case hf_host h of Some v \<Rightarrow> host_subdomain v | None \<Rightarrow> []),
                  close_after_response = hf_close h, forwarded = forwarded_headers h \<rparr>, rest)))"

datatype send_result = Answered ServeResponse | SendFailed string | SendTimedOut

definition text_plain :: "string \<times> string" where
  "text_plain = (''Content-Type'', ''text/plain; charset=utf-8'')"

definition not_found :: "string \<Rightarrow> ServeResponse" where
  "not_found msg = \<lparr> resp_status = ''404 Not Found'',
     resp_headers = [text_plain, (''Content-Length'', nat_str (length msg))],
     resp_body = str_bytes msg \<rparr>"

definition forward ::
  "(PeerId \<Rightarrow> ServeRequest \<Rightarrow> send_result) \<Rightarrow> (string \<Rightarrow> PeerId option) \<Rightarrow> Request \<Rightarrow> ServeResponse" where
  "forward send resolve_now rq =
     (case resolve_now (rq_username rq) of
        None \<Rightarrow> not_found (''no serving node at `'' @ rq_username rq @ ''`'')
      | Some peer \<Rightarrow>
          (case send peer \<lparr> req_method = rq_method rq, req_path = rq_path rq, req_headers = forwarded rq \<rparr> of
             Answered resp \<Rightarrow> resp
           | SendFailed e \<Rightarrow> \<lparr> resp_status = ''502 Bad Gateway'', resp_headers = [text_plain],
               resp_body = str_bytes (''upstream error: '' @ e) \<rparr>
           | SendTimedOut \<Rightarrow> \<lparr> resp_status = ''504 Gateway Timeout'', resp_headers = [text_plain],
               resp_body = str_bytes ''publisher did not respond in time'' \<rparr>))"

definition CRLF :: string where "CRLF = [CHR 0x0D, CHR 0x0A]"

definition sends_body :: "ServeResponse \<Rightarrow> bool" where
  "sends_body r = list_ex (\<lambda>p. starts_with p (resp_status r))
     [''200'', ''206'', ''404'', ''500'', ''502'', ''504'']"

definition has_content_length :: "ServeResponse \<Rightarrow> bool" where
  "has_content_length r = list_ex (\<lambda>(n, _). eq_ignore_case n ''content-length'') (resp_headers r)"

definition response_head :: "Request \<Rightarrow> ServeResponse \<Rightarrow> string" where
  "response_head rq r =
     ''HTTP/1.1 '' @ resp_status r @ CRLF
     @ concat (map (\<lambda>(n, v). n @ '': '' @ v @ CRLF) (resp_headers r))
     @ (if sends_body r \<and> \<not> has_content_length r
        then ''Content-Length: '' @ nat_str (length (resp_body r)) @ CRLF else [])
     @ ''Connection: '' @ (if close_after_response rq then ''close'' else ''keep-alive'') @ CRLF @ CRLF"

definition write_response :: "Request \<Rightarrow> ServeResponse \<Rightarrow> bytes" where
  "write_response rq r =
     str_bytes (response_head rq r) @
     (if sends_body r \<and> resp_body r \<noteq> [] \<and> rq_method rq \<noteq> ''HEAD'' then resp_body r else [])"

lemma read_headers_shorter:
  "read_headers h es = Inr (Some (h', rest)) \<Longrightarrow> length rest \<le> length es"
  by (induction h es rule: read_headers.induct) (auto split: if_splits)

lemma read_request_shorter:
  "read_request es = Inr (Some (rq, rest)) \<Longrightarrow> length rest < length es"
proof (induction es rule: read_request.induct)
  case (4 line es)
  show ?case
  proof (cases "line = [] \<or> trim line = []")
    case True
    with 4 show ?thesis by (auto split: if_splits)
  next
    case False
    with "4.prems" obtain h0 h where "read_headers h0 es = Inr (Some (h, rest))"
      by (auto simp: Let_def split: sum.splits option.splits)
    with read_headers_shorter show ?thesis by fastforce
  qed
qed auto

lemma read_request_forwarded:
  "read_request es = Inr (Some (rq, rest)) \<Longrightarrow> \<exists>h. forwarded rq = forwarded_headers h"
proof (induction es rule: read_request.induct)
  case (4 line es)
  show ?case
  proof (cases "line = [] \<or> trim line = []")
    case True
    with 4 show ?thesis by (auto split: if_splits)
  next
    case False
    with "4.prems" show ?thesis
      by (auto simp: Let_def split: sum.splits option.splits)
  qed
qed auto

text \<open>A client connection: requests are answered until the end of the stream, an error, or a
  request to close.  The n-th request sees the registry of its own moment.\<close>

function handle_client ::
  "(PeerId \<Rightarrow> ServeRequest \<Rightarrow> send_result) \<Rightarrow> (nat \<Rightarrow> string \<Rightarrow> PeerId option) \<Rightarrow> nat
   \<Rightarrow> line_event list \<Rightarrow> bytes \<times> unit res" where
  "handle_client send resolve_at n es =
     (case read_request es of
        Inl e \<Rightarrow> ([], Inl e)
      | Inr None \<Rightarrow> ([], Inr ())
      | Inr (Some (rq, rest)) \<Rightarrow>
          let out = write_response rq (forward send (resolve_at n) rq) in
          if close_after_response rq then (out, Inr ())
          else (let (more, r) = handle_client send resolve_at (Suc n) rest in (out @ more, r)))"
  by pat_completeness auto
termination
  by (relation "measure (\<lambda>(_, _, _, es). length es)") (auto dest: read_request_shorter)

section \<open>The registry over time\<close>

text \<open>The registries that any sequence of messages from any peers can produce.\<close>

inductive registry_reach ::
  "'e objenv_scheme \<Rightarrow> (bytes \<Rightarrow> AppManifest option) \<Rightarrow> Registry \<Rightarrow> bool" for E mdec where
  start: "registry_reach E mdec []"
| message: "registry_reach E mdec reg \<Longrightarrow>
    registry_reach E mdec (fst (handle E mdec fetch instant now peer r reg))"

inductive_cases registry_reachE: "registry_reach E mdec reg"

text \<open>What it means that an identity may serve a subdomain: it signed a registration for an app
  id with that subdomain, and a manifest that hashes to the id names it as the owner.\<close>

definition owner_registered ::
  "'e objenv_scheme \<Rightarrow> (bytes \<Rightarrow> AppManifest option) \<Rightarrow> string \<Rightarrow> string \<Rightarrow> bool" where
  "owner_registered E mdec sub ident =
     (\<exists>r p m. registration_verify E r \<and> reg_identity r = ident \<and>
        sub = app_subdomain (trim (reg_app_id r)) \<and> from_payload E p = trim (reg_app_id r) \<and>
        mdec (payload_data p) = Some m \<and> manifest_owner m = ident)"

lemma validate_Inr:
  assumes "validate E mdec fetch now peer r = Inr u"
  shows "owner_registered E mdec (app_subdomain (trim (reg_app_id r))) (reg_identity r)"
    and "abs_diff (unat now) (unat (reg_timestamp r)) \<le> MAX_TIMESTAMP_SKEW_SECS"
  using assms
  by (auto simp: validate_def owner_registered_def decode_data_def Let_def
      split: if_splits sum.splits intro!: exI [of _ r])

lemma handle_entry:
  assumes "map_of (fst (handle E mdec fetch instant now peer r reg)) sub = Some e"
  shows "map_of reg sub = Some e \<or>
    (sub = app_subdomain (trim (reg_app_id r)) \<and> last_seen e = instant \<and> entry_peer e = peer \<and>
     entry_identity e = reg_identity r \<and> registration_verify E r \<and>
     (owner_registered E mdec sub (entry_identity e) \<or>
      (\<exists>e'. map_of reg sub = Some e' \<and> entry_identity e' = entry_identity e)))"
proof (cases "reg_timestamp r = 0")
  case True
  with assms show ?thesis by (auto simp: handle_def Let_def split: if_splits)
next
  case False
  let ?sub = "app_subdomain (trim (reg_app_id r))"
  show ?thesis
  proof (cases "validate E mdec fetch now peer r")
    case (Inl msg)
    with assms False show ?thesis
      by (auto simp: handle_def Let_def split: if_splits option.splits)
  next
    case (Inr u)
    hence "registration_verify E r" by (auto simp: validate_def split: if_splits)
    with validate_Inr(1) [OF Inr] assms False Inr show ?thesis
      by (auto simp: handle_def Let_def split: if_splits option.splits)
  qed
qed

section \<open>Properties\<close>

text \<open>Property C6. Whatever peers send, every subdomain in the registry is served for an identity
  that signed a registration for it and owns a manifest that hashes to the registered id.\<close>

theorem registry_only_owners:
  assumes "registry_reach E mdec reg" "map_of reg sub = Some e"
  shows "owner_registered E mdec sub (entry_identity e)"
  using assms
proof (induction arbitrary: e rule: registry_reach.induct)
  case (message reg fetch instant now peer r)
  from handle_entry [OF message.prems] message.IH show ?case by metis
qed simp

definition ex_manifest :: AppManifest where
  "ex_manifest = \<lparr> manifest_name = ''app'', manifest_owner = identity_id (sample_identity 65),
     entrypoint = ''1405'', assets = [] \<rparr>"

definition ex_registration :: ServeRegistration where
  "ex_registration = projr (registration_sign (sample_crypto ()) (sample_identity 65) (obj_id ex_object) 1000)"

definition ex_fetch :: "PeerId \<Rightarrow> ObjectId \<Rightarrow> ExportBundle res" where
  "ex_fetch peer oid = Inr \<lparr> bundle_version = 1, bundle_object = ex_object \<rparr>"

theorem registry_only_owners_witness:
  "owner_registered ex_env (\<lambda>_. Some ex_manifest) ''1405'' ''canopee://identity/41''"
proof -
  let ?reg = "fst (handle ex_env (\<lambda>_. Some ex_manifest) ex_fetch 5 1010 ''peer'' ex_registration [])"
  let ?e = "\<lparr> entry_peer = ''peer'', entry_identity = ''canopee://identity/41'', last_seen = 5 \<rparr>"
  have reach: "registry_reach ex_env (\<lambda>_. Some ex_manifest) ?reg"
    by (intro registry_reach.intros)
  have "map_of ?reg ''1405'' = Some ?e"
    by (simp add: handle_def validate_def ex_registration_def ex_object_val registration_sign_def
        registration_verify_def ex_env_def sample_simps ex_fetch_def decode_data_def ex_manifest_def
        app_subdomain_def trim_def is_space_def abs_diff_def MAX_TIMESTAMP_SKEW_SECS_def)
  from registry_only_owners [OF reach this] show ?thesis by simp
qed





end
