(* ===== verification/Node_Main.thy ===== *)
theory Node_Main
  imports Node_Connection Node_Safety Edge
begin

text \<open>
  Start and end of the two servers: \<open>Node::run\<close> of canopee-node with the edge role that every node
  takes, and main.rs of canopee-edge.  The environment variables are a function, a PEM pair becomes a
  TLS configuration by the argument \<open>tls_config\<close>, and binding a port is the host's.  The accept loop
  is a sequence of events: each connection is a task that runs as one step, at any time after it was
  accepted; a task that is aborted before its step has done nothing.
\<close>

section \<open>The edge role\<close>

definition parse_u16 :: "string \<Rightarrow> nat option" where
  "parse_u16 s = (case parse_u64 s of Some n \<Rightarrow> if n < 65536 then Some n else None | None \<Rightarrow> None)"

definition env_port :: "(string \<Rightarrow> string option) \<Rightarrow> string \<Rightarrow> nat \<Rightarrow> nat" where
  "env_port vars name fallback =
     (case Option.bind (vars name) (\<lambda>v. parse_u16 (trim v)) of Some p \<Rightarrow> p | None \<Rightarrow> fallback)"

text \<open>The running edge: its port, its TLS configuration and the registry its tasks share.\<close>

record 'tls edge_server =
  es_port :: nat
  es_tls :: "'tls option"
  es_registry :: Registry

definition httpd_new :: "(nat \<Rightarrow> nat res) \<Rightarrow> Registry \<Rightarrow> nat \<Rightarrow> 'tls option \<Rightarrow> 'tls edge_server res" where
  "httpd_new bind reg port tls =
     res_bind (bind port) (\<lambda>bound. Inr \<lparr> es_port = bound, es_tls = tls, es_registry = reg \<rparr>)"

definition start_edge :: "(nat \<Rightarrow> nat res) \<Rightarrow> nat \<Rightarrow> 'tls option \<Rightarrow> 'tls edge_server res" where
  "start_edge bind port tls = httpd_new bind [] port tls"

datatype 'tls edge_role = EdgeOff | EdgeServing "'tls edge_server" | EdgeUnavailable error

definition edge_role_tls :: "(string \<Rightarrow> string option) \<Rightarrow> (string \<Rightarrow> string \<Rightarrow> 'tls res) \<Rightarrow> 'tls option" where
  "edge_role_tls vars tls_config =
     (case (vars ''CANOPEE_EDGE_TLS_CERT'', vars ''CANOPEE_EDGE_TLS_KEY'') of
        (Some cert, Some key) \<Rightarrow> (case tls_config cert key of Inr tls \<Rightarrow> Some tls | Inl _ \<Rightarrow> None)
      | _ \<Rightarrow> None)"

definition start_edge_role ::
  "(string \<Rightarrow> string option) \<Rightarrow> (string \<Rightarrow> string \<Rightarrow> 'tls res) \<Rightarrow> (nat \<Rightarrow> nat res) \<Rightarrow> 'tls edge_role" where
  "start_edge_role vars tls_config bind =
     (if vars ''CANOPEE_EDGE'' \<in> {Some ''0'', Some ''false'', Some ''no'', Some ''off''} then EdgeOff
      else case start_edge bind (env_port vars ''CANOPEE_EDGE_HTTP_PORT'' 8080) (edge_role_tls vars tls_config) of
             Inr server \<Rightarrow> EdgeServing server
           | Inl e \<Rightarrow> EdgeUnavailable e)"

section \<open>The edge on its own\<close>

definition edge_root :: "(string \<Rightarrow> string option) \<Rightarrow> string" where
  "edge_root vars =
     (case vars ''CANOPEE_EDGE_ROOT'' of
        Some root \<Rightarrow> root
      | None \<Rightarrow>
          path_join (case vars ''HOME'' of
                       Some home \<Rightarrow> home
                     | None \<Rightarrow> (case vars ''USERPROFILE'' of Some home \<Rightarrow> home | None \<Rightarrow> ''.''))
            ''.canopee-edge'')"

text \<open>\<open>fresh\<close> is the key that is generated when none is kept.\<close>

definition edge_key ::
  "'e crypto_scheme \<Rightarrow> Keypair \<Rightarrow> (string \<Rightarrow> string option) \<Rightarrow> fs \<Rightarrow> fs \<times> Keypair res" where
  "edge_key E fresh vars d =
     (let root = edge_root vars; key_path = path_join root ''edge-key.pem'';
          generate = (if \<not> io_create_ok E root then (d, Inl (Io root))
                      else case encode_key E fresh of
                             Inl e \<Rightarrow> (d, Inl e)
                           | Inr bs \<Rightarrow> (case fs_write E key_path bs d of
                                          (d', Inl e) \<Rightarrow> (d', Inl e)
                                        | (d', Inr _) \<Rightarrow> (d', Inr fresh)))
      in if fs_exists key_path d then
           (case fs_read key_path d of
              Inl e \<Rightarrow> (d, Inl e)
            | Inr bs \<Rightarrow> (case kp_decode E bs of Some k \<Rightarrow> (d, Inr k) | None \<Rightarrow> generate))
         else generate)"

text \<open>The edge hosts nothing: what it answers to the object exchange.\<close>

definition empty_provider :: "ObjectId \<Rightarrow> ExportBundle option" where
  "empty_provider oid = None"

definition empty_store :: "Object \<Rightarrow> unit res" where
  "empty_store ob = Inl (Bail ''this edge hosts no object store'')"

definition edge_main_tls ::
  "(string \<Rightarrow> string option) \<Rightarrow> (string \<Rightarrow> string \<Rightarrow> 'tls res) \<Rightarrow> 'tls option res" where
  "edge_main_tls vars tls_config =
     (case (vars ''CANOPEE_EDGE_TLS_CERT'', vars ''CANOPEE_EDGE_TLS_KEY'') of
        (Some cert, Some key) \<Rightarrow> res_bind (tls_config cert key) (\<lambda>tls. Inr (Some tls))
      | _ \<Rightarrow> Inr None)"

text \<open>\<open>swarm\<close> starts the network under a key on a listening address and tells the addresses it got.
  The result is the key, the lines printed and the server.\<close>

definition edge_main ::
  "'e crypto_scheme \<Rightarrow> Keypair \<Rightarrow> (string \<Rightarrow> string option) \<Rightarrow> (string \<Rightarrow> string \<Rightarrow> 'tls res) \<Rightarrow> (nat \<Rightarrow> nat res)
   \<Rightarrow> (Keypair \<Rightarrow> string \<Rightarrow> string list res) \<Rightarrow> fs \<Rightarrow> fs \<times> (Keypair \<times> string list \<times> 'tls edge_server) res" where
  "edge_main E fresh vars tls_config bind swarm d =
     (case edge_key E fresh vars d of
        (d', Inl e) \<Rightarrow> (d', Inl e)
      | (d', Inr key) \<Rightarrow>
          (d', let peer = peer_id_str E (kp_public E key);
                   http_port = env_port vars ''CANOPEE_EDGE_HTTP_PORT'' 8080 in
               res_bind (swarm key (''/ip4/0.0.0.0/tcp/'' @ nat_str (env_port vars ''CANOPEE_EDGE_LISTEN_PORT'' 4002))) (\<lambda>addrs.
               res_bind (edge_main_tls vars tls_config) (\<lambda>tls.
               res_bind (start_edge bind http_port tls) (\<lambda>server.
                 Inr (key,
                   (''Edge peer id: '' @ peer) # map (\<lambda>a. ''Edge listens on: '' @ a @ ''/p2p/'' @ peer) addrs @
                   [(if tls \<noteq> None then ''Edge serving https on '' else ''Edge serving http on '') @ nat_str http_port],
                   server))))))"

section \<open>The node\<close>

record daemon =
  dm_serving :: serving
  dm_tasks :: "nat list"
  dm_signalled :: bool
  dm_socket :: bool

datatype 'x loop_event =
  Tick 'x
| ClientAccepted nat
| AcceptFailed error
| Serve 'x nat "nat \<Rightarrow> bool" wire "string \<Rightarrow> unit res \<times> sub_event list" bytes
| ShutdownRecv

fun daemon_step :: "nat \<Rightarrow> Runtime \<Rightarrow> 'e nodeenv_scheme loop_event \<Rightarrow> daemon \<Rightarrow> daemon \<times> unit res option" where
  "daemon_step cap R (Tick E) d =
     (d \<lparr> dm_serving := (dm_serving d) \<lparr> sv_rt := evict_if_over_cap E R cap (sv_rt (dm_serving d)) \<rparr> \<rparr>, None)"
| "daemon_step cap R (ClientAccepted i) d = (d \<lparr> dm_tasks := dm_tasks d @ [i] \<rparr>, None)"
| "daemon_step cap R (AcceptFailed e) d = (d, Some (Inl e))"
| "daemon_step cap R (Serve E i writes W sub bs) d =
     (if i \<in> set (dm_tasks d) then
        (case handle_connection E R writes W sub bs (dm_serving d) of
           (s, r) \<Rightarrow>
             (d \<lparr> dm_serving := s, dm_tasks := remove1 i (dm_tasks d),
                  dm_signalled := (dm_signalled d \<or> (case r of Inr x \<Rightarrow> cn_shutdown x | Inl _ \<Rightarrow> False)) \<rparr>, None))
      else (d, None))"
| "daemon_step cap R ShutdownRecv d =
     (if dm_signalled d then (d \<lparr> dm_tasks := [] \<rparr>, Some (Inr ())) else (d, None))"

fun daemon_loop :: "nat \<Rightarrow> Runtime \<Rightarrow> 'e nodeenv_scheme loop_event list \<Rightarrow> daemon \<Rightarrow> daemon \<times> unit res option" where
  "daemon_loop cap R [] d = (d, None)"
| "daemon_loop cap R (ev # evs) d =
     (case daemon_step cap R ev d of
        (d', Some r) \<Rightarrow> (d', Some r)
      | (d', None) \<Rightarrow> daemon_loop cap R evs d')"

text \<open>\<open>removable\<close> tells whether the socket file goes away when it is removed, at the start and at the
  end; a result of \<open>None\<close> is a node that still runs.  When the loop fails, the tasks are dropped with
  their set, and the socket file stays.\<close>

definition node_run ::
  "'e nodeenv_scheme \<Rightarrow> Runtime \<Rightarrow> nat \<Rightarrow> bool \<times> bool \<Rightarrow> unit res \<Rightarrow> 'e nodeenv_scheme loop_event list \<Rightarrow> serving \<times> bool
   \<Rightarrow> daemon \<times> unit res option" where
  "node_run E R cap removable bound evs start =
     (let (s, stale) = start; d = \<lparr> dm_serving = s, dm_tasks = [], dm_signalled = False, dm_socket = stale \<rparr> in
      if stale \<and> \<not> fst removable then (d, Some (Inl (Io (node_socket_path (rt_config R)))))
      else case bound of
        Inl e \<Rightarrow> (d \<lparr> dm_socket := False \<rparr>, Some (Inl e))
      | Inr _ \<Rightarrow>
          (case daemon_loop cap R evs (d \<lparr> dm_socket := True, dm_serving := fst (on_rt (mark_started E R) s) \<rparr>) of
             (d', Some (Inr _)) \<Rightarrow>
               if snd removable then (d' \<lparr> dm_socket := False \<rparr>, Some (Inr ()))
               else (d', Some (Inl (Io (node_socket_path (rt_config R)))))
           | (d', Some (Inl e)) \<Rightarrow> (d' \<lparr> dm_tasks := [] \<rparr>, Some (Inl e))
           | (d', None) \<Rightarrow> (d', None)))"

section \<open>Facts\<close>

lemma connection_keeps:
  assumes "sound_setup E R"
  shows "keeps (node_rel True E R) (handle_connection E R writes W sub bs)"
  unfolding handle_connection_def
proof (intro node.bind node.lift)
  fix c
  show "keeps (node_rel True E R) (case c of CmdSubscribe topic \<Rightarrow> lift_res (handle_subscribe E writes W topic (sub topic))
       | _ \<Rightarrow> andThen (node_handle E R c) (\<lambda>response. ret \<lparr> cn_out = (if writes 0 then respond W response else []),
           cn_unsubscribed = False, cn_shutdown = (c = CmdShutdown) \<rparr>))"
    using handle_keeps [OF assms, of True c]
    by (cases c; simp only: NodeCommand.case; intro node.bind node.ret node.lift; simp)
qed

fun turn_env :: "'e nodeenv_scheme loop_event \<Rightarrow> 'e nodeenv_scheme option" where
  "turn_env (Tick E) = Some E"
| "turn_env (Serve E _ _ _ _ _) = Some E"
| "turn_env _ = None"

lemma daemon_step_rel:
  assumes "sound_setup E R" "\<forall>F. turn_env ev = Some F \<longrightarrow> same_objects E F"
  shows "runtime_step True E R (sv_rt (dm_serving d)) (sv_rt (dm_serving (fst (daemon_step cap R ev d))))"
  using assms
proof (cases ev)
  case (Tick F)
  with assms show ?thesis
    using same_objects_step [OF _ sweep_step [OF same_objects_setup [OF _ assms(1)]]] by auto
next
  case (Serve F i writes W sub bs)
  with assms have F: "same_objects E F" "sound_setup F R" by (auto intro: same_objects_setup)
  have "node_rel True F R (dm_serving d) (fst (handle_connection F R writes W sub bs (dm_serving d)))"
    using keepsD [OF connection_keeps [OF F(2)]] .
  with F(1) show ?thesis
    by (auto simp: Serve node_rel_def same_objects_step runtime.stays split: prod.split)
qed (auto simp: runtime.stays)

lemma daemon_loop_rel:
  assumes "sound_setup E R" "\<forall>ev \<in> set evs. \<forall>F. turn_env ev = Some F \<longrightarrow> same_objects E F"
  shows "runtime_step True E R (sv_rt (dm_serving d)) (sv_rt (dm_serving (fst (daemon_loop cap R evs d))))"
  using assms(2)
proof (induction evs arbitrary: d)
  case (Cons ev evs)
  obtain d' r where s: "daemon_step cap R ev d = (d', r)" by (cases "daemon_step cap R ev d")
  from Cons.prems have "\<forall>F. turn_env ev = Some F \<longrightarrow> same_objects E F" by simp
  from daemon_step_rel [OF assms(1) this, of d cap] s
  have step: "runtime_step True E R (sv_rt (dm_serving d)) (sv_rt (dm_serving d'))" by simp
  show ?case
  proof (cases r)
    case None
    from Cons.prems have "\<forall>ev \<in> set evs. \<forall>F. turn_env ev = Some F \<longrightarrow> same_objects E F" by simp
    from runtime.follows [OF step Cons.IH [OF this]] None s show ?thesis by simp
  next
    case (Some x)
    with s step show ?thesis by simp
  qed
qed (simp add: runtime.stays)

lemma node_run_rel:
  assumes "sound_setup E R" "\<forall>ev \<in> set evs. \<forall>F. turn_env ev = Some F \<longrightarrow> same_objects E F"
  shows "runtime_step True E R (sv_rt s) (sv_rt (dm_serving (fst (node_run E R cap removable bound evs (s, stale)))))"
proof -
  let ?d = "\<lparr> dm_serving = fst (on_rt (mark_started E R) s), dm_tasks = [], dm_signalled = False, dm_socket = True \<rparr>"
  have "keeps (node_rel True E R) (on_rt (mark_started E R))" using assms(1) by (intro node_ops runtime_ops)
  from keepsD [OF this] have "runtime_step True E R (sv_rt s) (sv_rt (dm_serving ?d))" by (simp add: node_rel_def)
  from runtime.follows [OF this daemon_loop_rel [OF assms, of ?d cap]] show ?thesis
    by (auto simp: node_run_def Let_def runtime.stays split: sum.split prod.split option.split)
qed

lemma daemon_loop_append: "daemon_loop cap R (xs @ ys) d =
    (case daemon_loop cap R xs d of (d', Some r) \<Rightarrow> (d', Some r) | (d', None) \<Rightarrow> daemon_loop cap R ys d')"
  by (induction xs arbitrary: d) (auto split: prod.split option.split)

definition accepts :: "'x loop_event \<Rightarrow> bool" where
  "accepts ev = (\<forall>e. ev \<noteq> AcceptFailed e)"

lemma daemon_loop_ends:
  "\<forall>ev \<in> set evs. accepts ev \<Longrightarrow> daemon_loop cap R evs d = (d', Some r) \<Longrightarrow> r = Inr () \<and> dm_tasks d' = []"
proof (induction evs arbitrary: d)
  case (Cons ev evs)
  show ?case
  proof (cases ev)
    case (Serve E i writes W sub bs)
    with Cons show ?thesis by (auto split: prod.splits if_splits)
  next
    case ShutdownRecv
    with Cons show ?thesis by (auto split: if_splits)
  qed (use Cons in \<open>auto simp: accepts_def\<close>)
qed simp

text \<open>While the loop runs, an accepted connection waits until its task runs, and a signal stays.\<close>

lemma daemon_loop_waits:
  assumes "daemon_loop cap R evs d = (d', None)" "\<forall>E w W sub bs. Serve E i w W sub bs \<notin> set evs"
    "i \<in> set (dm_tasks d) \<or> ClientAccepted i \<in> set evs"
  shows "i \<in> set (dm_tasks d')"
  using assms
proof (induction evs arbitrary: d)
  case (Cons ev evs)
  show ?case
  proof (cases ev)
    case (Serve E j writes W sub bs)
    with Cons.prems(2) have "j \<noteq> i" by (metis list.set_intros(1))
    with Cons Serve show ?thesis by (auto split: prod.splits if_splits)
  next
    case ShutdownRecv
    with Cons show ?thesis by (auto split: if_splits)
  qed (use Cons in auto)
qed simp

lemma daemon_loop_signalled:
  "daemon_loop cap R evs d = (d', None) \<Longrightarrow> dm_signalled d \<Longrightarrow> dm_signalled d'"
proof (induction evs arbitrary: d)
  case (Cons ev evs)
  then show ?case by (cases ev) (auto split: prod.splits if_splits)
qed simp

lemma serve_shutdown:
  assumes "read_command (dec (command_codec W)) bs = Inr CmdShutdown" "i \<in> set (dm_tasks d)"
  shows "\<exists>d'. daemon_step cap R (Serve F i writes W sub bs) d = (d', None) \<and> dm_signalled d'"
  using assms by (auto simp: handle_connection_def andThen_apply on_rt_def split: prod.split)

section \<open>Properties\<close>

text \<open>Property C37. The life of a node: once a client's Shutdown has been read, the node ends as soon as it
  looks at the signal, whatever connections, commands and sweeps come before and in between, unless
  accepting fails.  It leaves no task and no socket file, and the store is intact if it was.\<close>

theorem node_shuts_down:
  fixes E :: "'e nodeenv_scheme"
  assumes "sound_setup E R" "\<forall>ev \<in> set evs. \<forall>F. turn_env ev = Some F \<longrightarrow> same_objects E F"
    and "evs = before_it @ Serve G i writes W sub bs # between @ ShutdownRecv # after_it"
    and "ClientAccepted i \<in> set before_it" "\<forall>F w W sub bs. Serve F i w W sub bs \<notin> set before_it"
    and "read_command (dec (command_codec W)) bs = Inr CmdShutdown"
    and "\<forall>ev \<in> set evs. accepts ev"
    and "cache_path (rt_cache (sv_rt s)) = cache_file_path (rt_config R)" "store_intact E R (rt_fs (sv_rt s))"
  shows "\<exists>d. node_run E R cap (True, True) (Inr ()) evs (s, stale) = (d, Some (Inr ())) \<and>
    dm_tasks d = [] \<and> \<not> dm_socket d \<and> store_intact E R (rt_fs (sv_rt (dm_serving d)))"
proof -
  let ?d = "\<lparr> dm_serving = fst (on_rt (mark_started E R) s), dm_tasks = [], dm_signalled = False, dm_socket = True \<rparr>"
  have "snd (daemon_loop cap R evs ?d) \<noteq> None"
  proof
    assume "snd (daemon_loop cap R evs ?d) = None"
    then obtain d1 d2 d3 d4 where 1: "daemon_loop cap R before_it ?d = (d1, None)"
      and 2: "daemon_step cap R (Serve G i writes W sub bs) d1 = (d2, None)"
      and 3: "daemon_loop cap R between d2 = (d3, None)" and 4: "daemon_step cap R (ShutdownRecv :: 'e nodeenv_scheme loop_event) d3 = (d4, None)"
      unfolding assms(3) daemon_loop_append
      by (auto simp: daemon_loop_append simp del: daemon_step.simps split: prod.splits option.splits)
    have "i \<in> set (dm_tasks d1)" using daemon_loop_waits [OF 1 assms(5)] assms(4) by blast
    from serve_shutdown [OF assms(6) this] 2 have "dm_signalled d2" by (metis prod.inject)
    from daemon_loop_signalled [OF 3 this] 4 show False by simp
  qed
  then obtain d r where d: "daemon_loop cap R evs ?d = (d, Some r)" by (cases "daemon_loop cap R evs ?d") auto
  from daemon_loop_ends [OF assms(7) d] have r: "r = Inr ()" "dm_tasks d = []" by simp_all
  have run: "node_run E R cap (True, True) (Inr ()) evs (s, stale) = (d\<lparr>dm_socket := False\<rparr>, Some (Inr ()))"
    using d r(1) by (simp add: node_run_def Let_def)
  have "runtime_step True E R (sv_rt s) (sv_rt (dm_serving d))"
    using node_run_rel [OF assms(1, 2), of s cap "(True, True)" "Inr ()" stale] run by simp
  from intact_step [OF this assms(8, 9)] show ?thesis using run r(2) by simp
qed

text \<open>A node that evicts, answers one client's Shutdown over the socket, and ends.\<close>

definition ex_shutdown_wire :: wire where
  "ex_shutdown_wire = \<lparr> command_codec = sample_codec (\<lambda>_. [1]) [CmdShutdown], response_codec = sample_codec (\<lambda>_. [2]) [] \<rparr>"

theorem node_shuts_down_witness:
  "\<exists>d. node_run ex_nodeenv ex_runtime 1000 (True, True) (Inr ())
      [ClientAccepted 4, Tick ex_nodeenv, ClientAccepted 5, Serve ex_nodeenv 4 (\<lambda>_. True) ex_shutdown_wire (\<lambda>_. (Inr (), [])) [0, 0, 0, 1, 1],
       Tick ex_nodeenv, ShutdownRecv, ClientAccepted 6] (ex_serving [], True) = (d, Some (Inr ())) \<and>
    dm_tasks d = [] \<and> \<not> dm_socket d \<and> store_intact ex_nodeenv ex_runtime (rt_fs (sv_rt (dm_serving d)))"
proof (rule node_shuts_down [where before_it = "[ClientAccepted 4, Tick ex_nodeenv, ClientAccepted 5]"
      and between = "[Tick ex_nodeenv]" and after_it = "[ClientAccepted 6]"])
  show "read_command (dec (command_codec ex_shutdown_wire)) [0, 0, 0, 1, 1] = Inr CmdShutdown"
    by (simp add: read_command_def unframe_message_def ex_shutdown_wire_def sample_codec_def)
  show "store_intact ex_nodeenv ex_runtime (rt_fs (sv_rt (ex_serving [])))"
    by (simp add: store_intact_def ex_serving_def ex_state_def)
qed (auto simp: ex_node_setup accepts_def)

text \<open>The edge keeps its peer id: a start after one that succeeded finds the same key, whatever key would
  be generated, as long as the file is left alone.\<close>

theorem edge_key_is_kept:
  assumes "keypair_codec_ok E" "kp_decode F = kp_decode E" "edge_key E fresh vars d = (d', Inr k)"
  shows "edge_key F fresh' vars d' = (d', Inr k)"
proof -
  let ?p = "path_join (edge_root vars) ''edge-key.pem''"
  consider "map_of d ?p = None \<or> (\<exists>bs. map_of d ?p = Some (File bs) \<and> kp_decode E bs = None)"
      "k = fresh" "\<exists>bs. kp_encode E fresh = Some bs \<and> d' = AList.update ?p (File bs) d"
    | bs where "map_of d ?p = Some (File bs)" "kp_decode E bs = Some k" "d' = d"
    using assms(3)
    by (auto simp: edge_key_def Let_def fs_exists_def fs_read_def fs_write_def encode_key_def
        split: if_splits option.splits fentry.splits sum.splits prod.splits write_result.splits)
  then show ?thesis
    using assms(1, 2) by cases (auto simp: edge_key_def Let_def fs_exists_def fs_read_def keypair_codec_ok_def update_conv')
qed

end
