(* ===== verification/Node_Sweep.thy ===== *)
theory Node_Sweep
  imports Node
begin

text \<open>
  The cache sweep of the node and the framing of its socket: which objects the sweep may remove and
  when it stops, and what the length prefix of a message carries.
\<close>

section \<open>One round\<close>

lemma lru_cached_visible:
  assumes "hex_ok E" "ob \<in> set (lru_cached E R s)"
  shows "visible (obj_id ob)"
proof -
  obtain oid where "get_verified E (store_root R) oid (rt_fs s) = Inr ob"
    using assms(2) by (auto simp: lru_cached_def cache_lru_def lru_member)
  hence "object_verify E ob" by (auto simp: get_verified_Inr)
  from object_verifyD(1) [OF this] assms(1) show ?thesis by (simp add: hex_ok_def from_payload_def)
qed

lemma lru_cached_is_cached:
  "ob \<in> set (lru_cached E R s) \<Longrightarrow> is_cached (rt_cache s) (obj_id ob)"
  using lru_cached_tracked [of ob E R s]
  by (force simp: is_cached_def index_is_cached_def map_of_eq_None_iff)

text \<open>An eviction, also a failed one, touches no other object and tracks nothing new.\<close>

lemma evict_frame:
  assumes "evict E R oid s = (t, r)" "visible oid" "cache_apart R s"
  shows "visible j \<Longrightarrow> j \<noteq> oid \<Longrightarrow> get_verified E (store_root R) j (rt_fs t) = get_verified E (store_root R) j (rt_fs s)"
    and "is_cached (rt_cache t) j \<Longrightarrow> is_cached (rt_cache s) j"
    and "cache_apart R t"
proof -
  obtain d q where w: "store_delete E (store_root R) oid (rt_fs s) = (d, q)"
    by (cases "store_delete E (store_root R) oid (rt_fs s)")
  have same: "get_verified E (store_root R) j d = get_verified E (store_root R) j (rt_fs s)"
    if "visible j" "j \<noteq> oid" for j
    using objs.del_other [OF w that(1) assms(2) that(2)] .
  have cases: "(\<exists>e. q = Inl e) \<and> t = s\<lparr>rt_fs := d\<rparr> \<or>
      t = s\<lparr>rt_fs := snd (cache_remove E oid (rt_cache s) d),
        rt_cache := fst (cache_remove E oid (rt_cache s) d), rt_shared := shared_remove oid (rt_shared s),
        rt_log := rt_log s @ [Unannounce oid]\<rparr>"
    using assms(1) w
    by (cases q) (auto simp: evict_def andThen_apply on_fs_def on_cache_apply send_def)
  show "get_verified E (store_root R) j (rt_fs t) = get_verified E (store_root R) j (rt_fs s)"
    if "visible j" "j \<noteq> oid"
    using cases same [OF that] by (auto simp: cache_ops_objects(2) [OF assms(3) that(1)])
  show "is_cached (rt_cache t) j \<Longrightarrow> is_cached (rt_cache s) j"
    using cases by (auto simp: cache_remove_is_cached)
  show "cache_apart R t"
    using cases assms(3) by (auto simp: cache_apart_def cache_remove_def Let_def)
qed

section \<open>Properties\<close>

text \<open>Property C20. The sweep ends, and it ends for a reason: the cached bytes are within the cap, no
  tracked object can be read any more, or an eviction failed.  Whichever it is, no object that was
  not tracked as a cached copy is touched.\<close>

theorem sweep_spares_own_objects:
  assumes "hex_ok E" "cache_apart R s"
  shows "(\<forall>j. visible j \<and> \<not> is_cached (rt_cache s) j \<longrightarrow>
      get_verified E (store_root R) j (rt_fs (evict_if_over_cap E R cap s)) =
      get_verified E (store_root R) j (rt_fs s)) \<and>
    (unat (cached_bytes E R (evict_if_over_cap E R cap s)) \<le> cap \<or>
     lru_cached E R (evict_if_over_cap E R cap s) = [] \<or>
     (\<exists>u oid e. evict E R oid u = (evict_if_over_cap E R cap s, Inl e)))"
  using assms
proof (induction E R cap s rule: evict_if_over_cap.induct)
  case (1 E R cap s)
  note unfold = evict_if_over_cap.simps [of E R cap s]
  show ?case
  proof (cases "unat (cached_bytes E R s) \<le> cap \<or> lru_cached E R s = []")
    case True
    thus ?thesis by (auto simp: unfold)
  next
    case False
    then obtain ob obs where l: "lru_cached E R s = ob # obs" and over: "\<not> unat (cached_bytes E R s) \<le> cap"
      by (cases "lru_cached E R s") auto
    hence "ob \<in> set (lru_cached E R s)" by simp
    note vis = lru_cached_visible [OF 1(2) this] and tracked = lru_cached_is_cached [OF this]
    obtain t r where e: "evict E R (obj_id ob) s = (t, r)" by (cases "evict E R (obj_id ob) s")
    note frame = evict_frame [OF e vis 1(3)]
    show ?thesis
    proof (cases r)
      case (Inl err)
      with over l e have "evict_if_over_cap E R cap s = t" by (simp add: unfold)
      with frame(1) tracked e Inl show ?thesis by auto
    next
      case (Inr u)
      with over l e have step: "evict_if_over_cap E R cap s = evict_if_over_cap E R cap t"
        by (simp add: unfold)
      from 1(1) [OF over l e [symmetric] Inr 1(2) frame(3)] frame(1,2) tracked
      show ?thesis unfolding step by metis
    qed
  qed
qed

definition ex_own :: Object where
  "ex_own = sample_object 65 ''hi''"

definition ex_sweep_env :: rtenv where
  "ex_sweep_env = sample_rtenv [ex_foreign, ex_own] []"

definition ex_full :: rt where
  "ex_full = (ex_state [(''/c/storage/1405'', File [104, 101, 108, 108, 111]), (''/c/storage/d102'', File [104, 105])])
     \<lparr>rt_cache := cache_new ''/c/cache.cache'' ''canopee://identity/41'' [(''1405'', 7)]\<rparr>"

lemma ex_own_val: "obj_id ex_own = ''d102''" "payload_data (payload ex_own) = [104, 105]"
  by (simp_all add: ex_own_def sample_simps)

lemma ex_own_reads: "get_verified ex_sweep_env (store_root ex_runtime) ''d102'' (rt_fs ex_full) = Inr ex_own"
proof -
  have "object_verify ex_sweep_env ex_own"
    by (simp add: ex_own_def sample_simps ex_sweep_env_def sample_rtenv_with_def)
  moreover have "map_of (rt_fs ex_full) (object_path (store_root ex_runtime) ''d102'') = Some (File [104, 105])"
    by (simp add: ex_full_def object_path_def store_root_def storage_path_def path_join_def ex_runtime_def
        with_root_def) (simp add: ex_state_def)
  ultimately show ?thesis
    by (auto simp: get_verified_Inr ex_own_val ex_sweep_env_def) (simp add: ex_foreign_val)
qed

theorem sweep_spares_own_objects_witness:
  "get_verified ex_sweep_env (store_root ex_runtime) ''d102''
     (rt_fs (evict_if_over_cap ex_sweep_env ex_runtime 0 ex_full)) = Inr ex_own"
proof -
  have "hex_ok ex_sweep_env" "cache_apart ex_runtime ex_full"
    using ex_cache_apart by (simp_all add: ex_sweep_env_def ex_full_def cache_apart_def cache_new_def)
       (simp add: ex_runtime_def with_root_def cache_file_path_def path_join_def)
  moreover have "\<not> is_cached (rt_cache ex_full) ''d102''" "visible ''d102''"
    by (simp_all add: ex_full_def is_cached_def cache_new_def index_is_cached_def visible_def starts_with_iff)
  ultimately show ?thesis
    using sweep_spares_own_objects [of ex_sweep_env ex_runtime ex_full 0] ex_own_reads by metis
qed

text \<open>A message and whatever follows it on the socket is read back as the message, cut to
  its length modulo 2^32: the prefix is 32 bits wide.\<close>

theorem socket_framing:
  "unframe_message (frame_message bs @ rest) = Inr (take (length bs mod 2 ^ 32) bs)"
proof -
  let ?n = "length bs mod 2 ^ 32"
  have "of_le_bytes (le_bytes 4 ?n) = ?n" by (rule of_le_bytes_le_bytes) simp
  moreover have "?n \<le> length bs" by simp
  ultimately show ?thesis
    by (simp add: unframe_message_def frame_message_def be32_def Let_def)
qed

end
