(* ===== verification/App_Server.thy ===== *)
theory App_Server
  imports Edge
begin

text \<open>
  The HTTP half of canopee-cli/src/app.rs: the server on 127.0.0.1 that shows a fetched app.  It has
  its own request parser and its own renderer; a response is the text of its head and the body, if
  one is sent.  Lines arrive as in the front door of the edge.  The last section shows that an app
  looks the same through an edge as it does here.
\<close>

section \<open>Requests\<close>

record LocalRequest =
  lq_method :: string
  lq_path :: string
  lq_close :: bool
  lq_range :: "string option"
  lq_gzip :: bool
  lq_none_match :: "string option"

definition local_header_line :: "string \<Rightarrow> LocalRequest \<Rightarrow> LocalRequest" where
  "local_header_line line q =
     (let lower = to_lower line in
      case strip_prefix ''connection:'' lower of
        Some v \<Rightarrow> q \<lparr> lq_close := (trim v = ''close'') \<rparr>
      | None \<Rightarrow> if starts_with ''range:'' lower then q \<lparr> lq_range := Some (trim line) \<rparr>
      else (case strip_prefix ''accept-encoding:'' lower of
        Some v \<Rightarrow> q \<lparr> lq_gzip := contains ''gzip'' v \<rparr>
      | None \<Rightarrow> (case strip_prefix ''if-none-match:'' lower of
        Some v \<Rightarrow> q \<lparr> lq_none_match := Some (trim v) \<rparr>
      | None \<Rightarrow> q)))"

fun local_read_headers ::
  "LocalRequest \<Rightarrow> line_event list \<Rightarrow> (LocalRequest \<times> line_event list) option res" where
  "local_read_headers q [] = Inr (Some (q, []))"
| "local_read_headers q (TimedOut # es) = Inr None"
| "local_read_headers q (ReadError # es) = Inl (Io ''connection'')"
| "local_read_headers q (Line line # es) =
     (if line = [] \<or> line = [CHR 0x0D, CHR 0x0A] \<or> line = [CHR 0x0A] then Inr (Some (q, es))
      else local_read_headers (local_header_line line q) es)"

fun local_read_request :: "line_event list \<Rightarrow> (LocalRequest \<times> line_event list) option res" where
  "local_read_request [] = Inr None"
| "local_read_request (TimedOut # es) = Inr None"
| "local_read_request (ReadError # es) = Inl (Io ''connection'')"
| "local_read_request (Line line # es) =
     (if line = [] then Inr None
      else if trim line = [] then local_read_request es
      else let parts = split_whitespace line in
        local_read_headers
          \<lparr> lq_method = nth_or parts 0 ''GET'', lq_path = hd (split_all CHR ''?'' (nth_or parts 1 ''/'')),
            lq_close = (nth_or parts 2 ''HTTP/1.1'' = ''HTTP/1.0''), lq_range = None, lq_gzip = False,
            lq_none_match = None \<rparr> es)"

section \<open>Responses\<close>

definition compute_etags :: "'e crypto_scheme \<Rightarrow> (string \<times> bytes) list \<Rightarrow> (string \<times> string) list" where
  "compute_etags E files = map (\<lambda>(path, bs). (path, from_data E bs)) files"

definition local_push_header :: "string \<Rightarrow> string \<Rightarrow> nat option \<Rightarrow> string \<Rightarrow> string" where
  "local_push_header status ct len connection =
     ''HTTP/1.1 '' @ status @ CRLF @ ''Content-Type: '' @ ct @
     (case len of Some n \<Rightarrow> CRLF @ ''Content-Length: '' @ nat_str n | None \<Rightarrow> []) @
     CRLF @ ''Connection: '' @ connection @ CRLF"

definition error_response :: "string \<Rightarrow> string \<Rightarrow> string \<Rightarrow> nat \<Rightarrow> string" where
  "error_response status ct connection len = local_push_header status ct (Some len) connection @ CRLF"

definition etag_header :: "string option \<Rightarrow> string" where
  "etag_header et =
     (case et of Some v \<Rightarrow> ''ETag: '' @ [CHR 0x22] @ v @ [CHR 0x22] @ CRLF | None \<Rightarrow> [])"

definition range_value :: "string \<Rightarrow> nat \<Rightarrow> RangeSpec option res" where
  "range_value spec len =
     (if length spec < 6 then Inr None
      else if \<not> char_boundary 6 spec then Inl (Panic ''byte index is not a char boundary'')
      else if \<not> eq_ignore_case (take 6 spec) ''bytes='' then Inr None
      else let val = drop 6 spec in
        if CHR '','' \<in> set val then Inr None
        else let (start_str, end_str) =
               (case split_once CHR ''-'' val of Some (a, b) \<Rightarrow> (a, b) | None \<Rightarrow> (val, []))
          in if start_str = [] then
               (if len = 0 then Inr (Some Unsatisfiable)
                else case parse_u64 end_str of
                       None \<Rightarrow> Inr None
                     | Some n \<Rightarrow>
                         if n = 0 then Inr (Some Unsatisfiable)
                         else let tk = min n len in Inr (Some (RangeBytes (len - tk) (len - 1))))
             else case parse_u64 start_str of
                    None \<Rightarrow> Inr None
                  | Some start \<Rightarrow>
                      if len \<le> start then Inr (Some Unsatisfiable)
                      else if end_str = [] then Inr (Some (RangeBytes start (len - 1)))
                      else (case parse_u64 end_str of
                              None \<Rightarrow> Inr None
                            | Some e \<Rightarrow>
                                if e < start then Inr None
                                else Inr (Some (RangeBytes start (min e (len - 1))))))"

text \<open>The Range header arrives as its whole line: the text before the first colon is cut off.\<close>

definition local_parse_range :: "string option \<Rightarrow> nat \<Rightarrow> RangeSpec option res" where
  "local_parse_range hdr len =
     (case hdr of
        None \<Rightarrow> Inr None
      | Some h \<Rightarrow>
          (case split_once CHR '':'' (trim h) of
             None \<Rightarrow> Inr None
           | Some (_, spec) \<Rightarrow> range_value (trim spec) len))"

definition local_range_response ::
  "string \<Rightarrow> string \<Rightarrow> string option \<Rightarrow> bytes \<Rightarrow> RangeSpec \<Rightarrow> string \<times> bytes option" where
  "local_range_response ct connection et body spec =
     (case spec of
        Unsatisfiable \<Rightarrow>
          (local_push_header ''416 Range Not Satisfiable'' ct (Some 0) connection
           @ ''Accept-Ranges: bytes'' @ CRLF
           @ ''Content-Range: bytes */'' @ nat_str (length body) @ CRLF @ CRLF, None)
      | RangeBytes start e \<Rightarrow>
          let part = take (e + 1 - start) (drop start body) in
          (local_push_header ''206 Partial Content'' ct (Some (length part)) connection
           @ ''Accept-Ranges: bytes'' @ CRLF
           @ ''Content-Range: bytes '' @ nat_str start @ ''-'' @ nat_str e @ ''/'' @ nat_str (length body) @ CRLF
           @ etag_header et @ CRLF, Some part))"

definition local_full_response ::
  "(bytes \<Rightarrow> bytes option) \<Rightarrow> bool \<Rightarrow> bool \<Rightarrow> string \<Rightarrow> string \<Rightarrow> string option \<Rightarrow> bytes \<Rightarrow> string \<times> bytes option" where
  "local_full_response gz accepts send_body ct connection et body =
     (let encoded =
            (if accepts \<and> MIN_COMPRESSIBLE_LEN \<le> length body \<and> is_compressible ct then
               (case gz body of Some z \<Rightarrow> if length z < length body then Some z else None | None \<Rightarrow> None)
             else None);
          payload = (case encoded of Some z \<Rightarrow> z | None \<Rightarrow> body)
      in (local_push_header ''200 OK'' ct (Some (length payload)) connection
          @ etag_header et @ ''Accept-Ranges: bytes'' @ CRLF
          @ (if is_compressible ct then
               ''Vary: Accept-Encoding'' @ CRLF @
               (if encoded \<noteq> None then ''Content-Encoding: gzip'' @ CRLF else [])
             else []) @ CRLF,
          if send_body then Some payload else None))"

definition prepare_response ::
  "(bytes \<Rightarrow> bytes option) \<Rightarrow> LocalRequest \<Rightarrow> (string \<times> bytes) list \<Rightarrow> (string \<times> string) list
   \<Rightarrow> (string \<times> bytes option) res" where
  "prepare_response gz q files etags =
     (let (served_key, found) =
            (case map_of files (lq_path q) of
               Some body \<Rightarrow> (lq_path q, Some body)
             | None \<Rightarrow>
                 if \<not> is_asset_request (lq_path q) then
                   (case map_of files ''/'' of
                      Some entry \<Rightarrow> (''/'', Some entry)
                    | None \<Rightarrow> (lq_path q, None))
                 else (lq_path q, None));
          ct = guess_content_type served_key;
          connection = (if lq_close q then ''close'' else ''keep-alive'');
          is_get_or_head = (lq_method q = ''GET'' \<or> lq_method q = ''HEAD'');
          et = map_of etags served_key;
          matches = (case (et, lq_none_match q) of
                       (Some tag, Some v) \<Rightarrow> trim_matches (CHR 0x22) v = tag
                     | _ \<Rightarrow> False)
      in if is_get_or_head \<and> matches then
           Inr (local_push_header ''304 Not Modified'' ct None connection @ etag_header et @ CRLF, None)
         else case found of
           None \<Rightarrow> Inr (error_response ''404 Not Found'' ct connection 0, None)
         | Some body \<Rightarrow>
             if lq_method q = ''GET'' then
               (case local_parse_range (lq_range q) (length body) of
                  Inl e \<Rightarrow> Inl e
                | Inr (Some spec) \<Rightarrow> Inr (local_range_response ct connection et body spec)
                | Inr None \<Rightarrow> Inr (local_full_response gz (lq_gzip q) True ct connection et body))
             else Inr (local_full_response gz (lq_gzip q) False ct connection et body))"

section \<open>A connection\<close>

lemma local_read_headers_shorter:
  "local_read_headers q es = Inr (Some (q', rest)) \<Longrightarrow> length rest \<le> length es"
  by (induction q es rule: local_read_headers.induct) (auto split: if_splits)

lemma local_read_request_shorter:
  "local_read_request es = Inr (Some (q, rest)) \<Longrightarrow> length rest < length es"
  by (induction es rule: local_read_request.induct)
    (auto simp: Let_def less_Suc_eq_le split: if_splits dest: local_read_headers_shorter)

text \<open>The bytes written before the connection ends, and how it ended.\<close>

function local_handle_connection ::
  "(bytes \<Rightarrow> bytes option) \<Rightarrow> (string \<times> bytes) list \<Rightarrow> (string \<times> string) list \<Rightarrow> line_event list
   \<Rightarrow> bytes \<times> unit res" where
  "local_handle_connection gz files etags es =
     (case local_read_request es of
        Inl e \<Rightarrow> ([], Inl e)
      | Inr None \<Rightarrow> ([], Inr ())
      | Inr (Some (q, rest)) \<Rightarrow>
          (case prepare_response gz q files etags of
             Inl e \<Rightarrow> ([], Inl e)
           | Inr (head, body) \<Rightarrow>
               let out = str_bytes head @ (case body of Some bs \<Rightarrow> bs | None \<Rightarrow> []) in
               if lq_close q then (out, Inr ())
               else (let (more, r) = local_handle_connection gz files etags rest in (out @ more, r))))"
  by pat_completeness auto
termination
  by (relation "measure (\<lambda>(_, _, _, es). length es)") (auto dest: local_read_request_shorter)

section \<open>Lower case and trimming\<close>

lemma ascii_lower_cases:
  obtains "ascii_lower c = c"
  | "65 \<le> (of_char c :: nat)" "(of_char c :: nat) \<le> 90" "(of_char (ascii_lower c) :: nat) = of_char c + 32"
  by (cases "65 \<le> (of_char c :: nat) \<and> (of_char c :: nat) \<le> 90") (auto simp: ascii_lower_def Let_def)

lemma ascii_lower_keeps [simp]:
  "is_space (ascii_lower c) = is_space c" "is_digit (ascii_lower c) = is_digit c"
  "ascii_lower (ascii_lower c) = ascii_lower c"
  by (cases c rule: ascii_lower_cases; force simp: is_space_def is_digit_def Let_def ascii_lower_def)+

lemma ascii_lower_mark [simp]:
  assumes "(of_char d :: nat) < 65"
  shows "ascii_lower c = d \<longleftrightarrow> c = d" "d = ascii_lower c \<longleftrightarrow> d = c"
  using assms by (cases c rule: ascii_lower_cases; auto)+

lemma ascii_lower_same: "(of_char c :: nat) < 65 \<Longrightarrow> ascii_lower c = c"
  by (simp add: ascii_lower_def Let_def)

lemma to_lower_twice [simp]: "to_lower (to_lower s) = to_lower s"
  by (simp add: to_lower_def)

lemma to_lower_shape [simp]:
  "to_lower [] = []" "to_lower s = [] \<longleftrightarrow> s = []" "length (to_lower s) = length s"
  "to_lower (a @ b) = to_lower a @ to_lower b" "to_lower (c # s) = ascii_lower c # to_lower s"
  by (simp_all add: to_lower_def)

lemma trim_lower: "trim (to_lower s) = to_lower (trim s)"
proof -
  have drop: "dropWhile is_space (map ascii_lower xs) = map ascii_lower (dropWhile is_space xs)" for xs
    by (induction xs) auto
  show ?thesis by (simp add: trim_def to_lower_def drop rev_map)
qed

lemma split_once_lower:
  assumes "(of_char d :: nat) < 65"
  shows "split_once d (to_lower s) = map_option (map_prod to_lower to_lower) (split_once d s)"
  using assms by (induction s) (auto simp: option.map_comp comp_def split: prod.splits intro!: map_option_cong)

definition unsigned_part :: "string \<Rightarrow> string" where
  "unsigned_part s = (case s of [] \<Rightarrow> [] | c # r \<Rightarrow> if c = CHR ''+'' then r else s)"

lemma parse_u64_alt:
  "parse_u64 s = (let ds = unsigned_part s in
     if ds \<noteq> [] \<and> list_all is_digit ds \<and> str_nat ds < 2 ^ 64 then Some (str_nat ds) else None)"
proof -
  have "(case s of CHR ''+'' # r \<Rightarrow> r | _ \<Rightarrow> s) = unsigned_part s"
    by (auto simp: unsigned_part_def split: list.split char.split bool.split)
  then show ?thesis by (simp add: parse_u64_def)
qed

lemma digits_lower:
  "list_all is_digit (to_lower s) \<longleftrightarrow> list_all is_digit s"
  "list_all is_digit s \<Longrightarrow> to_lower s = s"
proof -
  show "list_all is_digit (to_lower s) \<longleftrightarrow> list_all is_digit s" by (induction s) auto
  have "is_digit c \<Longrightarrow> ascii_lower c = c" for c
    by (rule ascii_lower_same) (simp add: is_digit_def)
  then show "list_all is_digit s \<Longrightarrow> to_lower s = s" by (induction s) auto
qed

lemma parse_u64_lower [simp]: "parse_u64 (to_lower s) = parse_u64 s"
proof -
  have "unsigned_part (to_lower s) = to_lower (unsigned_part s)"
    by (auto simp: unsigned_part_def split: list.split)
  then show ?thesis by (auto simp: parse_u64_alt Let_def digits_lower)
qed

lemma char_boundary_lower [simp]: "char_boundary n (to_lower s) = char_boundary n s"
proof -
  have "in_range 128 191 (of_nat (of_char (ascii_lower c)) :: byte) = in_range 128 191 (of_nat (of_char c) :: byte)" for c
    unfolding in_range_def unat_byte_of_char by (cases c rule: ascii_lower_cases) auto
  then show ?thesis by (cases "n < length s") (simp_all add: char_boundary_def to_lower_def)
qed

lemma range_value_lower: "range_value (to_lower s) len = range_value s len"
proof -
  have cut: "take n (to_lower s) = to_lower (take n s)" "drop n (to_lower s) = to_lower (drop n s)" for n
    by (simp_all add: to_lower_def take_map drop_map)
  have pair: "(case split_once CHR ''-'' (to_lower v) of Some (a, b) \<Rightarrow> (a, b) | None \<Rightarrow> (to_lower v, [])) =
      map_prod to_lower to_lower (case split_once CHR ''-'' v of Some (a, b) \<Rightarrow> (a, b) | None \<Rightarrow> (v, []))" for v
    by (cases "split_once CHR ''-'' v") (simp_all add: split_once_lower split_beta del: split_once_None)
  have comma: "CHR '','' \<in> set (to_lower v) \<longleftrightarrow> CHR '','' \<in> set v" for v
    by (induction v) auto
  show ?thesis
    unfolding range_value_def cut comma eq_ignore_case_def Let_def pair
    by (simp only: case_prod_beta fst_map_prod snd_map_prod to_lower_shape to_lower_twice
        parse_u64_lower char_boundary_lower)
qed

section \<open>The same app through an edge\<close>

text \<open>What the two parsers keep of the same header lines.\<close>

definition same_range :: "string option \<Rightarrow> string option \<Rightarrow> bool" where
  "same_range r l =
     (case (r, l) of
        (None, None) \<Rightarrow> True
      | (Some v, Some line) \<Rightarrow>
          trim line = line \<and> (\<exists>a b. split_once CHR '':'' line = Some (a, b) \<and> v = to_lower (trim b))
      | _ \<Rightarrow> False)"

definition same_fields :: "head_fields \<Rightarrow> LocalRequest \<Rightarrow> bool" where
  "same_fields h q =
     (hf_close h = lq_close q \<and> hf_gzip h = lq_gzip q \<and> hf_none_match h = lq_none_match q \<and>
      same_range (hf_range h) (lq_range q))"

lemma trim_end: "trim (rev (dropWhile is_space (rev s))) = trim s"
proof -
  define u v where "u = rev (dropWhile is_space (rev s))" and "v = rev (takeWhile is_space (rev s))"
  have s: "s = u @ v" by (simp add: u_def v_def rev_append [symmetric])
  have spaces: "\<forall>c \<in> set v. is_space c" by (simp add: v_def) (meson set_takeWhileD)
  have "trim (u @ v) = trim u"
  proof (cases "\<forall>c \<in> set u. is_space c")
    case True
    with spaces show ?thesis by (simp add: trim_def dropWhile_append dropWhile_eq_Nil_conv [THEN iffD2])
  next
    case False
    then have "dropWhile is_space (u @ v) = dropWhile is_space u @ v" by (auto simp: dropWhile_append)
    moreover have "dropWhile is_space (rev v @ x) = dropWhile is_space x" for x
      using spaces by (intro dropWhile_append2) simp
    ultimately show ?thesis by (simp add: trim_def)
  qed
  with s show ?thesis by (simp add: u_def)
qed

lemma trim_trim [simp]: "trim (trim s) = trim s"
proof -
  have "trim (trim s) = trim (dropWhile is_space s)"
    using trim_end [of "dropWhile is_space s"] by (simp add: trim_def)
  then show ?thesis by (simp add: trim_def)
qed

lemma trim_prefix:
  assumes "p \<noteq> []" "\<not> is_space (hd p)" "\<not> is_space (last p)"
  shows "\<exists>w. trim (p @ s) = p @ w \<and> trim w = trim s"
proof -
  have front: "dropWhile is_space (p @ s) = p @ s" using assms by (cases p) auto
  have rear: "dropWhile is_space (rev s @ rev p) = dropWhile is_space (rev s) @ rev p"
    using assms by (cases p rule: rev_cases) (auto simp: dropWhile_append dropWhile_eq_Nil_conv)
  show ?thesis
    by (intro exI [of _ "rev (dropWhile is_space (rev s))"]) (simp add: trim_end, simp add: trim_def front rear)
qed

lemma range_line:
  assumes "to_lower line = ''range:'' @ w"
  shows "same_range (Some (trim w)) (Some (trim line))"
proof -
  obtain w' where w': "to_lower (trim line) = ''range:'' @ w'" "trim w' = trim w"
    using trim_prefix [of "''range:''" w] trim_lower [of line] assms by (auto simp: is_space_def)
  then have "map_option (map_prod to_lower to_lower) (split_once CHR '':'' (trim line)) = Some (''range'', w')"
    using split_once_append [of "CHR '':''" "''range''" w'] by (simp add: split_once_lower [symmetric])
  then obtain a b where "split_once CHR '':'' (trim line) = Some (a, b)" "to_lower b = w'"
    by (auto simp: map_prod_def split: prod.splits)
  then show ?thesis by (simp add: same_range_def w'(2) [symmetric] trim_lower [symmetric])
qed

lemma header_line_same:
  assumes "same_fields h q"
  shows "same_fields (header_line line h) (local_header_line line q)"
  using assms range_line [of line]
  by (auto simp: same_fields_def header_line_def local_header_line_def Let_def starts_with_def
      split: option.split)

lemma read_headers_same:
  "same_fields h q \<Longrightarrow> local_read_headers q es = Inr (Some (q', rest)) \<Longrightarrow>
    \<exists>h'. read_headers h es = Inr (Some (h', rest)) \<and> same_fields h' q' \<and>
      lq_method q' = lq_method q \<and> lq_path q' = lq_path q"
proof (induction q es arbitrary: h rule: local_read_headers.induct)
  case (4 q line es)
  have kept: "lq_method (local_header_line line q) = lq_method q" "lq_path (local_header_line line q) = lq_path q"
    by (simp_all add: local_header_line_def Let_def split: option.split)
  show ?case
    using 4 header_line_same [OF "4.prems"(1), of line] kept by (auto split: if_splits)
qed auto

lemma read_request_same:
  "local_read_request es = Inr (Some (q, rest)) \<Longrightarrow>
    \<exists>rq h. read_request es = Inr (Some (rq, rest)) \<and> same_fields h q \<and>
      forwarded rq = forwarded_headers h \<and> close_after_response rq = hf_close h \<and>
      rq_method rq = lq_method q \<and> rq_path rq = lq_path q"
proof (induction es rule: local_read_request.induct)
  case (4 line es)
  show ?case
  proof (cases "line = [] \<or> trim line = []")
    case True
    with 4 show ?thesis by (auto split: if_splits)
  next
    case False
    let ?h = "\<lparr> hf_close = (nth_or (split_whitespace line) 2 ''HTTP/1.1'' = ''HTTP/1.0''), hf_range = None,
      hf_gzip = False, hf_none_match = None, hf_host = None \<rparr>"
    let ?q = "\<lparr> lq_method = nth_or (split_whitespace line) 0 ''GET'',
      lq_path = hd (split_all CHR ''?'' (nth_or (split_whitespace line) 1 ''/'')),
      lq_close = (nth_or (split_whitespace line) 2 ''HTTP/1.1'' = ''HTTP/1.0''), lq_range = None,
      lq_gzip = False, lq_none_match = None \<rparr>"
    have "same_fields ?h ?q" by (simp add: same_fields_def same_range_def)
    moreover have "local_read_headers ?q es = Inr (Some (q, rest))"
      using "4.prems" False by (simp add: Let_def del: nth_or.simps)
    ultimately obtain h where "read_headers ?h es = Inr (Some (h, rest))" "same_fields h q"
      "lq_method q = nth_or (split_whitespace line) 0 ''GET''"
      "lq_path q = hd (split_all CHR ''?'' (nth_or (split_whitespace line) 1 ''/''))"
      using read_headers_same [of ?h ?q es q rest] by (auto simp del: nth_or.simps)
    with False show ?thesis by (simp add: Let_def del: nth_or.simps) blast
  qed
qed auto

lemma forwarded_fields:
  "header (forwarded_headers h) ''range'' = hf_range h"
  "header (forwarded_headers h) ''if-none-match'' = hf_none_match h"
  "accepts_gzip (forwarded_headers h) = hf_gzip h"
  by (auto simp: forwarded_headers_def accepts_gzip_def header_def eq_ignore_case_def to_lower_def
      ascii_lower_def contains.simps starts_with_iff split: option.split)

lemma set_trim: "set (trim s) \<subseteq> set s"
  unfolding trim_def by (auto dest!: set_dropWhileD)

lemma parse_range_same:
  assumes "same_range r l" "\<forall>line. l = Some line \<longrightarrow> count_list line CHR '':'' \<le> 1"
  shows "local_parse_range l len = parse_range r len"
proof (cases l)
  case None
  with assms show ?thesis
    by (auto simp: same_range_def local_parse_range_def parse_range_def split: option.splits)
next
  case (Some line)
  with assms(1) obtain a b where line: "trim line = line" "split_once CHR '':'' line = Some (a, b)"
    "r = Some (to_lower (trim b))"
    by (auto simp: same_range_def split: option.splits)
  from split_once_SomeD [OF line(2)] have "line = a @ CHR '':'' # b" by simp
  with assms(2) Some have "CHR '':'' \<notin> set b" by (auto simp: count_list_0_iff)
  then have "CHR '':'' \<notin> set (trim b)" using set_trim by blast
  then have "split_once CHR '':'' (to_lower (trim b)) = None"
    by (subst split_once_lower) simp_all
  moreover have "parse_range (Some v) len =
      range_value (case split_once CHR '':'' (trim v) of Some (_, x) \<Rightarrow> trim x | None \<Rightarrow> trim v) len" for v
    by (simp add: parse_range_def range_value_def Let_def)
  ultimately show ?thesis
    by (simp add: Some line local_parse_range_def trim_lower range_value_lower del: split_once_None)
qed

lemma etag_unquoted:
  assumes "CHR 0x22 \<notin> set t"
  shows "trim_matches (CHR 0x22) (CHR 0x22 # t @ [CHR 0x22]) = t"
proof -
  have drop: "dropWhile ((=) (CHR 0x22)) x = x" if "CHR 0x22 \<notin> set x" for x :: string
    using that by (cases x) auto
  have "dropWhile ((=) (CHR 0x22)) (t @ [CHR 0x22]) = (if t = [] then [] else t @ [CHR 0x22])"
    using assms by (cases t) auto
  with assms drop [of "rev t"] show ?thesis by (simp add: trim_matches_def)
qed

lemma found_file:
  "find_file files path = (key, found) \<Longrightarrow>
    map_of (compute_etags E files) key = map_option (from_data E) found"
  by (auto simp: find_file_def compute_etags_def map_of_map split: option.splits if_splits)

text \<open>The same status line, content type and body, from a response of the publisher and one of the
  local server.\<close>

definition same_answer :: "ServeResponse \<Rightarrow> string \<times> bytes option \<Rightarrow> bool" where
  "same_answer r a =
     (case (resp_headers r, a) of
        ((name, ct) # _, head, body) \<Rightarrow>
          name = ''Content-Type'' \<and>
          starts_with (''HTTP/1.1 '' @ resp_status r @ CRLF @ ''Content-Type: '' @ ct @ CRLF) head \<and>
          resp_body r = (case body of Some bs \<Rightarrow> bs | None \<Rightarrow> [])
      | _ \<Rightarrow> False)"

definition same_outcome :: "ServeResponse res \<Rightarrow> (string \<times> bytes option) res \<Rightarrow> bool" where
  "same_outcome x y =
     (case (x, y) of
        (Inl e, Inl e') \<Rightarrow> e = e'
      | (Inr r, Inr a) \<Rightarrow> same_answer r a
      | _ \<Rightarrow> False)"

lemma same_outcome_simps [simp]:
  "same_outcome (Inl e) (Inl e') \<longleftrightarrow> e = e'" "same_outcome (Inr r) (Inr a) \<longleftrightarrow> same_answer r a"
  by (simp_all add: same_outcome_def)

lemma local_head [simp]:
  "starts_with (''HTTP/1.1 '' @ st @ CRLF @ ''Content-Type: '' @ ct @ CRLF) (local_push_header st ct len c @ rest)"
  by (cases len) (simp_all add: local_push_header_def starts_with_iff)

lemma same_answer_I:
  assumes "resp_headers r \<noteq> []" "hd (resp_headers r) = (''Content-Type'', ct)" "resp_status r = st"
    "resp_body r = (case body of Some bs \<Rightarrow> bs | None \<Rightarrow> [])"
  shows "same_answer r (local_push_header st ct len c @ rest, body)"
  using assms by (cases "resp_headers r") (simp_all add: same_answer_def del: append.simps append_assoc)

lemma same_not_modified:
  "same_answer (not_modified ct t) (local_push_header ''304 Not Modified'' ct None c @ rest, None)"
  by (rule same_answer_I) (simp_all add: not_modified_def)

lemma same_missing: "same_answer (missing_file ct) (error_response ''404 Not Found'' ct c 0, None)"
  unfolding error_response_def by (rule same_answer_I) (simp_all add: missing_file_def)

lemma same_range_answer: "same_answer (range_response ct t body spec) (local_range_response ct c u body spec)"
  unfolding local_range_response_def
  by (cases spec) (auto simp: range_response_def Let_def intro!: same_answer_I)

lemma same_full_answer:
  "same_answer (full_response gz a send ct t body) (local_full_response gz a send ct c u body)"
  unfolding local_full_response_def Let_def
  by (rule same_answer_I) (auto simp: full_response_def Let_def)

text \<open>Property C33. An app looks the same through an edge as on this machine: the same lines from a browser are
  one request to both servers; the edge's publisher and the local server panic alike, or answer with
  the same status line, content type and body.  Two headers are excepted, which the servers do read
  differently: a Range value with a colon of its own, an If-None-Match with spaces inside its quotes.\<close>

theorem same_app_through_edge:
  assumes "local_read_request es = Inr (Some (q, rest))"
    and "\<forall>line. lq_range q = Some line \<longrightarrow> count_list line CHR '':'' \<le> 1"
    and "\<forall>v. lq_none_match q = Some v \<longrightarrow> trim (trim_matches (CHR 0x22) v) = trim_matches (CHR 0x22) v"
    and "\<forall>bs. CHR 0x22 \<notin> set (hex_encode E bs)"
  shows "\<exists>rq. read_request es = Inr (Some (rq, rest)) \<and> close_after_response rq = lq_close q \<and>
    same_outcome (render_response E gz files (rq_method rq) (rq_path rq) (forwarded rq))
      (prepare_response gz q files (compute_etags E files))"
proof -
  from read_request_same [OF assms(1)] obtain rq h where rq: "read_request es = Inr (Some (rq, rest))"
    and same: "same_fields h q" and fields: "forwarded rq = forwarded_headers h"
      "close_after_response rq = hf_close h" "rq_method rq = lq_method q" "rq_path rq = lq_path q"
    by blast
  obtain key found where located: "find_file files (lq_path q) = (key, found)" by (cases "find_file files (lq_path q)")
  have tag: "map_of (compute_etags E files) key = map_option (from_data E) found"
    using found_file [OF located] .
  have range: "local_parse_range (lq_range q) len = parse_range (hf_range h) len" for len
    using same assms(2) by (intro parse_range_same) (auto simp: same_fields_def)
  define held where "held = (case map_option (from_data E) found of None \<Rightarrow> False
    | Some t \<Rightarrow> (case lq_none_match q of None \<Rightarrow> False | Some v \<Rightarrow> trim_matches (CHR 0x22) v = t))"
  have match: "etag_matches (map_option (etag E) found) (hf_none_match h) = held"
    using same assms(3, 4)
    by (auto simp: held_def etag_matches_def etag_def from_data_def etag_unquoted same_fields_def split: option.splits)
  have gzip: "hf_gzip h = lq_gzip q" using same by (simp add: same_fields_def)
  have "same_outcome (render_response E gz files (lq_method q) (lq_path q) (forwarded_headers h))
      (prepare_response gz q files (compute_etags E files))"
    unfolding render_response_def prepare_response_def find_file_def [symmetric] located Let_def prod.case
      tag forwarded_fields range match gzip held_def [symmetric]
    by (cases held; cases found; cases "lq_method q = ''GET''")
      (auto simp: same_not_modified same_missing same_range_answer same_full_answer
        split: option.split sum.split)
  with rq fields same show ?thesis by (auto simp: same_fields_def)
qed

lemma sample_hex_unquoted: "CHR 0x22 \<notin> set (sample_hex bs)"
proof -
  have digit: "CHR 0x22 \<noteq> hex_digit n" if "n < 16" for n
  proof
    assume "CHR 0x22 = hex_digit n"
    then have "(of_char (hex_digit n) :: nat) = 34" by (simp flip: \<open>CHR 0x22 = hex_digit n\<close>)
    with that show False by (auto simp: hex_digit_def split: if_splits)
  qed
  have "unat x div 16 < 16" for x :: byte
    using unsigned_less [of x, where ?'a = nat] by (simp add: less_mult_imp_div_less)
  with digit show ?thesis by (auto simp: sample_hex_def)
qed

definition ex_browser_lines :: "line_event list" where
  "ex_browser_lines = [Line (''GET /about?x=1 HTTP/1.1'' @ CRLF), Line (''Host: app.canopee.network'' @ CRLF),
     Line (''RANGE: Bytes=1-2'' @ CRLF), Line CRLF]"

theorem same_app_through_edge_witness:
  "\<exists>rq. read_request ex_browser_lines = Inr (Some (rq, [])) \<and> \<not> close_after_response rq \<and>
     same_outcome (render_response (sample_crypto ()) (\<lambda>_. None) [(''/'', [60, 104, 62])] (rq_method rq) (rq_path rq) (forwarded rq))
       (prepare_response (\<lambda>_. None) \<lparr> lq_method = ''GET'', lq_path = ''/about'', lq_close = False,
          lq_range = Some ''RANGE: Bytes=1-2'', lq_gzip = False, lq_none_match = None \<rparr> [(''/'', [60, 104, 62])]
          (compute_etags (sample_crypto ()) [(''/'', [60, 104, 62])]))"
proof -
  have "local_read_request ex_browser_lines = Inr (Some (\<lparr> lq_method = ''GET'', lq_path = ''/about'', lq_close = False,
          lq_range = Some ''RANGE: Bytes=1-2'', lq_gzip = False, lq_none_match = None \<rparr>, []))"
    by code_simp
  moreover have "\<forall>bs. CHR 0x22 \<notin> set (hex_encode (sample_crypto ()) bs)"
    by (simp add: sample_hex_unquoted)
  ultimately show ?thesis
    using same_app_through_edge [of ex_browser_lines _ "[]" "sample_crypto ()" "\<lambda>_. None" "[(''/'', [60, 104, 62])]"]
    by simp
qed

end
