(* ===== verification/App_Fetch.thy ===== *)
theory App_Fetch
  imports Sdk_Client Http
begin

text \<open>
  The client half of canopee-cli/src/app.rs: publishing a directory as the objects of an app, and
  fetching an app by its manifest.  The directory walk is the \<open>walkdir\<close> crate's: the argument \<open>walk\<close>
  gives its entries for the filter that the code passes, each file with what reading it gave.  The
  assets of an app are fetched one after the other, in the order of the manifest, where the code
  lets them race.  A client is as in \<open>Sdk_Client\<close>.
\<close>

section \<open>References of a page\<close>

fun after_first :: "'a list \<Rightarrow> 'a list \<Rightarrow> 'a list option" where
  "after_first p [] = strip_prefix p []"
| "after_first p (c # s) = (case strip_prefix p (c # s) of Some r \<Rightarrow> Some r | None \<Rightarrow> after_first p s)"

lemma after_first_Some: "after_first p s = Some r \<Longrightarrow> \<exists>pre. s = pre @ p @ r"
proof (induction p s rule: after_first.induct)
  case (2 p c s)
  show ?case
  proof (cases "strip_prefix p (c # s)")
    case None
    with 2 obtain pre where "s = pre @ p @ r" by auto
    then show ?thesis by (intro exI [of _ "c # pre"]) simp
  next
    case (Some a)
    with 2(2) have "c # s = [] @ p @ r" by simp
    then show ?thesis by blast
  qed
qed simp

text \<open>\<open>char::is_whitespace\<close>: the ASCII ones, and the UTF-8 forms of the others.\<close>

definition unicode_spaces :: "bytes list" where
  "unicode_spaces = [[0xC2, 0x85], [0xC2, 0xA0], [0xE1, 0x9A, 0x80]] @
     map (\<lambda>b. [0xE2, 0x80, b]) [0x80, 0x81, 0x82, 0x83, 0x84, 0x85, 0x86, 0x87, 0x88, 0x89, 0x8A, 0xA8, 0xA9, 0xAF] @
     [[0xE2, 0x81, 0x9F], [0xE3, 0x80, 0x80]]"

definition white_at :: "string \<Rightarrow> bool" where
  "white_at s = ((s \<noteq> [] \<and> is_space (hd s)) \<or> list_ex (\<lambda>w. starts_with (bytes_str w) s) unicode_spaces)"

definition is_quote :: "char \<Rightarrow> bool" where
  "is_quote c = (c = CHR 0x22 \<or> c = CHR 0x27)"

fun attribute_value :: "string \<Rightarrow> string" where
  "attribute_value [] = []"
| "attribute_value (c # s) =
     (if is_quote c \<or> c = CHR ''>'' \<or> white_at (c # s) then [] else c # attribute_value s)"

definition unquoted :: "string \<Rightarrow> string" where
  "unquoted s = (case s of [] \<Rightarrow> [] | c # r \<Rightarrow> if is_quote c then r else s)"

text \<open>The loop for one attribute, which is \<open>src=\<close> or \<open>href=\<close>; for the empty text it would not end.\<close>

function absolute_urls :: "string \<Rightarrow> string \<Rightarrow> string list" where
  "absolute_urls attr rest =
     (if attr = [] then [] else
      case after_first attr rest of
        None \<Rightarrow> []
      | Some after_attr \<Rightarrow>
          let val = attribute_value (unquoted after_attr)
          in (if starts_with ''/'' val \<and> \<not> starts_with ''//'' val then [val] else []) @
             absolute_urls attr after_attr)"
  by pat_completeness auto
termination
  by (relation "measure (\<lambda>(_, rest). length rest)") (auto dest: after_first_Some)

declare absolute_urls.simps [simp del]

definition find_absolute_urls :: "string \<Rightarrow> string list" where
  "find_absolute_urls html = concat (map (\<lambda>attr. absolute_urls attr html) [''src='', ''href=''])"

definition url_path :: "string \<Rightarrow> string" where
  "url_path v = takeWhile (\<lambda>c. c \<noteq> CHR ''?'' \<and> c \<noteq> CHR ''#'') v"

fun missing_paths :: "string list \<Rightarrow> (string \<times> ObjectId) list \<Rightarrow> string list \<Rightarrow> string list" where
  "missing_paths [] assts missing = missing"
| "missing_paths (v # vs) assts missing =
     (let key = url_path v in
      missing_paths vs assts
        (if map_of assts key = None \<and> key \<notin> set missing then missing @ [key] else missing))"

definition unpublished_asset_references :: "string \<Rightarrow> (string \<times> ObjectId) list \<Rightarrow> string list" where
  "unpublished_asset_references html assts = missing_paths (find_absolute_urls html) assts []"

section \<open>Publishing a directory\<close>

datatype walk_entry = WalkError string | WalkDirectory | WalkFile string "bytes res"

record published =
  pub_assets :: "(string \<times> ObjectId) list"
  pub_entrypoint :: "ObjectId option"
  pub_html :: "bytes option"

fun publish_files :: "'s client \<Rightarrow> walk_entry list \<Rightarrow> published \<Rightarrow> ('s, published) op" where
  "publish_files C [] p = ret p"
| "publish_files C (WalkError e # es) p = fail (Io e)"
| "publish_files C (WalkDirectory # es) p = publish_files C es p"
| "publish_files C (WalkFile relative contents # es) p =
     andThen (lift_res contents) (\<lambda>bs.
     andThen (sdk_put_public_file C relative bs) (\<lambda>oid.
       publish_files C es
         (if relative = ''index.html'' then p \<lparr> pub_entrypoint := Some oid, pub_html := Some bs \<rparr>
          else p \<lparr> pub_assets := AList.update (''/'' @ relative) oid (pub_assets p) \<rparr>)))"

definition visible_entry :: "string \<Rightarrow> bool" where
  "visible_entry name = (\<not> starts_with ''.'' name)"

definition check_page :: "bytes option \<Rightarrow> (string \<times> ObjectId) list \<Rightarrow> unit res" where
  "check_page html assts =
     (case Option.bind html from_utf8 of
        None \<Rightarrow> Inr ()
      | Some page \<Rightarrow>
          let missing = unpublished_asset_references page assts in
          if missing \<noteq> [] then
            Inl (Bail (''index.html references paths that were not published (maybe a non-root build base?): ''
              @ join '', '' missing @ '' '' @ bytes_str [0xE2, 0x80, 0x94]
              @ '' rebuild with `base: '/'` (Vite) or unset `homepage` (CRA) so assets are referenced from the repository root''))
          else Inr ())"

definition publish_directory ::
  "'s client \<Rightarrow> ((string \<Rightarrow> bool) \<Rightarrow> walk_entry list) \<Rightarrow> ('s, ObjectId \<times> (string \<times> ObjectId) list) op" where
  "publish_directory C walk =
     andThen (publish_files C (walk visible_entry) \<lparr> pub_assets = [], pub_entrypoint = None, pub_html = None \<rparr>) (\<lambda>p.
     andThen (lift_res (ok_or (pub_entrypoint p) (Bail ''portfolio has no index.html''))) (\<lambda>entry.
     andThen (lift_res (check_page (pub_html p) (pub_assets p))) (\<lambda>_. ret (entry, pub_assets p))))"

section \<open>Fetching an app\<close>

fun add_unless_known :: "string list \<Rightarrow> string list \<Rightarrow> string list" where
  "add_unless_known known [] = known"
| "add_unless_known known (p # ps) = add_unless_known (if p \<in> set known then known else known @ [p]) ps"

definition resolve_providers :: "'s client \<Rightarrow> ObjectId \<Rightarrow> string option \<Rightarrow> ('s, string list) op" where
  "resolve_providers C oid peer =
     andThen (sdk_find_providers C oid) (\<lambda>ps.
       ret (add_unless_known (case peer of Some p \<Rightarrow> [p] | None \<Rightarrow> []) ps))"

fun try_providers :: "'s client \<Rightarrow> ObjectId \<Rightarrow> error \<Rightarrow> string list \<Rightarrow> ('s, Object) op" where
  "try_providers C oid last_err [] = fail last_err"
| "try_providers C oid last_err (p # ps) =
     andThen (attempt (sdk_fetch_object C p oid)) (\<lambda>r.
       case r of
         Inr b \<Rightarrow>
           andThen (sdk_import C b) (\<lambda>_.
           andThen (attempt (sdk_announce C oid)) (\<lambda>_. sdk_get C oid))
       | Inl e \<Rightarrow> try_providers C oid e ps)"

definition app_get_or_fetch :: "'s client \<Rightarrow> ObjectId \<Rightarrow> string option \<Rightarrow> ('s, Object) op" where
  "app_get_or_fetch C oid peer =
     andThen (attempt (sdk_get C oid)) (\<lambda>r.
       case r of
         Inr ob \<Rightarrow> ret ob
       | Inl _ \<Rightarrow>
           andThen (resolve_providers C oid peer) (\<lambda>ps.
             if ps = [] then fail (Bail (''no providers found for '' @ oid @ ''; try passing --peer''))
             else try_providers C oid (Bail ''no providers available'') ps))"

fun fetch_assets ::
  "'s client \<Rightarrow> string option \<Rightarrow> (string \<times> ObjectId) list \<Rightarrow> (string \<times> bytes) list
   \<Rightarrow> ('s, (string \<times> bytes) list) op" where
  "fetch_assets C peer [] files = ret files"
| "fetch_assets C peer ((path, oid) # as) files =
     andThen (app_get_or_fetch C oid peer) (\<lambda>ob.
       fetch_assets C peer as (AList.update path (payload_data (payload ob)) files))"

definition fetch_app ::
  "'s client \<Rightarrow> (bytes \<Rightarrow> AppManifest option) \<Rightarrow> ObjectId \<Rightarrow> string option
   \<Rightarrow> ('s, AppManifest \<times> (string \<times> bytes) list) op" where
  "fetch_app C mdec manifest_id peer =
     andThen (app_get_or_fetch C manifest_id peer) (\<lambda>mo.
     andThen (lift_res (decode_data mdec mo)) (\<lambda>m.
     andThen (app_get_or_fetch C (entrypoint m) peer) (\<lambda>entry.
     andThen (fetch_assets C peer (assets m) [(''/'', payload_data (payload entry))]) (\<lambda>files.
       ret (m, files)))))"

section \<open>Facts\<close>

lemma white_ascii:
  assumes "(of_char c :: nat) < 128"
  shows "white_at (c # s) = is_space c"
proof -
  have "\<forall>w \<in> set unicode_spaces. w \<noteq> [] \<and> 128 \<le> unat (hd w)" by (simp add: unicode_spaces_def)
  moreover have "(of_char c :: nat) = unat (hd w)" if "starts_with (bytes_str w) (c # s)" "w \<noteq> []" for w
    using that unsigned_less [of "hd w", where ?'a = nat]
    by (cases w) (auto simp: starts_with_iff bytes_str_def of_char_of take_bit_eq_mod)
  ultimately have "\<not> list_ex (\<lambda>w. starts_with (bytes_str w) (c # s)) unicode_spaces"
    using assms by (force simp: list_ex_iff)
  then show ?thesis by (simp add: white_at_def)
qed

lemma after_first_None: "after_first p s = None \<Longrightarrow> s \<noteq> pre @ p @ r"
proof (induction s arbitrary: pre)
  case Nil
  then show ?case by (cases p) auto
next
  case (Cons c s)
  show ?case
  proof
    assume *: "c # s = pre @ p @ r"
    from Cons.prems have here: "strip_prefix p (c # s) = None" and later: "after_first p s = None"
      by (auto split: option.splits)
    from * here have "pre \<noteq> []" by auto
    with * obtain pre' where "s = pre' @ p @ r" by (cases pre) auto
    with Cons.IH [OF later, of pre'] show False by simp
  qed
qed

lemma after_first_least: "after_first p s = Some r \<Longrightarrow> s = pre @ p @ post \<Longrightarrow> length post \<le> length r"
proof (induction s arbitrary: pre)
  case Nil
  then show ?case by (cases p) auto
next
  case (Cons c s)
  show ?case
  proof (cases "strip_prefix p (c # s)")
    case None
    with Cons.prems(1) have later: "after_first p s = Some r" by simp
    from None Cons.prems(2) have "pre \<noteq> []" by auto
    with Cons.prems(2) obtain pre' where "s = pre' @ p @ post" by (cases pre) auto
    with Cons.IH [OF later] show ?thesis by blast
  next
    case (Some x)
    with Cons.prems(1) have "x = r" by (simp only: after_first.simps option.case option.inject)
    with Some Cons.prems(2) have "pre @ p @ post = p @ r" by simp
    then have "length (pre @ p @ post) = length (p @ r)" by (rule arg_cong)
    then show ?thesis by simp
  qed
qed

text \<open>A text that does not overlap itself.\<close>

definition apart :: "'a list \<Rightarrow> bool" where
  "apart p = (p \<noteq> [] \<and> (\<forall>u v. u \<noteq> [] \<and> u @ p = p @ v \<longrightarrow> length p \<le> length u))"

lemma next_occurrence:
  assumes "apart p" "after_first p s = Some r" "s = pre @ p @ post"
  shows "post = r \<or> (\<exists>pre'. r = pre' @ p @ post)"
proof -
  obtain pre0 where s: "s = pre0 @ p @ r" using after_first_Some [OF assms(2)] by blast
  have "length post \<le> length r" by (rule after_first_least [OF assms(2, 3)])
  moreover from s assms(3) have "length (pre0 @ p @ r) = length (pre @ p @ post)" by simp
  ultimately have le: "length pre0 \<le> length pre" by simp
  define u where "u = drop (length pre0) pre"
  have same: "pre0 @ p @ r = pre @ p @ post" using s assms(3) by simp
  from arg_cong [OF same, of "drop (length pre0)"] le have u: "p @ r = u @ p @ post" by (simp add: u_def)
  show ?thesis
  proof (cases "u = []")
    case True
    with u show ?thesis by simp
  next
    case False
    have "length r = length u + length post" using arg_cong [OF u, of length] by simp
    then have "u @ p = p @ take (length u) r"
      using arg_cong [OF u, of "take (length u + length p)"] by simp
    with assms(1) False have "length p \<le> length u" by (auto simp: apart_def)
    with arg_cong [OF u, of "drop (length p)"] have "r = drop (length p) u @ p @ post" by simp
    then show ?thesis by blast
  qed
qed

text \<open>So every occurrence of the attribute is looked at.\<close>

lemma absolute_urls_all:
  assumes "apart attr" "html = pre @ attr @ post" "val = attribute_value (unquoted post)"
    "starts_with ''/'' val" "\<not> starts_with ''//'' val"
  shows "val \<in> set (absolute_urls attr html)"
  using assms
proof (induction attr html arbitrary: pre rule: absolute_urls.induct)
  case (1 attr rest)
  have nonempty: "attr \<noteq> []" using "1.prems"(1) by (simp add: apart_def)
  show ?case
  proof (cases "after_first attr rest")
    case None
    with "1.prems"(2) after_first_None show ?thesis by blast
  next
    case (Some r)
    from next_occurrence [OF "1.prems"(1) Some "1.prems"(2)] show ?thesis
    proof
      assume "post = r"
      with Some nonempty "1.prems" show ?thesis by (subst absolute_urls.simps) (simp add: Let_def)
    next
      assume "\<exists>pre'. r = pre' @ attr @ post"
      with "1.IH" [OF nonempty Some] "1.prems" have "val \<in> set (absolute_urls attr r)" by blast
      with Some nonempty show ?thesis by (subst absolute_urls.simps) (simp add: Let_def)
    qed
  qed
qed

lemma attributes_apart: "apart ''src=''" "apart ''href=''"
  by (auto simp: apart_def Cons_eq_append_conv append_eq_Cons_conv Suc_le_eq)

lemma missing_paths_none: "missing_paths vs assts missing = [] \<longleftrightarrow>
    missing = [] \<and> (\<forall>v \<in> set vs. map_of assts (url_path v) \<noteq> None)"
  by (induction vs assts missing rule: missing_paths.induct) (auto simp: Let_def)

lemma publish_file_Inr:
  "publish_files C (WalkFile relative contents # es) p s = (s', Inr q) \<longleftrightarrow>
    (\<exists>bs oid s1. contents = Inr bs \<and> sdk_put_public_file C relative bs s = (s1, Inr oid) \<and>
      publish_files C es
        (if relative = ''index.html'' then p \<lparr> pub_entrypoint := Some oid, pub_html := Some bs \<rparr>
         else p \<lparr> pub_assets := AList.update (''/'' @ relative) oid (pub_assets p) \<rparr>) s1 = (s', Inr q))"
  unfolding publish_files.simps andThen_Inr lift_res_apply prod.inject by metis

lemma publish_files_page:
  assumes "publish_files C es p s = (s', Inr q)" "\<And>c. WalkFile ''index.html'' c \<in> set es \<Longrightarrow> c = Inr bs"
    "pub_html p = Some bs \<or> (\<exists>c. WalkFile ''index.html'' c \<in> set es)"
  shows "pub_html q = Some bs"
  using assms
proof (induction es arbitrary: s p)
  case (Cons e es)
  show ?case
  proof (cases e)
    case (WalkFile relative contents)
    with Cons.prems(1) obtain bs' oid s1 where "contents = Inr bs'"
      and rest: "publish_files C es
        (if relative = ''index.html'' then p \<lparr> pub_entrypoint := Some oid, pub_html := Some bs' \<rparr>
         else p \<lparr> pub_assets := AList.update (''/'' @ relative) oid (pub_assets p) \<rparr>) s1 = (s', Inr q)"
      by (auto simp: publish_file_Inr simp del: publish_files.simps split del: if_split)
    with WalkFile Cons.prems(2, 3) show ?thesis by (intro Cons.IH [OF rest]) auto
  qed (use Cons in auto)
qed auto

lemma publish_files_assets:
  "publish_files C es p s = (s', Inr q) \<Longrightarrow>
    fst ` set (pub_assets q) =
      fst ` set (pub_assets p) \<union> {''/'' @ rel | rel c. WalkFile rel c \<in> set es \<and> rel \<noteq> ''index.html''}"
proof (induction es arbitrary: s p)
  case (Cons e es)
  show ?case
  proof (cases e)
    case (WalkFile relative contents)
    with Cons.prems obtain bs oid s1 where "contents = Inr bs"
      and rest: "publish_files C es
        (if relative = ''index.html'' then p \<lparr> pub_entrypoint := Some oid, pub_html := Some bs \<rparr>
         else p \<lparr> pub_assets := AList.update (''/'' @ relative) oid (pub_assets p) \<rparr>) s1 = (s', Inr q)"
      by (auto simp: publish_file_Inr simp del: publish_files.simps split del: if_split)
    with Cons.IH [OF rest] WalkFile show ?thesis by (auto simp: dom_update split: if_splits)
  qed (use Cons in auto)
qed auto

lemma page_reference_published:
  assumes "publish_directory C walk s = (s', Inr (entry, assts))"
    and "WalkFile ''index.html'' contents \<in> set (walk visible_entry)"
    and "\<forall>c. WalkFile ''index.html'' c \<in> set (walk visible_entry) \<longrightarrow> c = Inr (str_bytes (pre @ attr @ post))"
    and "utf8_valid (str_bytes (pre @ attr @ post))" "attr = ''src='' \<or> attr = ''href=''"
    and "val = attribute_value (unquoted post)" "starts_with ''/'' val" "\<not> starts_with ''//'' val"
  shows "fst ` set assts = {''/'' @ rel | rel c. WalkFile rel c \<in> set (walk visible_entry) \<and> rel \<noteq> ''index.html''} \<and>
    map_of assts (url_path val) \<noteq> None"
proof -
  let ?html = "pre @ attr @ post"
  from assms(1) obtain p s1 where files: "publish_files C (walk visible_entry)
      \<lparr> pub_assets = [], pub_entrypoint = None, pub_html = None \<rparr> s = (s1, Inr p)"
    and checked: "check_page (pub_html p) (pub_assets p) = Inr ()" and assts: "assts = pub_assets p"
    by (auto simp: publish_directory_def andThen_Inr)
  have "pub_html p = Some (str_bytes ?html)"
    using assms(2, 3) by (intro publish_files_page [OF files]) auto
  with assms(4) checked have none: "unpublished_asset_references ?html (pub_assets p) = []"
    by (auto simp: check_page_def from_utf8_def Let_def split: if_splits)
  have "val \<in> set (absolute_urls attr ?html)"
    using assms(5-8) attributes_apart by (intro absolute_urls_all [of attr _ pre post]) auto
  then have "val \<in> set (find_absolute_urls ?html)" using assms(5) by (auto simp: find_absolute_urls_def)
  with none publish_files_assets [OF files] show ?thesis
    by (auto simp: unpublished_asset_references_def missing_paths_none assts)
qed

text \<open>Property C34. An accepted directory becomes the assets of exactly its files other than \<open>index.html\<close>, and
  the page has no dangling reference: wherever it says \<open>src=\<close> or \<open>href=\<close> with an absolute path, the
  path without its query or fragment is one of those assets.\<close>

theorem published_page_resolves:
  assumes "publish_directory C walk s = (s', Inr (entry, assts))"
    and "WalkFile ''index.html'' contents \<in> set (walk visible_entry)"
    and "\<forall>c. WalkFile ''index.html'' c \<in> set (walk visible_entry) \<longrightarrow> c = Inr (str_bytes (pre @ attr @ post))"
    and "utf8_valid (str_bytes (pre @ attr @ post))" "attr = ''src='' \<or> attr = ''href=''"
    and "val = attribute_value (unquoted post)" "starts_with ''/'' val" "\<not> starts_with ''//'' val"
  shows "fst ` set assts = {''/'' @ rel | rel c. WalkFile rel c \<in> set (walk visible_entry) \<and> rel \<noteq> ''index.html''} \<and>
    map_of assts (url_path val) \<noteq> None"
  using assms by (rule page_reference_published)

definition ex_site :: "(string \<Rightarrow> bool) \<Rightarrow> walk_entry list" where
  "ex_site keep = [WalkDirectory, WalkFile ''a'' (Inr [1]), WalkFile ''index.html'' (Inr (str_bytes ''<img src=/a?1>''))]"

definition ex_counting_client :: "nat client" where
  "ex_counting_client = \<lparr> sdk_request = (\<lambda>_ n. (Suc n, Inr (RspObjectCreated (nat_str n)))), debug_text = (\<lambda>_. []) \<rparr>"

lemma ex_page_references: "find_absolute_urls ''<img src=/a?1>'' = [''/a?1'']"
  by (simp add: find_absolute_urls_def absolute_urls.simps white_ascii is_space_def is_quote_def unquoted_def
      starts_with_iff)

lemma ex_site_publishes:
  "publish_directory ex_counting_client ex_site 0 = (2, Inr (nat_str 1, [(''/a'', nat_str 0)]))"
proof -
  have "check_page (Some (str_bytes ''<img src=/a?1>'')) [(''/a'', t)] = Inr ()" for t
    by (simp add: check_page_def unpublished_asset_references_def ex_page_references url_path_def is_ascii_def)
  then show ?thesis
    by (simp add: publish_directory_def ex_site_def ex_counting_client_def sdk_put_public_file_def
        sdk_put_object_public_def expecting_def created_id_def andThen_apply)
qed

theorem published_page_resolves_witness:
  "publish_directory ex_counting_client ex_site 0 = (2, Inr (nat_str 1, [(''/a'', nat_str 0)])) \<and>
   fst ` set [(''/a'', nat_str 0)] =
     {''/'' @ rel | rel c. WalkFile rel c \<in> set (ex_site visible_entry) \<and> rel \<noteq> ''index.html''} \<and>
   map_of [(''/a'', nat_str 0)] (url_path ''/a?1'') \<noteq> None"
proof (intro conjI ex_site_publishes)
  have page: "WalkFile ''index.html'' (Inr (str_bytes ''<img src=/a?1>'')) \<in> set (ex_site visible_entry)"
    "\<forall>c. WalkFile ''index.html'' c \<in> set (ex_site visible_entry) \<longrightarrow>
      c = Inr (str_bytes (''<img '' @ ''src='' @ ''/a?1>''))"
    "utf8_valid (str_bytes (''<img '' @ ''src='' @ ''/a?1>''))"
    by (simp_all add: ex_site_def utf8_valid_ascii is_ascii_def)
  have val: "''/a?1'' = attribute_value (unquoted ''/a?1>'')"
    by (simp add: white_ascii is_space_def is_quote_def unquoted_def)
  note found = published_page_resolves [OF ex_site_publishes page(1, 2, 3) _ val]
  show "fst ` set [(''/a'', nat_str 0)] =
     {''/'' @ rel | rel c. WalkFile rel c \<in> set (ex_site visible_entry) \<and> rel \<noteq> ''index.html''}"
    using found by (simp add: starts_with_iff)
  show "map_of [(''/a'', nat_str 0)] (url_path ''/a?1'') \<noteq> None"
    using found by (simp add: starts_with_iff)
qed

text \<open>A home link is such a reference, and no file of the directory becomes the asset \<open>/\<close>: a page with
  an ordinary \<open>href="/"\<close> cannot be published.\<close>

theorem home_link_blocks_publishing:
  assumes "WalkFile ''index.html'' contents \<in> set (walk visible_entry)"
    and "\<forall>c. WalkFile ''index.html'' c \<in> set (walk visible_entry) \<longrightarrow>
      c = Inr (str_bytes (pre @ ''href='' @ [CHR 0x22, CHR ''/'', CHR 0x22] @ post))"
    and "utf8_valid (str_bytes (pre @ ''href='' @ [CHR 0x22, CHR ''/'', CHR 0x22] @ post))"
    and "\<forall>c. WalkFile [] c \<notin> set (walk visible_entry)"
  shows "\<not> is_ok (snd (publish_directory C walk s))"
proof
  assume "is_ok (snd (publish_directory C walk s))"
  then obtain s' entry assts where ok: "publish_directory C walk s = (s', Inr (entry, assts))"
    by (cases "publish_directory C walk s") (auto simp: is_ok_iff)
  have val: "''/'' = attribute_value (unquoted ([CHR 0x22, CHR ''/'', CHR 0x22] @ post))"
    by (simp add: unquoted_def is_quote_def white_ascii is_space_def)
  from page_reference_published [OF ok assms(1-3) _ val]
  have paths: "fst ` set assts = {''/'' @ rel | rel c. WalkFile rel c \<in> set (walk visible_entry) \<and> rel \<noteq> ''index.html''}"
    and "map_of assts ''/'' \<noteq> None"
    by (auto simp: starts_with_iff url_path_def)
  then have "''/'' \<in> fst ` set assts" by (simp add: map_of_eq_None_iff)
  with assms(4) show False unfolding paths by auto
qed

text \<open>What is served of a fetched app: its entrypoint at \<open>/\<close>, and the paths of the manifest.\<close>

lemma fetch_assets_paths:
  "fetch_assets C peer as files s = (s', Inr out) \<Longrightarrow> fst ` set out = fst ` set files \<union> fst ` set as"
proof (induction C peer as files arbitrary: s rule: fetch_assets.induct)
  case (2 C peer path oid as files)
  then obtain s1 and ob :: Object where
    "fetch_assets C peer as (AList.update path (payload_data (payload ob)) files) s1 = (s', Inr out)"
    by (auto simp: andThen_Inr)
  from "2.IH" [OF this] show ?case by (simp add: dom_update)
qed simp

theorem fetched_app_paths:
  assumes "fetch_app C mdec manifest_id peer s = (s', Inr (m, files))"
  shows "fst ` set files = insert ''/'' (fst ` set (assets m))"
proof -
  from assms obtain s1 and entry :: Object where
    "fetch_assets C peer (assets m) [(''/'', payload_data (payload entry))] s1 = (s', Inr files)"
    by (auto simp: fetch_app_def andThen_Inr)
  from fetch_assets_paths [OF this] show ?thesis by simp
qed

end
