(* ===== verification/Command_Line.thy ===== *)
theory Command_Line
  imports App_Fetch Config_Uri
begin

text \<open>
  canopee-cli/src/commands: what the commands ask of the node, one operation over the client for each
  helper that several steps of a command share; \<open>Command_Run\<close> and \<open>Command_Main\<close> build the commands
  from them.  The codecs, \<open>Display\<close> of an error and \<open>str::to_lowercase\<close> are fields of \<open>clienv\<close>;
  messages leave out the text of a codec's own error.
\<close>

record clienv = objenv +
  cli_manifest :: "AppManifest codec"
  cli_exported_cap :: "ExportCapability codec"
  cli_pairing_qr :: "PairingQrData codec"
  cli_b64_encode :: "bytes \<Rightarrow> string"
  cli_b64_decode :: "string \<Rightarrow> bytes option"
  error_display :: "error \<Rightarrow> string"
  unicode_lower :: "string \<Rightarrow> string"

section \<open>Names, ids and peers\<close>

text \<open>\<open>Path::file_name\<close> of a relative or absolute path: its last component, unless that is \<open>..\<close>.\<close>

definition file_name_of :: "string \<Rightarrow> string option" where
  "file_name_of path =
     (let parts = filter (\<lambda>c. c \<noteq> [] \<and> c \<noteq> ''.'') (split_all CHR ''/'' path) in
      if parts = [] \<or> last parts = ''..'' then None else Some (last parts))"

definition is_hexdigit :: "char \<Rightarrow> bool" where
  "is_hexdigit c = (let n = (of_char c :: nat) in
     (48 \<le> n \<and> n \<le> 57) \<or> (65 \<le> n \<and> n \<le> 70) \<or> (97 \<le> n \<and> n \<le> 102))"

definition looks_like_id :: "string \<Rightarrow> bool" where
  "looks_like_id s = (length s = 64 \<and> list_all is_hexdigit s)"

definition resolve_object_arg :: "'s client \<Rightarrow> string \<Rightarrow> ('s, ObjectId \<times> string) op" where
  "resolve_object_arg C arg =
     (if looks_like_id arg then ret (arg, arg)
      else andThen (sdk_list C) (\<lambda>infos.
        let named = map info_id (filter (\<lambda>i. info_name i = Some arg) infos) in
        andThen
          (if named = [] then
             andThen (sdk_load_home_index C) (\<lambda>index.
               ret (case index of
                      Some ix \<Rightarrow> map home_object (filter (\<lambda>e. home_name e = arg) (home_entries ix))
                    | None \<Rightarrow> []))
           else ret named)
          (\<lambda>matches.
            case matches of
              [] \<Rightarrow> fail (Bail (''no local object named '' @ [CHR 0x22] @ arg @ [CHR 0x22]
                @ '' (put it first with `canopee put`, then try again '' @ bytes_str [0xE2, 0x80, 0x94]
                @ '' or pass the 64-char id)''))
            | [m] \<Rightarrow> ret (m, arg)
            | _ \<Rightarrow> fail (Bail (''ambiguous: '' @ nat_str (length matches) @ '' local objects are named ''
                @ [CHR 0x22] @ arg @ [CHR 0x22] @ '' '' @ bytes_str [0xE2, 0x80, 0x94]
                @ '' pass the 64-char id to disambiguate'')))))"

definition object_name :: "'s client \<Rightarrow> string \<Rightarrow> ('s, string option) op" where
  "object_name C oid =
     andThen (attempt (sdk_list C)) (\<lambda>r.
       ret (case r of
              Inl _ \<Rightarrow> None
            | Inr infos \<Rightarrow> Option.bind (find (\<lambda>i. info_id i = oid) infos) info_name))"

text \<open>Slicing inside a character panics.\<close>

definition short_peer_id :: "string \<Rightarrow> string res" where
  "short_peer_id p =
     (if length p \<le> 12 + 4 + 1 then Inr p
      else if \<not> char_boundary 12 p \<or> \<not> char_boundary (length p - 4) p then
        Inl (Panic ''byte index is not a char boundary'')
      else Inr (take 12 p @ bytes_str [0xE2, 0x80, 0xA6] @ drop (length p - 4) p))"

definition hex_preview :: "bytes \<Rightarrow> string" where
  "hex_preview bs =
     join '' '' (map (\<lambda>b. [hex_digit (unat b div 16), hex_digit (unat b mod 16)]) (take 8 bs))"

definition resolve_owner_arg :: "'s client \<Rightarrow> string \<Rightarrow> ('s, IdentityId \<times> string) op" where
  "resolve_owner_arg C argument =
     (let arg = trim argument in
      if starts_with ''12D3KooW'' arg then ret (''canopee://identity/'' @ arg, arg)
      else andThen
        (case strip_prefix ''canopee://identity/'' arg of
           Some peer \<Rightarrow> ret (Some (''canopee://identity/'' @ peer))
         | None \<Rightarrow> sdk_resolve_username C arg) (\<lambda>owner.
        case owner of
          None \<Rightarrow> fail (Bail ([CHR 0x22] @ arg @ [CHR 0x22] @ '' is not a valid peer id, and no username ''
            @ [CHR 0x22] @ arg @ [CHR 0x22] @ '' is claimed (check with `canopee username lookup '' @ arg @ ''`)''))
        | Some i \<Rightarrow>
            andThen (sdk_resolve_owner_device C i) (\<lambda>device.
              case device of
                Some d \<Rightarrow> ret (i, d)
              | None \<Rightarrow>
                  (case strip_prefix ''canopee://identity/'' i of
                     Some peer \<Rightarrow> ret (i, peer)
                   | None \<Rightarrow> fail (Bail (''cannot resolve '' @ [CHR 0x22] @ arg @ [CHR 0x22] @ '' to a dialable peer''))))))"

definition resolve_peer_arg :: "'s client \<Rightarrow> string \<Rightarrow> ('s, string) op" where
  "resolve_peer_arg C arg = andThen (resolve_owner_arg C arg) (\<lambda>(_, device). ret device)"

section \<open>Apps\<close>

definition is_alnum :: "char \<Rightarrow> bool" where
  "is_alnum c = (let n = (of_char c :: nat) in
     (48 \<le> n \<and> n \<le> 57) \<or> (65 \<le> n \<and> n \<le> 90) \<or> (97 \<le> n \<and> n \<le> 122))"

text \<open>One dash for every other character: continuation bytes are part of the character before.\<close>

definition app_name_from_directory :: "'m clienv_scheme \<Rightarrow> string \<Rightarrow> string" where
  "app_name_from_directory X directory =
     map (\<lambda>c. if is_alnum c \<or> c = CHR ''-'' \<or> c = CHR ''_'' \<or> c = CHR ''.'' then c else CHR ''-'')
       (filter (\<lambda>c. \<not> in_range 128 191 (of_nat (of_char c)))
         (unicode_lower X (case file_name_of directory of Some n \<Rightarrow> n | None \<Rightarrow> ''app'')))"

definition app_manifest ::
  "'m clienv_scheme \<Rightarrow> 's client \<Rightarrow> ((string \<Rightarrow> bool) \<Rightarrow> walk_entry list) \<Rightarrow> string \<Rightarrow> ('s, ObjectId) op" where
  "app_manifest X C walk name =
     andThen (publish_directory C walk) (\<lambda>(entry, assts).
     andThen (sdk_identity C) (\<lambda>identity.
     let manifest = \<lparr> manifest_name = name, manifest_owner = identity, entrypoint = entry, assets = assts \<rparr>
     in andThen (sdk_put_object_public C (enc (cli_manifest X) manifest) AppManifestT (Some name)) (\<lambda>mid.
        andThen (each (sdk_announce C) (mid # entry # map snd assts)) (\<lambda>_.
        andThen (sdk_publish_app_pointer C name mid) (\<lambda>_. ret mid)))))"

text \<open>A fetched app, as it is handed to the local server.\<close>

datatype opened = ServeApp AppManifest "(string \<times> bytes) list"

definition serve_app_on_http ::
  "'m clienv_scheme \<Rightarrow> 's client \<Rightarrow> ObjectId \<Rightarrow> string option \<Rightarrow> ('s, opened) op" where
  "serve_app_on_http X C mid peer =
     andThen (fetch_app C (dec (cli_manifest X)) mid peer) (\<lambda>(m, files). ret (ServeApp m files))"

text \<open>Where the copy of an opened file is written.\<close>

definition temp_file_path :: "string \<Rightarrow> string \<Rightarrow> string" where
  "temp_file_path temp_dir name =
     path_join (path_join temp_dir ''canopee-open'') (case file_name_of name of Some n \<Rightarrow> n | None \<Rightarrow> ''object'')"

section \<open>Objects\<close>

definition import_idempotent :: "'m clienv_scheme \<Rightarrow> 's client \<Rightarrow> ExportBundle \<Rightarrow> ('s, unit) op" where
  "import_idempotent X C b =
     andThen (attempt (sdk_import C b)) (\<lambda>r.
       case r of
         Inr _ \<Rightarrow> ret ()
       | Inl e \<Rightarrow> if contains ''already exists'' (error_display X e) then ret () else fail e)"

section \<open>Sharing\<close>

definition find_contact :: "ContactList \<Rightarrow> string \<Rightarrow> Contact option" where
  "find_contact l arg =
     (case find (\<lambda>c. contact_name c = arg) (contacts l) of
        Some c \<Rightarrow> Some c
      | None \<Rightarrow> find (\<lambda>c. contact_peer_id c = arg) (contacts l))"

fun contact_keys :: "ContactList \<Rightarrow> string list \<Rightarrow> bytes list res" where
  "contact_keys l [] = Inr []"
| "contact_keys l (arg # args) =
     (case find_contact l arg of
        None \<Rightarrow> Inl (Bail (''no contact matches '' @ [CHR 0x22] @ arg @ [CHR 0x22] @ ''. Known contacts: ''
          @ (if contacts l = [] then ''none'' else join '', '' (map contact_name (contacts l)))))
      | Some c \<Rightarrow> res_bind (contact_keys l args) (\<lambda>ks. Inr (contact_dh_key c # ks)))"

definition cli_recipient_keys :: "'s client \<Rightarrow> string list \<Rightarrow> ('s, bytes list) op" where
  "cli_recipient_keys C wanted =
     (if wanted = [] then ret []
      else andThen (sdk_load_contact_list C) (\<lambda>r.
        case r of
          None \<Rightarrow> fail (Bail ''--to needs contacts, but you have no contact list yet. Add the person with `canopee contact add <name> <peer-id> <dh-key>` first.'')
        | Some l \<Rightarrow> lift_res (contact_keys l wanted)))"

fun set_contact :: "string \<Rightarrow> string \<Rightarrow> bytes \<Rightarrow> Contact list \<Rightarrow> Contact list" where
  "set_contact name peer key [] =
     [\<lparr> contact_name = name, contact_peer_id = peer, contact_dh_key = key, contact_note = None \<rparr>]"
| "set_contact name peer key (c # cs) =
     (if contact_name c = name then c \<lparr> contact_peer_id := peer, contact_dh_key := key \<rparr> # cs
      else c # set_contact name peer key cs)"

definition contact_add :: "'m clienv_scheme \<Rightarrow> 's client \<Rightarrow> string \<Rightarrow> string \<Rightarrow> string \<Rightarrow> ('s, unit) op" where
  "contact_add X C name peer dh_key_b64 =
     (case cli_b64_decode X (trim dh_key_b64) of
        None \<Rightarrow> fail (Bail ''the DH key must be base64'')
      | Some key \<Rightarrow>
          if length key \<noteq> 32 then fail (Bail ''the DH key must decode to exactly 32 bytes'')
          else andThen (attempt (sdk_load_contact_list C)) (\<lambda>r.
            let l = (case r of Inr (Some l) \<Rightarrow> l | _ \<Rightarrow> \<lparr> contacts = [], contacts_version = 0 \<rparr>) in
            andThen (sdk_save_contact_list C
              \<lparr> contacts = set_contact name peer key (contacts l), contacts_version = contacts_version l + 1 \<rparr>)
              (\<lambda>_. ret ())))"

section \<open>Capabilities\<close>

definition cap_grant ::
  "'m clienv_scheme \<Rightarrow> 's client \<Rightarrow> string \<Rightarrow> string \<Rightarrow> bool \<Rightarrow> bool \<Rightarrow> bool \<Rightarrow> u64 option
   \<Rightarrow> ('s, Capability \<times> string) op" where
  "cap_grant X C subject resource rd wr pub expires =
     (let perms = (if rd then [Read] else []) @ (if wr then [Write] else []) @ (if pub then [Publish] else []) in
      if perms = [] then fail (Bail ''grant at least one of --read, --write, --publish'')
      else andThen (lift_res (resource_parse resource)) (\<lambda>res.
        andThen (sdk_grant_capability C subject res perms expires) (\<lambda>cap.
          ret (cap, cli_b64_encode X (enc (cli_exported_cap X) (cap_export cap))))))"

text \<open>Without \<open>true\<close> from the node the command leaves with status 1.\<close>

definition cap_check_bundle :: "'m clienv_scheme \<Rightarrow> 's client \<Rightarrow> string \<Rightarrow> ('s, bool \<times> string) op" where
  "cap_check_bundle X C bundle_b64 =
     (case cli_b64_decode X (trim bundle_b64) of
        None \<Rightarrow> fail (Bail ''invalid base64 bundle'')
      | Some bs \<Rightarrow>
          (case dec (cli_exported_cap X) bs of
             None \<Rightarrow> fail (Bail ''cannot decode capability bundle'')
           | Some exported \<Rightarrow> sdk_check_capability C (export_cap exported)))"

definition cap_check_access ::
  "'s client \<Rightarrow> string option \<Rightarrow> string option \<Rightarrow> string option \<Rightarrow> ('s, bool) op" where
  "cap_check_access C subject permission resource =
     (case subject of
        None \<Rightarrow> fail (Bail ''pass a bundle, or --subject with --permission and --resource'')
      | Some s \<Rightarrow>
     (case permission of
        None \<Rightarrow> fail (Bail ''--permission required (read|write|publish)'')
      | Some p \<Rightarrow>
     (case resource of
        None \<Rightarrow> fail (Bail ''--resource required (object:<id>|channel:<topic>|shared:<owner>:<name>)'')
      | Some r \<Rightarrow>
     (case permission_parse p of
        None \<Rightarrow> fail (Bail (''unknown permission '' @ [CHR 0x22] @ p @ [CHR 0x22]))
      | Some perm \<Rightarrow> andThen (lift_res (resource_parse r)) (\<lambda>res. sdk_check_access C s perm res)))))"

section \<open>Facts\<close>

lemma split_all_parts: "p \<in> set (split_all c s) \<Longrightarrow> c \<notin> set p"
  by (induction s arbitrary: p) (auto split: list.splits if_splits)

text \<open>The copy of an opened object stays in its directory, whatever name a peer gave the object.\<close>

theorem opened_file_stays:
  "\<exists>n. temp_file_path temp_dir name = temp_dir @ ''/canopee-open/'' @ n \<and>
     CHR ''/'' \<notin> set n \<and> n \<notin> {[], ''.'', ''..''}"
proof (cases "file_name_of name")
  case None
  then show ?thesis by (intro exI [of _ "''object''"]) (simp add: temp_file_path_def path_join_def)
next
  case (Some n)
  let ?parts = "filter (\<lambda>c. c \<noteq> [] \<and> c \<noteq> ''.'') (split_all CHR ''/'' name)"
  from Some have "?parts \<noteq> []" "n = last ?parts" "n \<noteq> ''..''"
    by (simp_all add: file_name_of_def Let_def split: if_splits)
  then have "n \<in> set ?parts" using last_in_set by blast
  with Some \<open>n \<noteq> ''..''\<close> show ?thesis
    by (intro exI [of _ n]) (auto simp: temp_file_path_def path_join_def dest: split_all_parts)
qed

text \<open>A name for an app has only characters that need no escape.\<close>

theorem app_name_is_plain:
  "c \<in> set (app_name_from_directory X directory) \<Longrightarrow> is_alnum c \<or> c \<in> set ''-_.''"
  by (auto simp: app_name_from_directory_def split: if_splits)

lemma one_match:
  "(case ms of [] \<Rightarrow> fail a | [m] \<Rightarrow> ret (m, arg) | _ \<Rightarrow> fail b) s = (s', Inr (oid, shown)) \<longleftrightarrow>
    ms = [oid] \<and> s' = s \<and> shown = arg"
  by (auto split: list.split)

text \<open>An object argument is an id, or a name that the listing or else the home index gives to exactly one
  entry.\<close>

theorem resolved_object_is_named:
  assumes "resolve_object_arg C arg s = (s', Inr (oid, shown))"
  shows "shown = arg \<and> (looks_like_id arg \<and> oid = arg \<or>
    (\<exists>s1 infos. sdk_list C s = (s1, Inr infos) \<and> map info_id (filter (\<lambda>i. info_name i = Some arg) infos) = [oid]) \<or>
    (\<exists>s1 index. sdk_load_home_index C s1 = (s', Inr (Some index)) \<and>
       map home_object (filter (\<lambda>e. home_name e = arg) (home_entries index)) = [oid]))"
  using assms
  by (auto simp: resolve_object_arg_def andThen_Inr one_match Let_def split: if_splits option.splits)
    (metis list.simps(8) list.simps(9))

text \<open>When the contact list cannot be loaded, adding a contact saves a list that holds nobody else.\<close>

theorem contact_add_forgets:
  assumes "cli_b64_decode X (trim key64) = Some key" "length key = 32"
    and "sdk_load_contact_list C s = (s1, Inl e)"
  shows "contact_add X C name peer key64 s = andThen (sdk_save_contact_list C
    \<lparr> contacts = [\<lparr> contact_name = name, contact_peer_id = peer, contact_dh_key = key, contact_note = None \<rparr>],
       contacts_version = 1 \<rparr>) (\<lambda>_. ret ()) s1"
  using assms by (simp add: contact_add_def andThen_apply)

end
