(* ===== verification/App_Round_Trip.thy ===== *)
theory App_Round_Trip
  imports Command_Line Node_Safety
begin

text \<open>
  An app that was published from a directory is opened with the bytes of the directory.  The interface
  \<open>app_store\<close> says what the command line needs of a node: what was put is got, and nothing that
  publishing asks for takes it away.  The node is such a store as long as the payloads it signs have
  different ids, whatever its clock, its host and the network do between the requests.
\<close>

section \<open>The file map of a directory\<close>

definition served_path :: "string \<Rightarrow> string" where
  "served_path rel = (if rel = ''index.html'' then ''/'' else ''/'' @ rel)"

fun site_map :: "walk_entry list \<Rightarrow> (string \<times> bytes) list \<Rightarrow> (string \<times> bytes) list" where
  "site_map [] files = files"
| "site_map (WalkFile rel (Inr bs) # es) files = site_map es (AList.update (served_path rel) bs files)"
| "site_map (_ # es) files = site_map es files"

text \<open>What publishing asks for beside the puts.\<close>

fun quiet :: "NodeCommand \<Rightarrow> bool" where
  "quiet CmdIdentity = True"
| "quiet (CmdAnnounce _) = True"
| "quiet (CmdPublishAppPointer _ _) = True"
| "quiet _ = False"

locale app_store =
  fixes C :: "'s client" and holds :: "'s \<Rightarrow> ObjectId \<Rightarrow> bytes \<Rightarrow> bool" and plain :: "bytes \<Rightarrow> ObjectType \<Rightarrow> bool"
  assumes put: "sdk_put_object_public C bs ty name s = (s', Inr oid) \<Longrightarrow> plain bs ty \<Longrightarrow>
      holds s' oid bs \<and> (\<forall>i b. holds s i b \<longrightarrow> holds s' i b)"
    and calm: "quiet c \<Longrightarrow> holds s i b \<Longrightarrow> holds (fst (sdk_request C c s)) i b"
    and get: "holds s i b \<Longrightarrow> \<exists>s' ob. sdk_get C i s = (s', Inr ob) \<and> payload_data (payload ob) = b \<and>
      (\<forall>j a. holds s j a \<longrightarrow> holds s' j a)"
begin

text \<open>The files published so far, and the file map of the directory so far.\<close>

definition stands_for :: "'s \<Rightarrow> published \<Rightarrow> (string \<times> bytes) list \<Rightarrow> bool" where
  "stands_for s p files =
     (rel_option (holds s) (pub_entrypoint p) (map_of files ''/'') \<and>
      map_of (pub_assets p) ''/'' = None \<and>
      (\<forall>path. path \<noteq> ''/'' \<longrightarrow> rel_option (holds s) (map_of (pub_assets p) path) (map_of files path)) \<and>
      distinct (map fst (pub_assets p)))"

lemma stands_mono:
  "stands_for s p files \<Longrightarrow> (\<And>i b. holds s i b \<Longrightarrow> holds s' i b) \<Longrightarrow> stands_for s' p files"
  by (auto simp: stands_for_def elim!: option.rel_mono_strong)

lemma files_published:
  assumes "publish_files C es p s = (s', Inr q)" "stands_for s p files"
    "\<forall>rel bs. WalkFile rel (Inr bs) \<in> set es \<longrightarrow> plain bs Blob \<and> rel \<noteq> []"
  shows "stands_for s' q (site_map es files)"
  using assms
proof (induction es arbitrary: s p files)
  case (Cons e es)
  show ?case
  proof (cases e)
    case (WalkFile rel contents)
    with Cons.prems(1) obtain bs oid s1 where bs: "contents = Inr bs"
      and put_one: "sdk_put_public_file C rel bs s = (s1, Inr oid)"
      and rest: "publish_files C es
        (if rel = ''index.html'' then p \<lparr> pub_entrypoint := Some oid, pub_html := Some bs \<rparr>
         else p \<lparr> pub_assets := AList.update (''/'' @ rel) oid (pub_assets p) \<rparr>) s1 = (s', Inr q)"
      by (auto simp: publish_file_Inr simp del: publish_files.simps split del: if_split)
    from Cons.prems(3) WalkFile bs have "plain bs Blob" "rel \<noteq> []" by auto
    with put put_one have new: "holds s1 oid bs" and mono: "\<And>i b. holds s i b \<Longrightarrow> holds s1 i b"
      unfolding sdk_put_public_file_def by blast+
    have "stands_for s1 p files" using stands_mono [OF Cons.prems(2) mono] .
    with new \<open>rel \<noteq> []\<close> have "stands_for s1
        (if rel = ''index.html'' then p \<lparr> pub_entrypoint := Some oid, pub_html := Some bs \<rparr>
         else p \<lparr> pub_assets := AList.update (''/'' @ rel) oid (pub_assets p) \<rparr>)
        (AList.update (served_path rel) bs files)"
      by (auto simp: stands_for_def served_path_def update_conv distinct_update)
    from Cons.IH [OF rest this] Cons.prems(3) WalkFile bs show ?thesis by simp
  qed (use Cons in auto)
qed simp

end

sublocale app_store \<subseteq> growing: state_relation "\<lambda>s t. \<forall>i b. holds s i b \<longrightarrow> holds t i b"
  by unfold_locales blast+

context app_store
begin

abbreviation grows :: "('s, 'a) op \<Rightarrow> bool" where
  "grows m \<equiv> keeps (\<lambda>s t. \<forall>i b. holds s i b \<longrightarrow> holds t i b) m"

lemma calm_expecting: "quiet c \<Longrightarrow> grows (expecting C c pick)"
  unfolding expecting_def using calm by (intro growing.bind growing.lift keepsI) blast

lemma calm_methods:
  "grows (sdk_identity C)" "grows (sdk_announce C oid)" "grows (sdk_publish_app_pointer C name mid)"
  unfolding sdk_identity_def sdk_announce_def sdk_publish_app_pointer_def by (auto intro: calm_expecting)

lemma grows_run: "grows m \<Longrightarrow> m s = (s', r) \<Longrightarrow> holds s i b \<Longrightarrow> holds s' i b"
  using keepsD [of _ m s] by fastforce

lemma directory_published:
  assumes "publish_directory C walk s = (s', Inr (entry, assts))"
    "\<forall>rel bs. WalkFile rel (Inr bs) \<in> set (walk visible_entry) \<longrightarrow> plain bs Blob \<and> rel \<noteq> []"
  shows "\<exists>html. stands_for s' \<lparr> pub_assets = assts, pub_entrypoint = Some entry, pub_html = html \<rparr>
    (site_map (walk visible_entry) [])"
proof -
  let ?none = "\<lparr> pub_assets = [], pub_entrypoint = None, pub_html = None \<rparr>"
  from assms(1) obtain p where p: "publish_files C (walk visible_entry) ?none s = (s', Inr p)"
    and "pub_entrypoint p = Some entry" "pub_assets p = assts"
    by (auto simp: publish_directory_def andThen_Inr)
  moreover have "stands_for s' p (site_map (walk visible_entry) [])"
    by (rule files_published [OF p _ assms(2)]) (simp add: stands_for_def)
  ultimately show ?thesis by (auto simp: stands_for_def)
qed

lemma local_object:
  assumes "holds s i b"
  shows "\<exists>s' ob. app_get_or_fetch C i peer s = (s', Inr ob) \<and> payload_data (payload ob) = b \<and>
    (\<forall>j a. holds s j a \<longrightarrow> holds s' j a)"
  using get [OF assms] by (auto simp: app_get_or_fetch_def andThen_apply)

lemma assets_fetched:
  assumes "\<forall>(path, oid) \<in> set as. \<exists>b. content path = Some b \<and> holds s oid b"
  shows "\<exists>s' out. fetch_assets C peer as files s = (s', Inr out) \<and>
    (\<forall>path. map_of out path = (if path \<in> fst ` set as then content path else map_of files path))"
  using assms
proof (induction as arbitrary: s files)
  case (Cons a as)
  obtain path oid where a: "a = (path, oid)" by (cases a)
  with Cons.prems obtain b where b: "content path = Some b" "holds s oid b" by auto
  from local_object [OF b(2)] obtain s1 and ob :: Object where
    ob: "app_get_or_fetch C oid peer s = (s1, Inr ob)" "payload_data (payload ob) = b"
    and grow: "\<forall>j a. holds s j a \<longrightarrow> holds s1 j a" by blast
  from Cons.prems grow have "\<forall>(path, oid) \<in> set as. \<exists>b. content path = Some b \<and> holds s1 oid b" by fastforce
  from Cons.IH [OF this, of "AList.update path b files"] ob b show ?case
    by (auto simp: a andThen_apply update_conv')
qed simp

lemma site_content:
  assumes "stands_for s \<lparr> pub_assets = assts, pub_entrypoint = Some entry, pub_html = html \<rparr> files"
  shows "\<exists>b. map_of files ''/'' = Some b \<and> holds s entry b"
    and "\<forall>(path, oid) \<in> set assts. \<exists>b. map_of files path = Some b \<and> holds s oid b"
    and "path \<noteq> ''/'' \<Longrightarrow> path \<notin> fst ` set assts \<Longrightarrow> map_of files path = None"
    and "''/'' \<notin> fst ` set assts"
proof -
  show "\<exists>b. map_of files ''/'' = Some b \<and> holds s entry b"
    using assms by (auto simp: stands_for_def option_rel_Some1)
  show root: "''/'' \<notin> fst ` set assts" using assms by (simp add: stands_for_def map_of_eq_None_iff)
  show "\<forall>(path, oid) \<in> set assts. \<exists>b. map_of files path = Some b \<and> holds s oid b"
  proof safe
    fix path oid
    assume "(path, oid) \<in> set assts"
    moreover from this root have "path \<noteq> ''/''" by force
    ultimately have "rel_option (holds s) (Some oid) (map_of files path)"
      using assms by (auto simp: stands_for_def dest: map_of_is_SomeI)
    then show "\<exists>b. map_of files path = Some b \<and> holds s oid b" by (auto simp: option_rel_Some1)
  qed
  show "map_of files path = None" if "path \<noteq> ''/''" "path \<notin> fst ` set assts"
  proof -
    have "map_of assts path = None" using that(2) by (simp add: map_of_eq_None_iff)
    with assms that(1) show ?thesis by (fastforce simp: stands_for_def)
  qed
qed

lemma app_fetched:
  assumes "stands_for s \<lparr> pub_assets = assets m, pub_entrypoint = Some (entrypoint m), pub_html = html \<rparr> files"
    "holds s mid (enc c m)" "codec_at c m"
  shows "\<exists>s' out. fetch_app C (dec c) mid peer s = (s', Inr (m, out)) \<and> map_of out = map_of files"
proof -
  note content = site_content [OF assms(1)]
  from local_object [OF assms(2)] obtain s1 and mo :: Object where
    mo: "app_get_or_fetch C mid peer s = (s1, Inr mo)" "payload_data (payload mo) = enc c m"
    and g1: "\<forall>j a. holds s j a \<longrightarrow> holds s1 j a" by blast
  obtain b where b: "map_of files ''/'' = Some b" "holds s1 (entrypoint m) b" using content(1) g1 by blast
  from local_object [OF b(2)] obtain s2 and eo :: Object where
    eo: "app_get_or_fetch C (entrypoint m) peer s1 = (s2, Inr eo)" "payload_data (payload eo) = b"
    and g2: "\<forall>j a. holds s1 j a \<longrightarrow> holds s2 j a" by blast
  have "\<forall>(path, oid) \<in> set (assets m). \<exists>b. map_of files path = Some b \<and> holds s2 oid b"
    using content(2) g1 g2 by fastforce
  from assets_fetched [OF this, of peer "[(''/'', b)]"] obtain s3 out where
    out: "fetch_assets C peer (assets m) [(''/'', b)] s2 = (s3, Inr out)"
    "\<forall>path. map_of out path = (if path \<in> fst ` set (assets m) then map_of files path else map_of [(''/'', b)] path)"
    by blast
  have "fetch_app C (dec c) mid peer s = (s3, Inr (m, out))"
    using mo eo out(1) assms(3) by (simp add: fetch_app_def andThen_apply decode_data_def codec_at_def)
  moreover have "map_of out path = map_of files path" for path
    using out(2) content(3, 4) b(1) by auto
  ultimately show ?thesis by (metis ext)
qed

lemma published_app_fetched:
  assumes "app_manifest X C walk name s = (s', Inr mid)"
    and "\<forall>rel bs. WalkFile rel (Inr bs) \<in> set (walk visible_entry) \<longrightarrow> plain bs Blob \<and> rel \<noteq> []"
    and "\<forall>s1 s2 entry assts identity. publish_directory C walk s = (s1, Inr (entry, assts)) \<longrightarrow>
      sdk_identity C s1 = (s2, Inr identity) \<longrightarrow>
      (let m = \<lparr> manifest_name = name, manifest_owner = identity, entrypoint = entry, assets = assts \<rparr>
       in plain (enc (cli_manifest X) m) AppManifestT \<and> codec_at (cli_manifest X) m)"
  shows "\<exists>s'' m files. fetch_app C (dec (cli_manifest X)) mid peer s' = (s'', Inr (m, files)) \<and>
    manifest_name m = name \<and> map_of files = map_of (site_map (walk visible_entry) [])"
proof -
  from assms(1) obtain s1 s2 s3 s4 entry assts identity m where
    dir: "publish_directory C walk s = (s1, Inr (entry, assts))"
    and ident: "sdk_identity C s1 = (s2, Inr identity)"
    and m: "m = \<lparr> manifest_name = name, manifest_owner = identity, entrypoint = entry, assets = assts \<rparr>"
    and put_m: "sdk_put_object_public C (enc (cli_manifest X) m) AppManifestT (Some name) s2 = (s3, Inr mid)"
    and ann: "each (sdk_announce C) (mid # entry # map snd assts) s3 = (s4, Inr ())"
    and point: "sdk_publish_app_pointer C name mid s4 = (s', Inr ())"
    by (auto simp: app_manifest_def andThen_Inr Let_def simp del: each.simps)
  from assms(3) dir ident have ok: "plain (enc (cli_manifest X) m) AppManifestT" "codec_at (cli_manifest X) m"
    by (auto simp: m Let_def)
  have held: "holds s3 mid (enc (cli_manifest X) m)" and g3: "\<And>i b. holds s2 i b \<Longrightarrow> holds s3 i b"
    using put [OF put_m ok(1)] by auto
  have g2: "holds s1 i b \<Longrightarrow> holds s2 i b" for i b using grows_run [OF calm_methods(1) ident] .
  have "grows (each (sdk_announce C) xs)" for xs by (intro growing.loop calm_methods)
  from grows_run [OF this ann] have g4: "holds s3 i b \<Longrightarrow> holds s4 i b" for i b .
  have g5: "holds s4 i b \<Longrightarrow> holds s' i b" for i b using grows_run [OF calm_methods(3) point] .
  from directory_published [OF dir assms(2)] obtain html where
    "stands_for s1 \<lparr> pub_assets = assts, pub_entrypoint = Some entry, pub_html = html \<rparr>
      (site_map (walk visible_entry) [])" by blast
  from stands_mono [OF this, of s'] g2 g3 g4 g5
  have "stands_for s' \<lparr> pub_assets = assets m, pub_entrypoint = Some (entrypoint m), pub_html = html \<rparr>
      (site_map (walk visible_entry) [])"
    by (simp add: m)
  from app_fetched [OF this _ ok(2)] held g4 g5 show ?thesis by (fastforce simp: m)
qed

end

section \<open>The node as a store of apps\<close>

text \<open>A node that serves one request after the other, each with its own clock, host and network.\<close>

definition node_turns ::
  "(nat \<Rightarrow> 'e nodeenv_scheme) \<Rightarrow> Runtime \<Rightarrow> (NodeResponse \<Rightarrow> string) \<Rightarrow> (nat \<times> serving) client" where
  "node_turns Es R dbg = \<lparr> sdk_request = (\<lambda>c (n, s). case node_handle (Es n) R c s of (t, r) \<Rightarrow> ((Suc n, t), r)),
     debug_text = dbg \<rparr>"

definition same_code :: "'e objenv_scheme \<Rightarrow> 'e objenv_scheme \<Rightarrow> bool" where
  "same_code E F = (object_verify F = object_verify E \<and> object_enc F = object_enc E \<and>
     object_dec F = object_dec E \<and> from_payload F = from_payload E)"

text \<open>The payloads that a node signs for contents with their types, at any of its turns.\<close>

definition signed_payloads :: "(nat \<Rightarrow> 'e rtenv_scheme) \<Rightarrow> Runtime \<Rightarrow> (bytes \<times> ObjectType) set \<Rightarrow> ObjectPayload set" where
  "signed_payloads Es R contents =
     {new_payload (rt_identity R) (now (Es n)) bs ty | n bs ty. (bs, ty) \<in> contents}"

text \<open>Contents a node can hold: their ids keep them apart, the object codec reads them back, and they do
  not look like an envelope.\<close>

definition can_hold :: "(nat \<Rightarrow> 'e nodeenv_scheme) \<Rightarrow> Runtime \<Rightarrow> (bytes \<times> ObjectType) set \<Rightarrow> bool" where
  "can_hold Es R contents =
     ((\<forall>n. same_code (Es 0) (Es n)) \<and> hex_ok (Es 0) \<and>
      (\<forall>p \<in> signed_payloads Es R contents. \<forall>q \<in> signed_payloads Es R contents.
         from_payload (Es 0) p = from_payload (Es 0) q \<longrightarrow> payload_data p = payload_data q) \<and>
      (\<forall>n ob. \<forall>(bs, ty) \<in> contents.
         object_new (Es n) (rt_identity R) (now (Es n)) bs ty = Inr ob \<longrightarrow> decodes (Es 0) ob) \<and>
      (\<forall>(bs, ty) \<in> contents. \<not> is_envelope bs))"

definition node_holds ::
  "(nat \<Rightarrow> 'e nodeenv_scheme) \<Rightarrow> Runtime \<Rightarrow> (bytes \<times> ObjectType) set \<Rightarrow> nat \<times> serving \<Rightarrow> ObjectId \<Rightarrow> bytes \<Rightarrow> bool" where
  "node_holds Es R contents x i bs =
     (can_hold Es R contents \<and>
      (\<exists>ob. get_verified (Es 0) (store_root R) i (rt_fs (sv_rt (snd x))) = Inr ob \<and>
         payload ob \<in> signed_payloads Es R contents \<and> payload_data (payload ob) = bs))"

lemma can_holdD:
  assumes "can_hold Es R contents"
  shows "same_code (Es 0) (Es n)" and "hex_ok (Es 0)"
    and "p \<in> signed_payloads Es R contents \<Longrightarrow> q \<in> signed_payloads Es R contents \<Longrightarrow>
      from_payload (Es 0) p = from_payload (Es 0) q \<Longrightarrow> payload_data p = payload_data q"
    and "(bs, ty) \<in> contents \<Longrightarrow> object_new (Es n) (rt_identity R) (now (Es n)) bs ty = Inr ob \<Longrightarrow>
      decodes (Es 0) ob"
    and "p \<in> signed_payloads Es R contents \<Longrightarrow> \<not> is_envelope (payload_data p)"
proof -
  show "\<not> is_envelope (payload_data p)" if "p \<in> signed_payloads Es R contents"
  proof -
    from that obtain bs ty where "(bs, ty) \<in> contents" "payload_data p = bs"
      by (auto simp: signed_payloads_def new_payload_def)
    with assms show ?thesis unfolding can_hold_def by blast
  qed
qed (use assms in \<open>unfold can_hold_def, blast+\<close>)

lemma same_code_reads:
  assumes "same_code E F"
  shows "get_verified F root i d = get_verified E root i d" and "decodes F ob = decodes E ob"
proof -
  have eqs: "object_verify F = object_verify E" "object_enc F = object_enc E" "object_dec F = object_dec E"
    using assms by (simp_all add: same_code_def)
  show "get_verified F root i d = get_verified E root i d" "decodes F ob = decodes E ob"
    unfolding get_verified_def decodes_def eqs by (rule refl)+
qed

lemma got_id: "get_verified E root i d = Inr ob \<Longrightarrow> from_payload E (payload ob) = i"
  by (auto simp: get_verified_Inr object_verify_def verify_id_def split: if_splits)

lemma put_object_public_Inr:
  assumes "put_object_public F R bs ty name s = (t, Inr ob)"
  shows "object_new F (rt_identity R) (now F) bs ty = Inr ob"
    and "\<exists>d. put_verified F (store_root R) ob (rt_fs s) = (d, Inr ()) \<and>
      name_object F R (obj_id ob) name (s\<lparr>rt_fs := d\<rparr>) = (t, Inr ())"
  using assms by (auto simp: put_object_public_def andThen_Inr on_fs_Inr)

lemma public_put_stores:
  assumes "put_object_public F R bs ty name s = (t, Inr ob)" "can_hold Es R contents" "(bs, ty) \<in> contents" "F = Es n"
  shows "payload ob \<in> signed_payloads Es R contents" "payload_data (payload ob) = bs"
    and "get_verified (Es 0) (store_root R) (obj_id ob) (rt_fs t) = Inr ob"
    and "visible i \<Longrightarrow> i \<noteq> obj_id ob \<Longrightarrow>
      get_verified (Es 0) (store_root R) i (rt_fs t) = get_verified (Es 0) (store_root R) i (rt_fs s)"
proof -
  note new = put_object_public_Inr(1) [OF assms(1)]
  from put_object_public_Inr(2) [OF assms(1)] obtain d where
    w: "put_verified F (store_root R) ob (rt_fs s) = (d, Inr ())"
    and named: "name_object F R (obj_id ob) name (s\<lparr>rt_fs := d\<rparr>) = (t, Inr ())" by blast
  have code: "same_code (Es 0) F" and hex: "hex_ok (Es 0)" using can_holdD(1, 2) [OF assms(2)] assms(4) by simp_all
  have "decodes (Es 0) ob" using can_holdD(4) [OF assms(2, 3)] new assms(4) by blast
  then have dec: "decodes F ob" using same_code_reads(2) [OF code] by blast
  show "payload ob \<in> signed_payloads Es R contents" "payload_data (payload ob) = bs"
    using new assms(3, 4) by (auto simp: object_new_Inr signed_payloads_def)
  have "obj_id ob = from_payload (Es 0) (payload ob)"
    using new code by (simp add: object_new_Inr same_code_def)
  then have vis: "visible (obj_id ob)" using hex by (simp add: hex_ok_def from_payload_def)
  show "get_verified (Es 0) (store_root R) (obj_id ob) (rt_fs t) = Inr ob"
    using stored_and_named [OF w vis dec named] same_code_reads(1) [OF code] by simp
  assume i: "visible i" "i \<noteq> obj_id ob"
  obtain d' where t: "rt_fs t = d'" "\<forall>p. p \<noteq> name_path (store_root R) (obj_id ob) \<longrightarrow> map_of d' p = map_of d p"
    using name_object_Inr [OF named] by auto
  have "get_verified F (store_root R) i d' = get_verified F (store_root R) i d"
    using t(2) i(1) by (intro get_verified_cong) auto
  also have "\<dots> = get_verified F (store_root R) i (rt_fs s)"
    using objs.put_other [OF w i(1) vis i(2)] .
  finally show "get_verified (Es 0) (store_root R) i (rt_fs t) = get_verified (Es 0) (store_root R) i (rt_fs s)"
    using t(1) same_code_reads(1) [OF code] by simp
qed

lemma holds_visible:
  assumes "node_holds Es R contents x i bs"
  shows "visible i"
proof -
  from assms obtain ob :: Object where "get_verified (Es 0) (store_root R) i (rt_fs (sv_rt (snd x))) = Inr ob"
    and "hex_ok (Es 0)"
    unfolding node_holds_def using can_holdD(2) by blast
  from got_id [OF this(1)] this(2) show ?thesis by (auto simp: hex_ok_def from_payload_def)
qed

lemma node_turns_request:
  "sdk_request (node_turns Es R dbg) c x =
     ((Suc (fst x), fst (node_handle (Es (fst x)) R c (snd x))), snd (node_handle (Es (fst x)) R c (snd x)))"
  by (simp add: node_turns_def split: prod.split)

lemma node_holds_cong:
  "get_verified (Es 0) (store_root R) i (rt_fs (sv_rt (snd y))) =
     get_verified (Es 0) (store_root R) i (rt_fs (sv_rt (snd x))) \<Longrightarrow>
   node_holds Es R contents x i bs \<Longrightarrow> node_holds Es R contents y i bs"
  by (simp add: node_holds_def)

lemma public_put_grows:
  assumes "put_object_public (Es n) R bs ty name (sv_rt v) = (t, Inr ob)" "(bs, ty) \<in> contents" "can_hold Es R contents"
  shows "node_holds Es R contents (k, v\<lparr>sv_rt := t\<rparr>) (obj_id ob) bs"
    and "node_holds Es R contents (n, v) i b \<Longrightarrow> node_holds Es R contents (k, v\<lparr>sv_rt := t\<rparr>) i b"
proof -
  note stored = public_put_stores [OF assms(1, 3, 2) refl]
  show new: "node_holds Es R contents (k, v\<lparr>sv_rt := t\<rparr>) (obj_id ob) bs"
    using stored(1-3) assms(3) unfolding node_holds_def snd_conv serving.select_convs serving.update_convs
    by (metis serving.surjective serving.update_convs(1) serving.select_convs(1))
  assume old: "node_holds Es R contents (n, v) i b"
  show "node_holds Es R contents (k, v\<lparr>sv_rt := t\<rparr>) i b"
  proof (cases "i = obj_id ob")
    case True
    from old obtain q :: Object where q: "get_verified (Es 0) (store_root R) i (rt_fs (sv_rt v)) = Inr q"
      "payload q \<in> signed_payloads Es R contents" "payload_data (payload q) = b"
      by (auto simp: node_holds_def)
    have "from_payload (Es 0) (payload q) = i" "from_payload (Es 0) (payload ob) = i"
      using got_id [OF q(1)] got_id [OF stored(3)] True by simp_all
    with can_holdD(3) [OF assms(3) q(2) stored(1)] have "payload_data (payload q) = payload_data (payload ob)"
      by simp
    with new q(3) stored(2) True show ?thesis by simp
  next
    case False
    from stored(4) [OF holds_visible [OF old] False] old show ?thesis
      by (intro node_holds_cong [of Es R i "(k, v\<lparr>sv_rt := t\<rparr>)" "(n, v)"]) simp_all
  qed
qed

lemma answer_fst: "fst (answer F f m s) = fst (m s)"
  by (simp add: answer_def split: prod.split sum.split error.split)

lemma publishing_keeps_files:
  "rt_fs (fst (announce F oid s)) = rt_fs s" "rt_fs (fst (publish_app_pointer F R name m s)) = rt_fs s"
  by (simp_all add: announce_def publish_app_pointer_def mark_shared_def send_def andThen_apply Let_def
      split: prod.split sum.split)

lemma quiet_keeps_files:
  assumes "quiet c"
  shows "rt_fs (sv_rt (fst (node_handle F R c v))) = rt_fs (sv_rt v)"
proof -
  have on: "sv_rt (fst (on_rt m v)) = fst (m (sv_rt v))" for m :: "(rt, NodeResponse) op"
    by (simp add: on_rt_def split: prod.split)
  show ?thesis using assms by (cases c) (simp_all add: on answer_fst publishing_keeps_files)
qed

lemma node_get_holds:
  assumes "node_holds Es R contents (n, v) i b"
  shows "\<exists>ob. node_handle (Es n) R (CmdGet i) v = (v, Inr (RspObject ob)) \<and> payload_data (payload ob) = b"
proof -
  from assms obtain ob :: Object where ob: "get_verified (Es 0) (store_root R) i (rt_fs (sv_rt v)) = Inr ob"
    "payload ob \<in> signed_payloads Es R contents" "payload_data (payload ob) = b" and can: "can_hold Es R contents"
    by (auto simp: node_holds_def)
  note code = can_holdD(1) [OF can, of n] and plain = can_holdD(5) [OF can ob(2)]
  from plain have "open_object (Es n) R ob = Inr ob" by (simp add: open_object_def)
  moreover have "get_verified (Es n) (store_root R) i (rt_fs (sv_rt v)) = Inr ob"
    using ob(1) same_code_reads(1) [OF code] by simp
  ultimately show ?thesis using ob(3) by (simp add: rt_get_local on_rt_def answer_def)
qed

interpretation node_store: app_store "node_turns Es R dbg" "node_holds Es R contents"
  "\<lambda>bs ty. (bs, ty) \<in> contents \<and> can_hold Es R contents" for Es R dbg contents
proof
  fix bs ty name s s' oid
  assume put: "sdk_put_object_public (node_turns Es R dbg) bs ty name s = (s', Inr oid)"
    and plain: "(bs, ty) \<in> contents \<and> can_hold Es R contents"
  obtain n v where s: "s = (n, v)" by (cases s)
  obtain t r where m: "put_object_public (Es n) R bs ty name (sv_rt v) = (t, r)"
    by (cases "put_object_public (Es n) R bs ty name (sv_rt v)")
  from put obtain ob where r: "r = Inr ob" and oid: "oid = obj_id ob" and s': "s' = (Suc n, v\<lparr>sv_rt := t\<rparr>)"
    by (auto simp: sdk_put_object_public_def expecting_def andThen_apply node_turns_request s on_rt_def answer_def m
        created_id_def split: sum.splits error.splits option.splits)
  from public_put_grows [of Es n, OF m [unfolded r]] plain
  show "node_holds Es R contents s' oid bs \<and>
      (\<forall>i b. node_holds Es R contents s i b \<longrightarrow> node_holds Es R contents s' i b)"
    by (simp add: s s' oid)
next
  fix c s i b
  assume "quiet c" "node_holds Es R contents s i b"
  then show "node_holds Es R contents (fst (sdk_request (node_turns Es R dbg) c s)) i b"
    by (elim node_holds_cong [rotated]) (simp add: node_turns_request quiet_keeps_files)
next
  fix s i b
  assume holds: "node_holds Es R contents s i b"
  obtain n v where s: "s = (n, v)" by (cases s)
  from node_get_holds [OF holds [unfolded s]] obtain ob :: Object where
    ob: "node_handle (Es n) R (CmdGet i) v = (v, Inr (RspObject ob))" "payload_data (payload ob) = b" by blast
  then have "sdk_get (node_turns Es R dbg) i s = ((Suc n, v), Inr ob)"
    by (simp add: sdk_get_def expecting_def andThen_apply node_turns_request s del: node_handle.simps)
  moreover have "node_holds Es R contents s j a \<Longrightarrow> node_holds Es R contents (Suc n, v) j a" for j a
    by (simp add: node_holds_def s)
  ultimately show "\<exists>s' ob. sdk_get (node_turns Es R dbg) i s = (s', Inr ob) \<and> payload_data (payload ob) = b \<and>
      (\<forall>j a. node_holds Es R contents s j a \<longrightarrow> node_holds Es R contents s' j a)"
    using ob(2) by blast
qed

text \<open>Property C35. What a developer published from a directory opens as it was: when \<open>publish\<close> has
  stored the files, the manifest and the app pointer at a node, opening the manifest id there gives the
  app with its name and, under every path, exactly the bytes of the last file of the directory with that
  path (\<open>index.html\<close> at \<open>/\<close>), and no other path.  The clock, the random bytes and every answer of the
  host and the network may change between any two requests.\<close>

theorem published_app_opens:
  assumes "app_manifest X (node_turns Es R dbg) walk name s = (s', Inr mid)"
    and "can_hold Es R contents"
    and "\<forall>rel bs. WalkFile rel (Inr bs) \<in> set (walk visible_entry) \<longrightarrow> (bs, Blob) \<in> contents \<and> rel \<noteq> []"
    and "\<forall>s1 entry assts. publish_directory (node_turns Es R dbg) walk s = (s1, Inr (entry, assts)) \<longrightarrow>
      (let m = \<lparr> manifest_name = name, manifest_owner = own_id R, entrypoint = entry, assets = assts \<rparr>
       in (enc (cli_manifest X) m, AppManifestT) \<in> contents \<and> codec_at (cli_manifest X) m)"
  shows "\<exists>s'' m files. serve_app_on_http X (node_turns Es R dbg) mid peer s' = (s'', Inr (ServeApp m files)) \<and>
    manifest_name m = name \<and> map_of files = map_of (site_map (walk visible_entry) [])"
proof -
  have ident: "sdk_identity (node_turns Es R dbg) s1 = (s2, Inr i) \<Longrightarrow> i = own_id R" for s1 s2 i
    by (auto simp: sdk_identity_def expecting_def andThen_apply node_turns_request on_rt_def)
  have "\<exists>s'' m files. fetch_app (node_turns Es R dbg) (dec (cli_manifest X)) mid peer s' = (s'', Inr (m, files)) \<and>
    manifest_name m = name \<and> map_of files = map_of (site_map (walk visible_entry) [])"
  proof (rule node_store.published_app_fetched [where contents = contents, OF assms(1)], goal_cases)
    case 1
    with assms(2, 3) show ?case by blast
  next
    case 2
    with assms(2, 4) show ?case by (auto simp: Let_def dest: ident)
  qed
  then show ?thesis by (auto simp: serve_app_on_http_def andThen_apply)
qed

text \<open>A directory with a page, a hidden-file filter and a style sheet, at the example node.\<close>

definition ex_signed :: "bytes \<Rightarrow> ObjectType \<Rightarrow> Object" where
  "ex_signed bs ty = projr (object_new (sample_objenv [] ()) (sample_identity 65) 1000 bs ty)"

definition ex_contents :: "(bytes \<times> ObjectType) list" where
  "ex_contents = [([104, 105], Blob), ([97], Blob), (str_bytes ''home'', AppManifestT)]"

definition ex_appenv :: nodeenv where
  "ex_appenv = ex_nodeenv\<lparr>object_dec :=
     (\<lambda>bs. find (\<lambda>ob. payload_data (payload ob) = bs) (map (\<lambda>(bs, ty). ex_signed bs ty) ex_contents))\<rparr>"

definition ex_client :: "(nat \<times> serving) client" where
  "ex_client = node_turns (\<lambda>_. ex_appenv) ex_runtime (\<lambda>_. [])"

definition ex_walk :: "(string \<Rightarrow> bool) \<Rightarrow> walk_entry list" where
  "ex_walk keep = WalkDirectory # map (\<lambda>(rel, bs). WalkFile rel (Inr bs))
     (filter (keep \<circ> fst) [(''index.html'', [104, 105]), (''.env'', [1, 2]), (''a.css'', [97])])"

definition ex_home_app :: AppManifest where
  "ex_home_app = \<lparr> manifest_name = ''home'', manifest_owner = own_id ex_runtime,
     entrypoint = obj_id (ex_signed [104, 105] Blob), assets = [(''/a.css'', obj_id (ex_signed [97] Blob))] \<rparr>"

definition ex_clienv :: clienv where
  "ex_clienv = sample_objenv [] \<lparr> cli_manifest = sample_codec (\<lambda>m. str_bytes (manifest_name m)) [ex_home_app],
     cli_exported_cap = sample_codec (\<lambda>_. []) [], cli_pairing_qr = sample_codec (\<lambda>_. []) [],
     cli_b64_encode = (\<lambda>_. []), cli_b64_decode = (\<lambda>_. None), error_display = (\<lambda>_. []),
     unicode_lower = (\<lambda>s. s) \<rparr>"

lemma ex_signed_new:
  "object_new ex_appenv (rt_identity ex_runtime) (now ex_appenv) bs ty = Inr (ex_signed bs ty)"
  "payload_data (payload (ex_signed bs ty)) = bs"
  "obj_id (ex_signed bs ty) = sample_hex (checksum bs)"
  "object_verify ex_appenv (ex_signed bs ty)"
  by (simp_all add: ex_signed_def ex_appenv_def ex_nodeenv_def ex_runtime_def sample_simps)

lemma ex_put_public:
  "\<exists>s'. sdk_put_object_public ex_client bs ty (Some name) s = (s', Inr (obj_id (ex_signed bs ty)))"
proof -
  have host: "io_write ex_appenv p c = Wrote" "io_rename_ok ex_appenv p q" for p q c
    by (simp_all add: ex_appenv_def ex_nodeenv_def)
  have "\<exists>t. put_object_public ex_appenv ex_runtime bs ty (Some name) v = (t, Inr (ex_signed bs ty))" for v
    by (simp add: put_object_public_def andThen_apply ex_signed_new(1,4) on_fs_def put_verified_def fs_write_def
        host fs_rename_def name_object_def set_name_def Let_def update_conv')
  from this [of "sv_rt (snd s)"] obtain t where
    "put_object_public ex_appenv ex_runtime bs ty (Some name) (sv_rt (snd s)) = (t, Inr (ex_signed bs ty))" by blast
  then show ?thesis
    by (simp add: sdk_put_object_public_def expecting_def andThen_apply ex_client_def node_turns_request
        on_rt_def answer_def created_id_def)
qed

lemma ex_signed_decodes: "(bs, ty) \<in> set ex_contents \<Longrightarrow> decodes ex_appenv (ex_signed bs ty)"
  by (auto simp: decodes_def ex_contents_def ex_appenv_def ex_nodeenv_def ex_signed_new(2) str_bytes_def)

lemma ex_can_hold: "can_hold (\<lambda>_. ex_appenv) ex_runtime (set ex_contents)"
proof -
  have code: "from_payload ex_appenv p = sample_hex (checksum (payload_data p))" for p
    by (simp add: from_payload_def ex_appenv_def ex_nodeenv_def)
  have data: "payload_data ` signed_payloads (\<lambda>_. ex_appenv) ex_runtime (set ex_contents) \<subseteq>
      {[104, 105], [97], str_bytes ''home''}"
    by (auto simp: signed_payloads_def ex_contents_def)
  have apart: "inj_on (\<lambda>bs. sample_hex (checksum bs)) {[104, 105], [97], str_bytes ''home''}"
    by (simp add: inj_on_def str_bytes_def checksum_def sample_hex_def hex_digit_def)
  show ?thesis
    unfolding can_hold_def
  proof (intro conjI ballI impI allI)
    fix p q
    assume "p \<in> signed_payloads (\<lambda>_. ex_appenv) ex_runtime (set ex_contents)"
      "q \<in> signed_payloads (\<lambda>_. ex_appenv) ex_runtime (set ex_contents)"
      "from_payload ex_appenv p = from_payload ex_appenv q"
    with data show "payload_data p = payload_data q"
      by (intro inj_onD [OF apart]) (auto simp: code)
  next
    show "hex_ok ex_appenv" by (simp add: hex_ok_def sample_hex_visible ex_appenv_def ex_nodeenv_def)
  qed (auto simp: same_code_def is_envelope_def ex_contents_def str_bytes_def ENV_MAGIC_def
      ex_signed_new(1) intro: ex_signed_decodes [unfolded ex_contents_def str_bytes_def])
qed

lemma ex_published:
  "\<exists>s1. publish_directory ex_client ex_walk s =
     (s1, Inr (entrypoint ex_home_app, assets ex_home_app))"
proof -
  obtain s1 where s1: "sdk_put_object_public ex_client [104, 105] Blob (Some ''index.html'') s =
      (s1, Inr (obj_id (ex_signed [104, 105] Blob)))" using ex_put_public by blast
  obtain s2 where s2: "sdk_put_object_public ex_client [97] Blob (Some ''a.css'') s1 =
      (s2, Inr (obj_id (ex_signed [97] Blob)))" using ex_put_public by blast
  have hi: "[104, 105] = str_bytes ''hi''" "find_absolute_urls ''hi'' = []"
    by (simp_all add: str_bytes_def find_absolute_urls_def absolute_urls.simps)
  have page: "check_page (Some [104, 105]) as = Inr ()" for as
    by (simp add: check_page_def unpublished_asset_references_def hi is_ascii_def)
  from s1 s2 page show ?thesis
    by (simp add: publish_directory_def ex_walk_def visible_entry_def starts_with_iff andThen_apply
        sdk_put_public_file_def ex_home_app_def)
qed

lemma ex_announce: "\<exists>s'. sdk_announce ex_client oid s = (s', Inr ())"
proof -
  have "net_announce ex_appenv oid = Inr ()" by (simp add: ex_appenv_def ex_nodeenv_def)
  then show ?thesis
    by (simp add: sdk_announce_def expecting_def andThen_apply ex_client_def node_turns_request on_rt_def answer_def
        announce_def mark_shared_def send_def is_rsp_def)
qed

lemma ex_point: "\<exists>s'. sdk_publish_app_pointer ex_client name mid s = (s', Inr ())"
proof -
  have "\<exists>r. pointer_sign ex_appenv (rt_identity ex_runtime) t n m = Inr r" for t n m
    by (simp add: ex_appenv_def ex_nodeenv_def pointer_sign_def sign_def ex_runtime_def sample_identity_def
        from_keypair_def Let_def)
  then obtain r where "pointer_sign ex_appenv (rt_identity ex_runtime) (now ex_appenv) name mid = Inr r" by blast
  moreover have "net_put_record ex_appenv k bs = Inr ()" for k bs
    by (simp add: ex_appenv_def ex_nodeenv_def sample_rtenv_with_def sample_objenv_def sample_crypto_def
        working_host_def)
  ultimately show ?thesis
    by (simp add: sdk_publish_app_pointer_def expecting_def andThen_apply ex_client_def node_turns_request on_rt_def
        answer_def publish_app_pointer_def send_def is_rsp_def Let_def)
qed

theorem published_app_opens_witness:
  "\<exists>s' mid s'' m files.
     app_manifest ex_clienv ex_client ex_walk ''home'' (0, ex_serving []) = (s', Inr mid) \<and>
     serve_app_on_http ex_clienv ex_client mid None s' = (s'', Inr (ServeApp m files)) \<and>
     map_of files ''/'' = Some [104, 105] \<and> map_of files ''/a.css'' = Some [97] \<and> map_of files ''/.env'' = None"
proof -
  let ?m = "\<lambda>e as. \<lparr> manifest_name = ''home'', manifest_owner = own_id ex_runtime, entrypoint = e, assets = as \<rparr>"
  have codec: "enc (cli_manifest ex_clienv) (?m e as) = str_bytes ''home''" for e as
    by (simp add: ex_clienv_def sample_codec_def sample_objenv_def sample_crypto_def working_host_def)
  have ident: "sdk_identity ex_client s = ((Suc (fst s), snd s), Inr (own_id ex_runtime))" for s
    by (simp add: sdk_identity_def expecting_def andThen_apply ex_client_def node_turns_request on_rt_def)
  obtain s1 where s1: "publish_directory ex_client ex_walk (0, ex_serving []) =
      (s1, Inr (entrypoint ex_home_app, assets ex_home_app))"
    using ex_published by blast
  obtain s2 i where s2: "sdk_put_object_public ex_client (str_bytes ''home'') AppManifestT (Some ''home'')
      (Suc (fst s1), snd s1) = (s2, Inr i)"
    using ex_put_public by blast
  have "\<exists>s3. each (sdk_announce ex_client) ids s2 = (s3, Inr ())" for ids
    using ex_announce by (induction ids arbitrary: s2) (simp, metis andThen_simps(1) each.simps(2))
  then obtain s3 where s3: "each (sdk_announce ex_client)
      (i # entrypoint ex_home_app # map snd (assets ex_home_app)) s2 = (s3, Inr ())" by blast
  obtain s4 where s4: "sdk_publish_app_pointer ex_client ''home'' i s3 = (s4, Inr ())" using ex_point by blast
  have published: "app_manifest ex_clienv ex_client ex_walk ''home'' (0, ex_serving []) = (s4, Inr i)"
    using s1 s2 s3 s4 by (simp add: app_manifest_def andThen_apply Let_def ident codec del: each.simps)
  have "\<exists>s'' m files. serve_app_on_http ex_clienv ex_client i None s4 = (s'', Inr (ServeApp m files)) \<and>
      manifest_name m = ''home'' \<and> map_of files = map_of (site_map (ex_walk visible_entry) [])"
    unfolding ex_client_def
  proof (rule published_app_opens [OF published [unfolded ex_client_def] ex_can_hold], goal_cases)
    case 1
    show ?case by (auto simp: ex_walk_def ex_contents_def visible_entry_def starts_with_iff)
  next
    case 2
    show ?case
      by (auto simp: s1 [unfolded ex_client_def] codec ex_contents_def Let_def codec_at_def)
         (simp add: ex_clienv_def sample_codec_def sample_objenv_def sample_crypto_def working_host_def ex_home_app_def)
  qed
  moreover have "map_of (site_map (ex_walk visible_entry) []) =
      [''/a.css'' \<mapsto> [97], ''/'' \<mapsto> [104, 105]]"
    by (simp add: ex_walk_def visible_entry_def starts_with_iff served_path_def)
  ultimately show ?thesis using published by auto
qed

end
