(* ===== verification/Gateway_Protocol.thy ===== *)
theory Gateway_Protocol
  imports User_Data
begin

text \<open>
  canopee-gateway/src/protocol.rs: the JSON types of the browser gateway and the conversions between
  them and the stored types.  \<open>gatewayenv\<close> holds the base64 codec and \<open>from_utf8_lossy\<close>'s result for
  the text of a payload; serde's JSON codec is a parameter of the connection.
\<close>

section \<open>Views\<close>

record ObjectView =
  ov_id :: string
  ov_owner :: string
  ov_type :: string
  ov_size :: u64
  ov_created_at :: u64
  ov_content_type :: "string option"
  ov_text :: string
  ov_data_b64 :: string
  ov_public_key_b64 :: string
  ov_signature_b64 :: string

record ExportBundleView =
  bv_version :: u32
  bv_object :: ObjectView

record PointerView =
  pv_owner :: string
  pv_name :: string
  pv_manifest :: string
  pv_published_at :: u64

record ProfileView =
  prv_display_name :: string
  prv_dh_b64 :: string
  prv_avatar :: "string option"
  prv_version :: u64

record ContactView =
  cv_name :: string
  cv_peer_id :: string
  cv_dh_b64 :: string
  cv_note :: "string option"

record ContactListView =
  clv_contacts :: "ContactView list"
  clv_version :: u64

record HomeEntryView =
  hev_name :: string
  hev_object :: string
  hev_type :: string
  hev_shared :: bool
  hev_app :: "string option"

record HomeIndexView =
  hiv_version :: u64
  hiv_profile :: "string option"
  hiv_contacts :: "string option"
  hiv_entries :: "HomeEntryView list"

section \<open>Lossy text\<close>

text \<open>\<open>String::from_utf8_lossy\<close>: how many bytes the next chunk takes, and whether it is a character;
  a chunk that is not becomes U+FFFD.\<close>

definition continues :: "byte \<Rightarrow> bool" where
  "continues b = in_range 128 191 b"

fun utf8_chunk :: "bytes \<Rightarrow> nat \<times> bool" where
  "utf8_chunk [] = (0, True)"
| "utf8_chunk (b # bs) =
     (if in_range 0 127 b then (1, True)
      else if in_range 194 223 b then
        (case bs of c1 # _ \<Rightarrow> if continues c1 then (2, True) else (1, False) | [] \<Rightarrow> (1, False))
      else if in_range 224 239 b then
        (case bs of c1 # r \<Rightarrow>
           if \<not> in_range (if unat b = 224 then 160 else 128) (if unat b = 237 then 159 else 191) c1 then (1, False)
           else (case r of c2 # _ \<Rightarrow> if continues c2 then (3, True) else (2, False) | [] \<Rightarrow> (2, False))
         | [] \<Rightarrow> (1, False))
      else if in_range 240 244 b then
        (case bs of c1 # r \<Rightarrow>
           if \<not> in_range (if unat b = 240 then 144 else 128) (if unat b = 244 then 143 else 191) c1 then (1, False)
           else (case r of c2 # r2 \<Rightarrow>
                   if \<not> continues c2 then (2, False)
                   else (case r2 of c3 # _ \<Rightarrow> if continues c3 then (4, True) else (3, False) | [] \<Rightarrow> (3, False))
                 | [] \<Rightarrow> (2, False))
         | [] \<Rightarrow> (1, False))
      else (1, False))"

definition replacement :: string where
  "replacement = bytes_str [239, 191, 189]"

lemma utf8_chunk_shorter:
  assumes "bs \<noteq> []" "(n, ok) = utf8_chunk bs"
  shows "length (drop n bs) < length bs"
proof -
  have "0 < fst (utf8_chunk bs)"
    using assms(1) by (cases bs) (auto split: list.split)
  with assms show ?thesis by (metis diff_less fst_conv length_drop length_greater_0_conv)
qed

function from_utf8_lossy :: "bytes \<Rightarrow> string" where
  "from_utf8_lossy bs =
     (if bs = [] then []
      else case utf8_chunk bs of
             (n, ok) \<Rightarrow> (if ok then bytes_str (take n bs) else replacement) @ from_utf8_lossy (drop n bs))"
  by pat_completeness auto

termination
  by (relation "measure length") (use utf8_chunk_shorter in auto)

declare from_utf8_lossy.simps [simp del]

lemma utf8_chunk_valid:
  "utf8_valid bs \<Longrightarrow> bs \<noteq> [] \<Longrightarrow>
   \<exists>n. utf8_chunk bs = (n, True) \<and> utf8_valid (drop n bs)"
  by (cases bs rule: utf8_valid.cases) (auto simp: continues_def split: if_splits list.splits)

lemma from_utf8_lossy_valid: "utf8_valid bs \<Longrightarrow> from_utf8_lossy bs = bytes_str bs"
proof (induction bs rule: from_utf8_lossy.induct)
  case (1 bs)
  show ?case
  proof (cases "bs = []")
    case False
    then obtain n where n: "utf8_chunk bs = (n, True)" "utf8_valid (drop n bs)"
      using utf8_chunk_valid 1(2) by blast
    with 1(1) [OF False n(1) [symmetric]] False
    have "from_utf8_lossy bs = bytes_str (take n bs) @ bytes_str (drop n bs)"
      by (simp add: from_utf8_lossy.simps [of bs])
    then show ?thesis by (simp add: bytes_str_def flip: map_append)
  qed (simp add: from_utf8_lossy.simps bytes_str_def)
qed

section \<open>Conversions\<close>

record base64 =
  b64_encode :: "bytes \<Rightarrow> string"
  b64_decode :: "string \<Rightarrow> bytes option"

fun object_type_name :: "ObjectType \<Rightarrow> string" where
  "object_type_name Blob = ''Blob''"
| "object_type_name AppManifestT = ''AppManifest''"
| "object_type_name AppPointerT = ''AppPointer''"
| "object_type_name ProfileT = ''Profile''"
| "object_type_name ContactListT = ''ContactList''"
| "object_type_name HomeIndexT = ''HomeIndex''"
| "object_type_name CapabilityT = ''Capability''"
| "object_type_name CapabilityIndexT = ''CapabilityIndex''"

definition parse_object_type :: "string \<Rightarrow> ObjectType res" where
  "parse_object_type s =
     (if s = ''Blob'' then Inr Blob
      else if s = ''AppManifest'' then Inr AppManifestT
      else if s = ''AppPointer'' then Inr AppPointerT
      else if s = ''Profile'' then Inr ProfileT
      else if s = ''ContactList'' then Inr ContactListT
      else if s = ''HomeIndex'' then Inr HomeIndexT
      else if s = ''Capability'' then Inr CapabilityT
      else if s = ''CapabilityIndex'' then Inr CapabilityIndexT
      else Inl (Bail (''unknown object type '' @ s)))"

definition decode64 :: "'e base64_scheme \<Rightarrow> string \<Rightarrow> bytes res" where
  "decode64 B s = ok_or (b64_decode B s) (Decode ''base64'')"

definition object_view_from_parts :: "'e base64_scheme \<Rightarrow> ObjectId \<Rightarrow> ObjectPayload \<Rightarrow> bytes \<Rightarrow> bytes \<Rightarrow> ObjectView" where
  "object_view_from_parts B oid p key sig =
     \<lparr> ov_id = oid, ov_owner = payload_owner p, ov_type = object_type_name (payload_type p),
       ov_size = meta_size (metadata p), ov_created_at = created_at (metadata p),
       ov_content_type = content_type (metadata p), ov_text = from_utf8_lossy (payload_data p),
       ov_data_b64 = b64_encode B (payload_data p), ov_public_key_b64 = b64_encode B key,
       ov_signature_b64 = b64_encode B sig \<rparr>"

definition object_view :: "'e base64_scheme \<Rightarrow> Object \<Rightarrow> ObjectView" where
  "object_view B ob =
     object_view_from_parts B (obj_id ob) (payload ob) (obj_public_key ob) (obj_signature ob)"

definition reconstruct :: "'e base64_scheme \<Rightarrow> ObjectView \<Rightarrow> Object res" where
  "reconstruct B v =
     res_bind (parse_object_type (ov_type v)) (\<lambda>ty.
     res_bind (decode64 B (ov_data_b64 v)) (\<lambda>bs.
     res_bind (decode64 B (ov_public_key_b64 v)) (\<lambda>key.
     res_bind (decode64 B (ov_signature_b64 v)) (\<lambda>sig.
     Inr \<lparr> obj_id = ov_id v,
           payload = \<lparr> payload_owner = ov_owner v,
                       metadata = \<lparr> created_at = ov_created_at v, meta_size = ov_size v,
                                    content_type = ov_content_type v \<rparr>,
                       payload_type = ty, payload_data = bs \<rparr>,
           obj_public_key = key, obj_signature = sig \<rparr>))))"

definition bundle_reconstruct :: "'e base64_scheme \<Rightarrow> ExportBundleView \<Rightarrow> Object res" where
  "bundle_reconstruct B v = reconstruct B (bv_object v)"

definition pointer_to_view :: "string \<Rightarrow> string \<Rightarrow> ObjectId \<Rightarrow> u64 \<Rightarrow> PointerView" where
  "pointer_to_view owner name manifest t =
     \<lparr> pv_owner = owner, pv_name = name, pv_manifest = manifest, pv_published_at = t \<rparr>"

definition dh_key_of_b64 :: "'e base64_scheme \<Rightarrow> string \<Rightarrow> bytes res" where
  "dh_key_of_b64 B s =
     res_bind (decode64 B s) (\<lambda>bs.
       if length bs = 32 then Inr bs else Inl (Bail ''dhPublicKeyB64 must decode to exactly 32 bytes''))"

definition profile_view :: "'e base64_scheme \<Rightarrow> Profile \<Rightarrow> ProfileView" where
  "profile_view B p =
     \<lparr> prv_display_name = display_name p, prv_dh_b64 = b64_encode B (profile_dh_key p),
       prv_avatar = avatar p, prv_version = profile_version p \<rparr>"

definition profile_of_view :: "'e base64_scheme \<Rightarrow> ProfileView \<Rightarrow> Profile res" where
  "profile_of_view B v =
     res_bind (dh_key_of_b64 B (prv_dh_b64 v)) (\<lambda>key.
       Inr \<lparr> display_name = prv_display_name v, profile_dh_key = key, avatar = prv_avatar v,
             profile_version = prv_version v \<rparr>)"

definition contact_view :: "'e base64_scheme \<Rightarrow> Contact \<Rightarrow> ContactView" where
  "contact_view B c =
     \<lparr> cv_name = contact_name c, cv_peer_id = contact_peer_id c, cv_dh_b64 = b64_encode B (contact_dh_key c),
       cv_note = contact_note c \<rparr>"

definition contact_list_view :: "'e base64_scheme \<Rightarrow> ContactList \<Rightarrow> ContactListView" where
  "contact_list_view B l =
     \<lparr> clv_contacts = map (contact_view B) (contacts l), clv_version = contacts_version l \<rparr>"

fun contacts_of_views :: "'e base64_scheme \<Rightarrow> ContactView list \<Rightarrow> Contact list res" where
  "contacts_of_views B [] = Inr []"
| "contacts_of_views B (v # vs) =
     res_bind (dh_key_of_b64 B (cv_dh_b64 v)) (\<lambda>key.
     res_bind (contacts_of_views B vs) (\<lambda>cs.
       Inr (\<lparr> contact_name = cv_name v, contact_peer_id = cv_peer_id v, contact_dh_key = key,
              contact_note = cv_note v \<rparr> # cs)))"

definition contact_list_of_view :: "'e base64_scheme \<Rightarrow> ContactListView \<Rightarrow> ContactList res" where
  "contact_list_of_view B v =
     res_bind (contacts_of_views B (clv_contacts v)) (\<lambda>cs.
       Inr \<lparr> contacts = cs, contacts_version = clv_version v \<rparr>)"

definition home_entry_view :: "HomeEntry \<Rightarrow> HomeEntryView" where
  "home_entry_view e =
     \<lparr> hev_name = home_name e, hev_object = home_object e, hev_type = object_type_name (home_type e),
       hev_shared = home_shared e, hev_app = home_app e \<rparr>"

definition home_index_view :: "HomeIndex \<Rightarrow> HomeIndexView" where
  "home_index_view ix =
     \<lparr> hiv_version = home_version ix, hiv_profile = home_profile ix, hiv_contacts = home_contacts ix,
       hiv_entries = map home_entry_view (home_entries ix) \<rparr>"

fun entries_of_views :: "HomeEntryView list \<Rightarrow> HomeEntry list res" where
  "entries_of_views [] = Inr []"
| "entries_of_views (v # vs) =
     res_bind (parse_object_type (hev_type v)) (\<lambda>ty.
     res_bind (entries_of_views vs) (\<lambda>es.
       Inr (\<lparr> home_name = hev_name v, home_object = hev_object v, home_type = ty,
              home_shared = hev_shared v, home_app = hev_app v \<rparr> # es)))"

definition home_index_of_view :: "HomeIndexView \<Rightarrow> HomeIndex res" where
  "home_index_of_view v =
     res_bind (entries_of_views (hiv_entries v)) (\<lambda>es.
       Inr \<lparr> home_profile = hiv_profile v, home_contacts = hiv_contacts v, home_entries = es,
             home_version = hiv_version v \<rparr>)"

section \<open>Commands\<close>

datatype (plugins only: code) GatewayCommand =
  GwIdentity
| GwPut string
| GwGet string
| GwList
| GwExport string
| GwImport ExportBundleView
| GwPeers
| GwDial string
| GwAnnounce string
| GwFindProviders string
| GwFetchObject string string
| GwPublish string string
| GwSubscribe string
| GwPublishAppPointer string string
| GwResolveAppPointer string string
| GwPublishPointer string string
| GwResolvePointer string string
| GwLoadProfile
| GwSaveProfile ProfileView
| GwLoadContactList
| GwSaveContactList ContactListView
| GwLoadHomeIndex
| GwSaveHomeIndex HomeIndexView
| GwSetHomeEntryShared string bool
| GwShareObject string string "string option" "string list"
| GwClaimUsername string
| GwShowUsername
| GwResolveUsername string
| GwExportIdentity string
| GwImportIdentity string string bool

section \<open>Round trips\<close>

lemma object_type_round [simp]: "parse_object_type (object_type_name ty) = Inr ty"
  by (cases ty) (simp_all add: parse_object_type_def)

definition base64_ok :: "'e base64_scheme \<Rightarrow> bool" where
  "base64_ok B \<longleftrightarrow> (\<forall>bs. b64_decode B (b64_encode B bs) = Some bs)"

lemma decode64_encode [simp]: "base64_ok B \<Longrightarrow> decode64 B (b64_encode B bs) = Inr bs"
  by (simp add: decode64_def base64_ok_def)

lemma reconstruct_view: "base64_ok B \<Longrightarrow> reconstruct B (object_view B ob) = Inr ob"
  by (simp add: reconstruct_def object_view_def object_view_from_parts_def)

lemma profile_round:
  "base64_ok B \<Longrightarrow> length (profile_dh_key p) = 32 \<Longrightarrow> profile_of_view B (profile_view B p) = Inr p"
  by (simp add: profile_of_view_def profile_view_def dh_key_of_b64_def)

lemma contacts_round:
  "base64_ok B \<Longrightarrow> list_all (\<lambda>c. length (contact_dh_key c) = 32) (contacts l) \<Longrightarrow>
   contact_list_of_view B (contact_list_view B l) = Inr l"
proof -
  have "base64_ok B \<Longrightarrow> list_all (\<lambda>c. length (contact_dh_key c) = 32) cs \<Longrightarrow>
        contacts_of_views B (map (contact_view B) cs) = Inr cs" for cs
    by (induction cs) (simp_all add: contact_view_def dh_key_of_b64_def)
  then show "base64_ok B \<Longrightarrow> list_all (\<lambda>c. length (contact_dh_key c) = 32) (contacts l) \<Longrightarrow>
     contact_list_of_view B (contact_list_view B l) = Inr l"
    by (simp add: contact_list_of_view_def contact_list_view_def)
qed

lemma home_round: "home_index_of_view (home_index_view ix) = Inr ix"
proof -
  have "entries_of_views (map home_entry_view es) = Inr es" for es
    by (induction es) (simp_all add: home_entry_view_def)
  then show ?thesis by (simp add: home_index_of_view_def home_index_view_def)
qed

end
