(* ===== verification/Event_Loop.thy ===== *)
theory Event_Loop
  imports Serve_Session Runtime_Pairing "HOL-Library.Multiset"
begin

text \<open>
  canopee-network/src/manager/event_loop.rs and peer.rs: the task that owns the swarm.  It takes a
  command of a \<open>NetworkManager\<close> handle, an event of the swarm, or a finished reply of a handler of
  inbound requests, one at a time.

  \<open>loop\<close> holds the local variables of \<open>run_event_loop\<close>.  The swarm is libp2p: what is called on it is
  the log \<open>lp_calls\<close>, and \<open>swarm\<close> says which query or request id each call returns, given the calls
  before.  A \<open>oneshot::Sender\<close> is a name: \<open>Caller n\<close> is the sender that came with a command, and
  \<open>Target i\<close> the one that \<open>ReplicateObject\<close> makes for the request \<open>i\<close>; a sent answer is an entry of
  \<open>lp_answers\<close>.  The hash maps are association lists, in one of the orders the map may iterate in.
  The object provider and the object store are those of the runtime.
\<close>

section \<open>Peers\<close>

record Peer =
  peer_peer_id :: peer_id
  peer_identity :: "IdentityId option"
  peer_username :: "string option"
  peer_display_name :: "string option"
  peer_addresses :: "Multiaddr list"

definition peer_new :: "peer_id \<Rightarrow> Peer" where
  "peer_new p = \<lparr> peer_peer_id = p, peer_identity = None, peer_username = None,
                  peer_display_name = None, peer_addresses = [] \<rparr>"

record RelayReservation =
  relay_peer_id :: peer_id
  renewal :: bool
  relay_listen_addrs :: "Multiaddr list"

definition relay_reservation_new :: "peer_id \<Rightarrow> RelayReservation" where
  "relay_reservation_new p = \<lparr> relay_peer_id = p, renewal = False, relay_listen_addrs = [] \<rparr>"

section \<open>Messages, commands, events\<close>

datatype ObjectRequest = GetObject ObjectId | Store ExportBundle

datatype ObjectResponse = ObjectFound ExportBundle | NotFound | Stored | StoreFailed string

record PubSubMessage =
  ps_topic :: string
  ps_source :: "peer_id option"
  ps_data :: bytes

datatype behaviour = Kad | ObjectExchange | Pairing | Serve | ServeRegistry | Other

datatype swarm_call =
  Dial Multiaddr
| ListenOn Multiaddr
| AddAddress peer_id Multiaddr
| KadBootstrap
| GetProviders bytes
| StartProviding bytes
| StopProviding bytes
| KadPut bytes bytes
| KadGet bytes
| SendObject peer_id ObjectRequest
| SendPairing peer_id CanopeePairingRequest
| SendServe peer_id ServeRequest
| SendRegistration peer_id ServeRegistration
| RespondObject nat ObjectResponse
| RespondPairing nat CanopeePairingResponse
| RespondServe nat ServeResponse
| RespondRegistry nat RegistrationReply
| GossipSubscribe string
| GossipUnsubscribe string
| GossipPublish string bytes

fun behaviour_of :: "swarm_call \<Rightarrow> behaviour" where
  "behaviour_of (GetProviders k) = Kad"
| "behaviour_of (KadPut k v) = Kad"
| "behaviour_of (KadGet k) = Kad"
| "behaviour_of (SendObject p r) = ObjectExchange"
| "behaviour_of (SendPairing p r) = Pairing"
| "behaviour_of (SendServe p r) = Serve"
| "behaviour_of (SendRegistration p r) = ServeRegistry"
| "behaviour_of _ = Other"

record swarm =
  local_peer_id :: peer_id
  call_id :: "swarm_call list \<Rightarrow> swarm_call \<Rightarrow> nat"
  put_refused :: "swarm_call list \<Rightarrow> swarm_call \<Rightarrow> string option"
  gossip_refused :: "swarm_call list \<Rightarrow> swarm_call \<Rightarrow> string option"

datatype sender = Caller nat | Target nat

datatype Answer =
  AnsProviders "peer_id list"
| AnsPut "unit res"
| AnsRecord "bytes option res"
| AnsObject "ExportBundle res"
| AnsReplicated "unit res"
| AnsPairing "string res"
| AnsRegistration "RegistrationReply res"
| AnsServe "ServeResponse res"
| AnsPeers "Peer list"
| AnsAddrs "Multiaddr list"
| AnsReservations "RelayReservation list"
| AnsSubscribed "unit res"
| AnsPublished "unit res"

datatype Command =
  NetDial Multiaddr
| NetListenViaRelay Multiaddr
| NetFindProviders ObjectId nat
| NetAnnounce ObjectId
| NetUnannounce ObjectId
| NetPutRecord bytes bytes nat
| NetGetRecord bytes nat
| NetGetObject peer_id ObjectId nat
| NetReplicateObject "peer_id option" ExportBundle nat
| NetSendPairing peer_id CanopeePairingRequest nat
| NetSendServeRegistration peer_id ServeRegistration nat
| NetSendServeRequest peer_id ServeRequest nat
| NetListPeers nat
| NetSetPeerMeta peer_id "IdentityId option" "string option" "string option"
| NetListListenAddresses nat
| NetListRelayReservations nat
| NetSubscribe string nat
| NetUnsubscribe string
| NetPublish string bytes nat

datatype get_record_result = FoundRecord bytes | FinishedWithNoRecord | RecordNotFound | RecordFailed string

datatype SwarmEvent =
  NewListenAddr Multiaddr
| ConnectionEstablished peer_id Multiaddr bool
| ConnectionClosed peer_id
| MdnsDiscovered "(peer_id \<times> Multiaddr) list"
| IdentifyReceived peer_id "Multiaddr list"
| ReservationReqAccepted peer_id bool
| GossipMessage PubSubMessage
| ProvidersFound nat "peer_id list"
| ProvidersFinished nat
| ProvidersFailed nat string
| PutRecordDone nat "unit + string"
| GetRecordProgress nat get_record_result
| ObjectResponseReceived nat ObjectResponse
| ObjectRequestReceived nat ObjectRequest
| ObjectOutboundFailure nat string
| PairingRequestReceived nat peer_id CanopeePairingRequest
| PairingResponseReceived nat CanopeePairingResponse
| PairingOutboundFailure nat string
| ServeRequestReceived nat peer_id ServeRequest
| ServeResponseReceived nat ServeResponse
| ServeOutboundFailure nat string
| RegistryRequestReceived nat peer_id ServeRegistration
| RegistryResponseReceived nat RegistrationReply
| RegistryOutboundFailure nat string
| OtherEvent

datatype inbound =
  InboundPairing peer_id CanopeePairingRequest nat
| InboundServe peer_id ServeRequest nat
| InboundServeRegistration peer_id ServeRegistration nat

section \<open>The state\<close>

type_synonym pending = "(nat \<times> sender) list"

record loop =
  lp_rt :: rt
  peers :: "(peer_id \<times> Peer) list"
  listen_addrs :: "Multiaddr list"
  relay_reservations :: "(peer_id \<times> RelayReservation) list"
  pending_get_providers :: pending
  pending_put_record :: pending
  pending_get_record :: pending
  pending_get_object :: pending
  pending_replicate :: pending
  pending_pairing_request :: pending
  pending_serve_registration :: pending
  pending_serve_request :: pending
  pairing_replies :: "nat list"
  serve_replies :: "nat list"
  serve_registry_replies :: "nat list"
  kad_bootstrapped :: bool
  lp_tasks :: "(nat \<times> (peer_id \<times> nat) list) list"
  lp_calls :: "swarm_call list"
  lp_answers :: "(sender \<times> Answer) list"
  lp_pubsub :: "PubSubMessage list"
  lp_inbound :: "inbound list"

definition loop_start :: "rt \<Rightarrow> loop" where
  "loop_start t =
     \<lparr> lp_rt = t, peers = [], listen_addrs = [], relay_reservations = [], pending_get_providers = [],
       pending_put_record = [], pending_get_record = [], pending_get_object = [],
       pending_replicate = [], pending_pairing_request = [], pending_serve_registration = [],
       pending_serve_request = [], pairing_replies = [], serve_replies = [],
       serve_registry_replies = [], kad_bootstrapped = False, lp_tasks = [], lp_calls = [],
       lp_answers = [], lp_pubsub = [], lp_inbound = [] \<rparr>"

definition call :: "swarm_call \<Rightarrow> loop \<Rightarrow> loop" where
  "call c s = s \<lparr> lp_calls := lp_calls s @ [c] \<rparr>"

definition reply :: "sender \<Rightarrow> Answer \<Rightarrow> loop \<Rightarrow> loop" where
  "reply tx a s = s \<lparr> lp_answers := lp_answers s @ [(tx, a)] \<rparr>"

text \<open>A call whose id is remembered with the sender that waits for it, and the removal of an id
  with the answer to its sender.  The first argument is the record update of the map.\<close>

definition expect ::
  "((pending \<Rightarrow> pending) \<Rightarrow> loop \<Rightarrow> loop) \<Rightarrow> swarm \<Rightarrow> swarm_call \<Rightarrow> sender \<Rightarrow> loop \<Rightarrow> loop" where
  "expect upd W c tx s = upd (AList.update (call_id W (lp_calls s) c) tx) (call c s)"

definition settle ::
  "((pending \<Rightarrow> pending) \<Rightarrow> loop \<Rightarrow> loop) \<Rightarrow> (loop \<Rightarrow> pending) \<Rightarrow> nat \<Rightarrow> Answer \<Rightarrow> loop \<Rightarrow> loop" where
  "settle upd get i a s =
     (case map_of (get s) i of
        Some tx \<Rightarrow> reply tx a (upd (AList.delete i) s)
      | None \<Rightarrow> s)"

section \<open>Commands\<close>

fun send_stores :: "swarm \<Rightarrow> ExportBundle \<Rightarrow> peer_id list \<Rightarrow> loop \<Rightarrow> loop \<times> (peer_id \<times> nat) list" where
  "send_stores W b [] s = (s, [])"
| "send_stores W b (p # ps) s =
     (let c = SendObject p (Store b); i = call_id W (lp_calls s) c in
      case send_stores W b ps (expect pending_replicate_update W c (Target i) s) of
        (s', targets) \<Rightarrow> (s', (p, i) # targets))"

definition replicate_object :: "swarm \<Rightarrow> peer_id option \<Rightarrow> ExportBundle \<Rightarrow> nat \<Rightarrow> loop \<Rightarrow> loop" where
  "replicate_object W to b n s =
     (case to of
        Some p \<Rightarrow>
          if map_of (peers s) p = None then
            reply (Caller n) (AnsReplicated (Inl (Bail (''peer '' @ p @ '' is not connected'')))) s
          else (case send_stores W b [p] s of (s', ts) \<Rightarrow> s' \<lparr> lp_tasks := lp_tasks s' @ [(n, ts)] \<rparr>)
      | None \<Rightarrow>
          if peers s = [] then reply (Caller n) (AnsReplicated (Inr ())) s
          else (case send_stores W b (map fst (peers s)) s of
                  (s', ts) \<Rightarrow> s' \<lparr> lp_tasks := lp_tasks s' @ [(n, ts)] \<rparr>))"

definition set_meta :: "IdentityId option \<Rightarrow> string option \<Rightarrow> string option \<Rightarrow> Peer \<Rightarrow> Peer" where
  "set_meta ident user disp p =
     p \<lparr> peer_identity := (case ident of Some _ \<Rightarrow> ident | None \<Rightarrow> peer_identity p),
         peer_username := (case user of Some _ \<Rightarrow> user | None \<Rightarrow> peer_username p),
         peer_display_name := (case disp of Some _ \<Rightarrow> disp | None \<Rightarrow> peer_display_name p) \<rparr>"

definition gossip_result :: "string \<Rightarrow> string option \<Rightarrow> unit res" where
  "gossip_result what refused =
     (case refused of None \<Rightarrow> Inr () | Some e \<Rightarrow> Inl (Bail (''Failed to '' @ what @ '': '' @ e)))"

fun handle_command :: "swarm \<Rightarrow> Command \<Rightarrow> loop \<Rightarrow> loop" where
  "handle_command W (NetDial addr) s = call (Dial addr) s"
| "handle_command W (NetListListenAddresses n) s = reply (Caller n) (AnsAddrs (listen_addrs s)) s"
| "handle_command W (NetListenViaRelay addr) s = call (ListenOn (addr @ [P2pCircuit])) s"
| "handle_command W (NetFindProviders oid n) s =
     expect pending_get_providers_update W (GetProviders (str_bytes oid)) (Caller n) s"
| "handle_command W (NetAnnounce oid) s = call (StartProviding (str_bytes oid)) s"
| "handle_command W (NetUnannounce oid) s = call (StopProviding (str_bytes oid)) s"
| "handle_command W (NetPutRecord key v n) s =
     (case put_refused W (lp_calls s) (KadPut key v) of
        None \<Rightarrow> expect pending_put_record_update W (KadPut key v) (Caller n) s
      | Some e \<Rightarrow> reply (Caller n) (AnsPut (Inl (Bail (''Failed to put record: '' @ e)))) (call (KadPut key v) s))"
| "handle_command W (NetGetRecord key n) s =
     expect pending_get_record_update W (KadGet key) (Caller n) s"
| "handle_command W (NetGetObject p oid n) s =
     expect pending_get_object_update W (SendObject p (GetObject oid)) (Caller n) s"
| "handle_command W (NetReplicateObject to b n) s = replicate_object W to b n s"
| "handle_command W (NetSendPairing p rq n) s =
     expect pending_pairing_request_update W (SendPairing p rq) (Caller n) s"
| "handle_command W (NetSendServeRegistration p reg n) s =
     expect pending_serve_registration_update W (SendRegistration p reg) (Caller n) s"
| "handle_command W (NetSendServeRequest p rq n) s =
     expect pending_serve_request_update W (SendServe p rq) (Caller n) s"
| "handle_command W (NetListPeers n) s = reply (Caller n) (AnsPeers (map snd (peers s))) s"
| "handle_command W (NetSetPeerMeta p ident user disp) s =
     (case map_of (peers s) p of
        Some q \<Rightarrow> s \<lparr> peers := AList.update p (set_meta ident user disp q) (peers s) \<rparr>
      | None \<Rightarrow> s)"
| "handle_command W (NetListRelayReservations n) s =
     reply (Caller n) (AnsReservations (map snd (relay_reservations s))) s"
| "handle_command W (NetSubscribe topic n) s =
     reply (Caller n) (AnsSubscribed (gossip_result ''subscribe''
       (gossip_refused W (lp_calls s) (GossipSubscribe topic)))) (call (GossipSubscribe topic) s)"
| "handle_command W (NetUnsubscribe topic) s = call (GossipUnsubscribe topic) s"
| "handle_command W (NetPublish topic bs n) s =
     reply (Caller n) (AnsPublished (gossip_result ''publish''
       (gossip_refused W (lp_calls s) (GossipPublish topic bs)))) (call (GossipPublish topic bs) s)"

section \<open>Events of the swarm\<close>

record loopenv = rtenv +
  loop_error_text :: "error \<Rightarrow> string"

definition ensure_peer :: "peer_id \<Rightarrow> loop \<Rightarrow> loop" where
  "ensure_peer p s =
     (if map_of (peers s) p = None then s \<lparr> peers := AList.update p (peer_new p) (peers s) \<rparr> else s)"

definition reservation_of :: "peer_id \<Rightarrow> loop \<Rightarrow> RelayReservation" where
  "reservation_of p s =
     (case map_of (relay_reservations s) p of Some r \<Rightarrow> r | None \<Rightarrow> relay_reservation_new p)"

definition push_new :: "'a \<Rightarrow> 'a list \<Rightarrow> 'a list" where
  "push_new x xs = (if x \<in> set xs then xs else xs @ [x])"

definition new_listen_addr :: "Multiaddr \<Rightarrow> loop \<Rightarrow> loop" where
  "new_listen_addr addr s =
     (let s = s \<lparr> listen_addrs := push_new addr (listen_addrs s) \<rparr> in
      case relay_peer_id_from_circuit_addr addr of
        Some p \<Rightarrow>
          let r = reservation_of p s in
          s \<lparr> relay_reservations := AList.update p
                (r \<lparr> relay_listen_addrs := push_new addr (relay_listen_addrs r) \<rparr>) (relay_reservations s) \<rparr>
      | None \<Rightarrow> s)"

definition connection_established :: "swarm \<Rightarrow> peer_id \<Rightarrow> Multiaddr \<Rightarrow> bool \<Rightarrow> loop \<Rightarrow> loop" where
  "connection_established W p addr dialer s =
     (if p = local_peer_id W then s
      else let s = call (AddAddress p addr) (ensure_peer p s) in
           if \<not> kad_bootstrapped s \<and> dialer then call KadBootstrap (s \<lparr> kad_bootstrapped := True \<rparr>) else s)"

definition identify_received :: "swarm \<Rightarrow> peer_id \<Rightarrow> Multiaddr list \<Rightarrow> loop \<Rightarrow> loop" where
  "identify_received W p addrs s =
     (if p = local_peer_id W then s
      else let s = ensure_peer p (fold (\<lambda>a. call (AddAddress p a)) addrs s) in
           case map_of (peers s) p of
             Some q \<Rightarrow> s \<lparr> peers := AList.update p (q \<lparr> peer_addresses := addrs \<rparr>) (peers s) \<rparr>
           | None \<Rightarrow> s)"

fun get_record_answer :: "get_record_result \<Rightarrow> bytes option res" where
  "get_record_answer (FoundRecord v) = Inr (Some v)"
| "get_record_answer FinishedWithNoRecord = Inr None"
| "get_record_answer RecordNotFound = Inr None"
| "get_record_answer (RecordFailed e) = Inl (Bail (''Failed to get record: '' @ e))"

fun store_answer :: "ObjectResponse \<Rightarrow> unit res" where
  "store_answer Stored = Inr ()"
| "store_answer (StoreFailed e) = Inl (Bail (''Pushed object refused by peer: '' @ e))"
| "store_answer (ObjectFound b) = Inl (Bail ''peer answered a Store request with a GetObject response'')"
| "store_answer NotFound = Inl (Bail ''peer answered a Store request with a GetObject response'')"

fun object_answer :: "ObjectResponse \<Rightarrow> ExportBundle res" where
  "object_answer (ObjectFound b) = Inr b"
| "object_answer NotFound = Inl (Bail ''Object not found'')"
| "object_answer Stored = Inl (Bail ''peer answered a GetObject request with a Store response'')"
| "object_answer (StoreFailed e) = Inl (Bail ''peer answered a GetObject request with a Store response'')"

fun pairing_answer :: "CanopeePairingResponse \<Rightarrow> string res" where
  "pairing_answer (Accepted m) = Inr m"
| "pairing_answer (PairingError e) = Inl (Bail (''Pairing refused by remote: '' @ e))"

text \<open>\<open>pending_replicate\<close> and \<open>pending_get_object\<close> share the ids of one behaviour, and the first is
  looked up first.\<close>

definition settle_object :: "nat \<Rightarrow> unit res \<Rightarrow> ExportBundle res \<Rightarrow> loop \<Rightarrow> loop" where
  "settle_object i stored found s =
     (if map_of (pending_replicate s) i \<noteq> None
      then settle pending_replicate_update pending_replicate i (AnsReplicated stored) s
      else settle pending_get_object_update pending_get_object i (AnsObject found) s)"

fun object_request ::
  "'e loopenv_scheme \<Rightarrow> Runtime \<Rightarrow> ObjectRequest \<Rightarrow> rt \<Rightarrow> rt \<times> ObjectResponse" where
  "object_request E R (GetObject oid) t =
     (case provide_object E R oid t of
        (t', Some bundle) \<Rightarrow> (t', ObjectFound bundle)
      | (t', None) \<Rightarrow> (t', NotFound))"
| "object_request E R (Store bundle) t =
     (case accept_push E R (bundle_object bundle) t of
        (t', Inr _) \<Rightarrow> (t', Stored)
      | (t', Inl e) \<Rightarrow> (t', StoreFailed (loop_error_text E e)))"

definition connection_closed :: "peer_id \<Rightarrow> loop \<Rightarrow> loop" where
  [simp]: "connection_closed p s = s \<lparr> peers := AList.delete p (peers s) \<rparr>"

definition mdns_discovered :: "(peer_id \<times> Multiaddr) list \<Rightarrow> loop \<Rightarrow> loop" where
  [simp]: "mdns_discovered found s = fold (\<lambda>(p, a) s. call (Dial a) (call (AddAddress p a) s)) found s"

definition reservation_accepted :: "peer_id \<Rightarrow> bool \<Rightarrow> loop \<Rightarrow> loop" where
  [simp]: "reservation_accepted p ren s =
     s \<lparr> relay_reservations :=
           AList.update p (reservation_of p s \<lparr> renewal := ren \<rparr>) (relay_reservations s) \<rparr>"

definition gossip_message :: "PubSubMessage \<Rightarrow> loop \<Rightarrow> loop" where
  [simp]: "gossip_message m s = s \<lparr> lp_pubsub := lp_pubsub s @ [m] \<rparr>"

definition providers_progress :: "nat \<Rightarrow> peer_id list \<Rightarrow> loop \<Rightarrow> loop" where
  [simp]: "providers_progress i ps s =
     settle pending_get_providers_update pending_get_providers i (AnsProviders ps) s"

definition put_record_done :: "nat \<Rightarrow> unit + string \<Rightarrow> loop \<Rightarrow> loop" where
  [simp]: "put_record_done i r s =
     settle pending_put_record_update pending_put_record i
       (AnsPut (case r of Inl _ \<Rightarrow> Inr () | Inr e \<Rightarrow> Inl (Bail (''Failed to put record: '' @ e)))) s"

definition get_record_progress :: "nat \<Rightarrow> get_record_result \<Rightarrow> loop \<Rightarrow> loop" where
  [simp]: "get_record_progress i r s =
     settle pending_get_record_update pending_get_record i (AnsRecord (get_record_answer r)) s"

definition object_response_received :: "nat \<Rightarrow> ObjectResponse \<Rightarrow> loop \<Rightarrow> loop" where
  [simp]: "object_response_received i r s = settle_object i (store_answer r) (object_answer r) s"

definition object_request_received ::
  "'e loopenv_scheme \<Rightarrow> Runtime \<Rightarrow> nat \<Rightarrow> ObjectRequest \<Rightarrow> loop \<Rightarrow> loop" where
  [simp]: "object_request_received E R ch rq s =
     (case object_request E R rq (lp_rt s) of
        (t, resp) \<Rightarrow> call (RespondObject ch resp) (s \<lparr> lp_rt := t \<rparr>))"

definition object_failed :: "nat \<Rightarrow> string \<Rightarrow> loop \<Rightarrow> loop" where
  [simp]: "object_failed i e s =
     settle_object i (Inl (Bail (''Store request failed: '' @ e))) (Inl (Bail (''Request failed: '' @ e))) s"

definition pairing_request_received :: "nat \<Rightarrow> peer_id \<Rightarrow> CanopeePairingRequest \<Rightarrow> loop \<Rightarrow> loop" where
  [simp]: "pairing_request_received ch p rq s =
     s \<lparr> lp_inbound := lp_inbound s @ [InboundPairing p rq ch], pairing_replies := pairing_replies s @ [ch] \<rparr>"

definition pairing_response_received :: "nat \<Rightarrow> CanopeePairingResponse \<Rightarrow> loop \<Rightarrow> loop" where
  [simp]: "pairing_response_received i r s =
     settle pending_pairing_request_update pending_pairing_request i (AnsPairing (pairing_answer r)) s"

definition pairing_failed :: "nat \<Rightarrow> string \<Rightarrow> loop \<Rightarrow> loop" where
  [simp]: "pairing_failed i e s =
     settle pending_pairing_request_update pending_pairing_request i
       (AnsPairing (Inl (Bail (''Pairing request failed: '' @ e)))) s"

definition serve_request_received :: "nat \<Rightarrow> peer_id \<Rightarrow> ServeRequest \<Rightarrow> loop \<Rightarrow> loop" where
  [simp]: "serve_request_received ch p rq s =
     s \<lparr> lp_inbound := lp_inbound s @ [InboundServe p rq ch], serve_replies := serve_replies s @ [ch] \<rparr>"

definition serve_response_received :: "nat \<Rightarrow> ServeResponse \<Rightarrow> loop \<Rightarrow> loop" where
  [simp]: "serve_response_received i r s =
     settle pending_serve_request_update pending_serve_request i (AnsServe (Inr r)) s"

definition serve_failed :: "nat \<Rightarrow> string \<Rightarrow> loop \<Rightarrow> loop" where
  [simp]: "serve_failed i e s =
     settle pending_serve_request_update pending_serve_request i
       (AnsServe (Inl (Bail (''Serve request failed: '' @ e)))) s"

definition registry_request_received :: "nat \<Rightarrow> peer_id \<Rightarrow> ServeRegistration \<Rightarrow> loop \<Rightarrow> loop" where
  [simp]: "registry_request_received ch p rq s =
     s \<lparr> lp_inbound := lp_inbound s @ [InboundServeRegistration p rq ch],
         serve_registry_replies := serve_registry_replies s @ [ch] \<rparr>"

definition registry_response_received :: "nat \<Rightarrow> RegistrationReply \<Rightarrow> loop \<Rightarrow> loop" where
  [simp]: "registry_response_received i r s =
     settle pending_serve_registration_update pending_serve_registration i (AnsRegistration (Inr r)) s"

definition registry_failed :: "nat \<Rightarrow> string \<Rightarrow> loop \<Rightarrow> loop" where
  [simp]: "registry_failed i e s =
     settle pending_serve_registration_update pending_serve_registration i
       (AnsRegistration (Inl (Bail (''Serve registration request failed: '' @ e)))) s"

text \<open>Events whose arms only log, and events without an arm, leave the state as it is; the failure of a
  provider lookup is one without an arm.\<close>

fun handle_swarm_event :: "swarm \<Rightarrow> 'e loopenv_scheme \<Rightarrow> Runtime \<Rightarrow> SwarmEvent \<Rightarrow> loop \<Rightarrow> loop" where
  "handle_swarm_event W E R (NewListenAddr addr) s = new_listen_addr addr s"
| "handle_swarm_event W E R (ConnectionEstablished p addr dialer) s = connection_established W p addr dialer s"
| "handle_swarm_event W E R (ConnectionClosed p) s = connection_closed p s"
| "handle_swarm_event W E R (MdnsDiscovered found) s = mdns_discovered found s"
| "handle_swarm_event W E R (IdentifyReceived p addrs) s = identify_received W p addrs s"
| "handle_swarm_event W E R (ReservationReqAccepted p ren) s = reservation_accepted p ren s"
| "handle_swarm_event W E R (GossipMessage m) s = gossip_message m s"
| "handle_swarm_event W E R (ProvidersFound i ps) s = providers_progress i ps s"
| "handle_swarm_event W E R (ProvidersFinished i) s = providers_progress i [] s"
| "handle_swarm_event W E R (ProvidersFailed i e) s = s"
| "handle_swarm_event W E R (PutRecordDone i r) s = put_record_done i r s"
| "handle_swarm_event W E R (GetRecordProgress i r) s = get_record_progress i r s"
| "handle_swarm_event W E R (ObjectResponseReceived i r) s = object_response_received i r s"
| "handle_swarm_event W E R (ObjectRequestReceived ch rq) s = object_request_received E R ch rq s"
| "handle_swarm_event W E R (ObjectOutboundFailure i e) s = object_failed i e s"
| "handle_swarm_event W E R (PairingRequestReceived ch p rq) s = pairing_request_received ch p rq s"
| "handle_swarm_event W E R (PairingResponseReceived i r) s = pairing_response_received i r s"
| "handle_swarm_event W E R (PairingOutboundFailure i e) s = pairing_failed i e s"
| "handle_swarm_event W E R (ServeRequestReceived ch p rq) s = serve_request_received ch p rq s"
| "handle_swarm_event W E R (ServeResponseReceived i r) s = serve_response_received i r s"
| "handle_swarm_event W E R (ServeOutboundFailure i e) s = serve_failed i e s"
| "handle_swarm_event W E R (RegistryRequestReceived ch p rq) s = registry_request_received ch p rq s"
| "handle_swarm_event W E R (RegistryResponseReceived i r) s = registry_response_received i r s"
| "handle_swarm_event W E R (RegistryOutboundFailure i e) s = registry_failed i e s"
| "handle_swarm_event W E R OtherEvent s = s"

section \<open>Replies of the handlers, and the tasks that collect Store answers\<close>

definition pairing_reply :: "nat \<Rightarrow> CanopeePairingResponse option \<Rightarrow> loop \<Rightarrow> loop" where
  "pairing_reply ch r s =
     (if ch \<in> set (pairing_replies s)
      then call (RespondPairing ch (case r of Some x \<Rightarrow> x | None \<Rightarrow> PairingError ''pairing handler unavailable''))
             (s \<lparr> pairing_replies := remove1 ch (pairing_replies s) \<rparr>)
      else s)"

definition no_serving_node :: ServeResponse where
  "no_serving_node = \<lparr> resp_status = ''500 Internal Server Error'', resp_headers = [],
                       resp_body = str_bytes ''no serving node at this address'' \<rparr>"

definition serve_reply :: "nat \<Rightarrow> ServeResponse option \<Rightarrow> loop \<Rightarrow> loop" where
  "serve_reply ch r s =
     (if ch \<in> set (serve_replies s)
      then call (RespondServe ch (case r of Some x \<Rightarrow> x | None \<Rightarrow> no_serving_node))
             (s \<lparr> serve_replies := remove1 ch (serve_replies s) \<rparr>)
      else s)"

definition serve_registry_reply :: "nat \<Rightarrow> RegistrationReply option \<Rightarrow> loop \<Rightarrow> loop" where
  "serve_registry_reply ch r s =
     (if ch \<in> set (serve_registry_replies s)
      then call (RespondRegistry ch (case r of Some x \<Rightarrow> x | None \<Rightarrow> ReplyError ''this node is not a Canopee edge''))
             (s \<lparr> serve_registry_replies := remove1 ch (serve_registry_replies s) \<rparr>)
      else s)"

text \<open>What \<open>rx.await\<close> of a target gives: nothing yet, a dropped sender, or the answer.\<close>

definition store_result :: "loop \<Rightarrow> nat \<Rightarrow> unit res option option" where
  "store_result s i =
     (case map_of (lp_answers s) (Target i) of
        Some (AnsReplicated r) \<Rightarrow> Some (Some r)
      | _ \<Rightarrow> if map_of (pending_replicate s) i = Some (Target i) then None else Some None)"

fun replicate_verdict :: "(peer_id \<times> unit res option) list \<Rightarrow> nat \<Rightarrow> error option \<Rightarrow> unit res" where
  "replicate_verdict [] successes first_error =
     (case first_error of
        Some e \<Rightarrow> if successes = 0 then Inl e else Inr ()
      | None \<Rightarrow> Inr ())"
| "replicate_verdict ((p, r) # rs) successes first_error =
     (case r of
        Some (Inr _) \<Rightarrow> replicate_verdict rs (successes + 1) first_error
      | Some (Inl e) \<Rightarrow>
          replicate_verdict rs successes (case first_error of None \<Rightarrow> Some e | Some _ \<Rightarrow> first_error)
      | None \<Rightarrow>
          replicate_verdict rs successes
            (case first_error of None \<Rightarrow> Some (Bail (''peer '' @ p @ '' dropped the response''))
             | Some _ \<Rightarrow> first_error))"

definition finish_task :: "nat \<Rightarrow> loop \<Rightarrow> loop" where
  "finish_task k s =
     (if k < length (lp_tasks s) then
        (case lp_tasks s ! k of
           (n, ts) \<Rightarrow>
             if list_all (\<lambda>(p, i). store_result s i \<noteq> None) ts then
               reply (Caller n)
                 (AnsReplicated (replicate_verdict (map (\<lambda>(p, i). (p, the (store_result s i))) ts) 0 None))
                 (s \<lparr> lp_tasks := take k (lp_tasks s) @ drop (Suc k) (lp_tasks s) \<rparr>)
             else s)
      else s)"

section \<open>The loop\<close>

datatype loop_input =
  OnEvent SwarmEvent
| OnCommand Command
| OnPairingReply nat "CanopeePairingResponse option"
| OnServeReply nat "ServeResponse option"
| OnRegistryReply nat "RegistrationReply option"
| OnTask nat

fun loop_step :: "swarm \<Rightarrow> 'e loopenv_scheme \<Rightarrow> Runtime \<Rightarrow> loop_input \<Rightarrow> loop \<Rightarrow> loop" where
  "loop_step W E R (OnEvent ev) s = handle_swarm_event W E R ev s"
| "loop_step W E R (OnCommand c) s = handle_command W c s"
| "loop_step W E R (OnPairingReply ch r) s = pairing_reply ch r s"
| "loop_step W E R (OnServeReply ch r) s = serve_reply ch r s"
| "loop_step W E R (OnRegistryReply ch r) s = serve_registry_reply ch r s"
| "loop_step W E R (OnTask k) s = finish_task k s"

text \<open>Each turn comes with what the host answers during it.\<close>

definition run_event_loop ::
  "swarm \<Rightarrow> Runtime \<Rightarrow> ('e loopenv_scheme \<times> loop_input) list \<Rightarrow> loop \<Rightarrow> loop" where
  "run_event_loop W R inputs s = fold (\<lambda>(E, inp). loop_step W E R inp) inputs s"

end
