(* ===== verification/Chat_App.thy ===== *)
theory Chat_App
  imports Command_Line Gateway_Protocol Event_Loop Runtime_Open
begin

text \<open>
  The desktop chat of canopee-chat-test/src-tauri: the encrypted conversations of chat.rs, and the
  commands and receivers of lib.rs over the embedded runtime.  \<open>chatenv\<close> adds the hex crate's decoder,
  ChaCha20-Poly1305 with its random nonce, and what subscribing to a topic gives.  A command that
  fails with a text fails with \<open>Bail\<close>; \<open>published\<close> are the messages handed to the network, and
  \<open>receivers\<close> the conversations whose receiver task was spawned.
\<close>

record chatenv = nodeenv +
  hex_decode :: "string \<Rightarrow> bytes option"
  hex_error :: "string \<Rightarrow> string"
  chacha_encrypt :: "bytes \<Rightarrow> bytes \<Rightarrow> bytes \<Rightarrow> bytes option"
  chacha_decrypt :: "bytes \<Rightarrow> bytes \<Rightarrow> bytes \<Rightarrow> bytes option"
  chat_nonce :: bytes
  debug_str :: "string \<Rightarrow> string"
  net_subscribe :: "string \<Rightarrow> unit res"

section \<open>Conversations\<close>

definition KDF_DOMAIN :: bytes where "KDF_DOMAIN = str_bytes ''canopee-chat/conversation-key/v1''"
definition TOPIC_DOMAIN :: bytes where "TOPIC_DOMAIN = str_bytes ''canopee-chat/topic/v1''"

record ChatContact =
  chat_name :: string
  chat_peer :: string
  chat_dh_key :: bytes

definition to_user_contact :: "ChatContact \<Rightarrow> Contact" where
  "to_user_contact c = \<lparr> contact_name = chat_name c, contact_peer_id = chat_peer c,
     contact_dh_key = chat_dh_key c, contact_note = None \<rparr>"

definition from_user_contact :: "Contact \<Rightarrow> ChatContact" where
  "from_user_contact c = \<lparr> chat_name = contact_name c, chat_peer = contact_peer_id c, chat_dh_key = contact_dh_key c \<rparr>"

definition format_contact :: "'e crypto_scheme \<Rightarrow> string \<Rightarrow> bytes \<Rightarrow> string" where
  "format_contact E peer key = ''canopee://identity/'' @ peer @ ''#dh='' @ hex_encode E key"

definition parse_contact :: "'e chatenv_scheme \<Rightarrow> string \<Rightarrow> bytes res" where
  "parse_contact E s =
     (case split_once CHR ''#'' s of
        None \<Rightarrow> Inl (Bail ''contact string is missing the #dh= fragment'')
      | Some (_, dh_part) \<Rightarrow>
          (case strip_prefix ''dh='' dh_part of
             None \<Rightarrow> Inl (Bail ''expected #dh=<hex> fragment'')
           | Some dh_hex \<Rightarrow>
               if length dh_hex \<noteq> 64 then Inl (Bail ''DH public key must be exactly 32 bytes (64 hex chars)'')
               else (case hex_decode E dh_hex of
                       None \<Rightarrow> Inl (Bail (''invalid hex in DH key: '' @ hex_error E dh_hex))
                     | Some bs \<Rightarrow> if length bs = 32 then Inr bs else Inl (Panic ''copy_from_slice''))))"

text \<open>The order of byte arrays.\<close>

fun bytes_less :: "bytes \<Rightarrow> bytes \<Rightarrow> bool" where
  "bytes_less _ [] = False"
| "bytes_less [] (_ # _) = True"
| "bytes_less (a # as) (b # bs) = (a < b \<or> (a = b \<and> bytes_less as bs))"

definition conversation_topic :: "'e crypto_scheme \<Rightarrow> bytes \<Rightarrow> bytes \<Rightarrow> string" where
  "conversation_topic E our their =
     (let (a, b) = if bytes_less our their then (our, their) else (their, our)
      in hex_encode E (sha256 E (TOPIC_DOMAIN @ a @ b)))"

record Conversation =
  conv_contact :: ChatContact
  conv_topic :: string
  conv_key :: bytes

text \<open>HKDF without a salt takes as many zeros as the hash is long.\<close>

definition conversation_new :: "'e crypto_scheme \<Rightarrow> Identity \<Rightarrow> ChatContact \<Rightarrow> Conversation" where
  "conversation_new E i c =
     \<lparr> conv_contact = c, conv_topic = conversation_topic E (dh_public_key E i) (chat_dh_key c),
       conv_key = hkdf_sha256 E (replicate 32 0) (agree E i (chat_dh_key c)) KDF_DOMAIN \<rparr>"

definition conv_encrypt :: "'e chatenv_scheme \<Rightarrow> Conversation \<Rightarrow> bytes \<Rightarrow> bytes res" where
  "conv_encrypt E c plaintext =
     (case chacha_encrypt E (conv_key c) (chat_nonce E) plaintext of
        None \<Rightarrow> Inl (Bail ''encryption failed: Error'')
      | Some ciphertext \<Rightarrow> Inr (chat_nonce E @ ciphertext))"

definition conv_decrypt :: "'e chatenv_scheme \<Rightarrow> Conversation \<Rightarrow> bytes \<Rightarrow> bytes option" where
  "conv_decrypt E c bs =
     (if length bs < 12 then None else chacha_decrypt E (conv_key c) (take 12 bs) (drop 12 bs))"

section \<open>State and small parts\<close>

record chat =
  chat_rt :: rt
  conversations :: "(string \<times> Conversation) list"
  receivers :: "Conversation list"
  published :: "(string \<times> bytes) list"

definition in_chat :: "(rt, 'a) op \<Rightarrow> (chat, 'a) op" where
  "in_chat m s = (case m (chat_rt s) of (t, r) \<Rightarrow> (s \<lparr> chat_rt := t \<rparr>, r))"

text \<open>\<open>map_err\<close> to a text with a prefix.\<close>

definition texted :: "'e nodeenv_scheme \<Rightarrow> string \<Rightarrow> ('s, 'a) op \<Rightarrow> ('s, 'a) op" where
  "texted E lead m s =
     (case m s of
        (s', Inl (Panic p)) \<Rightarrow> (s', Inl (Panic p))
      | (s', Inl e) \<Rightarrow> (s', Inl (Bail (lead @ error_text E e)))
      | (s', Inr x) \<Rightarrow> (s', Inr x))"

text \<open>\<open>trim().is_empty()\<close> on well-formed text: white space at every byte that starts a character.\<close>

fun blank :: "string \<Rightarrow> bool" where
  "blank [] = True"
| "blank (c # s) = ((continues (of_char c) \<or> white_at (c # s)) \<and> blank s)"

definition chat_peer_id :: "'e crypto_scheme \<Rightarrow> Runtime \<Rightarrow> peer_id" where
  "chat_peer_id E R = peer_id_str E (kp_public E (signing_key (rt_identity R)))"

fun upsert_contact :: "Contact \<Rightarrow> Contact list \<Rightarrow> Contact list" where
  "upsert_contact c [] = [c]"
| "upsert_contact c (x # xs) = (if contact_name x = contact_name c then c # xs else x # upsert_contact c xs)"

record ConversationInfo =
  ci_name :: string
  ci_peer :: string
  ci_topic :: string

definition conversation_info :: "Conversation \<Rightarrow> ConversationInfo" where
  "conversation_info c = \<lparr> ci_name = chat_name (conv_contact c), ci_peer = chat_peer (conv_contact c),
     ci_topic = conv_topic c \<rparr>"

section \<open>Identity and peers\<close>

record SelfInfo =
  self_contact :: string
  self_peer_id :: string
  self_dh :: string
  self_addrs :: "string list"
  self_connected :: nat

definition get_my_identity :: "'e chatenv_scheme \<Rightarrow> Runtime \<Rightarrow> (chat, string) op" where
  "get_my_identity E R = ret (format_contact E (chat_peer_id E R) (dh_public_key E (rt_identity R)))"

definition get_self :: "'e chatenv_scheme \<Rightarrow> Runtime \<Rightarrow> (chat, SelfInfo) op" where
  "get_self E R =
     (let peer = chat_peer_id E R; key = dh_public_key E (rt_identity R) in
      andThen (texted E [] (lift_res (net_listen_addrs E))) (\<lambda>addrs.
      andThen (texted E [] (lift_res (net_peer_infos E))) (\<lambda>ps.
        ret \<lparr> self_contact = format_contact E peer key, self_peer_id = peer, self_dh = hex_encode E key,
              self_addrs = addrs, self_connected = length ps \<rparr>)))"

definition get_peers :: "'e chatenv_scheme \<Rightarrow> Runtime \<Rightarrow> (chat, PeerInfo list) op" where
  "get_peers E R =
     andThen (attempt (in_chat (enrich_peers E R))) (\<lambda>_. texted E [] (lift_res (net_peer_infos E)))"

definition chat_claim_username :: "'e chatenv_scheme \<Rightarrow> Runtime \<Rightarrow> string \<Rightarrow> (chat, unit) op" where
  "chat_claim_username E R u = texted E [] (in_chat (claim_username E R u))"

definition chat_show_username :: "'e chatenv_scheme \<Rightarrow> Runtime \<Rightarrow> (chat, string option) op" where
  "chat_show_username E R =
     texted E [] (andThen (in_chat (resolve_username E R (own_id R))) (\<lambda>r. ret (map_option username r)))"

definition chat_dial :: "'e chatenv_scheme \<Rightarrow> string \<Rightarrow> (chat, unit) op" where
  "chat_dial E addr =
     (case addr_parse E addr of
        None \<Rightarrow> fail (Bail (''invalid multiaddr '' @ debug_str E addr @ '': '' @ error_text E (Decode addr)))
      | Some a \<Rightarrow> texted E [] (lift_res (net_dial E a)))"

section \<open>Contacts and messages\<close>

definition spawn_receiver :: "Conversation \<Rightarrow> (chat, unit) op" where
  "spawn_receiver c = modify (\<lambda>s. s \<lparr> receivers := receivers s @ [c] \<rparr>)"

definition insert_conversation :: "Conversation \<Rightarrow> (chat, unit) op" where
  "insert_conversation c =
     modify (\<lambda>s. s \<lparr> conversations := AList.update (chat_name (conv_contact c)) c (conversations s) \<rparr>)"

definition conversation_with :: "'e crypto_scheme \<Rightarrow> Runtime \<Rightarrow> string \<Rightarrow> string \<Rightarrow> bytes \<Rightarrow> Conversation" where
  "conversation_with E R name contact key = conversation_new E (rt_identity R)
     \<lparr> chat_name = name,
       chat_peer = (case strip_prefix ''canopee://identity/'' contact of
                      Some rest \<Rightarrow> takeWhile (\<lambda>c. c \<noteq> CHR ''#'') rest
                    | None \<Rightarrow> []),
       chat_dh_key = key \<rparr>"

definition persist_contact :: "'e chatenv_scheme \<Rightarrow> Runtime \<Rightarrow> ChatContact \<Rightarrow> (chat, unit) op" where
  "persist_contact E R c =
     andThen (attempt (in_chat (load_contact_list E R))) (\<lambda>r.
     let l = (case r of Inr (Some l) \<Rightarrow> l | _ \<Rightarrow> \<lparr> contacts = [], contacts_version = 0 \<rparr>);
         l = l \<lparr> contacts := upsert_contact (to_user_contact c) (contacts l) \<rparr>
     in andThen (texted E ''failed to persist contacts: '' (in_chat (save_contact_list E R l))) (\<lambda>_. ret ()))"

definition add_peer :: "'e chatenv_scheme \<Rightarrow> Runtime \<Rightarrow> string \<Rightarrow> string \<Rightarrow> (chat, ConversationInfo) op" where
  "add_peer E R name contact =
     (if blank name then fail (Bail ''name must not be empty'') else
      andThen (gets (\<lambda>s. map_of (conversations s) name)) (\<lambda>known.
      if known \<noteq> None then fail (Bail (''a contact named '' @ [CHR 0x27] @ name @ [CHR 0x27] @ '' already exists'')) else
      andThen (lift_res (parse_contact E contact)) (\<lambda>key.
      let conversation = conversation_with E R name contact key in
      andThen (persist_contact E R (conv_contact conversation)) (\<lambda>_.
      andThen (insert_conversation conversation) (\<lambda>_.
      andThen (spawn_receiver conversation) (\<lambda>_.
        ret (conversation_info conversation)))))))"

definition send_message :: "'e chatenv_scheme \<Rightarrow> string \<Rightarrow> string \<Rightarrow> (chat, unit) op" where
  "send_message E name text =
     (if blank text then fail (Bail ''message must not be empty'') else
      andThen (gets (\<lambda>s. map_of (conversations s) name)) (\<lambda>known.
      case known of
        None \<Rightarrow> fail (Bail (''no contact named '' @ [CHR 0x27] @ name @ [CHR 0x27]))
      | Some conversation \<Rightarrow>
          andThen (lift_res (conv_encrypt E conversation (str_bytes text))) (\<lambda>ciphertext.
          andThen (modify (\<lambda>s. s \<lparr> published := published s @ [(conv_topic conversation, ciphertext)] \<rparr>)) (\<lambda>_.
            texted E [] (lift_res (net_publish E (conv_topic conversation) ciphertext))))))"

definition list_conversations :: "(chat, ConversationInfo list) op" where
  "list_conversations = gets (\<lambda>s. map (conversation_info \<circ> snd) (conversations s))"

text \<open>The receiver task: what it emits to the window for what the subscription gives.\<close>

datatype received = Received PubSubMessage | Lagged | Closed

definition incoming :: "'e chatenv_scheme \<Rightarrow> peer_id \<Rightarrow> Conversation \<Rightarrow> PubSubMessage \<Rightarrow> (string \<times> string) option" where
  "incoming E own c m =
     (if ps_topic m \<noteq> conv_topic c then None
      else if ps_source m = Some own then None
      else map_option (\<lambda>plaintext. (chat_name (conv_contact c), from_utf8_lossy plaintext)) (conv_decrypt E c (ps_data m)))"

fun receive_loop :: "'e chatenv_scheme \<Rightarrow> peer_id \<Rightarrow> Conversation \<Rightarrow> received list \<Rightarrow> (string \<times> string) list" where
  "receive_loop E own c [] = []"
| "receive_loop E own c (Received m # rs) =
     (case incoming E own c m of Some x \<Rightarrow> x # receive_loop E own c rs | None \<Rightarrow> receive_loop E own c rs)"
| "receive_loop E own c (Lagged # rs) = receive_loop E own c rs"
| "receive_loop E own c (Closed # rs) = []"

definition run_receiver :: "'e chatenv_scheme \<Rightarrow> Runtime \<Rightarrow> Conversation \<Rightarrow> received list \<Rightarrow> (string \<times> string) list" where
  "run_receiver E R c rs =
     (case net_subscribe E (conv_topic c) of
        Inl _ \<Rightarrow> []
      | Inr _ \<Rightarrow> receive_loop E (chat_peer_id E R) c rs)"

definition seed_one :: "'e chatenv_scheme \<Rightarrow> Runtime \<Rightarrow> Contact \<Rightarrow> (chat, unit) op" where
  "seed_one E R u =
     (let c = conversation_new E (rt_identity R) (from_user_contact u) in
      andThen (insert_conversation c) (\<lambda>_. spawn_receiver c))"

definition seed_conversations :: "'e chatenv_scheme \<Rightarrow> Runtime \<Rightarrow> (chat, unit) op" where
  "seed_conversations E R =
     andThen (attempt (in_chat (load_contact_list E R))) (\<lambda>r.
       case r of Inr (Some l) \<Rightarrow> each (seed_one E R) (contacts l) | _ \<Rightarrow> ret ())"

text \<open>The runtime a window embeds: the data directory is its own, the user's root is shared.\<close>

definition open_runtime ::
  "'e openenv_scheme \<Rightarrow> Config \<Rightarrow> string option \<Rightarrow> string \<Rightarrow> string option \<Rightarrow> string \<Rightarrow> fs \<Rightarrow> (Runtime \<times> rt) res" where
  "open_runtime E base user_root_var data_dir =
     (case user_root_var of
        Some u \<Rightarrow> open_with_config E (with_mdns False (with_user_root u (with_app_root data_dir base)))
      | None \<Rightarrow> open_with_user_root E base data_dir)"

section \<open>The user's data\<close>

record MyDataInfo =
  md_name :: string
  md_object :: ObjectId
  md_size :: u64
  md_type :: string
  md_shared :: bool
  md_app :: "string option"

definition attach_picture :: "'e chatenv_scheme \<Rightarrow> Runtime \<Rightarrow> string \<Rightarrow> (chat, MyDataInfo) op" where
  "attach_picture E R path =
     (if blank path then fail (Bail ''path must not be empty'') else
      andThen (texted E (''can'' @ [CHR 0x27] @ ''t read '' @ path @ '': '') (in_chat (read_fs (fs_read path)))) (\<lambda>bs.
      let name = (case file_name_of path of Some n \<Rightarrow> n | None \<Rightarrow> ''file'') in
      andThen (texted E [] (in_chat (put_object E R bs Blob None))) (\<lambda>ob.
      andThen (texted E [] (in_chat (load_home_index E R))) (\<lambda>ix.
      let index = (case ix of Some i \<Rightarrow> i | None \<Rightarrow>
            \<lparr> home_profile = None, home_contacts = None, home_entries = [], home_version = 0 \<rparr>);
          entry = \<lparr> home_name = name, home_object = obj_id ob, home_type = Blob, home_shared = False,
                    home_app = Some ''chat'' \<rparr>
      in andThen (texted E ''failed to persist home index: '' (in_chat (save_home_index E R
           (index \<lparr> home_entries := home_entries index @ [entry] \<rparr>)))) (\<lambda>_.
         ret \<lparr> md_name = name, md_object = obj_id ob, md_size = of_nat (length bs), md_type = ''blob'',
               md_shared = False, md_app = Some ''chat'' \<rparr>)))))"

fun data_rows :: "'e chatenv_scheme \<Rightarrow> Runtime \<Rightarrow> HomeEntry list \<Rightarrow> (chat, MyDataInfo list) op" where
  "data_rows E R [] = ret []"
| "data_rows E R (e # es) =
     andThen (attempt (in_chat (rt_get E R (home_object e)))) (\<lambda>r.
     andThen (data_rows E R es) (\<lambda>rows.
       ret (\<lparr> md_name = home_name e, md_object = home_object e,
              md_size = (case r of Inr ob \<Rightarrow> meta_size (metadata (payload ob)) | Inl _ \<Rightarrow> 0),
              md_type = (case home_type e of Blob \<Rightarrow> ''blob'' | _ \<Rightarrow> ''unknown''),
              md_shared = home_shared e, md_app = home_app e \<rparr> # rows)))"

definition my_data :: "'e chatenv_scheme \<Rightarrow> Runtime \<Rightarrow> (chat, MyDataInfo list) op" where
  "my_data E R =
     andThen (texted E [] (in_chat (load_home_index E R))) (\<lambda>ix.
       case ix of None \<Rightarrow> ret [] | Some i \<Rightarrow> data_rows E R (home_entries i))"

section \<open>Facts\<close>

text \<open>What the chat relies on: X25519 agrees, ChaCha20-Poly1305 opens what it sealed, hex decodes.\<close>

definition chat_laws :: "'e chatenv_scheme \<Rightarrow> bool" where
  "chat_laws E = (x25519_ok E \<and>
     (\<forall>k n p c. chacha_encrypt E k n p = Some c \<longrightarrow> chacha_decrypt E k n c = Some p) \<and>
     (\<forall>bs. hex_decode E (hex_encode E bs) = Some bs \<and> length (hex_encode E bs) = 2 * length bs))"

definition same_chat_code :: "'e chatenv_scheme \<Rightarrow> 'e chatenv_scheme \<Rightarrow> bool" where
  "same_chat_code E F = (sha256 F = sha256 E \<and> hex_encode F = hex_encode E \<and> hex_decode F = hex_decode E \<and>
     x25519_public F = x25519_public E \<and> x25519_dh F = x25519_dh E \<and> hkdf_sha256 F = hkdf_sha256 E \<and>
     chacha_encrypt F = chacha_encrypt E \<and> chacha_decrypt F = chacha_decrypt E)"

lemma bytes_less_asym: "bytes_less a b \<Longrightarrow> \<not> bytes_less b a"
  by (induction a b rule: bytes_less.induct) auto

lemma bytes_less_total: "bytes_less a b \<or> a = b \<or> bytes_less b a"
  by (induction a b rule: bytes_less.induct) (auto, metis list.exhaust bytes_less.simps(2))

lemma topic_symmetric: "conversation_topic E a b = conversation_topic E b a"
  using bytes_less_asym bytes_less_total [of a b] by (auto simp: conversation_topic_def Let_def)

lemma same_code_conversation:
  assumes "same_chat_code E F"
  shows "conversation_new F i c = conversation_new E i c" and "dh_public_key F i = dh_public_key E i"
    and "format_contact F peer key = format_contact E peer key"
    and "conv_decrypt F v bs = conv_decrypt E v bs"
  using assms by (simp_all add: same_chat_code_def conversation_new_def conversation_topic_def dh_public_key_def
      agree_def format_contact_def conv_decrypt_def)

lemma conversations_agree:
  assumes "x25519_ok E" "chat_dh_key c = dh_public_key E j" "chat_dh_key d = dh_public_key E i"
  shows "conv_topic (conversation_new E i c) = conv_topic (conversation_new E j d)"
    and "conv_key (conversation_new E i c) = conv_key (conversation_new E j d)"
  using assms x25519_okD(1) [OF assms(1)]
  by (simp_all add: conversation_new_def topic_symmetric agree_def dh_public_key_def)

lemma contact_read:
  assumes "chat_laws E" "CHR ''#'' \<notin> set peer" "length key = 32"
  shows "parse_contact E (format_contact E peer key) = Inr key"
proof -
  have "format_contact E peer key = (''canopee://identity/'' @ peer) @ CHR ''#'' # ''dh='' @ hex_encode E key"
    by (simp add: format_contact_def)
  moreover have "CHR ''#'' \<notin> set (''canopee://identity/'' @ peer)" using assms(2) by simp
  ultimately have "split_once CHR ''#'' (format_contact E peer key) =
      Some (''canopee://identity/'' @ peer, ''dh='' @ hex_encode E key)"
    using split_once_append by metis
  moreover have "strip_prefix ''dh='' (''dh='' @ hex_encode E key) = Some (hex_encode E key)"
    by (rule strip_prefix_append)
  ultimately show ?thesis using assms(1, 3) by (simp add: parse_contact_def chat_laws_def del: append.simps)
qed

lemma chat_laws_same: "chat_laws E \<Longrightarrow> same_chat_code E F \<Longrightarrow> chat_laws F"
  by (simp add: chat_laws_def same_chat_code_def x25519_ok_def)

lemma own_contact_read:
  assumes "chat_laws E" "same_chat_code E F" "CHR ''#'' \<notin> set peer"
  shows "parse_contact F (format_contact E peer (dh_public_key E i)) = Inr (dh_public_key E i)"
proof -
  have "length (dh_public_key E i) = 32"
    using assms(1) by (simp add: chat_laws_def dh_public_key_def x25519_okD(2))
  with contact_read [OF chat_laws_same [OF assms(1, 2)] assms(3)] show ?thesis
    by (simp add: same_code_conversation(3) [OF assms(2)])
qed

text \<open>Work on the embedded node leaves the conversations and what was sent alone.\<close>

definition same_talk :: "chat \<Rightarrow> chat \<Rightarrow> bool" where
  "same_talk s t = (conversations t = conversations s \<and> receivers t = receivers s \<and> published t = published s)"

interpretation talk: state_relation same_talk
  by unfold_locales (simp_all add: same_talk_def)

lemma keeps_talk: "keeps same_talk (in_chat m)" "keeps same_talk m' \<Longrightarrow> keeps same_talk (texted E lead m')"
  "keeps same_talk m' \<Longrightarrow> keeps same_talk (attempt m')"
  by (auto simp: keeps_def same_talk_def in_chat_def texted_def split: prod.splits sum.splits error.splits)
    (metis fst_conv)+

lemma persist_contact_keeps: "keeps same_talk (persist_contact E R c)"
  unfolding persist_contact_def Let_def by (intro talk.bind talk.ret keeps_talk)

lemma texted_Inr: "texted E lead m s = (s', Inr x) \<longleftrightarrow> m s = (s', Inr x)"
  by (auto simp: texted_def split: prod.splits sum.splits error.splits)

lemma add_peer_Inr:
  assumes "add_peer E R name contact s = (s', Inr info)"
  shows "\<exists>key c. parse_contact E contact = Inr key \<and> c = conversation_with E R name contact key \<and>
     map_of (conversations s') name = Some c \<and> receivers s' = receivers s @ [c] \<and>
     published s' = published s \<and> info = conversation_info c"
proof -
  from assms obtain key s1 where "parse_contact E contact = Inr key"
    and persist: "persist_contact E R (conv_contact (conversation_with E R name contact key)) s = (s1, Inr ())"
    and "s' = fst (spawn_receiver (conversation_with E R name contact key)
      (fst (insert_conversation (conversation_with E R name contact key) s1)))"
    and "info = conversation_info (conversation_with E R name contact key)"
    by (auto simp: add_peer_def andThen_Inr Let_def insert_conversation_def spawn_receiver_def split: if_splits)
  moreover from persist keepsD [OF persist_contact_keeps, of s E R "conv_contact (conversation_with E R name contact key)"]
  have "conversations s1 = conversations s \<and> receivers s1 = receivers s \<and> published s1 = published s"
    by (simp add: same_talk_def)
  ultimately show ?thesis
    by (auto simp: insert_conversation_def spawn_receiver_def update_conv' conversation_with_def conversation_new_def)
qed

lemma send_message_Inr:
  assumes "send_message E name text s = (s', Inr ())"
  shows "\<exists>c bs. map_of (conversations s) name = Some c \<and>
    chacha_encrypt E (conv_key c) (chat_nonce E) (str_bytes text) = Some bs \<and>
    published s' = published s @ [(conv_topic c, chat_nonce E @ bs)]"
  using assms
  by (auto simp: send_message_def andThen_Inr texted_Inr conv_encrypt_def split: if_splits option.splits)

lemma receive_before_close:
  "Closed \<notin> set rs \<Longrightarrow> incoming E own c m = Some x \<Longrightarrow> x \<in> set (receive_loop E own c (rs @ Received m # rs'))"
  by (induction E own c rs rule: receive_loop.induct) (auto split: option.splits)

section \<open>Properties\<close>

text \<open>Property C36. What one user of the chat writes, the other one reads.  When two users have added each
  other by the contact strings of their apps, a message that the one sends is published under the topic
  to which the other one's receiver listens, and the receiver emits it, unchanged and under the name the
  other one chose, unless its subscription failed or closed before or the message came from its own
  peer id.  The clock, the randomness, the network and the host may change between the steps.\<close>

theorem chat_message_arrives:
  assumes "chat_laws E" "same_chat_code E EA" "same_chat_code E EB" "same_chat_code E ES" "same_chat_code E EF"
    and "CHR ''#'' \<notin> set (chat_peer_id E RA)" "CHR ''#'' \<notin> set (chat_peer_id E RB)"
    and "add_peer EA RA bob (format_contact E (chat_peer_id E RB) (dh_public_key E (rt_identity RB))) s = (s1, Inr ia)"
    and "add_peer EB RB alice (format_contact E (chat_peer_id E RA) (dh_public_key E (rt_identity RA))) t = (t1, Inr ib)"
    and "map_of (conversations s2) bob = map_of (conversations s1) bob"
    and "send_message ES bob text s2 = (s3, Inr ())"
    and "length (chat_nonce ES) = 12" "utf8_valid (str_bytes text)"
    and "net_subscribe EF (ci_topic ib) = Inr ()" "src \<noteq> Some (chat_peer_id EF RB)" "Closed \<notin> set before_it"
  shows "\<exists>bs c. published s3 = published s2 @ [(ci_topic ib, bs)] \<and> receivers t1 = receivers t @ [c] \<and>
    (alice, text) \<in> set (run_receiver EF RB c
      (before_it @ Received \<lparr> ps_topic = ci_topic ib, ps_source = src, ps_data = bs \<rparr> # after_it))"
proof -
  from add_peer_Inr [OF assms(8)] own_contact_read [OF assms(1, 2, 7)] obtain c where
    c: "map_of (conversations s1) bob = Some c" "c = conversation_with EA RA bob
      (format_contact E (chat_peer_id E RB) (dh_public_key E (rt_identity RB))) (dh_public_key E (rt_identity RB))"
    by auto
  from add_peer_Inr [OF assms(9)] own_contact_read [OF assms(1, 3, 6)] obtain d where
    d: "receivers t1 = receivers t @ [d]" "ib = conversation_info d" "d = conversation_with EB RB alice
      (format_contact E (chat_peer_id E RA) (dh_public_key E (rt_identity RA))) (dh_public_key E (rt_identity RA))"
    by auto
  from assms(1) have x: "x25519_ok E" by (simp add: chat_laws_def)
  have agree: "conv_topic c = conv_topic d" "conv_key c = conv_key d"
    unfolding c(2) d(3) conversation_with_def same_code_conversation(1) [OF assms(2)]
      same_code_conversation(1) [OF assms(3)]
    by (intro conversations_agree [OF x]; simp)+
  from send_message_Inr [OF assms(11)] assms(10) c(1) obtain bs where
    bs: "chacha_encrypt ES (conv_key c) (chat_nonce ES) (str_bytes text) = Some bs"
    "published s3 = published s2 @ [(conv_topic c, chat_nonce ES @ bs)]" by auto
  have "chacha_decrypt ES (conv_key c) (chat_nonce ES) bs = Some (str_bytes text)"
    using bs(1) chat_laws_same [OF assms(1, 4)] by (simp add: chat_laws_def)
  then have "conv_decrypt ES d (chat_nonce ES @ bs) = Some (str_bytes text)"
    using assms(12) agree(2) by (simp add: conv_decrypt_def)
  then have opened: "conv_decrypt EF d (chat_nonce ES @ bs) = Some (str_bytes text)"
    by (simp add: same_code_conversation(4) [OF assms(4)] same_code_conversation(4) [OF assms(5)])
  let ?m = "\<lparr> ps_topic = ci_topic ib, ps_source = src, ps_data = chat_nonce ES @ bs \<rparr>"
  have "incoming EF (chat_peer_id EF RB) d ?m = Some (alice, text)"
    using opened assms(13, 15) d(2) by (simp add: incoming_def conversation_info_def from_utf8_lossy_valid)
       (simp add: d(3) conversation_with_def conversation_new_def)
  from receive_before_close [OF assms(16) this, of after_it]
  have "(alice, text) \<in> set (run_receiver EF RB d (before_it @ Received ?m # after_it))"
    using assms(14) d(2) by (simp add: run_receiver_def conversation_info_def)
  with bs(2) d(1, 2) agree(1) show ?thesis by (auto simp: conversation_info_def)
qed

text \<open>The peer id in the contact string is the one of the identity's key, while the network runs under
  the device's key.  So the echo filter does not know the own peer id: an own message that comes back
  is shown as one of the contact.\<close>

theorem own_echo_is_shown:
  assumes "chat_laws E" "conv_encrypt E c (str_bytes text) = Inr bs" "length (chat_nonce E) = 12"
    and "utf8_valid (str_bytes text)" "own_device E R \<noteq> chat_peer_id E R"
  shows "incoming E (chat_peer_id E R) c
    \<lparr> ps_topic = conv_topic c, ps_source = Some (own_device E R), ps_data = bs \<rparr> =
    Some (chat_name (conv_contact c), text)"
proof -
  from assms(2) obtain x where "chacha_encrypt E (conv_key c) (chat_nonce E) (str_bytes text) = Some x"
    and bs: "bs = chat_nonce E @ x" by (auto simp: conv_encrypt_def split: option.splits)
  with assms(1) have "chacha_decrypt E (conv_key c) (chat_nonce E) x = Some (str_bytes text)"
    by (simp add: chat_laws_def)
  with bs assms(3-5) show ?thesis by (simp add: incoming_def conv_decrypt_def from_utf8_lossy_valid)
qed

text \<open>After a restart the conversation of a stored contact is the one that was opened when the contact
  was added.\<close>

lemma seed_one_apply:
  "\<exists>t. seed_one E R u s = (t, Inr ()) \<and> conversations t =
     AList.update (contact_name u) (conversation_new E (rt_identity R) (from_user_contact u)) (conversations s)"
  by (simp add: seed_one_def insert_conversation_def spawn_receiver_def Let_def)
     (simp add: conversation_new_def from_user_contact_def)

lemma seeded_other: "n \<notin> contact_name ` set us \<Longrightarrow>
    map_of (conversations (fst (each (seed_one E R) us s))) n = map_of (conversations s) n"
proof (induction us arbitrary: s)
  case (Cons u us)
  with seed_one_apply [of E R u s] show ?case by (auto simp: update_conv')
qed simp

lemma seeded:
  assumes "u \<in> set us" "distinct (map contact_name us)"
  shows "map_of (conversations (fst (each (seed_one E R) us s))) (contact_name u) =
    Some (conversation_new E (rt_identity R) (from_user_contact u))"
  using assms
proof (induction us arbitrary: s)
  case (Cons x us)
  obtain t where t: "seed_one E R x s = (t, Inr ())" "conversations t =
      AList.update (contact_name x) (conversation_new E (rt_identity R) (from_user_contact x)) (conversations s)"
    using seed_one_apply by blast
  show ?case
  proof (cases "u = x")
    case True
    with t Cons.prems(2) seeded_other [of "contact_name x" us E R t] show ?thesis by (simp add: update_conv')
  next
    case False
    with t(1) Cons show ?thesis by simp
  qed
qed simp

theorem restart_restores_conversation:
  assumes "add_peer E R name contact s = (s1, Inr info)" "map_of (conversations s1) name = Some c"
    and "same_chat_code E F" "load_contact_list F R (chat_rt s0) = (r, Inr (Some l))"
    and "to_user_contact (conv_contact c) \<in> set (contacts l)" "distinct (map contact_name (contacts l))"
  shows "map_of (conversations (fst (seed_conversations F R s0))) name = Some c"
proof -
  from add_peer_Inr [OF assms(1)] assms(2) obtain key where c: "c = conversation_with E R name contact key" by auto
  then have "chat_name (conv_contact c) = name" by (simp add: conversation_with_def conversation_new_def)
  moreover have "from_user_contact (to_user_contact d) = d" for d
    by (simp add: from_user_contact_def to_user_contact_def)
  with c have "conversation_new F (rt_identity R) (from_user_contact (to_user_contact (conv_contact c))) = c"
    unfolding same_code_conversation(1) [OF assms(3)] by (simp add: conversation_with_def conversation_new_def)
  ultimately show ?thesis
    using seeded [OF assms(5, 6), of F R] assms(4)
    by (simp add: seed_conversations_def andThen_apply in_chat_def to_user_contact_def)
qed

text \<open>Hex as the examples write it, read back.\<close>

definition hex_value :: "char \<Rightarrow> byte" where
  "hex_value c = (let n = (of_char c :: nat) in of_nat (if n < 58 then n - 48 else n - 87))"

fun sample_unhex :: "string \<Rightarrow> bytes option" where
  "sample_unhex [] = Some []"
| "sample_unhex [_] = None"
| "sample_unhex (a # b # s) = map_option (Cons (16 * hex_value a + hex_value b)) (sample_unhex s)"

lemma sample_unhex_hex: "sample_unhex (sample_hex bs) = Some bs" and sample_hex_length: "length (sample_hex bs) = 2 * length bs"
proof -
  have digit: "hex_value (hex_digit n) = of_nat n" if "n < 16" for n
    using that by (simp add: hex_value_def hex_digit_def of_char_of Let_def take_bit_nat_eq_self_iff)
  have byte: "16 * hex_value (hex_digit (unat b div 16)) + hex_value (hex_digit (unat b mod 16)) = b" for b :: byte
  proof -
    have "unat b div 16 < 16" using unsigned_less [of b, where 'a = nat] by simp
    then have "16 * hex_value (hex_digit (unat b div 16)) + hex_value (hex_digit (unat b mod 16)) =
        of_nat (16 * (unat b div 16) + unat b mod 16)"
      by (simp only: digit of_nat_add of_nat_mult of_nat_numeral mod_less_divisor zero_less_numeral)
    then show ?thesis by simp
  qed
  show "sample_unhex (sample_hex bs) = Some bs"
    by (induction bs) (simp_all add: sample_hex_def byte)
  show "length (sample_hex bs) = 2 * length bs" by (induction bs) (simp_all add: sample_hex_def)
qed

definition ex_chatenv :: chatenv where
  "ex_chatenv = sample_rtenv_with [] [] \<lparr>
     manifest_dec = (\<lambda>_. None), gzip = Some, addr_parse = (\<lambda>_. None), net_dial = (\<lambda>_. Inr ()),
     edge_connects = (\<lambda>_. False), edge_reply = (\<lambda>_ _. Inr ReplyOk),
     error_text = (\<lambda>_. ''error''), key_salt = [], key_nonce = [], code_rnd = [], session_rnd = [],
     pairing_nonce = [], pairing_enc = (\<lambda>_. []), pairing_dec = (\<lambda>_. None),
     pairing_deliver = (\<lambda>_ _ _. Inr []), net_listen_addrs = Inr [], net_listen_via_relay = (\<lambda>_. Inr ()),
     net_publish = (\<lambda>_ _. Inr ()), net_put_record = (\<lambda>_ _. Inr ()), net_peer_infos = Inr [],
     net_relay_reservations = Inr [], remote_slow = False, public_base_domain = None,
     hex_decode = sample_unhex, hex_error = (\<lambda>_. []), chacha_encrypt = aead_encrypt (sample_crypto ()),
     chacha_decrypt = aead_decrypt (sample_crypto ()), chat_nonce = replicate 12 7, debug_str = (\<lambda>s. s),
     net_subscribe = (\<lambda>_. Inr ()) \<rparr>"

definition ex_alice :: Runtime where "ex_alice = ex_runtime"
definition ex_bob :: Runtime where "ex_bob = ex_runtime\<lparr>rt_identity := sample_identity 67\<rparr>"

definition ex_chat :: chat where
  "ex_chat = \<lparr> chat_rt = ex_state [], conversations = [], receivers = [], published = [] \<rparr>"

lemma ex_chatenv_sel [simp]:
  "hex_decode ex_chatenv = sample_unhex" "hex_encode ex_chatenv = sample_hex" "chat_nonce ex_chatenv = replicate 12 7"
  "chacha_encrypt ex_chatenv = aead_encrypt (sample_crypto ())"
  "chacha_decrypt ex_chatenv = aead_decrypt (sample_crypto ())" "net_subscribe ex_chatenv t = Inr ()"
  "net_publish ex_chatenv t bs = Inr ()" "x25519_ok ex_chatenv"
  by (simp_all add: ex_chatenv_def sample_rtenv_with_def sample_objenv_def sample_crypto_def working_host_def)
    (simp add: x25519_ok_def map2_XOR_comm)

lemma ex_chat_laws: "chat_laws ex_chatenv"
proof -
  have "aead_encrypt (sample_crypto ()) k n p = Some c \<Longrightarrow> aead_decrypt (sample_crypto ()) k n c = Some p" for k n p c
    by (rule aead_okD(1) [OF sample_aead_ok])
  then show ?thesis by (simp add: chat_laws_def sample_unhex_hex sample_hex_length)
qed

lemma ex_chat_host: "io_write ex_chatenv p bs = Wrote" "io_rename_ok ex_chatenv p q" "io_create_ok ex_chatenv p"
  "io_read_dir_ok ex_chatenv p" "net_get_record ex_chatenv key = Inr None" "net_slow ex_chatenv key = False"
  by (simp_all add: ex_chatenv_def) (simp_all add: sample_rtenv_with_def sample_objenv_def sample_crypto_def working_host_def)

lemma ex_chat_signs: "kp_sign ex_chatenv (signing_key (sample_identity k)) m = Some (k # checksum m)"
  and ex_chat_verifies: "object_new ex_chatenv (sample_identity k) t bs ty = Inr ob \<Longrightarrow> object_verify ex_chatenv ob"
proof -
  have "sign_ok ex_chatenv" by (simp add: ex_chatenv_def)
  then show "object_new ex_chatenv (sample_identity k) t bs ty = Inr ob \<Longrightarrow> object_verify ex_chatenv ob"
    by (rule object_new_verifies)
  show "kp_sign ex_chatenv (signing_key (sample_identity k)) m = Some (k # checksum m)"
    by (simp add: ex_chatenv_def sample_identity_def from_keypair_def)
qed

lemma ex_no_contacts: "load_contact_list ex_chatenv R (ex_state []) = (ex_state [], Inr None)"
  by (simp add: load_contact_list_def load_own_def resolve_pointer_def andThen_apply cached_pointer_def fs_read_def
      latest_pointer_record_def store_list_def fs_read_dir_def dht_value_def ex_chat_host ex_state_def Let_def
      List.map_filter_simps)

lemma ex_pointer_published:
  "\<exists>t. publish_pointer ex_chatenv (ex_runtime\<lparr>rt_identity := sample_identity k\<rparr>) name oid v = (t, Inr ())"
  by (simp add: publish_pointer_def andThen_apply pointer_sign_def sign_def ex_chat_signs create_dir_def ex_chat_host
      on_fs_def fs_write_def fs_rename_def send_def Let_def update_conv')

lemma ex_contacts_saved:
  "\<exists>t oid. save_contact_list ex_chatenv (ex_runtime\<lparr>rt_identity := sample_identity k\<rparr>) l (ex_state []) = (t, Inr oid)"
proof -
  let ?l = "l\<lparr>contacts_version := next_version None\<rparr>"
  obtain ob where ob: "contacts_object ex_chatenv (sample_identity k) (now ex_chatenv) ?l = Inr ob"
    by (simp add: contacts_object_def object_new_def sign_def ex_chat_signs Let_def)
  then have "object_verify ex_chatenv ob" by (simp add: contacts_object_def ex_chat_verifies)
  then have "\<exists>t. on_fs (put_verified ex_chatenv root ob) v = (t, Inr ())" for root v
    by (simp add: on_fs_def put_verified_def fs_write_def fs_rename_def ex_chat_host Let_def update_conv')
  then obtain t where "on_fs (put_verified ex_chatenv (store_root (ex_runtime\<lparr>rt_identity := sample_identity k\<rparr>)) ob)
      (ex_state []) = (t, Inr ())" by blast
  moreover obtain u where "publish_pointer ex_chatenv (ex_runtime\<lparr>rt_identity := sample_identity k\<rparr>)
      RECORD_CONTACTS (obj_id ob) t = (u, Inr ())" using ex_pointer_published by blast
  ultimately show ?thesis using ob by (simp add: save_contact_list_def andThen_apply ex_no_contacts)
qed

lemma ex_peer_added:
  fixes k :: byte
  defines "R \<equiv> ex_runtime\<lparr>rt_identity := sample_identity k\<rparr>"
  assumes "\<not> blank name" "CHR ''#'' \<notin> set peer"
  shows "\<exists>s info. add_peer ex_chatenv R name (format_contact ex_chatenv peer (dh_public_key ex_chatenv i)) ex_chat = (s, Inr info)"
proof -
  let ?c = "format_contact ex_chatenv peer (dh_public_key ex_chatenv i)"
  have parse: "parse_contact ex_chatenv ?c = Inr (dh_public_key ex_chatenv i)"
    by (rule own_contact_read [OF ex_chat_laws _ assms(3)]) (simp add: same_chat_code_def)
  have "\<exists>s. persist_contact ex_chatenv R c ex_chat = (s, Inr ())" for c
    using ex_contacts_saved [of k "\<lparr> contacts = [to_user_contact c], contacts_version = 0 \<rparr>"]
    by (auto simp: persist_contact_def andThen_apply in_chat_def ex_chat_def ex_no_contacts R_def texted_def Let_def)
  then obtain s where "persist_contact ex_chatenv R (conv_contact
      (conversation_with ex_chatenv R name ?c (dh_public_key ex_chatenv i))) ex_chat = (s, Inr ())" by blast
  with assms(2) parse show ?thesis
    by (simp add: add_peer_def andThen_apply ex_chat_def insert_conversation_def spawn_receiver_def Let_def)
qed

theorem chat_message_arrives_witness:
  "\<exists>s1 ia t1 ib s3 bs c.
     add_peer ex_chatenv ex_alice ''Bob'' (format_contact ex_chatenv (chat_peer_id ex_chatenv ex_bob)
       (dh_public_key ex_chatenv (rt_identity ex_bob))) ex_chat = (s1, Inr ia) \<and>
     add_peer ex_chatenv ex_bob ''Alice'' (format_contact ex_chatenv (chat_peer_id ex_chatenv ex_alice)
       (dh_public_key ex_chatenv (rt_identity ex_alice))) ex_chat = (t1, Inr ib) \<and>
     send_message ex_chatenv ''Bob'' ''hello'' s1 = (s3, Inr ()) \<and>
     published s3 = [(ci_topic ib, bs)] \<and> receivers t1 = [c] \<and>
     (''Alice'', ''hello'') \<in> set (run_receiver ex_chatenv ex_bob c
       [Lagged, Received \<lparr> ps_topic = ci_topic ib, ps_source = None, ps_data = bs \<rparr>, Closed])"
proof -
  have alice: "ex_alice = ex_runtime\<lparr>rt_identity := sample_identity 65\<rparr>" by (simp add: ex_alice_def ex_runtime_def)
  have id: "chat_peer_id ex_chatenv (ex_runtime\<lparr>rt_identity := sample_identity k\<rparr>) = sample_hex [k]" for k
    by (simp add: chat_peer_id_def sample_identity_def from_keypair_def ex_chatenv_def sample_rtenv_with_def
        sample_objenv_def sample_crypto_def working_host_def)
  have peers: "CHR ''#'' \<notin> set (chat_peer_id ex_chatenv ex_alice)" "CHR ''#'' \<notin> set (chat_peer_id ex_chatenv ex_bob)"
    unfolding alice ex_bob_def id
    by (auto simp: sample_hex_def hex_digit_def of_char_of dest!: arg_cong [where f = "of_char :: char \<Rightarrow> nat"])
  have names: "\<not> blank ''Bob''" "\<not> blank ''Alice''" "\<not> blank ''hello''"
    by (simp_all add: continues_def in_range_def white_ascii is_space_def)
  obtain s1 ia where a: "add_peer ex_chatenv ex_alice ''Bob'' (format_contact ex_chatenv (chat_peer_id ex_chatenv ex_bob)
       (dh_public_key ex_chatenv (rt_identity ex_bob))) ex_chat = (s1, Inr ia)"
    using ex_peer_added [OF names(1) peers(2)] unfolding alice by blast
  obtain t1 ib where b: "add_peer ex_chatenv ex_bob ''Alice'' (format_contact ex_chatenv (chat_peer_id ex_chatenv ex_alice)
       (dh_public_key ex_chatenv (rt_identity ex_alice))) ex_chat = (t1, Inr ib)"
    using ex_peer_added [OF names(2) peers(1)] unfolding ex_bob_def by blast
  from add_peer_Inr [OF a] obtain c where "map_of (conversations s1) ''Bob'' = Some c" "published s1 = []"
    by (auto simp: ex_chat_def)
  then obtain s3 where s: "send_message ex_chatenv ''Bob'' ''hello'' s1 = (s3, Inr ())"
    using names(3) by (simp add: send_message_def andThen_apply conv_encrypt_def texted_def del: blank.simps)
  have code: "same_chat_code ex_chatenv ex_chatenv" by (simp add: same_chat_code_def)
  show ?thesis
    using chat_message_arrives [OF ex_chat_laws code code code code peers a b refl s, of None "[Lagged]" "[Closed]"]
      a b s \<open>published s1 = []\<close>
    by (auto simp: utf8_valid_ascii is_ascii_def ex_chat_def)
qed

end
