(* ===== verification/Loop_Accounts.thy ===== *)
theory Loop_Accounts
  imports Event_Loop
begin

text \<open>
  The book-keeping of the network task: every sender that came with a command is answered once, with
  an answer of the type the command asks for, or still waits in one of the maps or tasks.  The only
  thing asked of libp2p is that a behaviour does not give an id twice.
\<close>

section \<open>What a command asks, what an answer is\<close>

datatype answer_kind =
  KProviders | KPut | KRecord | KObject | KReplicated | KPairing | KRegistration | KServe
| KPeers | KAddrs | KReservations | KSubscribed | KPublished

fun kind_of :: "Answer \<Rightarrow> answer_kind" where
  "kind_of (AnsProviders _) = KProviders"
| "kind_of (AnsPut _) = KPut"
| "kind_of (AnsRecord _) = KRecord"
| "kind_of (AnsObject _) = KObject"
| "kind_of (AnsReplicated _) = KReplicated"
| "kind_of (AnsPairing _) = KPairing"
| "kind_of (AnsRegistration _) = KRegistration"
| "kind_of (AnsServe _) = KServe"
| "kind_of (AnsPeers _) = KPeers"
| "kind_of (AnsAddrs _) = KAddrs"
| "kind_of (AnsReservations _) = KReservations"
| "kind_of (AnsSubscribed _) = KSubscribed"
| "kind_of (AnsPublished _) = KPublished"

fun asks :: "Command \<Rightarrow> (nat \<times> answer_kind) list" where
  "asks (NetFindProviders _ n) = [(n, KProviders)]"
| "asks (NetPutRecord _ _ n) = [(n, KPut)]"
| "asks (NetGetRecord _ n) = [(n, KRecord)]"
| "asks (NetGetObject _ _ n) = [(n, KObject)]"
| "asks (NetReplicateObject _ _ n) = [(n, KReplicated)]"
| "asks (NetSendPairing _ _ n) = [(n, KPairing)]"
| "asks (NetSendServeRegistration _ _ n) = [(n, KRegistration)]"
| "asks (NetSendServeRequest _ _ n) = [(n, KServe)]"
| "asks (NetListPeers n) = [(n, KPeers)]"
| "asks (NetListListenAddresses n) = [(n, KAddrs)]"
| "asks (NetListRelayReservations n) = [(n, KReservations)]"
| "asks (NetSubscribe _ n) = [(n, KSubscribed)]"
| "asks (NetPublish _ _ n) = [(n, KPublished)]"
| "asks _ = []"

fun of_caller :: "sender \<times> answer_kind \<Rightarrow> (nat \<times> answer_kind) list" where
  "of_caller (Caller n, k) = [(n, k)]"
| "of_caller (Target i, k) = []"

definition answered :: "loop \<Rightarrow> (nat \<times> answer_kind) multiset" where
  "answered s = mset (concat (map (\<lambda>(tx, a). of_caller (tx, kind_of a)) (lp_answers s)))"

definition waiting :: "answer_kind \<Rightarrow> pending \<Rightarrow> (nat \<times> answer_kind) multiset" where
  "waiting k m = mset (concat (map (\<lambda>(i, tx). of_caller (tx, k)) m))"

definition owed :: "loop \<Rightarrow> (nat \<times> answer_kind) multiset" where
  "owed s =
     waiting KProviders (pending_get_providers s) + waiting KPut (pending_put_record s) +
     waiting KRecord (pending_get_record s) + waiting KObject (pending_get_object s) +
     waiting KPairing (pending_pairing_request s) + waiting KRegistration (pending_serve_registration s) +
     waiting KServe (pending_serve_request s) + mset (map (\<lambda>(n, ts). (n, KReplicated)) (lp_tasks s))"

section \<open>Ids\<close>

definition fresh_ids :: "swarm \<Rightarrow> bool" where
  "fresh_ids W \<longleftrightarrow>
     (\<forall>h c h' c'. behaviour_of c = behaviour_of c' \<longrightarrow> call_id W h c \<noteq> call_id W (h @ c # h') c')"

definition issued :: "swarm \<Rightarrow> behaviour \<Rightarrow> swarm_call list \<Rightarrow> nat \<Rightarrow> bool" where
  "issued W b calls i \<longleftrightarrow> (\<exists>h c h'. calls = h @ c # h' \<and> behaviour_of c = b \<and> call_id W h c = i)"

lemma issued_append: "issued W b calls i \<Longrightarrow> issued W b (calls @ cs) i"
  unfolding issued_def by (metis append.assoc append_Cons)

lemma issued_now: "behaviour_of c = b \<Longrightarrow> issued W b (calls @ [c]) (call_id W calls c)"
  unfolding issued_def by blast

lemma not_issued: "fresh_ids W \<Longrightarrow> behaviour_of c = b \<Longrightarrow> \<not> issued W b calls (call_id W calls c)"
  unfolding issued_def fresh_ids_def by metis

definition is_caller :: "nat \<Rightarrow> sender \<Rightarrow> bool" where
  "is_caller i tx \<longleftrightarrow> (\<exists>n. tx = Caller n)"

definition is_target :: "nat \<Rightarrow> sender \<Rightarrow> bool" where
  "is_target i tx \<longleftrightarrow> tx = Target i"

definition good_map ::
  "swarm \<Rightarrow> swarm_call list \<Rightarrow> behaviour \<Rightarrow> (nat \<Rightarrow> sender \<Rightarrow> bool) \<Rightarrow> pending \<Rightarrow> bool" where
  "good_map W calls b P m \<longleftrightarrow>
     distinct (map fst m) \<and> (\<forall>(i, tx) \<in> set m. issued W b calls i \<and> P i tx)"

definition loop_maps :: "loop \<Rightarrow> (behaviour \<times> (nat \<Rightarrow> sender \<Rightarrow> bool) \<times> pending) list" where
  "loop_maps s =
     [(Kad, is_caller, pending_get_providers s), (Kad, is_caller, pending_put_record s),
      (Kad, is_caller, pending_get_record s), (ObjectExchange, is_caller, pending_get_object s),
      (ObjectExchange, is_target, pending_replicate s), (Pairing, is_caller, pending_pairing_request s),
      (ServeRegistry, is_caller, pending_serve_registration s),
      (Serve, is_caller, pending_serve_request s)]"

definition maps_ok :: "swarm \<Rightarrow> loop \<Rightarrow> bool" where
  "maps_ok W s \<longleftrightarrow> (\<forall>(b, P, m) \<in> set (loop_maps s). good_map W (lp_calls s) b P m)"

lemma update_fresh: "i \<notin> fst ` set m \<Longrightarrow> AList.update i v m = m @ [(i, v)]"
  by (induction m) auto

lemma delete_mset:
  "distinct (map fst m) \<Longrightarrow> map_of m i = Some v \<Longrightarrow> mset m = add_mset (i, v) (mset (AList.delete i m))"
proof (induction m)
  case (Cons p m)
  show ?case
  proof (cases "fst p = i")
    case True
    with Cons.prems have "AList.delete i m = m" "p = (i, v)"
      by (auto intro!: delete_idem simp: prod_eq_iff split: if_splits)
    then show ?thesis by simp
  next
    case False
    with Cons have "mset m = add_mset (i, v) (mset (AList.delete i m))" by (cases p) auto
    with False show ?thesis by (cases p) (simp add: add_mset_commute)
  qed
qed simp

lemma good_map_append: "good_map W calls b P m \<Longrightarrow> good_map W (calls @ cs) b P m"
  unfolding good_map_def by (auto intro: issued_append)

lemma good_map_fresh:
  "good_map W calls b P m \<Longrightarrow> fresh_ids W \<Longrightarrow> behaviour_of c = b \<Longrightarrow> call_id W calls c \<notin> fst ` set m"
  unfolding good_map_def using not_issued by fastforce

lemma good_map_update:
  assumes "good_map W calls b P m" "fresh_ids W" "behaviour_of c = b" "P (call_id W calls c) tx"
  shows "good_map W (calls @ [c]) b P (AList.update (call_id W calls c) tx m)"
  using good_map_fresh [OF assms(1-3)] assms
  by (auto simp: good_map_def update_fresh intro: issued_append issued_now)

lemma good_map_delete: "good_map W calls b P m \<Longrightarrow> good_map W calls b P (AList.delete i m)"
  unfolding good_map_def by (auto simp: AList.delete_eq distinct_map_filter)

lemma good_map_sender: "good_map W calls b P m \<Longrightarrow> map_of m i = Some tx \<Longrightarrow> P i tx"
  unfolding good_map_def by (auto dest: map_of_SomeD)

lemma waiting_simps [simp]:
  "waiting k [] = {#}"
  "waiting k (m @ m') = waiting k m + waiting k m'"
  "waiting k ((i, tx) # m) = mset (of_caller (tx, k)) + waiting k m"
  by (simp_all add: waiting_def)

lemma waiting_sum: "waiting k m = \<Sum>\<^sub># (image_mset (\<lambda>p. mset (of_caller (snd p, k))) (mset m))"
  by (induction m) auto

lemma waiting_mset: "mset m = mset m' \<Longrightarrow> waiting k m = waiting k m'"
  by (simp only: waiting_sum)

lemma waiting_delete:
  assumes "good_map W calls b P m" "map_of m i = Some tx"
  shows "waiting k m = mset (of_caller (tx, k)) + waiting k (AList.delete i m)"
proof -
  have "mset m = mset ((i, tx) # AList.delete i m)"
    using delete_mset [OF _ assms(2)] assms(1) by (simp add: good_map_def)
  from waiting_mset [OF this] show ?thesis by simp
qed

section \<open>The accounts\<close>

definition live_at :: "loop \<Rightarrow> nat \<Rightarrow> bool" where
  "live_at s i \<longleftrightarrow>
     map_of (pending_replicate s) i = Some (Target i) \<or>
     (\<exists>r. map_of (lp_answers s) (Target i) = Some (AnsReplicated r))"

definition tasks_live :: "loop \<Rightarrow> bool" where
  "tasks_live s \<longleftrightarrow>
     (\<forall>(n, ts) \<in> set (lp_tasks s). \<forall>(p, i) \<in> set ts. live_at s i) \<and>
     (\<forall>i a. (Target i, a) \<in> set (lp_answers s) \<longrightarrow> kind_of a = KReplicated)"

definition accounts :: "swarm \<Rightarrow> (nat \<times> answer_kind) list \<Rightarrow> loop \<Rightarrow> bool" where
  "accounts W took s \<longleftrightarrow> maps_ok W s \<and> tasks_live s \<and> answered s + owed s = mset took"

lemma call_frame [simp]:
  "loop_maps (call c s) = loop_maps s" "owed (call c s) = owed s" "answered (call c s) = answered s"
  "live_at (call c s) = live_at s" "tasks_live (call c s) = tasks_live s" "lp_calls (call c s) = lp_calls s @ [c]"
  "lp_answers (call c s) = lp_answers s" "lp_tasks (call c s) = lp_tasks s"
  "pending_replicate (call c s) = pending_replicate s"
  by (simp_all add: call_def loop_maps_def owed_def answered_def tasks_live_def live_at_def fun_eq_iff)

lemma reply_frame [simp]:
  "loop_maps (reply tx a s) = loop_maps s" "owed (reply tx a s) = owed s"
  "answered (reply tx a s) = answered s + mset (of_caller (tx, kind_of a))"
  "lp_calls (reply tx a s) = lp_calls s" "lp_tasks (reply tx a s) = lp_tasks s"
  "pending_replicate (reply tx a s) = pending_replicate s"
  by (simp_all add: reply_def loop_maps_def owed_def answered_def)

lemma kind_KReplicated: "kind_of a = KReplicated \<longleftrightarrow> (\<exists>r. a = AnsReplicated r)"
  by (cases a) auto

lemma target_answer:
  assumes "tasks_live s" "map_of (lp_answers s) (Target i) = Some a"
  shows "\<exists>r. a = AnsReplicated r"
  using map_of_SomeD [OF assms(2)] assms(1) unfolding tasks_live_def by (auto simp: kind_KReplicated)

lemma tasks_liveI:
  assumes "tasks_live s" "lp_tasks s' = lp_tasks s" "\<And>j. live_at s j \<Longrightarrow> live_at s' j"
    "\<And>i a. (Target i, a) \<in> set (lp_answers s') \<Longrightarrow> (Target i, a) \<in> set (lp_answers s) \<or> kind_of a = KReplicated"
  shows "tasks_live s'"
  using assms unfolding tasks_live_def by (simp add: Ball_def) metis

lemma live_at_reply: "live_at s i \<Longrightarrow> live_at (reply tx a s) i"
  by (auto simp: live_at_def reply_def map_add_Some_iff)

lemma reply_live: "tasks_live s \<Longrightarrow> tasks_live (reply (Caller n) a s)"
  by (erule tasks_liveI) (simp_all add: live_at_reply, simp add: reply_def)

lemma maps_ok_append:
  "maps_ok W s \<Longrightarrow> (b, P, m) \<in> set (loop_maps s) \<Longrightarrow> good_map W (lp_calls s @ cs) b P m"
  unfolding maps_ok_def by (auto intro: good_map_append)

lemma maps_ok_reply [simp]: "maps_ok W (reply tx a s) = maps_ok W s"
  by (simp add: maps_ok_def)

lemma maps_ok_call [intro]: "maps_ok W s \<Longrightarrow> maps_ok W (call c s)"
  unfolding maps_ok_def by (auto intro: good_map_append)

text \<open>One of the maps of senders that callers wait on.\<close>

locale pending_map =
  fixes get :: "loop \<Rightarrow> pending"
    and upd :: "(pending \<Rightarrow> pending) \<Rightarrow> loop \<Rightarrow> loop"
    and b :: behaviour
    and k :: answer_kind
  assumes member: "(b, is_caller, get s) \<in> set (loop_maps s)"
    and get_call [simp]: "get (call c s) = get s"
    and upd_calls [simp]: "lp_calls (upd f s) = lp_calls s"
    and upd_answered [simp]: "answered (upd f s) = answered s"
    and upd_live [simp]: "tasks_live (upd f s) = tasks_live s"
    and upd_maps: "set (loop_maps (upd f s)) \<subseteq> insert (b, is_caller, f (get s)) (set (loop_maps s))"
    and upd_owed: "owed (upd f s) + waiting k (get s) = owed s + waiting k (f (get s))"
begin

lemma good: "maps_ok W s \<Longrightarrow> good_map W (lp_calls s) b is_caller (get s)"
  using member unfolding maps_ok_def by blast

lemma maps_ok_upd:
  assumes "maps_ok W s" "good_map W (lp_calls s) b is_caller (f (get s))"
  shows "maps_ok W (upd f s)"
  using assms upd_maps [of f s] unfolding maps_ok_def upd_calls by blast

lemma expect_accounts:
  assumes "accounts W took s" "fresh_ids W" "behaviour_of c = b"
  shows "accounts W ((n, k) # took) (expect upd W c (Caller n) s)"
proof -
  let ?i = "call_id W (lp_calls s) c" and ?s = "call c s"
  have ok: "maps_ok W s" and live: "tasks_live s" and sum: "answered s + owed s = mset took"
    using assms by (auto simp: accounts_def)
  have new: "good_map W (lp_calls s @ [c]) b is_caller (AList.update ?i (Caller n) (get s))"
    by (rule good_map_update [OF good [OF ok] assms(2,3)]) (simp add: is_caller_def)
  have "maps_ok W (upd (AList.update ?i (Caller n)) ?s)"
    using new by (intro maps_ok_upd maps_ok_call ok) simp
  moreover have "waiting k (AList.update ?i (Caller n) (get s)) = waiting k (get s) + {#(n, k)#}"
    using good_map_fresh [OF good [OF ok] assms(2,3)] by (simp add: update_fresh)
  then have "owed (upd (AList.update ?i (Caller n)) ?s) = owed s + {#(n, k)#}"
    using upd_owed [of "AList.update ?i (Caller n)" ?s] by simp
  ultimately show ?thesis using live sum by (simp add: accounts_def expect_def)
qed

lemma settle_owed:
  assumes "maps_ok W s" "map_of (get s) i = Some (Caller n)"
  shows "owed s = add_mset (n, k) (owed (upd (AList.delete i) s))"
  using waiting_delete [OF good [OF assms(1)] assms(2), of k] upd_owed [of "AList.delete i" s]
  by (simp add: ac_simps)

lemma settle_accounts:
  assumes "accounts W took s" "kind_of a = k"
  shows "accounts W took (settle upd get i a s)"
proof (cases "map_of (get s) i")
  case None
  with assms show ?thesis by (simp add: settle_def)
next
  case (Some tx)
  have ok: "maps_ok W s" and live: "tasks_live s" and sum: "answered s + owed s = mset took"
    using assms by (auto simp: accounts_def)
  obtain n where tx: "tx = Caller n"
    using good_map_sender [OF good [OF ok] Some] by (auto simp: is_caller_def)
  have "maps_ok W (upd (AList.delete i) s)"
    by (intro maps_ok_upd ok good_map_delete good)
  then show ?thesis
    using settle_owed [OF ok Some [unfolded tx]] live sum Some assms(2)
    by (simp add: accounts_def settle_def tx reply_live)
qed

lemma settle_answers:
  "map_of (get s) i = Some tx \<Longrightarrow> (tx, a) \<in> set (lp_answers (settle upd get i a s))"
  by (simp add: settle_def reply_def)

end

lemmas loop_defs = loop_maps_def owed_def answered_def tasks_live_def live_at_def call_def

interpretation providers: pending_map pending_get_providers pending_get_providers_update Kad KProviders
  by unfold_locales (auto simp: loop_defs)

interpretation puts: pending_map pending_put_record pending_put_record_update Kad KPut
  by unfold_locales (auto simp: loop_defs)

interpretation records: pending_map pending_get_record pending_get_record_update Kad KRecord
  by unfold_locales (auto simp: loop_defs)

interpretation objects: pending_map pending_get_object pending_get_object_update ObjectExchange KObject
  by unfold_locales (auto simp: loop_defs)

interpretation pairings: pending_map pending_pairing_request pending_pairing_request_update Pairing KPairing
  by unfold_locales (auto simp: loop_defs)

interpretation registrations:
  pending_map pending_serve_registration pending_serve_registration_update ServeRegistry KRegistration
  by unfold_locales (auto simp: loop_defs)

interpretation serves: pending_map pending_serve_request pending_serve_request_update Serve KServe
  by unfold_locales (auto simp: loop_defs)

section \<open>Store requests\<close>

lemma replicate_good: "maps_ok W s \<Longrightarrow> good_map W (lp_calls s) ObjectExchange is_target (pending_replicate s)"
  unfolding maps_ok_def loop_maps_def by simp

lemma replicate_upd:
  "maps_ok W s \<Longrightarrow> good_map W (lp_calls s) ObjectExchange is_target (f (pending_replicate s)) \<Longrightarrow>
   maps_ok W (pending_replicate_update f s)"
  unfolding maps_ok_def loop_maps_def by simp

lemma store_accounts:
  assumes "accounts W took s" "fresh_ids W" "c = SendObject p (Store b)" "i = call_id W (lp_calls s) c"
  defines "s' \<equiv> expect pending_replicate_update W c (Target i) s"
  shows "accounts W took s'"
    and "map_of (pending_replicate s') i = Some (Target i)"
    and "map_of (pending_replicate s) j = Some (Target j) \<Longrightarrow> map_of (pending_replicate s') j = Some (Target j)"
    and "lp_tasks s' = lp_tasks s" "lp_answers s' = lp_answers s"
proof -
  have ok: "maps_ok W s" and live: "tasks_live s" and sum: "answered s + owed s = mset took"
    using assms(1) by (auto simp: accounts_def)
  have beh: "behaviour_of c = ObjectExchange" using assms(3) by simp
  have new: "i \<notin> fst ` set (pending_replicate s)"
    using good_map_fresh [OF replicate_good [OF ok] assms(2) beh] assms(4) by simp
  have good: "good_map W (lp_calls s @ [c]) ObjectExchange is_target
                (AList.update i (Target i) (pending_replicate s))"
    unfolding assms(4)
    by (rule good_map_update [OF replicate_good [OF ok] assms(2) beh]) (simp add: is_target_def)
  have ok': "maps_ok W s'"
    unfolding s'_def expect_def using good assms(4)
    by (intro replicate_upd maps_ok_call ok) simp
  show later: "map_of (pending_replicate s) j = Some (Target j) \<Longrightarrow>
               map_of (pending_replicate s') j = Some (Target j)" for j
    using new unfolding s'_def expect_def
    by (auto simp: update_conv' assms(4) call_def dest: map_of_SomeD)
  show "lp_tasks s' = lp_tasks s" "lp_answers s' = lp_answers s"
    by (simp_all add: s'_def expect_def)
  then have "tasks_live s'"
    using later by (intro tasks_liveI [OF live]) (auto simp: live_at_def)
  moreover have "owed s' = owed s" "answered s' = answered s"
    by (simp_all add: s'_def expect_def call_def owed_def answered_def)
  ultimately show "accounts W took s'" using ok' sum by (simp add: accounts_def)
  show "map_of (pending_replicate s') i = Some (Target i)"
    by (simp add: s'_def expect_def update_conv' assms(4))
qed

lemma send_stores_accounts:
  assumes "fresh_ids W"
  shows "accounts W took s \<Longrightarrow> send_stores W b ps s = (s', ts) \<Longrightarrow>
         accounts W took s' \<and> map fst ts = ps \<and> lp_tasks s' = lp_tasks s \<and> lp_answers s' = lp_answers s \<and>
         (\<forall>j. map_of (pending_replicate s) j = Some (Target j) \<longrightarrow>
              map_of (pending_replicate s') j = Some (Target j)) \<and>
         (\<forall>(p, i) \<in> set ts. map_of (pending_replicate s') i = Some (Target i))"
proof (induction ps arbitrary: s s' ts)
  case (Cons p ps)
  let ?c = "SendObject p (Store b)"
  let ?i = "call_id W (lp_calls s) ?c"
  let ?s1 = "expect pending_replicate_update W ?c (Target ?i) s"
  note st = store_accounts [OF Cons.prems(1) assms refl refl]
  obtain ts' where run: "send_stores W b ps ?s1 = (s', ts')" and ts: "ts = (p, ?i) # ts'"
    using Cons.prems(2) by (auto simp: Let_def split: prod.splits)
  show ?case using Cons.IH [OF st(1) run] st(2-) ts by auto
qed simp

lemma add_task_accounts:
  assumes "accounts W took s" "\<forall>(p, i) \<in> set ts. map_of (pending_replicate s) i = Some (Target i)"
  shows "accounts W ((n, KReplicated) # took) (s \<lparr> lp_tasks := lp_tasks s @ [(n, ts)] \<rparr>)"
  using assms by (auto simp: accounts_def maps_ok_def loop_maps_def tasks_live_def live_at_def owed_def answered_def)

lemma reply_accounts:
  "accounts W took s \<Longrightarrow> accounts W ((n, kind_of a) # took) (reply (Caller n) a s)"
  by (simp add: accounts_def reply_live)

lemma replicate_accounts:
  assumes "fresh_ids W" "accounts W took s"
  shows "accounts W ((n, KReplicated) # took) (replicate_object W to b n s)"
proof -
  have send: "accounts W ((n, KReplicated) # took)
                (case send_stores W b ps s of (s', ts) \<Rightarrow> s' \<lparr> lp_tasks := lp_tasks s' @ [(n, ts)] \<rparr>)" for ps
  proof -
    obtain s' ts where run: "send_stores W b ps s = (s', ts)" by fastforce
    have "accounts W took s'" "\<forall>(p, i) \<in> set ts. map_of (pending_replicate s') i = Some (Target i)"
      using send_stores_accounts [OF assms run] by auto
    from add_task_accounts [OF this] show ?thesis by (simp add: run)
  qed
  have now: "accounts W ((n, KReplicated) # took) (reply (Caller n) (AnsReplicated r) s)" for r
    using reply_accounts [OF assms(2), of n "AnsReplicated r"] by simp
  show ?thesis unfolding replicate_object_def by (simp only: send now split: option.split if_split) simp
qed

lemma settle_store_accounts:
  assumes "accounts W took s"
  shows "accounts W took (settle pending_replicate_update pending_replicate i (AnsReplicated r) s)"
proof (cases "map_of (pending_replicate s) i")
  case None
  with assms show ?thesis by (simp add: settle_def)
next
  case (Some tx)
  have ok: "maps_ok W s" and live: "tasks_live s" and sum: "answered s + owed s = mset took"
    using assms by (auto simp: accounts_def)
  have tx: "tx = Target i"
    using good_map_sender [OF replicate_good [OF ok] Some] by (simp add: is_target_def)
  have "maps_ok W (pending_replicate_update (AList.delete i) s)"
    by (intro replicate_upd ok good_map_delete replicate_good)
  moreover have "tasks_live (reply tx (AnsReplicated r) (pending_replicate_update (AList.delete i) s))"
  proof (rule tasks_liveI [OF live])
    fix j
    assume *: "live_at s j"
    show "live_at (reply tx (AnsReplicated r) (pending_replicate_update (AList.delete i) s)) j"
    proof (cases "map_of (lp_answers s) (Target j)")
      case None
      with * show ?thesis by (cases "j = i") (simp_all add: live_at_def reply_def tx delete_conv' map_add_def)
    next
      case (Some a)
      with target_answer [OF live] show ?thesis by (force simp: live_at_def reply_def map_add_Some_iff)
    qed
  qed (auto simp: reply_def)
  ultimately show ?thesis
    using sum by (simp add: accounts_def settle_def Some) (simp add: tx owed_def answered_def)
qed

lemma settle_object_accounts:
  "accounts W took s \<Longrightarrow> accounts W took (settle_object i r1 r2 s)"
  unfolding settle_object_def by (simp add: settle_store_accounts objects.settle_accounts)

section \<open>Every step keeps the accounts\<close>

text \<open>Steps that only call the swarm or change the peers, the addresses, the node.\<close>

definition same_books :: "loop \<Rightarrow> loop \<Rightarrow> bool" where
  "same_books s s' \<longleftrightarrow>
     loop_maps s' = loop_maps s \<and> lp_tasks s' = lp_tasks s \<and> lp_answers s' = lp_answers s \<and>
     (\<exists>cs. lp_calls s' = lp_calls s @ cs)"

lemma same_books_accounts: "same_books s s' \<Longrightarrow> accounts W took s \<Longrightarrow> accounts W took s'"
  unfolding same_books_def accounts_def maps_ok_def tasks_live_def live_at_def owed_def answered_def
  by (auto simp: loop_maps_def intro: good_map_append)

lemma same_books_refl [simp]: "same_books s s"
  by (simp add: same_books_def)

lemma same_books_trans [trans]: "same_books s s' \<Longrightarrow> same_books s' s'' \<Longrightarrow> same_books s s''"
  by (auto simp: same_books_def)

lemma books_call: "same_books s s' \<Longrightarrow> same_books s (call c s')"
  by (auto simp: same_books_def)

lemma books_fold: "(\<And>x s. same_books s (f x s)) \<Longrightarrow> same_books s (fold f xs s)"
  by (induction xs arbitrary: s) (auto intro: same_books_trans)

lemma books_field [simp]:
  "same_books s (s \<lparr> peers := ps \<rparr>)" "same_books s (s \<lparr> listen_addrs := ls \<rparr>)"
  "same_books s (s \<lparr> relay_reservations := rs \<rparr>)" "same_books s (s \<lparr> kad_bootstrapped := kb \<rparr>)"
  "same_books s (s \<lparr> lp_pubsub := pm \<rparr>)" "same_books s (s \<lparr> lp_rt := t \<rparr>)"
  "same_books s (s \<lparr> lp_inbound := ib, pairing_replies := xs \<rparr>)"
  "same_books s (s \<lparr> lp_inbound := ib, serve_replies := xs \<rparr>)"
  "same_books s (s \<lparr> lp_inbound := ib, serve_registry_replies := xs \<rparr>)"
  "same_books s (s \<lparr> pairing_replies := xs \<rparr>)" "same_books s (s \<lparr> serve_replies := xs \<rparr>)"
  "same_books s (s \<lparr> serve_registry_replies := xs \<rparr>)"
  by (simp_all add: same_books_def loop_maps_def)

lemma books_ensure_peer: "same_books s (ensure_peer p s)"
  by (simp add: ensure_peer_def)

lemma books_connection: "same_books s (connection_established W p addr dialer s)"
  by (auto simp: connection_established_def same_books_def ensure_peer_def loop_maps_def call_def Let_def)

lemma books_identify: "same_books s (identify_received W p addrs s)"
proof -
  let ?s = "ensure_peer p (fold (\<lambda>a. call (AddAddress p a)) addrs s)"
  have "same_books s ?s"
    by (rule same_books_trans [OF books_fold books_ensure_peer]) (simp add: books_call)
  then show ?thesis
    unfolding identify_received_def by (auto simp: Let_def intro: same_books_trans split: option.split)
qed

lemma books_listen: "same_books s (new_listen_addr addr s)"
  by (auto simp: new_listen_addr_def same_books_def loop_maps_def Let_def split: option.split)

lemmas books = books_call books_fold books_ensure_peer books_connection books_identify books_listen

lemma remove_nth_mset:
  "k < length xs \<Longrightarrow> mset xs = add_mset (xs ! k) (mset (take k xs @ drop (Suc k) xs))"
  by (metis append_take_drop_id Cons_nth_drop_Suc mset.simps(2) mset_append union_mset_add_mset_right)

lemma tasks_live_subset:
  "tasks_live s \<Longrightarrow> set xs \<subseteq> set (lp_tasks s) \<Longrightarrow> tasks_live (s \<lparr> lp_tasks := xs \<rparr>)"
  by (simp add: tasks_live_def live_at_def) blast

lemma finish_task_accounts:
  assumes "accounts W took s"
  shows "accounts W took (finish_task k s)"
proof (cases "k < length (lp_tasks s)")
  case True
  obtain n ts where task: "lp_tasks s ! k = (n, ts)" by fastforce
  let ?s = "s \<lparr> lp_tasks := take k (lp_tasks s) @ drop (Suc k) (lp_tasks s) \<rparr>"
  have owed: "owed s = add_mset (n, KReplicated) (owed ?s)"
    using remove_nth_mset [OF True] task unfolding owed_def mset_map by simp
  have "set (lp_tasks ?s) \<subseteq> set (lp_tasks s)"
    by (auto dest: in_set_takeD in_set_dropD)
  then have "tasks_live ?s"
    using assms by (intro tasks_live_subset) (simp_all add: accounts_def)
  have "accounts W took (reply (Caller n) (AnsReplicated r) ?s)" for r
  proof -
    have "maps_ok W ?s" "answered ?s = answered s"
      using assms by (simp_all add: accounts_def maps_ok_def loop_maps_def answered_def)
    with \<open>tasks_live ?s\<close> show ?thesis
      using assms owed by (simp add: accounts_def reply_live)
  qed
  then show ?thesis
    unfolding finish_task_def using True task assms by simp
qed (simp add: finish_task_def assms)

lemma command_accounts:
  assumes "fresh_ids W" "accounts W took s"
  shows "accounts W (asks c @ took) (handle_command W c s)"
proof -
  have now: "accounts W ((n, kind_of a) # took) (reply (Caller n) a (call q s))" for n a q
    by (intro reply_accounts same_books_accounts [OF books_call [OF same_books_refl] assms(2)])
  have at_once: "accounts W ((n, kind_of a) # took) (reply (Caller n) a s)" for n a
    by (rule reply_accounts [OF assms(2)])
  have call: "accounts W took (call q s)" for q
    by (rule same_books_accounts [OF books_call [OF same_books_refl] assms(2)])
  have meta: "accounts W took (s \<lparr> peers := ps \<rparr>)" for ps
    by (rule same_books_accounts [OF _ assms(2)]) simp
  note expects = providers.expect_accounts puts.expect_accounts records.expect_accounts
    objects.expect_accounts pairings.expect_accounts registrations.expect_accounts serves.expect_accounts
  show ?thesis
    using now [where a = "AnsPut _"] now [where a = "AnsSubscribed _"] now [where a = "AnsPublished _"]
      at_once [where a = "AnsPeers _"] at_once [where a = "AnsAddrs _"] at_once [where a = "AnsReservations _"]
    by (cases c) (auto simp: call meta assms replicate_accounts expects split: option.split)
qed

lemma event_accounts:
  assumes "accounts W took s"
  shows "accounts W took (handle_swarm_event W E R ev s)"
proof (cases ev)
  case (MdnsDiscovered found)
  then show ?thesis
    by (auto intro!: same_books_accounts [OF _ assms] books_fold simp: books split: prod.split)
qed (auto simp: assms settle_object_accounts providers.settle_accounts puts.settle_accounts
      records.settle_accounts pairings.settle_accounts registrations.settle_accounts
      serves.settle_accounts books
      intro: same_books_accounts [OF _ assms] split: prod.split)

lemma reply_step_accounts:
  assumes "accounts W took s"
  shows "accounts W took (pairing_reply ch r1 s)" "accounts W took (serve_reply ch r2 s)"
    "accounts W took (serve_registry_reply ch r3 s)"
  by (auto simp: pairing_reply_def serve_reply_def serve_registry_reply_def assms books
      intro: same_books_accounts [OF _ assms])

fun input_asks :: "loop_input \<Rightarrow> (nat \<times> answer_kind) list" where
  "input_asks (OnCommand c) = asks c"
| "input_asks _ = []"

lemma step_accounts:
  "fresh_ids W \<Longrightarrow> accounts W took s \<Longrightarrow> accounts W (input_asks inp @ took) (loop_step W E R inp s)"
  by (cases inp) (simp_all add: command_accounts event_accounts reply_step_accounts finish_task_accounts)

lemma start_accounts: "accounts W [] (loop_start t)"
  by (simp add: accounts_def maps_ok_def loop_maps_def good_map_def tasks_live_def answered_def owed_def
      loop_start_def)

lemma accounts_mset: "mset took = mset took' \<Longrightarrow> accounts W took s = accounts W took' s"
  by (simp add: accounts_def)

lemma run_accounts:
  assumes "fresh_ids W" "accounts W took s"
  shows "accounts W (concat (map (input_asks \<circ> snd) inputs) @ took) (run_event_loop W R inputs s)"
proof (induction inputs rule: rev_induct)
  case Nil
  show ?case using assms(2) by (simp add: run_event_loop_def)
next
  case (snoc p inputs)
  let ?took = "concat (map (input_asks \<circ> snd) inputs) @ took"
  have "accounts W (input_asks (snd p) @ ?took)
          (loop_step W (fst p) R (snd p) (run_event_loop W R inputs s))"
    by (rule step_accounts [OF assms(1) snoc])
  moreover have "mset (input_asks (snd p) @ ?took) =
      mset (concat (map (input_asks \<circ> snd) (inputs @ [p])) @ took)" by simp
  ultimately show ?case
    using accounts_mset by (fastforce simp: run_event_loop_def case_prod_unfold)
qed

end
