(* ===== verification/Loop_Promises.thy ===== *)
theory Loop_Promises
  imports Loop_Accounts Runtime_Objects
begin

text \<open>
  What the network task promises its callers and its peers: requests are answered once and with
  the right type, a reported request does not stay open, an explicit replication is strict, and
  objects leave and enter the node only through the runtime.
\<close>

section \<open>Open requests stay open or are answered\<close>

fun slot :: "answer_kind \<Rightarrow> loop \<Rightarrow> pending" where
  "slot KProviders s = pending_get_providers s"
| "slot KPut s = pending_put_record s"
| "slot KRecord s = pending_get_record s"
| "slot KObject s = pending_get_object s"
| "slot KReplicated s = pending_replicate s"
| "slot KPairing s = pending_pairing_request s"
| "slot KRegistration s = pending_serve_registration s"
| "slot KServe s = pending_serve_request s"
| "slot _ s = []"

definition has_answer :: "sender \<Rightarrow> loop \<Rightarrow> bool" where
  "has_answer tx s \<longleftrightarrow> tx \<in> fst ` set (lp_answers s)"

text \<open>The two maps of object requests have no id in common.\<close>

definition objects_apart :: "loop \<Rightarrow> bool" where
  "objects_apart s \<longleftrightarrow> (\<forall>i. map_of (slot KObject s) i = None \<or> map_of (slot KReplicated s) i = None)"

definition goes_on :: "loop \<Rightarrow> loop \<Rightarrow> bool" where
  "goes_on s s' \<longleftrightarrow>
     set (lp_answers s) \<subseteq> set (lp_answers s') \<and> (objects_apart s \<longrightarrow> objects_apart s') \<and>
     (\<forall>k i tx. map_of (slot k s) i = Some tx \<longrightarrow> map_of (slot k s') i = Some tx \<or> has_answer tx s')"

lemma goes_on_refl [simp]: "goes_on s s"
  by (simp add: goes_on_def)

lemma goes_on_trans [trans]:
  assumes "goes_on s s'" "goes_on s' s''"
  shows "goes_on s s''"
  using assms unfolding goes_on_def has_answer_def by (meson image_mono order_trans subsetD)

lemma books_go_on: "same_books s s' \<Longrightarrow> goes_on s s'"
proof -
  assume *: "same_books s s'"
  then have "slot k s' = slot k s" for k
    by (cases k) (simp_all add: same_books_def loop_maps_def)
  with * show ?thesis by (simp add: goes_on_def same_books_def objects_apart_def del: slot.simps)
qed

lemma slot_reply [simp]: "slot k (reply tx a s) = slot k s"
  by (cases k) (simp_all add: reply_def)

lemma slot_call [simp]: "slot k (call c s) = slot k s"
  by (cases k) (simp_all add: call_def)

lemma answers_reply [simp]: "lp_answers (reply tx a s) = lp_answers s @ [(tx, a)]"
  by (simp add: reply_def)

lemma reply_goes_on [simp]: "goes_on s (reply tx a s)"
  by (auto simp: goes_on_def objects_apart_def simp del: slot.simps)

lemma all_kinds:
  "(\<forall>k. P k) \<longleftrightarrow> P KProviders \<and> P KPut \<and> P KRecord \<and> P KObject \<and> P KReplicated \<and> P KPairing \<and>
     P KRegistration \<and> P KServe \<and> P KPeers \<and> P KAddrs \<and> P KReservations \<and> P KSubscribed \<and> P KPublished"
  (is "_ \<longleftrightarrow> ?all")
proof
  assume ?all
  then show "\<forall>k. P k" by (intro allI, case_tac k) simp_all
qed simp

text \<open>A change of one map, where the other maps and the answers stay.\<close>

definition only_slot :: "answer_kind \<Rightarrow> ((pending \<Rightarrow> pending) \<Rightarrow> loop \<Rightarrow> loop) \<Rightarrow> bool" where
  "only_slot k upd \<longleftrightarrow>
     (\<forall>f s. slot k (upd f s) = f (slot k s) \<and> lp_answers (upd f s) = lp_answers s \<and>
        (\<forall>l. l \<noteq> k \<longrightarrow> slot l (upd f s) = slot l s))"

lemma only_slots:
  "only_slot KProviders pending_get_providers_update" "only_slot KPut pending_put_record_update"
  "only_slot KRecord pending_get_record_update" "only_slot KObject pending_get_object_update"
  "only_slot KReplicated pending_replicate_update" "only_slot KPairing pending_pairing_request_update"
  "only_slot KRegistration pending_serve_registration_update" "only_slot KServe pending_serve_request_update"
  unfolding only_slot_def by (simp_all add: all_kinds)

lemma settle_goes_on:
  assumes "only_slot k upd"
  shows "goes_on s (settle upd (slot k) i a s)"
proof (cases "map_of (slot k s) i")
  case (Some tx)
  have "slot l (upd (AList.delete i) s) = (if l = k then AList.delete i (slot k s) else slot l s)"
    "lp_answers (upd (AList.delete i) s) = lp_answers s" for l
    using assms by (auto simp: only_slot_def)
  then show ?thesis
    using Some by (auto simp: settle_def goes_on_def delete_conv' has_answer_def objects_apart_def simp del: slot.simps)
qed (simp add: settle_def)

lemma expect_goes_on:
  assumes "only_slot k upd" "call_id W (lp_calls s) c \<notin> fst ` set (slot k s)"
    "k = KObject \<Longrightarrow> call_id W (lp_calls s) c \<notin> fst ` set (slot KReplicated s)"
    "k = KReplicated \<Longrightarrow> call_id W (lp_calls s) c \<notin> fst ` set (slot KObject s)"
  shows "goes_on s (expect upd W c tx s)"
proof -
  have "slot l (expect upd W c tx s) =
        (if l = k then AList.update (call_id W (lp_calls s) c) tx (slot k s) else slot l s)" for l
    using assms(1) unfolding expect_def only_slot_def by simp
  moreover have "lp_answers (expect upd W c tx s) = lp_answers s"
    using assms(1) unfolding expect_def only_slot_def by simp
  ultimately show ?thesis
    using assms(2-) by (auto simp: goes_on_def objects_apart_def update_conv' simp flip: map_of_eq_None_iff simp del: slot.simps)
qed

lemma slot_good:
  assumes "accounts W took s"
  shows "good_map W (lp_calls s) Kad is_caller (pending_get_providers s)"
    "good_map W (lp_calls s) Kad is_caller (pending_put_record s)"
    "good_map W (lp_calls s) Kad is_caller (pending_get_record s)"
    "good_map W (lp_calls s) ObjectExchange is_caller (pending_get_object s)"
    "good_map W (lp_calls s) ObjectExchange is_target (pending_replicate s)"
    "good_map W (lp_calls s) Pairing is_caller (pending_pairing_request s)"
    "good_map W (lp_calls s) ServeRegistry is_caller (pending_serve_registration s)"
    "good_map W (lp_calls s) Serve is_caller (pending_serve_request s)"
  using assms by (simp_all add: accounts_def maps_ok_def loop_maps_def)

lemma fresh_slot:
  assumes "fresh_ids W" "accounts W took s"
  shows "call_id W (lp_calls s) (GetProviders x) \<notin> fst ` set (pending_get_providers s)"
    "call_id W (lp_calls s) (KadPut x y) \<notin> fst ` set (pending_put_record s)"
    "call_id W (lp_calls s) (KadGet x) \<notin> fst ` set (pending_get_record s)"
    "call_id W (lp_calls s) (SendObject p q) \<notin> fst ` set (pending_get_object s)"
    "call_id W (lp_calls s) (SendObject p q) \<notin> fst ` set (pending_replicate s)"
    "call_id W (lp_calls s) (SendPairing p r) \<notin> fst ` set (pending_pairing_request s)"
    "call_id W (lp_calls s) (SendRegistration p g) \<notin> fst ` set (pending_serve_registration s)"
    "call_id W (lp_calls s) (SendServe p h) \<notin> fst ` set (pending_serve_request s)"
  by (intro good_map_fresh [OF slot_good(1) [OF assms(2)] assms(1)] good_map_fresh [OF slot_good(2) [OF assms(2)] assms(1)]
      good_map_fresh [OF slot_good(3) [OF assms(2)] assms(1)] good_map_fresh [OF slot_good(4) [OF assms(2)] assms(1)]
      good_map_fresh [OF slot_good(5) [OF assms(2)] assms(1)] good_map_fresh [OF slot_good(6) [OF assms(2)] assms(1)]
      good_map_fresh [OF slot_good(7) [OF assms(2)] assms(1)] good_map_fresh [OF slot_good(8) [OF assms(2)] assms(1)];
      simp)+

lemma settle_slots:
  "goes_on s (settle pending_get_providers_update pending_get_providers i a s)"
  "goes_on s (settle pending_put_record_update pending_put_record i a s)"
  "goes_on s (settle pending_get_record_update pending_get_record i a s)"
  "goes_on s (settle pending_get_object_update pending_get_object i a s)"
  "goes_on s (settle pending_replicate_update pending_replicate i a s)"
  "goes_on s (settle pending_pairing_request_update pending_pairing_request i a s)"
  "goes_on s (settle pending_serve_registration_update pending_serve_registration i a s)"
  "goes_on s (settle pending_serve_request_update pending_serve_request i a s)"
  using only_slots [THEN settle_goes_on, of s i a] by (simp_all add: settle_def)

lemma expect_slots:
  assumes "fresh_ids W" "accounts W took s"
  shows "goes_on s (expect pending_get_providers_update W (GetProviders x) tx s)"
    "goes_on s (expect pending_put_record_update W (KadPut x y) tx s)"
    "goes_on s (expect pending_get_record_update W (KadGet x) tx s)"
    "goes_on s (expect pending_get_object_update W (SendObject p q) tx s)"
    "goes_on s (expect pending_replicate_update W (SendObject p q) tx s)"
    "goes_on s (expect pending_pairing_request_update W (SendPairing p r) tx s)"
    "goes_on s (expect pending_serve_registration_update W (SendRegistration p g) tx s)"
    "goes_on s (expect pending_serve_request_update W (SendServe p h) tx s)"
  by (rule expect_goes_on, rule only_slots; simp add: fresh_slot [OF assms])+

lemma send_stores_goes_on:
  assumes "fresh_ids W"
  shows "accounts W took s \<Longrightarrow> goes_on s (fst (send_stores W b ps s))"
proof (induction ps arbitrary: s)
  case (Cons p ps)
  let ?c = "SendObject p (Store b)"
  let ?s = "expect pending_replicate_update W ?c (Target (call_id W (lp_calls s) ?c)) s"
  have "goes_on s ?s" by (rule expect_slots [OF assms Cons.prems])
  also have "goes_on ?s (fst (send_stores W b ps ?s))"
    using store_accounts(1) [OF Cons.prems assms refl refl] by (rule Cons.IH)
  finally show ?case by (simp add: Let_def case_prod_unfold)
qed simp

lemma tasks_go_on [simp]: "goes_on s (s \<lparr> lp_tasks := ts \<rparr>)"
proof -
  have "slot k (s \<lparr> lp_tasks := ts \<rparr>) = slot k s" for k by (cases k) simp_all
  then show ?thesis by (simp add: goes_on_def objects_apart_def del: slot.simps)
qed

lemma command_goes_on:
  assumes "fresh_ids W" "accounts W took s"
  shows "goes_on s (handle_command W c s)"
proof -
  have stores: "goes_on s (case send_stores W b ps s of (s', ts) \<Rightarrow> s' \<lparr> lp_tasks := lp_tasks s' @ [(n, ts)] \<rparr>)"
    for b ps n
    using goes_on_trans [OF send_stores_goes_on [OF assms] tasks_go_on] by (simp add: case_prod_unfold)
  have call: "goes_on s (call q s)" for q by (simp add: books_go_on books)
  have late: "goes_on s (reply tx a (call q s))" for tx a q
    by (rule goes_on_trans [OF call reply_goes_on])
  have meta: "goes_on s (s \<lparr> peers := ps \<rparr>)" for ps by (simp add: books_go_on)
  show ?thesis
    by (cases c) (auto simp: replicate_object_def call late meta expect_slots [OF assms]
        intro: stores split: option.split simp del: send_stores.simps)
qed

lemma event_goes_on: "goes_on s (handle_swarm_event W E R ev s)"
proof (cases ev)
  case (MdnsDiscovered found)
  then show ?thesis
    by (auto intro!: books_go_on books_fold simp: books split: prod.split)
qed (auto simp: settle_object_def settle_slots books intro: books_go_on split: prod.split)

lemma finish_goes_on: "goes_on s (finish_task k s)"
  unfolding finish_task_def by (auto intro: goes_on_trans [OF tasks_go_on reply_goes_on] split: prod.split)

lemma step_goes_on:
  "fresh_ids W \<Longrightarrow> accounts W took s \<Longrightarrow> goes_on s (loop_step W E R inp s)"
  by (cases inp) (auto simp: command_goes_on event_goes_on finish_goes_on pairing_reply_def serve_reply_def
      serve_registry_reply_def books intro!: books_go_on)

lemma run_goes_on:
  assumes "fresh_ids W"
  shows "accounts W took s \<Longrightarrow> goes_on s (run_event_loop W R inputs s)"
proof (induction inputs arbitrary: took s)
  case (Cons p inputs)
  let ?s = "loop_step W (fst p) R (snd p) s"
  have "goes_on s ?s" by (rule step_goes_on [OF assms Cons.prems])
  also have "goes_on ?s (run_event_loop W R inputs ?s)"
    by (rule Cons.IH [OF step_accounts [OF assms Cons.prems]])
  finally show ?case by (simp add: run_event_loop_def case_prod_unfold)
qed (simp add: run_event_loop_def)

lemma run_append: "run_event_loop W R (xs @ ys) s = run_event_loop W R ys (run_event_loop W R xs s)"
  by (simp add: run_event_loop_def)

lemma run_Cons: "run_event_loop W R ((E, inp) # ys) s = run_event_loop W R ys (loop_step W E R inp s)"
  by (simp add: run_event_loop_def)

lemma start_apart: "objects_apart (loop_start t)"
  by (simp add: objects_apart_def loop_start_def)

lemma reached:
  assumes "fresh_ids W" "s = run_event_loop W R earlier (loop_start t)"
  shows "accounts W (concat (map (input_asks \<circ> snd) earlier)) s" "objects_apart s"
  using run_accounts [OF assms(1) start_accounts, of earlier R t] run_goes_on [OF assms(1) start_accounts, of t R earlier]
    start_apart [of t]
  by (simp_all add: assms(2) goes_on_def)

section \<open>Reports\<close>

text \<open>The events that report on a query or a request: the failure of a provider lookup is not
  among them.\<close>

fun reports :: "SwarmEvent \<Rightarrow> answer_kind \<Rightarrow> nat \<Rightarrow> bool" where
  "reports (ProvidersFound j _) k i = (k = KProviders \<and> j = i)"
| "reports (ProvidersFinished j) k i = (k = KProviders \<and> j = i)"
| "reports (PutRecordDone j _) k i = (k = KPut \<and> j = i)"
| "reports (GetRecordProgress j _) k i = (k = KRecord \<and> j = i)"
| "reports (ObjectResponseReceived j _) k i = ((k = KObject \<or> k = KReplicated) \<and> j = i)"
| "reports (ObjectOutboundFailure j _) k i = ((k = KObject \<or> k = KReplicated) \<and> j = i)"
| "reports (PairingResponseReceived j _) k i = (k = KPairing \<and> j = i)"
| "reports (PairingOutboundFailure j _) k i = (k = KPairing \<and> j = i)"
| "reports (ServeResponseReceived j _) k i = (k = KServe \<and> j = i)"
| "reports (ServeOutboundFailure j _) k i = (k = KServe \<and> j = i)"
| "reports (RegistryResponseReceived j _) k i = (k = KRegistration \<and> j = i)"
| "reports (RegistryOutboundFailure j _) k i = (k = KRegistration \<and> j = i)"
| "reports _ k i = False"

lemma report_answers:
  assumes "objects_apart s" "map_of (slot k s) i = Some tx" "reports ev k i"
  shows "has_answer tx (handle_swarm_event W E R ev s)"
proof -
  have "map_of (pending_replicate s) i = None" if "k = KObject"
    using assms(1,2) that by (auto simp: objects_apart_def) (metis option.distinct(1))
  then show ?thesis
    using assms(2,3) by (cases ev) (auto simp: settle_def settle_object_def has_answer_def)
qed

section \<open>Example\<close>

definition ex_swarm :: swarm where
  "ex_swarm = \<lparr> local_peer_id = ''me'', call_id = (\<lambda>h c. length h), put_refused = (\<lambda>_ _. None),
     gossip_refused = (\<lambda>_ _. None) \<rparr>"

definition ex_loopenv :: loopenv where
  "ex_loopenv = sample_rtenv_with [ex_foreign] [] \<lparr> loop_error_text = (\<lambda>_. ''error'') \<rparr>"

lemma ex_fresh: "fresh_ids ex_swarm"
  by (simp add: fresh_ids_def ex_swarm_def)

definition ex_inputs :: "(loopenv \<times> loop_input) list" where
  "ex_inputs = map (Pair ex_loopenv)
     [OnCommand (NetFindProviders ''1405'' 1), OnCommand (NetGetRecord [7] 2),
      OnEvent (ConnectionEstablished ''peer'' [] True)]"

definition ex_loop :: loop where
  "ex_loop = run_event_loop ex_swarm ex_runtime ex_inputs (loop_start (ex_state []))"

lemmas ex_loop_defs = ex_loop_def ex_inputs_def run_event_loop_def ex_swarm_def loop_start_def expect_def call_def
  reply_def settle_def settle_object_def connection_established_def ensure_peer_def peer_new_def

lemma ex_loop_val:
  "pending_get_providers ex_loop = [(0, Caller 1)]" "pending_get_record ex_loop = [(1, Caller 2)]"
  "lp_answers ex_loop = []" "map_of (peers ex_loop) ''peer'' = Some (peer_new ''peer'')"
  by (simp_all add: ex_loop_defs)

section \<open>Properties\<close>

text \<open>Property C21. No sender is lost and none is answered twice: after any run of the event loop, the
  senders that came with commands are exactly those that were answered and those that still wait,
  each with the kind of answer its command asks for.\<close>

theorem every_sender_accounted:
  assumes "fresh_ids W"
  shows "answered (run_event_loop W R inputs (loop_start t)) + owed (run_event_loop W R inputs (loop_start t))
    = mset (concat (map (input_asks \<circ> snd) inputs))"
  using reached(1) [OF assms refl, of inputs R t] by (simp add: accounts_def)

theorem every_sender_accounted_witness:
  "answered ex_loop + owed ex_loop = {#(1, KProviders), (2, KRecord)#}"
  using every_sender_accounted [OF ex_fresh, of ex_runtime ex_inputs "ex_state []"]
  by (simp add: ex_loop_def ex_inputs_def)

lemma answers_of_caller:
  "length (filter (\<lambda>p. fst p = Caller n) as) =
   count (image_mset fst (mset (concat (map (\<lambda>(tx, a). of_caller (tx, kind_of a)) as)))) n"
proof (induction as)
  case (Cons p as)
  then show ?case by (cases p; cases "fst p") auto
qed simp

text \<open>Property C22. When the callers use different senders, each sender gets at most one answer, and it
  is of the type the command asks for, so no caller sees an answer to another request.\<close>

theorem answers_once_and_typed:
  assumes "fresh_ids W" "s = run_event_loop W R inputs (loop_start t)"
    "asked = concat (map (input_asks \<circ> snd) inputs)" "distinct (map fst asked)"
    "(Caller n, a) \<in> set (lp_answers s)" "(n, k) \<in> set asked"
  shows "length (filter (\<lambda>p. fst p = Caller n) (lp_answers s)) = 1 \<and> kind_of a = k"
proof -
  have sum: "answered s + owed s = mset asked"
    using reached(1) [OF assms(1,2)] assms(3) by (simp add: accounts_def)
  then have sub: "answered s \<subseteq># mset asked" by (metis mset_subset_eq_add_left)
  have in_answered: "(n, kind_of a) \<in># answered s"
    using assms(5) by (force simp: answered_def)
  with sub have "(n, kind_of a) \<in> set asked"
    by (metis mset_subset_eqD set_mset_mset)
  with assms(4,6) have "kind_of a = k" by (metis eq_key_imp_eq_value)
  moreover have "count (image_mset fst (answered s)) n \<le> count (image_mset fst (mset asked)) n"
    using image_mset_subseteq_mono [OF sub] by (rule mset_subset_eq_count)
  moreover have "count (image_mset fst (mset asked)) n \<le> 1"
    using assms(4) by (simp add: distinct_count_atmost_1 flip: mset_map)
  moreover have "count (image_mset fst (answered s)) n \<ge> 1"
    using in_answered by (metis count_greater_eq_one_iff fst_conv image_eqI set_image_mset)
  ultimately show ?thesis unfolding answers_of_caller answered_def by linarith
qed

theorem answers_once_and_typed_witness:
  "length (filter (\<lambda>p. fst p = Caller 1)
     (lp_answers (run_event_loop ex_swarm ex_runtime (ex_inputs @ [(ex_loopenv, OnEvent (ProvidersFinished 0))])
        (loop_start (ex_state []))))) = 1 \<and> kind_of (AnsProviders []) = KProviders"
  by (rule answers_once_and_typed [OF ex_fresh refl refl]) (simp_all add: run_append ex_loop_defs)

text \<open>Property C23. A request on which the swarm reports, by an answer or by a failure, does not stay open:
  whatever happens before and after the report, the caller is answered.\<close>

theorem reported_requests_are_answered:
  fixes E :: "'e loopenv_scheme"
  assumes "fresh_ids W" "s = run_event_loop W R (earlier :: ('e loopenv_scheme \<times> loop_input) list) (loop_start t)"
    "map_of (slot k s) i = Some (Caller n)" "(E, OnEvent ev) \<in> set later" "reports ev k i"
  shows "\<exists>a. (Caller n, a) \<in> set (lp_answers (run_event_loop W R later s))"
proof -
  obtain xs ys where later: "later = xs @ (E, OnEvent ev) # ys"
    using assms(4) by (meson split_list)
  let ?s1 = "run_event_loop W R xs s"
  let ?s2 = "handle_swarm_event W E R ev ?s1"
  have s1: "?s1 = run_event_loop W R (earlier @ xs) (loop_start t)"
    by (simp add: assms(2) run_append)
  note inv = reached [OF assms(1) s1]
  have "goes_on s ?s1"
    using run_goes_on [OF assms(1) reached(1) [OF assms(1,2)]] .
  with assms(3) consider "map_of (slot k ?s1) i = Some (Caller n)" | "has_answer (Caller n) ?s1"
    unfolding goes_on_def by blast
  then have "has_answer (Caller n) ?s2"
  proof cases
    case 1
    then show ?thesis by (rule report_answers [OF inv(2) _ assms(5)])
  next
    case 2
    then show ?thesis
      using event_goes_on [of ?s1 W E R ev] by (auto simp: goes_on_def has_answer_def)
  qed
  moreover have "goes_on ?s2 (run_event_loop W R ys ?s2)"
    using step_accounts [OF assms(1) inv(1), where inp = "OnEvent ev" and E = E and R = R]
    by (intro run_goes_on [OF assms(1)]) simp
  moreover have "run_event_loop W R later s = run_event_loop W R ys ?s2"
    by (simp add: later run_append run_Cons)
  ultimately show ?thesis by (auto simp: goes_on_def has_answer_def)
qed

theorem reported_requests_are_answered_witness:
  "\<exists>a. (Caller 2, a) \<in> set (lp_answers (run_event_loop ex_swarm ex_runtime
     [(ex_loopenv, OnEvent (ConnectionClosed ''peer'')),
      (ex_loopenv, OnEvent (GetRecordProgress 1 (RecordFailed ''timeout'')))] ex_loop))"
  by (rule reported_requests_are_answered [OF ex_fresh ex_loop_def, of KRecord 1 2 ex_loopenv
        "GetRecordProgress 1 (RecordFailed ''timeout'')"])
     (simp_all add: ex_loop_val)

text \<open>Only a report takes a lookup off the map.\<close>

lemma providers_of_stores: "pending_get_providers (fst (send_stores W b ps s)) = pending_get_providers s"
proof (induction ps arbitrary: s)
  case (Cons p ps)
  from Cons [of "expect pending_replicate_update W (SendObject p (Store b))
      (Target (call_id W (lp_calls s) (SendObject p (Store b)))) s"]
  show ?case by (simp add: Let_def case_prod_unfold) (simp add: expect_def)
qed simp

lemma books_providers: "same_books s s' \<Longrightarrow> pending_get_providers s' = pending_get_providers s"
  by (simp add: same_books_def loop_maps_def)

lemma providers_command:
  assumes "fresh_ids W" "accounts W took s" "map_of (pending_get_providers s) i = Some tx"
  shows "map_of (pending_get_providers (handle_command W c s)) i = Some tx"
proof -
  have "i \<noteq> call_id W (lp_calls s) (GetProviders x)" for x
    using fresh_slot(1) [OF assms(1,2), of x] map_of_SomeD [OF assms(3)] by force
  moreover have "pending_get_providers (case send_stores W b ps s of (s', ts) \<Rightarrow> s' \<lparr> lp_tasks := lp_tasks s' @ [(n, ts)] \<rparr>)
      = pending_get_providers s" for b ps n
    using providers_of_stores [of W b ps s] by (simp add: case_prod_unfold)
  ultimately show ?thesis
    using assms(3)
    by (cases c) (simp_all add: expect_def update_conv' replicate_object_def reply_def call_def
        del: send_stores.simps split: option.split)
qed

lemma providers_event:
  assumes "map_of (pending_get_providers s) i = Some tx" "\<not> reports ev KProviders i"
  shows "map_of (pending_get_providers (handle_swarm_event W E R ev s)) i = Some tx"
proof (cases ev)
  case (MdnsDiscovered found)
  have "same_books s (handle_swarm_event W E R ev s)"
    by (auto simp: MdnsDiscovered intro!: books_fold simp: books split: prod.split)
  with assms(1) show ?thesis by (simp add: books_providers)
qed (use assms in \<open>auto simp: settle_def settle_object_def reply_def call_def delete_conv'
        books_providers [OF books_listen] books_providers [OF books_connection]
        books_providers [OF books_identify] split: option.split prod.split\<close>)

lemma providers_step:
  assumes "fresh_ids W" "accounts W took s" "map_of (pending_get_providers s) i = Some tx"
    "\<And>ev. inp = OnEvent ev \<Longrightarrow> \<not> reports ev KProviders i"
  shows "map_of (pending_get_providers (loop_step W E R inp s)) i = Some tx"
  using assms by (cases inp) (auto simp: providers_command providers_event pairing_reply_def serve_reply_def
      serve_registry_reply_def finish_task_def reply_def call_def split: prod.split)

text \<open>Property C24. A provider lookup is answered by its result only.  When the lookup fails
  (\<open>ProvidersFailed\<close>, the time-out of Kademlia) no report comes any more, and whatever else happens
  the caller of \<open>find_providers\<close> goes on waiting.\<close>

theorem failed_lookup_stays_open:
  fixes later :: "('e loopenv_scheme \<times> loop_input) list"
  assumes "fresh_ids W" "s = run_event_loop W R (earlier :: ('e loopenv_scheme \<times> loop_input) list) (loop_start t)"
    "map_of (pending_get_providers s) i = Some (Caller n)"
    "\<forall>(E, inp) \<in> set later. \<forall>ev. inp = OnEvent ev \<longrightarrow> \<not> reports ev KProviders i"
  shows "map_of (pending_get_providers (run_event_loop W R later s)) i = Some (Caller n) \<and>
    (n, KProviders) \<in># owed (run_event_loop W R ((E, OnEvent (ProvidersFailed i e)) # later) s)"
proof -
  have "accounts W took s \<Longrightarrow> map_of (pending_get_providers s) i = Some (Caller n) \<Longrightarrow>
        map_of (pending_get_providers (run_event_loop W R later s)) i = Some (Caller n)" for took
    using assms(4)
  proof (induction later arbitrary: took s)
    case (Cons p later)
    have "map_of (pending_get_providers (loop_step W (fst p) R (snd p) s)) i = Some (Caller n)"
      using Cons.prems by (intro providers_step [OF assms(1)]) (auto split: prod.splits)
    moreover note step_accounts [OF assms(1) Cons.prems(1), of "snd p" "fst p" R]
    ultimately show ?case
      using Cons by (auto simp: run_event_loop_def case_prod_unfold)
  qed (simp add: run_event_loop_def)
  from this [OF reached(1) [OF assms(1,2)] assms(3)]
  have open_: "map_of (pending_get_providers (run_event_loop W R later s)) i = Some (Caller n)" .
  have "(n, KProviders) \<in># waiting KProviders m" if "map_of m i = Some (Caller n)" for m
    using map_of_SomeD [OF that] by (force simp: waiting_def)
  from this [OF open_] open_ show ?thesis by (simp add: run_Cons owed_def)
qed

theorem failed_lookup_stays_open_witness:
  "(1, KProviders) \<in># owed (run_event_loop ex_swarm ex_runtime
     [(ex_loopenv, OnEvent (ProvidersFailed 0 ''timeout'')), (ex_loopenv, OnEvent (ProvidersFinished 7))] ex_loop)"
  using failed_lookup_stays_open [OF ex_fresh ex_loop_def, of 0 1 "[(ex_loopenv, OnEvent (ProvidersFinished 7))]"
      ex_loopenv "''timeout''"]
  by (simp add: ex_loop_val)

text \<open>One closed connection makes the node forget a peer that it is still connected to: after
  two connections to a peer and the end of one of them, a directed replication is refused.\<close>

theorem closing_one_connection_forgets_peer:
  assumes "p \<noteq> local_peer_id W"
    "s' = fold (handle_swarm_event W E R)
       [ConnectionEstablished p a1 d1, ConnectionEstablished p a2 d2, ConnectionClosed p] s"
  shows "lp_answers (handle_command W (NetReplicateObject (Some p) b n) s') =
    lp_answers s @ [(Caller n, AnsReplicated (Inl (Bail (''peer '' @ p @ '' is not connected''))))]"
proof -
  have "map_of (peers s') p = None"
    by (simp add: assms(2) delete_conv')
  moreover have "lp_answers s' = lp_answers s"
    using books_connection [of _ W p] by (simp add: assms(2) same_books_def)
  ultimately show ?thesis by (simp add: replicate_object_def)
qed

theorem closing_one_connection_forgets_peer_witness:
  "lp_answers (handle_command ex_swarm (NetReplicateObject (Some ''peer'') ex_bundle 3)
     (fold (handle_swarm_event ex_swarm ex_loopenv ex_runtime)
       [ConnectionEstablished ''peer'' [] True, ConnectionEstablished ''peer'' [] False,
        ConnectionClosed ''peer''] ex_loop)) =
   [(Caller 3, AnsReplicated (Inl (Bail ''peer peer is not connected'')))]"
  using closing_one_connection_forgets_peer [OF _ refl, of "''peer''" ex_swarm ex_bundle 3 ex_loopenv ex_runtime
      "[]" True "[]" False ex_loop]
  by (simp add: ex_loop_val ex_swarm_def del: fold_simps)

section \<open>Replication\<close>

text \<open>A target is answered under its own id only, so its first answer is the one that counts.\<close>

definition targets_issued :: "swarm \<Rightarrow> loop \<Rightarrow> bool" where
  "targets_issued W s \<longleftrightarrow>
     (\<forall>i. has_answer (Target i) s \<longrightarrow> issued W ObjectExchange (lp_calls s) i)"

definition targets_grow :: "swarm \<Rightarrow> loop \<Rightarrow> loop \<Rightarrow> bool" where
  "targets_grow W s s' \<longleftrightarrow>
     (\<exists>cs. lp_calls s' = lp_calls s @ cs) \<and>
     (\<forall>i. has_answer (Target i) s' \<longrightarrow>
        has_answer (Target i) s \<or> issued W ObjectExchange (lp_calls s) i)"

lemma targets_grow_issued: "targets_grow W s s' \<Longrightarrow> targets_issued W s \<Longrightarrow> targets_issued W s'"
  unfolding targets_grow_def targets_issued_def by (metis issued_append)

lemma grow_same_answers:
  "lp_answers s' = lp_answers s \<Longrightarrow> \<exists>cs. lp_calls s' = lp_calls s @ cs \<Longrightarrow> targets_grow W s s'"
  by (simp add: targets_grow_def has_answer_def)

lemma grow_books: "same_books s s' \<Longrightarrow> targets_grow W s s'"
  by (rule grow_same_answers) (simp_all add: same_books_def)

lemma grow_settle:
  assumes "accounts W took s"
  shows "targets_grow W s (settle pending_get_providers_update pending_get_providers i a s)"
    "targets_grow W s (settle pending_put_record_update pending_put_record i a s)"
    "targets_grow W s (settle pending_get_record_update pending_get_record i a s)"
    "targets_grow W s (settle pending_get_object_update pending_get_object i a s)"
    "targets_grow W s (settle pending_replicate_update pending_replicate i a s)"
    "targets_grow W s (settle pending_pairing_request_update pending_pairing_request i a s)"
    "targets_grow W s (settle pending_serve_registration_update pending_serve_registration i a s)"
    "targets_grow W s (settle pending_serve_request_update pending_serve_request i a s)"
  using slot_good [OF assms]
  by (auto simp: targets_grow_def settle_def has_answer_def reply_def good_map_def is_caller_def is_target_def
      dest!: map_of_SomeD split: option.split)

lemma grow_stores: "targets_grow W s (fst (send_stores W b ps s))"
proof -
  have "lp_answers (fst (send_stores W b ps s)) = lp_answers s \<and>
        (\<exists>cs. lp_calls (fst (send_stores W b ps s)) = lp_calls s @ cs)"
  proof (induction ps arbitrary: s)
    case (Cons p ps)
    from Cons [of "expect pending_replicate_update W (SendObject p (Store b))
        (Target (call_id W (lp_calls s) (SendObject p (Store b)))) s"]
    show ?case by (simp add: Let_def case_prod_unfold) (auto simp: expect_def)
  qed simp
  then show ?thesis by (intro grow_same_answers) auto
qed

lemma grow_command: "targets_grow W s (handle_command W c s)"
proof (cases c)
  case (NetReplicateObject to b n)
  have "targets_grow W s (case send_stores W b ps s of (s', ts) \<Rightarrow> s' \<lparr> lp_tasks := lp_tasks s' @ [(n, ts)] \<rparr>)"
    for ps
    using grow_stores [of W s b ps] by (simp add: targets_grow_def case_prod_unfold has_answer_def)
  then show ?thesis
    unfolding NetReplicateObject handle_command.simps replicate_object_def
    by (auto simp: targets_grow_def has_answer_def simp del: send_stores.simps split: option.split)
qed (auto simp: targets_grow_def has_answer_def expect_def reply_def call_def split: option.split)

lemma grow_event:
  assumes "accounts W took s"
  shows "targets_grow W s (handle_swarm_event W E R ev s)"
proof (cases ev)
  case (MdnsDiscovered found)
  then show ?thesis
    by (auto intro!: grow_books books_fold simp: books split: prod.split)
qed (auto simp: grow_settle [OF assms] settle_object_def books intro: grow_books split: prod.split)

lemma grow_step:
  assumes "accounts W took s"
  shows "targets_grow W s (loop_step W E R inp s)"
proof (cases inp)
  case (OnTask k)
  then show ?thesis
    by (auto simp: finish_task_def targets_grow_def has_answer_def reply_def split: prod.split)
qed (auto simp: grow_command grow_event [OF assms] pairing_reply_def serve_reply_def serve_registry_reply_def
      books intro!: grow_books)

lemma run_targets_issued:
  assumes "fresh_ids W"
  shows "accounts W took s \<Longrightarrow> targets_issued W s \<Longrightarrow> targets_issued W (run_event_loop W R inputs s)"
proof (induction inputs arbitrary: took s)
  case (Cons p inputs)
  have "accounts W (input_asks (snd p) @ took) (loop_step W (fst p) R (snd p) s)"
    by (rule step_accounts [OF assms Cons.prems(1)])
  moreover have "targets_issued W (loop_step W (fst p) R (snd p) s)"
    by (rule targets_grow_issued [OF grow_step [OF Cons.prems(1)] Cons.prems(2)])
  ultimately show ?case using Cons.IH by (simp add: run_event_loop_def case_prod_unfold)
qed (simp add: run_event_loop_def)

lemma reached_targets:
  assumes "fresh_ids W" "s = run_event_loop W R earlier (loop_start t)"
  shows "targets_issued W s"
  unfolding assms(2)
  by (rule run_targets_issued [OF assms(1) start_accounts]) (simp add: targets_issued_def has_answer_def loop_start_def)

text \<open>A replication to one named connected peer is strict: the caller is told success exactly
  when that peer answered \<open>Stored\<close>, and otherwise the reason.\<close>

theorem replicate_to_peer_is_strict:
  assumes "fresh_ids W" "s = run_event_loop W R earlier (loop_start t)" "map_of (peers s) p \<noteq> None"
    "i = call_id W (lp_calls s) (SendObject p (Store b))"
  shows "lp_answers (run_event_loop W R
      [(E1, OnCommand (NetReplicateObject (Some p) b n)), (E2, OnEvent (ObjectResponseReceived i r)),
       (E3, OnTask (length (lp_tasks s)))] s) =
    lp_answers s @ [(Target i, AnsReplicated (store_answer r)), (Caller n, AnsReplicated (store_answer r))]"
proof -
  note acc = reached(1) [OF assms(1,2)]
  have new: "map_of (pending_replicate s) i = None"
    using fresh_slot(5) [OF assms(1) acc] by (simp add: assms(4) map_of_eq_None_iff)
  have "\<not> issued W ObjectExchange (lp_calls s) i"
    using not_issued [OF assms(1), of "SendObject p (Store b)"] by (simp add: assms(4))
  then have "\<not> has_answer (Target i) s"
    using reached_targets [OF assms(1,2)] by (auto simp: targets_issued_def)
  then have silent: "map_of (lp_answers s) (Target i) = None"
    by (simp add: has_answer_def map_of_eq_None_iff)
  let ?s2 = "handle_swarm_event W E2 R (ObjectResponseReceived i r)
               (handle_command W (NetReplicateObject (Some p) b n) s)"
  have answers: "lp_answers ?s2 = lp_answers s @ [(Target i, AnsReplicated (store_answer r))]"
    using assms(3) new by (auto simp: replicate_object_def Let_def settle_object_def settle_def expect_def
        update_conv' reply_def call_def assms(4))
  have tasks: "lp_tasks ?s2 = lp_tasks s @ [(n, [(p, i)])]"
    using assms(3) new by (auto simp: replicate_object_def Let_def settle_object_def settle_def expect_def
        update_conv' reply_def call_def assms(4))
  have "store_result ?s2 i = Some (Some (store_answer r))"
    unfolding store_result_def answers using silent by (simp add: map_add_def)
  then have "lp_answers (finish_task (length (lp_tasks s)) ?s2) =
      lp_answers ?s2 @ [(Caller n, AnsReplicated (store_answer r))]"
    by (cases "store_answer r") (simp_all add: finish_task_def tasks reply_def del: handle_swarm_event.simps handle_command.simps)
  then show ?thesis using answers by (simp add: run_event_loop_def del: handle_swarm_event.simps handle_command.simps)
qed

theorem replicate_to_peer_is_strict_witness:
  "lp_answers (run_event_loop ex_swarm ex_runtime
     [(ex_loopenv, OnCommand (NetReplicateObject (Some ''peer'') ex_bundle 3)),
      (ex_loopenv, OnEvent (ObjectResponseReceived 4 (StoreFailed ''full''))), (ex_loopenv, OnTask 0)] ex_loop) =
   [(Target 4, AnsReplicated (Inl (Bail ''Pushed object refused by peer: full''))),
    (Caller 3, AnsReplicated (Inl (Bail ''Pushed object refused by peer: full'')))]"
  using replicate_to_peer_is_strict [OF ex_fresh ex_loop_def, of "''peer''" 4 ex_bundle ex_loopenv 3 ex_loopenv
      "StoreFailed ''full''" ex_loopenv]
  by (simp add: ex_loop_val del: run_event_loop_def) (simp add: ex_loop_defs)

definition target_error :: "peer_id \<times> unit res option \<Rightarrow> error" where
  "target_error pr = (case pr of (p, Some (Inl e)) \<Rightarrow> e | (p, _) \<Rightarrow> Bail (''peer '' @ p @ '' dropped the response''))"

lemma replicate_verdict_gen:
  "replicate_verdict rs m fe =
     (if m > 0 \<or> (\<exists>(p, r) \<in> set rs. \<exists>u. r = Some (Inr u)) then Inr ()
      else case fe of Some e \<Rightarrow> Inl e | None \<Rightarrow> (case rs of [] \<Rightarrow> Inr () | pr # _ \<Rightarrow> Inl (target_error pr)))"
proof (induction rs arbitrary: m fe)
  case (Cons q rs)
  obtain p r where q: "q = (p, r)" by fastforce
  consider u where "r = Some (Inr u)" | e where "r = Some (Inl e)" | "r = None"
    by (metis option.exhaust sum.exhaust)
  then show ?case by cases (auto simp: q Cons target_error_def split: option.split)
qed (auto split: option.split)

definition replicate_reference :: "(peer_id \<times> unit res option) list \<Rightarrow> unit res" where
  "replicate_reference rs =
     (if rs = [] \<or> (\<exists>(p, r) \<in> set rs. \<exists>u. r = Some (Inr u)) then Inr () else Inl (target_error (hd rs)))"

text \<open>The verdict of a replication, computed in one pass over the targets, is the one its
  documentation states: success when some target stored the object (or there was none), else the
  error of the first target.\<close>

theorem replicate_verdict_reference: "replicate_verdict rs 0 None = replicate_reference rs"
  by (cases rs) (simp_all add: replicate_verdict_gen replicate_reference_def)

section \<open>The object exchange\<close>

lemma calls_books_fold:
  "lp_calls (fold (\<lambda>(p, a) s. call (Dial a) (call (AddAddress p a) s)) found s) =
   lp_calls s @ concat (map (\<lambda>(p, a). [AddAddress p a, Dial a]) found)"
  by (induction found arbitrary: s) auto

lemma calls_addresses:
  "lp_calls (fold (\<lambda>a. call (AddAddress p a)) addrs s) = lp_calls s @ map (AddAddress p) addrs"
  by (induction addrs arbitrary: s) auto

lemma calls_settle [simp]:
  "lp_calls (settle pending_get_providers_update f i a s) = lp_calls s"
  "lp_calls (settle pending_put_record_update f i a s) = lp_calls s"
  "lp_calls (settle pending_get_record_update f i a s) = lp_calls s"
  "lp_calls (settle pending_get_object_update f i a s) = lp_calls s"
  "lp_calls (settle pending_replicate_update f i a s) = lp_calls s"
  "lp_calls (settle pending_pairing_request_update f i a s) = lp_calls s"
  "lp_calls (settle pending_serve_registration_update f i a s) = lp_calls s"
  "lp_calls (settle pending_serve_request_update f i a s) = lp_calls s"
  by (simp_all add: settle_def reply_def split: option.split)

lemma exchange_call:
  assumes "lp_calls (handle_swarm_event W E R ev s) = lp_calls s @ cs" "RespondObject ch r \<in> set cs"
  shows "\<exists>rq. ev = ObjectRequestReceived ch rq \<and> snd (object_request E R rq (lp_rt s)) = r"
  using assms
  by (cases ev) (auto simp: calls_books_fold calls_addresses settle_object_def new_listen_addr_def
      connection_established_def identify_received_def ensure_peer_def Let_def
      split: option.splits if_splits prod.splits)

text \<open>Property C25. The object exchange hands out and takes in only what the runtime allows: an object is
  sent to a peer only as the answer to a request for its id, when it is shared or cached and
  verifies, and a push is acknowledged only when the pushed object verifies.\<close>

theorem exchange_is_gated:
  assumes "lp_calls (handle_swarm_event W E R ev s) = lp_calls s @ cs" "RespondObject ch r \<in> set cs"
  shows "(case r of
      ObjectFound b \<Rightarrow> ev = ObjectRequestReceived ch (GetObject (obj_id (bundle_object b))) \<and>
        is_shared (obj_id (bundle_object b)) (lp_rt s) \<and> object_verify E (bundle_object b)
    | Stored \<Rightarrow> (\<exists>b. ev = ObjectRequestReceived ch (Store b) \<and> object_verify E (bundle_object b))
    | _ \<Rightarrow> True)"
proof -
  obtain rq where rq: "ev = ObjectRequestReceived ch rq" "snd (object_request E R rq (lp_rt s)) = r"
    using exchange_call [OF assms] by blast
  show ?thesis
  proof (cases rq)
    case (GetObject oid)
    obtain t b where "provide_object E R oid (lp_rt s) = (t, b)" by fastforce
    with rq GetObject show ?thesis
      by (auto simp: provide_object_def get_verified_Inr is_shared_def export_def split: sum.splits if_splits option.splits
          dest!: sym [of _ r])
  next
    case (Store b)
    then show ?thesis
      using rq by (auto simp: accept_push_def andThen_def on_fs_def put_verified_def split: prod.splits sum.splits if_splits)
  qed
qed

definition ex_push :: SwarmEvent where
  "ex_push = ObjectRequestReceived 5 (Store ex_bundle)"

lemma ex_push_calls:
  "lp_calls (handle_swarm_event ex_swarm ex_loopenv ex_runtime ex_push ex_loop) =
   lp_calls ex_loop @ [RespondObject 5 Stored]"
proof -
  have root: "store_root ex_runtime = ''/c/storage''"
    by (simp add: store_root_def storage_path_def path_join_def ex_runtime_def with_root_def)
  have node: "lp_rt ex_loop = ex_state []" by (simp add: ex_loop_defs)
  show ?thesis
    by (simp add: ex_push_def node ex_bundle_def accept_push_def andThen_apply on_fs_def put_verified_def
        ex_foreign_verifies ex_loopenv_def fs_write_def fs_rename_def Let_def is_owned_def
        ex_state_def cache_new_def on_cache_apply mark_cached_def persist_def index_save_def
        object_path_def tmp_path_def root split: prod.splits option.splits)
qed

theorem exchange_is_gated_witness: "object_verify ex_loopenv (bundle_object ex_bundle)"
  using exchange_is_gated [OF ex_push_calls, of 5 Stored] by (simp add: ex_push_def)

end
