(* ===== verification/Network_Manager.thy ===== *)
theory Network_Manager
  imports Loop_Promises
begin

text \<open>
  canopee-network/src/manager.rs: what a node does to its swarm at start-up, and the handle through
  which the runtime talks to the event loop.  Each operation of the handle is the command it sends
  with the name of its reply sender, and what it makes of the answer; a dropped sender is the error
  of \<open>rx.await\<close>.  Building the swarm out of libp2p's protocols is not modelled.
\<close>

section \<open>Start-up\<close>

definition DEFAULT_BOOTSTRAP_ADDRS :: "string list" where
  "DEFAULT_BOOTSTRAP_ADDRS =
     [''/ip4/89.127.234.35/tcp/4001/p2p/12D3KooWEHGyyuEeLxfgmBPnutrCcz93nEmMswjuWcfhxBvxjbng'']"

definition auto_relay :: "string option \<Rightarrow> bool" where
  "auto_relay v = (case v of Some x \<Rightarrow> x \<notin> {''0'', ''false'', ''no'', ''off''} | None \<Rightarrow> True)"

definition env_addrs :: "(string \<Rightarrow> Multiaddr option) \<Rightarrow> string \<Rightarrow> Multiaddr list" where
  "env_addrs parse v =
     List.map_filter (\<lambda>s. let s = trim s in if s = [] then None else parse s) (split_all CHR '','' v)"

definition default_addrs :: "(string \<Rightarrow> Multiaddr option) \<Rightarrow> Multiaddr list" where
  "default_addrs parse = List.map_filter parse DEFAULT_BOOTSTRAP_ADDRS"

definition bootstrap_addrs ::
  "(string \<Rightarrow> Multiaddr option) \<Rightarrow> string option \<Rightarrow> string option \<Rightarrow> Multiaddr list" where
  "bootstrap_addrs parse env_val prepend =
     (let env = (case env_val of Some v \<Rightarrow> env_addrs parse v | None \<Rightarrow> []) in
      if prepend = Some ''1'' then env @ default_addrs parse
      else if env_val \<noteq> None then env
      else default_addrs parse)"

text \<open>\<open>listens\<close> says whether the swarm could bind \<open>addr\<close>; the later calls only log their errors.\<close>

definition network_new ::
  "(string \<Rightarrow> Multiaddr option) \<Rightarrow> string option \<Rightarrow> string option \<Rightarrow> string option \<Rightarrow> bool \<Rightarrow> Multiaddr \<Rightarrow> rt
   \<Rightarrow> loop res" where
  "network_new parse env_val prepend relay listens addr t =
     (if \<not> listens then Inl (Io ''listen'')
      else let bootstrap = bootstrap_addrs parse env_val prepend;
               s = fold (\<lambda>a. call (Dial a)) bootstrap (call (ListenOn addr) (loop_start t))
           in Inr (if auto_relay relay then fold (\<lambda>a. call (ListenOn (a @ [P2pCircuit]))) bootstrap s else s))"

section \<open>The handle\<close>

type_synonym 'a request = "nat \<Rightarrow> Command \<times> (Answer option \<Rightarrow> 'a res)"

text \<open>\<open>rx.await\<close>: \<open>get\<close> reads the answers of the type of the channel.\<close>

definition await :: "(Answer \<Rightarrow> 'a res option) \<Rightarrow> Answer option \<Rightarrow> 'a res" where
  "await get a =
     (case Option.bind a get of Some r \<Rightarrow> r | None \<Rightarrow> Inl (Bail ''channel closed''))"

definition net_dial_addr :: "Multiaddr \<Rightarrow> Command" where "net_dial_addr addr = NetDial addr"
definition listen_via_relay :: "Multiaddr \<Rightarrow> Command" where "listen_via_relay addr = NetListenViaRelay addr"
definition announce_object :: "ObjectId \<Rightarrow> Command" where "announce_object oid = NetAnnounce oid"
definition unannounce_object :: "ObjectId \<Rightarrow> Command" where "unannounce_object oid = NetUnannounce oid"
definition unsubscribe :: "string \<Rightarrow> Command" where "unsubscribe topic = NetUnsubscribe topic"

definition set_peer_meta :: "peer_id \<Rightarrow> IdentityId option \<Rightarrow> string option \<Rightarrow> string option \<Rightarrow> Command" where
  "set_peer_meta p ident user disp = NetSetPeerMeta p ident user disp"

definition find_providers :: "ObjectId \<Rightarrow> peer_id list request" where
  "find_providers oid n =
     (NetFindProviders oid n, await (\<lambda>a. case a of AnsProviders ps \<Rightarrow> Some (Inr ps) | _ \<Rightarrow> None))"

definition send_pairing :: "peer_id \<Rightarrow> CanopeePairingRequest \<Rightarrow> string request" where
  "send_pairing p rq n =
     (NetSendPairing p rq n, await (\<lambda>a. case a of AnsPairing r \<Rightarrow> Some r | _ \<Rightarrow> None))"

definition send_serve_registration :: "peer_id \<Rightarrow> ServeRegistration \<Rightarrow> RegistrationReply request" where
  "send_serve_registration p reg n =
     (NetSendServeRegistration p reg n, await (\<lambda>a. case a of AnsRegistration r \<Rightarrow> Some r | _ \<Rightarrow> None))"

definition send_serve_request :: "peer_id \<Rightarrow> ServeRequest \<Rightarrow> ServeResponse request" where
  "send_serve_request p rq n =
     (NetSendServeRequest p rq n, await (\<lambda>a. case a of AnsServe r \<Rightarrow> Some r | _ \<Rightarrow> None))"

definition put_record :: "bytes \<Rightarrow> bytes \<Rightarrow> unit request" where
  "put_record key v n = (NetPutRecord key v n, await (\<lambda>a. case a of AnsPut r \<Rightarrow> Some r | _ \<Rightarrow> None))"

definition get_record :: "bytes \<Rightarrow> bytes option request" where
  "get_record key n = (NetGetRecord key n, await (\<lambda>a. case a of AnsRecord r \<Rightarrow> Some r | _ \<Rightarrow> None))"

definition get_object :: "peer_id \<Rightarrow> ObjectId \<Rightarrow> ExportBundle request" where
  "get_object p oid n = (NetGetObject p oid n, await (\<lambda>a. case a of AnsObject r \<Rightarrow> Some r | _ \<Rightarrow> None))"

definition net_replicate_object :: "ExportBundle \<Rightarrow> peer_id option \<Rightarrow> unit request" where
  "net_replicate_object b to n =
     (NetReplicateObject to b n, await (\<lambda>a. case a of AnsReplicated r \<Rightarrow> Some r | _ \<Rightarrow> None))"

definition connected_peers :: "Peer list request" where
  "connected_peers n = (NetListPeers n, await (\<lambda>a. case a of AnsPeers ps \<Rightarrow> Some (Inr ps) | _ \<Rightarrow> None))"

definition listen_addresses :: "Multiaddr list request" where
  "listen_addresses n =
     (NetListListenAddresses n, await (\<lambda>a. case a of AnsAddrs xs \<Rightarrow> Some (Inr xs) | _ \<Rightarrow> None))"

definition list_reservations :: "RelayReservation list request" where
  "list_reservations n =
     (NetListRelayReservations n, await (\<lambda>a. case a of AnsReservations xs \<Rightarrow> Some (Inr xs) | _ \<Rightarrow> None))"

definition subscribe :: "string \<Rightarrow> unit request" where
  "subscribe topic n =
     (NetSubscribe topic n, await (\<lambda>a. case a of AnsSubscribed r \<Rightarrow> Some r | _ \<Rightarrow> None))"

definition publish :: "string \<Rightarrow> bytes \<Rightarrow> unit request" where
  "publish topic bs n =
     (NetPublish topic bs n, await (\<lambda>a. case a of AnsPublished r \<Rightarrow> Some r | _ \<Rightarrow> None))"

section \<open>Properties\<close>

lemma calls_fold: "fold (\<lambda>a. call (f a)) xs s = s \<lparr> lp_calls := lp_calls s @ map f xs \<rparr>"
  by (induction xs arbitrary: s) (simp_all add: call_def)

text \<open>A started node has bound its address, dialled every bootstrap address once, in order, and,
  unless \<open>CANOPEE_AUTO_RELAY\<close> turns it off, asked each of them for a relay reservation.  The bootstrap
  addresses are the parsed ones of the variable, followed by the defaults exactly when they are to
  be prepended, and the defaults alone when the variable is not set.\<close>

theorem start_dials_bootstrap:
  "network_new parse env_val prepend relay True addr t =
     (let bs = (case env_val of None \<Rightarrow> [] | Some v \<Rightarrow> env_addrs parse v) @
               (if env_val = None \<or> prepend = Some ''1'' then default_addrs parse else [])
      in Inr ((loop_start t) \<lparr> lp_calls := ListenOn addr # map Dial bs @
                (if auto_relay relay then map (\<lambda>a. ListenOn (a @ [P2pCircuit])) bs else []) \<rparr>))"
proof -
  have start: "call (ListenOn addr) (loop_start t) = (loop_start t) \<lparr> lp_calls := [ListenOn addr] \<rparr>"
    by (simp add: call_def loop_start_def)
  show ?thesis
    by (cases env_val) (simp_all add: network_new_def bootstrap_addrs_def calls_fold start Let_def)
qed

text \<open>A record lookup gives its caller the first result that Kademlia reports, and later results
  of the same query change nothing.\<close>

theorem first_record_decides:
  assumes "fresh_ids W" "s = run_event_loop W R earlier (loop_start t)"
    "i = call_id W (lp_calls s) (KadGet key)"
    "s' = run_event_loop W R [(E1, OnCommand (fst (get_record key n))),
       (E2, OnEvent (GetRecordProgress i r)), (E3, OnEvent (GetRecordProgress i r'))] s"
  shows "\<exists>a. lp_answers s' = lp_answers s @ [(Caller n, a)] \<and>
    snd (get_record key n) (Some a) = get_record_answer r"
proof -
  have "map_of (pending_get_record s) i = None"
    using fresh_slot(3) [OF assms(1) reached(1) [OF assms(1,2)]] by (simp add: assms(3) map_of_eq_None_iff)
  then have "lp_answers s' = lp_answers s @ [(Caller n, AnsRecord (get_record_answer r))]"
    by (auto simp: assms(3,4) run_event_loop_def get_record_def expect_def call_def settle_def update_conv'
        delete_conv' reply_def)
  then show ?thesis by (auto simp: get_record_def await_def)
qed

theorem first_record_decides_witness:
  "\<exists>a. lp_answers (run_event_loop ex_swarm ex_runtime [(ex_loopenv, OnCommand (fst (get_record [9] 4))),
       (ex_loopenv, OnEvent (GetRecordProgress 4 (FoundRecord [1]))),
       (ex_loopenv, OnEvent (GetRecordProgress 4 RecordNotFound))] ex_loop) = [(Caller 4, a)] \<and>
     snd (get_record [9] 4) (Some a) = Inr (Some [1])"
proof -
  have "4 = call_id ex_swarm (lp_calls ex_loop) (KadGet [9])" by (simp add: ex_loop_defs)
  from first_record_decides [OF ex_fresh ex_loop_def this refl, of ex_loopenv 4 ex_loopenv "FoundRecord [1]"
      ex_loopenv RecordNotFound]
  show ?thesis by (simp add: ex_loop_val)
qed

end
