(* ===== verification/Web_Socket.thy ===== *)
theory Web_Socket
  imports Gateway_Protocol Edge
begin

unbundle bit_operations_syntax

text \<open>
  canopee-gateway/src/ws.rs, the token of lib.rs and demo.rs: the WebSocket server in front of a
  node.  A connection is the list of bytes that the peer sends until it closes; an operation takes it
  and returns what is left of it with the bytes written.  A time-out of the handshake is an end of
  that list.  SHA-1, base64, serde's JSON codec and the two page files are parameters.
\<close>

section \<open>The session token\<close>

text \<open>\<open>SessionToken::matches\<close>: the lengths, then the or of all differences.\<close>

definition token_matches :: "string \<Rightarrow> string \<Rightarrow> bool" where
  "token_matches token candidate =
     (length token = length candidate \<and>
      fold (\<lambda>(a, b) acc. acc OR (a XOR b)) (zip (str_bytes token) (str_bytes candidate)) (0 :: byte) = 0)"

text \<open>\<open>random_hex\<close> on the bytes the system gave.\<close>

definition byte_hex :: "byte \<Rightarrow> string" where
  "byte_hex b = [hex_digit (unat b div 16), hex_digit (unat b mod 16)]"

definition random_hex :: "bytes \<Rightarrow> string" where
  "random_hex bs = concat (map byte_hex bs)"

definition session_url :: "string \<Rightarrow> string \<Rightarrow> string" where
  "session_url addr token = ''ws://'' @ addr @ ''/?token='' @ token"

definition page_url :: "string \<Rightarrow> string" where
  "page_url addr = ''http://'' @ addr @ ''/''"

section \<open>Frames\<close>

definition WS_GUID :: string where "WS_GUID = ''258EAFA5-E914-47DA-95CA-C5AB0DC85B11''"
definition MAX_MESSAGE_BYTES :: nat where "MAX_MESSAGE_BYTES = 16 * 1024 * 1024"

definition OP_CONTINUATION :: byte where "OP_CONTINUATION = 0x0"
definition OP_TEXT :: byte where "OP_TEXT = 0x1"
definition OP_BINARY :: byte where "OP_BINARY = 0x2"
definition OP_CLOSE :: byte where "OP_CLOSE = 0x8"
definition OP_PING :: byte where "OP_PING = 0x9"
definition OP_PONG :: byte where "OP_PONG = 0xA"

datatype Frame = Data bytes | Ping bytes | Pong bytes | Close "u16 option"

definition protocol_error :: "string \<Rightarrow> error" where
  "protocol_error m = Bail (''websocket protocol error: '' @ m)"

definition read_exact :: "nat \<Rightarrow> bytes \<Rightarrow> (bytes \<times> bytes) res" where
  "read_exact n bs =
     (if length bs < n then Inl (Bail ''unexpected end of websocket stream while reading frame'')
      else Inr (take n bs, drop n bs))"

definition be_value :: "bytes \<Rightarrow> nat" where
  "be_value bs = of_le_bytes (rev bs)"

definition be_bytes :: "nat \<Rightarrow> nat \<Rightarrow> bytes" where
  "be_bytes k n = rev (le_bytes k n)"

definition frame_length :: "byte \<Rightarrow> bytes \<Rightarrow> (nat \<times> bytes) res" where
  "frame_length b1 bs =
     (let n = unat (b1 AND 0x7f) in
      if n = 126 then map_sum id (\<lambda>(l, r). (be_value l, r)) (read_exact 2 bs)
      else if n = 127 then map_sum id (\<lambda>(l, r). (be_value l, r)) (read_exact 8 bs)
      else Inr (n, bs))"

text \<open>\<open>payload[i] ^= mask[i & 3]\<close>, from index \<open>i\<close> on.\<close>

fun unmask :: "bytes \<Rightarrow> nat \<Rightarrow> bytes \<Rightarrow> bytes" where
  "unmask mask_key i [] = []"
| "unmask mask_key i (b # bs) = (b XOR mask_key ! (i mod 4)) # unmask mask_key (Suc i) bs"

definition frame_of :: "byte \<Rightarrow> bool \<Rightarrow> bytes \<Rightarrow> Frame res" where
  "frame_of opcode fin p =
     (if (opcode = OP_TEXT \<or> opcode = OP_BINARY) \<and> fin then Inr (Data p)
      else if opcode = OP_TEXT \<or> opcode = OP_BINARY \<or> opcode = OP_CONTINUATION then
        Inl (protocol_error ''fragmented messages are not supported'')
      else if opcode = OP_PING then Inr (Ping p)
      else if opcode = OP_PONG then Inr (Pong p)
      else if opcode = OP_CLOSE \<and> fin then
        Inr (Close (if 2 \<le> length p then Some (of_nat (be_value (take 2 p))) else None))
      else if opcode = OP_CLOSE then Inl (protocol_error ''fragmented close frame'')
      else Inl (protocol_error (''unknown opcode 0x'' @ [hex_digit (unat opcode)])))"

text \<open>\<open>None\<close> is the end of the stream before a frame.\<close>

definition read_frame :: "bytes \<Rightarrow> (Frame \<times> bytes) option res" where
  "read_frame bs =
     (case bs of
        [] \<Rightarrow> Inr None
      | [_] \<Rightarrow> Inl (protocol_error ''truncated frame header'')
      | b0 # b1 # r0 \<Rightarrow>
          let fin = (b0 AND 0x80 \<noteq> 0); rsv = drop_bit 4 b0 AND 0x7; opcode = b0 AND 0x0f;
              masked = (b1 AND 0x80 \<noteq> 0) in
          if rsv \<noteq> 0 then Inl (protocol_error ''non-zero reserved bits are not supported'')
          else res_bind (frame_length b1 r0) (\<lambda>(len, r1).
            if len > MAX_MESSAGE_BYTES then
              Inl (protocol_error (''frame payload of '' @ nat_str len @ '' bytes exceeds the 16777216 byte limit''))
            else res_bind (if masked then read_exact 4 r1 else Inr ([0, 0, 0, 0], r1)) (\<lambda>(key, r2).
              res_bind (read_exact len r2) (\<lambda>(p, r3).
                res_bind (frame_of opcode fin (if masked then unmask key 0 p else p)) (\<lambda>f.
                  Inr (Some (f, r3)))))))"

definition write_frame :: "byte \<Rightarrow> bytes \<Rightarrow> bytes" where
  "write_frame opcode p =
     (0x80 OR opcode) #
     (if length p < 126 then [of_nat (length p)]
      else if length p \<le> 65535 then 126 # be_bytes 2 (length p)
      else 127 # be_bytes 8 (length p)) @ p"

definition write_close :: "u16 option \<Rightarrow> bytes" where
  "write_close reason =
     write_frame OP_CLOSE (case reason of Some code \<Rightarrow> be_bytes 2 (unat code) | None \<Rightarrow> [])"

text \<open>The loop of \<open>read_command\<close>: the command with the rest of the stream, and the bytes written.\<close>

lemma read_frame_shorter: "read_frame bs = Inr (Some (f, r)) \<Longrightarrow> length r < length bs"
  by (auto simp: read_frame_def frame_length_def read_exact_def Let_def split: list.splits if_splits sum.splits)

function read_command_frame ::
  "(bytes \<Rightarrow> GatewayCommand option) \<Rightarrow> bytes \<Rightarrow> bytes \<Rightarrow> (GatewayCommand \<times> bytes) option res \<times> bytes" where
  "read_command_frame jdec bs out =
     (case read_frame bs of
        Inl e \<Rightarrow> (Inl e, out)
      | Inr None \<Rightarrow> (Inr None, out)
      | Inr (Some (Data p, r)) \<Rightarrow>
          (case jdec p of
             Some c \<Rightarrow> (Inr (Some (c, r)), out)
           | None \<Rightarrow> (Inl (Bail ''invalid gateway command frame''), out))
      | Inr (Some (Ping p, r)) \<Rightarrow> read_command_frame jdec r (out @ write_frame OP_PONG p)
      | Inr (Some (Pong p, r)) \<Rightarrow> read_command_frame jdec r out
      | Inr (Some (Close reason, r)) \<Rightarrow> (Inr None, out @ write_close reason))"
  by pat_completeness auto

termination
  by (relation "measure (\<lambda>(jdec, bs, out). length bs)") (auto intro: read_frame_shorter)

declare read_command_frame.simps [simp del]

section \<open>The opening handshake\<close>

record Handshake =
  hs_method :: string
  hs_path :: string
  upgrade_websocket :: bool
  hs_origin :: "string option"
  sec_websocket_key :: "string option"

definition without_cr :: "string \<Rightarrow> string" where
  "without_cr line = (if line \<noteq> [] \<and> last line = CHR 0x0D then butlast line else line)"

fun line_bytes :: "bytes \<Rightarrow> bytes \<times> bytes option" where
  "line_bytes [] = ([], None)"
| "line_bytes (b # bs) =
     (if b = 10 then ([], Some bs) else (case line_bytes bs of (l, r) \<Rightarrow> (b # l, r)))"

definition read_http_line :: "bytes \<Rightarrow> (string \<times> bytes) res" where
  "read_http_line bs =
     (case line_bytes bs of
        (l, None) \<Rightarrow> if l = [] then Inl (Bail ''connection closed during handshake'')
                     else Inr (without_cr (from_utf8_lossy l), [])
      | (l, Some r) \<Rightarrow> Inr (without_cr (from_utf8_lossy l), r))"

definition header_field :: "string \<Rightarrow> Handshake \<Rightarrow> Handshake" where
  "header_field line h =
     (case split_once CHR '':'' line of
        None \<Rightarrow> h
      | Some (name, v) \<Rightarrow>
          let name = to_lower (trim name); v = trim v in
          if name = ''upgrade'' \<and> eq_ignore_case v ''websocket'' then h \<lparr> upgrade_websocket := True \<rparr>
          else if name = ''sec-websocket-key'' then h \<lparr> sec_websocket_key := Some v \<rparr>
          else if name = ''origin'' then h \<lparr> hs_origin := Some v \<rparr>
          else h)"

lemma line_bytes_shorter: "line_bytes bs = (l, Some r) \<Longrightarrow> length r < length bs"
  by (induction bs arbitrary: l) (fastforce split: if_splits prod.splits)+

lemma read_http_line_shorter: "read_http_line bs = Inr (line, r) \<Longrightarrow> length r < length bs"
  by (cases bs) (auto simp: read_http_line_def dest: line_bytes_shorter split: prod.splits option.splits if_splits)

function header_lines :: "bytes \<Rightarrow> Handshake \<Rightarrow> (Handshake \<times> bytes) res" where
  "header_lines bs h =
     (case read_http_line bs of
        Inl e \<Rightarrow> Inl e
      | Inr (line, r) \<Rightarrow> if line = [] then Inr (h, r) else header_lines r (header_field line h))"
  by pat_completeness auto

termination
  by (relation "measure (\<lambda>(bs, h). length bs)") (auto intro: read_http_line_shorter)

declare header_lines.simps [simp del]

definition read_handshake :: "bytes \<Rightarrow> (Handshake \<times> bytes) res" where
  "read_handshake bs =
     res_bind (read_http_line bs) (\<lambda>(line, r).
       let parts = split_whitespace line in
       header_lines r \<lparr> hs_method = nth_or parts 0 ''GET'', hs_path = nth_or parts 1 ''/'',
                        upgrade_websocket = False, hs_origin = None, sec_websocket_key = None \<rparr>)"

fun pair_value :: "string \<Rightarrow> string list \<Rightarrow> string option" where
  "pair_value name [] = None"
| "pair_value name (p # ps) =
     (case split_once CHR ''='' p of
        Some (k, v) \<Rightarrow> if k = name then Some v else pair_value name ps
      | None \<Rightarrow> if p = name then Some [] else pair_value name ps)"

definition query_param :: "string \<Rightarrow> string \<Rightarrow> string option" where
  "query_param path name =
     (case split_once CHR ''?'' path of
        None \<Rightarrow> None
      | Some (_, q) \<Rightarrow> pair_value name (split_all CHR ''&'' q))"

text \<open>\<open>origin.split("://").nth(1)\<close>.\<close>

fun split_scheme :: "string \<Rightarrow> string list" where
  "split_scheme [] = [[]]"
| "split_scheme (c # s) =
     (case strip_prefix ''://'' (c # s) of
        Some r \<Rightarrow> [] # split_scheme (drop 2 s)
      | None \<Rightarrow> (case split_scheme s of w # ws \<Rightarrow> (c # w) # ws | [] \<Rightarrow> [[c]]))"

definition origin_host :: "string \<Rightarrow> string" where
  "origin_host origin =
     (let after = nth_or (split_scheme origin) 1 origin;
          authority = hd (split_all CHR ''/'' after)
      in hd (split_all CHR '':'' authority))"

definition is_loopback_origin :: "string option \<Rightarrow> bool" where
  "is_loopback_origin origin =
     (case origin of
        None \<Rightarrow> True
      | Some o' \<Rightarrow> eq_ignore_case (origin_host o') ''127.0.0.1'' \<or> eq_ignore_case (origin_host o') ''localhost'')"

definition validate_handshake :: "Handshake \<Rightarrow> string \<Rightarrow> unit res" where
  "validate_handshake h token =
     (if \<not> upgrade_websocket h then Inl (Bail ''not a websocket upgrade request'')
      else if sec_websocket_key h = None then Inl (Bail ''missing Sec-WebSocket-Key'')
      else if \<not> is_loopback_origin (hs_origin h) then
        Inl (Bail ''origins outside this machine cannot reach the gateway'')
      else case query_param (hs_path h) ''token'' of
             Some candidate \<Rightarrow>
               if token_matches token candidate then Inr () else Inl (Bail ''invalid session token'')
           | None \<Rightarrow> Inl (Bail ''missing session token in query string''))"

record wsenv = base64 +
  sha1 :: "bytes \<Rightarrow> bytes"
  page_template :: string
  client_js :: string

definition accept_key :: "'e wsenv_scheme \<Rightarrow> Handshake \<Rightarrow> string" where
  "accept_key E h =
     b64_encode E (sha1 E (str_bytes ((case sec_websocket_key h of Some k \<Rightarrow> k | None \<Rightarrow> []) @ WS_GUID)))"

text \<open>\<open>str::replace\<close> of a non-empty pattern.\<close>

function str_replace :: "string \<Rightarrow> string \<Rightarrow> string \<Rightarrow> string" where
  "str_replace pat new s =
     (if s = [] then []
      else if pat \<noteq> [] \<and> starts_with pat s then new @ str_replace pat new (drop (length pat) s)
      else hd s # str_replace pat new (tl s))"
  by pat_completeness auto

termination
  by (relation "measure (\<lambda>(pat, new, s). length s)") auto

declare str_replace.simps [simp del]

definition demo_page :: "'e wsenv_scheme \<Rightarrow> string \<Rightarrow> string" where
  "demo_page E token =
     str_replace ''__CLIENT_JS__'' (client_js E) (str_replace ''__CANOPEE_TOKEN__'' token (page_template E))"

datatype Accepted = Socket bytes | Served

definition CRLF2 :: string where "CRLF2 = [CHR 0x0D, CHR 0x0A]"

definition forbidden :: bytes where
  "forbidden = str_bytes (''HTTP/1.1 403 Forbidden'' @ CRLF2 @ ''Content-Length: 0'' @ CRLF2 @ CRLF2)"

definition page_response :: "'e wsenv_scheme \<Rightarrow> string \<Rightarrow> bytes" where
  "page_response E token =
     str_bytes (''HTTP/1.1 200 OK'' @ CRLF2 @ ''Content-Type: text/html; charset=utf-8'' @ CRLF2 @
       ''Content-Length: '' @ nat_str (length (demo_page E token)) @ CRLF2 @
       ''Connection: close'' @ CRLF2 @ CRLF2 @ demo_page E token)"

definition switching :: "string \<Rightarrow> bytes" where
  "switching accept =
     str_bytes (''HTTP/1.1 101 Switching Protocols'' @ CRLF2 @ ''Upgrade: websocket'' @ CRLF2 @
       ''Connection: Upgrade'' @ CRLF2 @ ''Sec-WebSocket-Accept: '' @ accept @ CRLF2 @ CRLF2)"

definition ws_accept :: "'e wsenv_scheme \<Rightarrow> string \<Rightarrow> bytes \<Rightarrow> Accepted res \<times> bytes" where
  "ws_accept E token bs =
     (case read_handshake bs of
        Inl e \<Rightarrow> (Inl e, [])
      | Inr (h, r) \<Rightarrow>
          if \<not> upgrade_websocket h then
            (if hs_method h = ''GET'' \<and> hs_path h = ''/'' then (Inr Served, page_response E token)
             else (Inl (Bail ''not a websocket upgrade request''), forbidden))
          else case validate_handshake h token of
                 Inl e \<Rightarrow> (Inl e, forbidden)
               | Inr _ \<Rightarrow> (Inr (Socket r), switching (accept_key E h)))"

section \<open>The token\<close>

lemma xor_zero_iff: "(a XOR b :: byte) = 0 \<longleftrightarrow> a = b"
  by (metis xor.right_neutral xor_self_eq xor.assoc xor.left_neutral)

lemma differences_zero:
  "fold (\<lambda>(a, b) acc. acc OR (a XOR b)) ps (acc :: byte) = 0 \<longleftrightarrow> acc = 0 \<and> (\<forall>(a, b) \<in> set ps. a = b)"
  by (induction ps arbitrary: acc) (auto simp: or_eq_0_iff xor_zero_iff)

lemma token_matches_iff: "token_matches token candidate \<longleftrightarrow> token = candidate"
proof -
  have "list_all2 (=) (str_bytes token) (str_bytes candidate) \<longleftrightarrow> token = candidate"
    by (simp add: list.rel_eq)
  then show ?thesis
    by (auto simp: token_matches_def differences_zero list_all2_iff)
qed

section \<open>Reading frames back\<close>

lemma be_value_bytes [simp]: "n < 256 ^ k \<Longrightarrow> be_value (be_bytes k n) = n"
  by (simp add: be_value_def be_bytes_def of_le_bytes_le_bytes)

lemma be_bytes_length [simp]: "length (be_bytes k n) = k"
  by (simp add: be_bytes_def)

lemma read_exact_append [simp]: "length a = n \<Longrightarrow> read_exact n (a @ b) = Inr (a, b)"
  by (simp add: read_exact_def)

lemma low_bits: "unat (b AND 0x7f :: byte) = unat b mod 128"
proof -
  have "b AND 0x7f = take_bit 7 b" by (simp add: take_bit_eq_mask mask_numeral)
  then have "unat (b AND 0x7f) = take_bit 7 (unat b)" by (simp only: unsigned_take_bit_eq)
  then show ?thesis by (simp add: take_bit_eq_mod)
qed

lemma low_bits_masked: "unat (0x80 OR b :: byte) mod 128 = unat b mod 128"
  using low_bits [of b] low_bits [of "0x80 OR b"] by (simp add: bit.conj_disj_distrib2)

lemma top_bit: "(b AND 0x80 = (0 :: byte)) \<longleftrightarrow> \<not> bit b 7"
  using and_exp_eq_0_iff_not_bit [of b 7] by simp

lemma top_bit_small: "n < 128 \<Longrightarrow> of_nat n AND (0x80 :: byte) = 0"
  by (simp add: top_bit bit_of_nat_iff bit_nat_def)

lemma top_bit_masked: "(0x80 OR b) AND (0x80 :: byte) \<noteq> 0"
  by (simp add: top_bit bit_or_iff)

lemma unmask_length [simp]: "length (unmask k i p) = length p"
  by (induction k i p rule: unmask.induct) auto

lemma unmask_twice [simp]: "unmask k i (unmask k i p) = p"
  by (induction k i p rule: unmask.induct) (auto simp: xor.assoc)

text \<open>RFC 6455, section 5.3: octet \<open>j\<close> of the payload is combined with octet \<open>j mod 4\<close> of the key.\<close>

definition masked_payload :: "bytes \<Rightarrow> bytes \<Rightarrow> bytes" where
  "masked_payload key p = map (\<lambda>j. p ! j XOR key ! (j mod 4)) [0..<length p]"

lemma unmask_nth: "j < length p \<Longrightarrow> unmask key i p ! j = p ! j XOR key ! ((i + j) mod 4)"
  by (induction key i p arbitrary: j rule: unmask.induct) (auto simp: nth_Cons split: nat.splits)

lemma masked_length [simp]: "length (masked_payload key p) = length p"
  by (simp add: masked_payload_def)

lemma unmask_masked [simp]: "unmask key 0 (masked_payload key p) = p"
  by (intro nth_equalityI) (simp_all add: unmask_nth masked_payload_def xor.assoc)

text \<open>The frame a client sends: the header of \<open>write_frame\<close> with the mask bit, the key, the masked payload.\<close>

definition client_frame :: "byte \<Rightarrow> bytes \<Rightarrow> bytes \<Rightarrow> bytes" where
  "client_frame opcode key p =
     (case take (length (write_frame opcode p) - length p) (write_frame opcode p) of
        b0 # b1 # l \<Rightarrow> b0 # (0x80 OR b1) # l @ key @ masked_payload key p
      | _ \<Rightarrow> [])"

lemma frame_length_written:
  assumes "length p \<le> MAX_MESSAGE_BYTES"
  shows "\<exists>b1 l. write_frame opcode p = (0x80 OR opcode) # b1 # l @ p \<and> b1 AND 0x80 = 0 \<and>
    (\<forall>r. frame_length b1 (l @ r) = Inr (length p, r)) \<and>
    (\<forall>r. frame_length (0x80 OR b1) (l @ r) = Inr (length p, r))"
proof -
  have max: "length p < 256 ^ 8" using assms by (simp add: MAX_MESSAGE_BYTES_def)
  consider "length p < 126" | "126 \<le> length p" "length p \<le> 65535" | "65535 < length p" by linarith
  then show ?thesis
  proof cases
    case 1
    then have "unat (of_nat (length p) :: byte) = length p" by (simp add: unat_of_nat take_bit_eq_mod)
    with 1 show ?thesis
      by (intro exI [of _ "of_nat (length p)"] exI [of _ "[]"])
         (simp_all add: write_frame_def frame_length_def low_bits low_bits_masked top_bit_small)
  next
    case 2
    then show ?thesis
      by (intro exI [of _ "126"] exI [of _ "be_bytes 2 (length p)"])
         (simp_all add: write_frame_def frame_length_def low_bits low_bits_masked)
  next
    case 3
    then show ?thesis
      by (intro exI [of _ "127"] exI [of _ "be_bytes 8 (length p)"])
         (use max in \<open>simp_all add: write_frame_def frame_length_def low_bits low_bits_masked\<close>)
  qed
qed

section \<open>Properties\<close>

text \<open>Property C26. A text or binary frame is read back as its payload, whatever follows it on the stream: one
  the server wrote, and one that a client masked with any key the way RFC 6455 says, up to the size limit.\<close>

theorem frames_round_trip:
  assumes "opcode = OP_TEXT \<or> opcode = OP_BINARY" "length p \<le> MAX_MESSAGE_BYTES" "length key = 4"
  shows "read_frame (write_frame opcode p @ r) = Inr (Some (Data p, r)) \<and>
    read_frame (client_frame opcode key p @ r) = Inr (Some (Data p, r))"
proof -
  obtain b1 l where w: "write_frame opcode p = (0x80 OR opcode) # b1 # l @ p" "b1 AND 0x80 = 0"
    and len: "\<And>r. frame_length b1 (l @ r) = Inr (length p, r)"
      "\<And>r. frame_length (0x80 OR b1) (l @ r) = Inr (length p, r)"
    using frame_length_written [OF assms(2), of opcode] by metis
  have client: "client_frame opcode key p = (0x80 OR opcode) # (0x80 OR b1) # l @ key @ masked_payload key p"
    by (simp add: client_frame_def w)
  have op: "(0x80 OR opcode) AND 0x80 \<noteq> 0" "drop_bit 4 (0x80 OR opcode) AND 0x7 = 0"
    "(0x80 OR opcode) AND 0x0f = opcode" "frame_of opcode True q = Inr (Data q)" for q
    using assms(1) by (auto simp: OP_TEXT_def OP_BINARY_def frame_of_def)
  have small: "\<not> MAX_MESSAGE_BYTES < length p" using assms(2) by simp
  show ?thesis
    using w(2) op small top_bit_masked [of b1]
    by (simp add: w(1) client read_frame_def len assms(3) Let_def)
qed

theorem frames_round_trip_witness:
  "read_frame (write_frame OP_TEXT [104, 105] @ [7]) = Inr (Some (Data [104, 105], [7])) \<and>
   read_frame (client_frame OP_TEXT [1, 2, 3, 4] [104, 105] @ [7]) = Inr (Some (Data [104, 105], [7]))"
  by (rule frames_round_trip) (simp_all add: MAX_MESSAGE_BYTES_def)

text \<open>Property C27. A connection becomes a WebSocket only for a request that upgrades, comes from a loopback
  origin or names none, and carries exactly the session token; the answer then proves that the
  server read the client's key.\<close>

theorem socket_needs_token:
  assumes "ws_accept E token bs = (Inr (Socket r), out)"
  shows "\<exists>h. read_handshake bs = Inr (h, r) \<and> upgrade_websocket h \<and> is_loopback_origin (hs_origin h) \<and>
    query_param (hs_path h) ''token'' = Some token \<and> sec_websocket_key h \<noteq> None \<and>
    out = switching (accept_key E h)"
  using assms
  by (auto simp: ws_accept_def validate_handshake_def token_matches_iff split: sum.splits option.splits if_splits)

definition ex_wsenv :: wsenv where
  "ex_wsenv = \<lparr> b64_encode = bytes_str, b64_decode = (\<lambda>s. Some (str_bytes s)), sha1 = take 4,
     page_template = ''<p>__CANOPEE_TOKEN__'', client_js = [] \<rparr>"

definition ex_line :: "string \<Rightarrow> bytes" where
  "ex_line l = str_bytes (l @ CRLF2)"

definition ex_opening :: bytes where
  "ex_opening = ex_line ''GET /?token=ab HTTP/1.1'' @ ex_line ''Upgrade: websocket'' @
     ex_line ''Sec-WebSocket-Key: key'' @ ex_line [] @ [129]"

lemma line_of_ex:
  assumes "is_ascii l" "list_all (\<lambda>c. c \<noteq> CHR 0x0A) l"
  shows "read_http_line (ex_line l @ r) = Inr (l, r)"
proof -
  have no_lf: "(of_nat (of_char c) :: byte) \<noteq> 10" if "c \<noteq> CHR 0x0A" for c
  proof
    assume "(of_nat (of_char c) :: byte) = 10"
    then have "unat (of_nat (of_char c) :: byte) = 10" by simp
    then have "(of_char c :: nat) = of_char (CHR 0x0A)" by (simp del: of_nat_of_char)
    with that show False by (simp only: of_char_eq_iff)
  qed
  have "line_bytes (str_bytes (l @ CRLF2) @ r) = (str_bytes (l @ [CHR 0x0D]), Some r)"
    using assms(2)
  proof (induction l)
    case Nil
    show ?case by (simp add: str_bytes_def CRLF2_def)
  next
    case (Cons c l)
    then have "line_bytes (str_bytes (l @ CRLF2) @ r) = (str_bytes (l @ [CHR 0x0D]), Some r)" "c \<noteq> CHR 0x0A"
      by simp_all
    with no_lf show ?case by (simp add: str_bytes_def del: of_nat_of_char)
  qed
  moreover have "is_ascii (l @ [CHR 0x0D])" using assms(1) by (simp add: is_ascii_def)
  then have "from_utf8_lossy (str_bytes (l @ [CHR 0x0D])) = l @ [CHR 0x0D]"
    by (simp only: from_utf8_lossy_valid utf8_valid_ascii bytes_str_bytes)
  ultimately show ?thesis
    by (simp add: read_http_line_def ex_line_def without_cr_def)
qed

lemma ex_opening_reads:
  "read_handshake ex_opening = Inr (\<lparr> hs_method = ''GET'', hs_path = ''/?token=ab'', upgrade_websocket = True,
     hs_origin = None, sec_websocket_key = Some ''key'' \<rparr>, [129])"
proof -
  have lines: "header_lines (ex_line l @ r) h = (if l = [] then Inr (h, r) else header_lines r (header_field l h))"
    if "is_ascii l" "list_all (\<lambda>c. c \<noteq> CHR 0x0A) l" for l r h
    using line_of_ex [OF that, of r] by (simp add: header_lines.simps [of "ex_line l @ r"])
  show ?thesis
    by (simp add: read_handshake_def ex_opening_def line_of_ex lines is_ascii_def Let_def split_whitespace_def
        is_space_def header_field_def trim_def to_lower_def ascii_lower_def eq_ignore_case_def
        char_of_def bit_0)
qed

lemma ex_opening_token: "query_param ''/?token=ab'' ''token'' = Some ''ab''"
  by (simp add: query_param_def)

lemma ex_opening_accepted: "\<exists>out. ws_accept ex_wsenv ''ab'' ex_opening = (Inr (Socket [129]), out)"
  by (simp add: ws_accept_def ex_opening_reads validate_handshake_def is_loopback_origin_def ex_opening_token
      token_matches_iff)

theorem socket_needs_token_witness:
  "\<exists>out h. ws_accept ex_wsenv ''ab'' ex_opening = (Inr (Socket [129]), out) \<and>
     read_handshake ex_opening = Inr (h, [129]) \<and> query_param (hs_path h) ''token'' = Some ''ab''"
proof -
  obtain out where "ws_accept ex_wsenv ''ab'' ex_opening = (Inr (Socket [129]), out)"
    using ex_opening_accepted by blast
  with socket_needs_token [OF this] show ?thesis by blast
qed

section \<open>The page\<close>

text \<open>A plain request for the page is answered with the token in it, whatever its origin and without any
  token of its own: the page hands out the secret that the socket asks for.\<close>

theorem page_hands_out_token:
  assumes "read_handshake bs = Inr (h, r)" "\<not> upgrade_websocket h" "hs_method h = ''GET''" "hs_path h = ''/''"
  shows "ws_accept E token bs = (Inr Served, page_response E token)"
  using assms by (simp add: ws_accept_def)

lemma ex_page: "demo_page ex_wsenv ''ab'' = ''<p>ab''"
  by (simp add: demo_page_def ex_wsenv_def str_replace.simps starts_with_def)

text \<open>The comment of the origin check allows an empty \<open>Origin\<close>; the code refuses it.\<close>

lemma empty_origin_refused: "\<not> is_loopback_origin (Some [])"
  by (simp add: is_loopback_origin_def origin_host_def eq_ignore_case_def to_lower_def)

lemma ipv6_loopback_refused: "\<not> is_loopback_origin (Some ''http://[::1]:80'')"
  by (simp add: is_loopback_origin_def origin_host_def eq_ignore_case_def to_lower_def ascii_lower_def char_of_def
      bit_0)

end
