(* ===== verification/Gateway.thy ===== *)
theory Gateway
  imports Web_Socket Node_Connection
begin

text \<open>
  canopee-gateway/src/lib.rs: what a browser may ask of a node.  A session reads commands from its
  WebSocket, answers each by one call of the client library, and passes on the messages of at most
  one topic.  \<open>gwenv\<close> adds to the WebSocket's environment the text of a library's error and the JSON
  codec of both directions.
\<close>

datatype json = JNull | JBool bool | JNum nat | JStr string | JArr "json list" | JObj "(string \<times> json) list"

datatype GatewayEvent =
  EvOk json
| EvError string
| EvPubSub string "string option" string string

record gwenv = wsenv +
  library_text :: "error \<Rightarrow> string"
  command_dec :: "bytes \<Rightarrow> GatewayCommand option"
  event_enc :: "GatewayEvent \<Rightarrow> bytes"

definition jopt :: "('a \<Rightarrow> json) \<Rightarrow> 'a option \<Rightarrow> json" where
  "jopt f x = (case x of Some y \<Rightarrow> f y | None \<Rightarrow> JNull)"

section \<open>Results as JSON\<close>

definition object_json :: "ObjectView \<Rightarrow> json" where
  "object_json v = JObj
     [(''id'', JStr (ov_id v)), (''owner'', JStr (ov_owner v)), (''objectType'', JStr (ov_type v)),
      (''size'', JNum (unat (ov_size v))), (''createdAt'', JNum (unat (ov_created_at v))),
      (''contentType'', jopt JStr (ov_content_type v)), (''text'', JStr (ov_text v)),
      (''dataB64'', JStr (ov_data_b64 v)), (''publicKeyB64'', JStr (ov_public_key_b64 v)),
      (''signatureB64'', JStr (ov_signature_b64 v))]"

definition pointer_json :: "PointerView \<Rightarrow> json" where
  "pointer_json v = JObj
     [(''owner'', JStr (pv_owner v)), (''name'', JStr (pv_name v)), (''manifest'', JStr (pv_manifest v)),
      (''publishedAt'', JNum (unat (pv_published_at v)))]"

definition profile_json :: "ProfileView \<Rightarrow> json" where
  "profile_json v = JObj
     [(''displayName'', JStr (prv_display_name v)), (''dhPublicKeyB64'', JStr (prv_dh_b64 v)),
      (''avatar'', jopt JStr (prv_avatar v)), (''version'', JNum (unat (prv_version v)))]"

definition contact_json :: "ContactView \<Rightarrow> json" where
  "contact_json v = JObj
     [(''name'', JStr (cv_name v)), (''peerId'', JStr (cv_peer_id v)), (''dhPublicKeyB64'', JStr (cv_dh_b64 v)),
      (''note'', jopt JStr (cv_note v))]"

definition contact_list_json :: "ContactListView \<Rightarrow> json" where
  "contact_list_json v = JObj
     [(''contacts'', JArr (map contact_json (clv_contacts v))), (''version'', JNum (unat (clv_version v)))]"

definition home_entry_json :: "HomeEntryView \<Rightarrow> json" where
  "home_entry_json v = JObj
     [(''name'', JStr (hev_name v)), (''object'', JStr (hev_object v)), (''objectType'', JStr (hev_type v)),
      (''shared'', JBool (hev_shared v)), (''app'', jopt JStr (hev_app v))]"

definition home_index_json :: "HomeIndexView \<Rightarrow> json" where
  "home_index_json v = JObj
     [(''version'', JNum (unat (hiv_version v))), (''profile'', jopt JStr (hiv_profile v)),
      (''contacts'', jopt JStr (hiv_contacts v)), (''entries'', JArr (map home_entry_json (hiv_entries v)))]"

definition info_json :: "ObjectInfo \<Rightarrow> json" where
  "info_json i = JObj
     [(''id'', JStr (info_id i)), (''owner'', JStr (info_owner i)), (''size'', JNum (unat (info_size i))),
      (''verified'', JBool (info_verified i))]"

definition peer_json :: "PeerInfo \<Rightarrow> json" where
  "peer_json p = JObj
     [(''peerId'', JStr (peer_info_id p)), (''identity'', jopt JStr (peer_identity p)),
      (''username'', jopt JStr (peer_username p)), (''displayName'', jopt JStr (peer_display_name p)),
      (''addresses'', JArr (map JStr (peer_addresses p)))]"

definition pointer_view :: "AppPointerRecord \<Rightarrow> PointerView" where
  "pointer_view r = pointer_to_view (ptr_owner r) (ptr_name r) (ptr_manifest r) (published_at r)"

section \<open>One command\<close>

text \<open>\<open>call.await?\<close> followed by the result in JSON.\<close>

definition as_json :: "('s, 'a) op \<Rightarrow> ('a \<Rightarrow> (string \<times> json) list) \<Rightarrow> ('s, json) op" where
  "as_json m f = andThen m (\<lambda>x. ret (JObj (f x)))"

definition id_json :: "ObjectId \<Rightarrow> (string \<times> json) list" where
  "id_json oid = [(''id'', JStr oid)]"

fun recipient_keys :: "'e gwenv_scheme \<Rightarrow> string list \<Rightarrow> bytes list res" where
  "recipient_keys G [] = Inr []"
| "recipient_keys G (s # ss) =
     (case b64_decode G s of
        None \<Rightarrow> Inl (Bail (''recipient key is not valid base64: '' @ library_text G (Decode s)))
      | Some bs \<Rightarrow>
          if length bs \<noteq> 32 then Inl (Bail ''recipient key must be 32 bytes'')
          else res_bind (recipient_keys G ss) (\<lambda>ks. Inr (bs # ks)))"

fun gw_handle :: "'e gwenv_scheme \<Rightarrow> 'o objenv_scheme \<Rightarrow> 's client \<Rightarrow> GatewayCommand \<Rightarrow> ('s, json) op" where
  "gw_handle G E C GwIdentity = as_json (sdk_identity C) (\<lambda>i. [(''identity'', JStr i)])"
| "gw_handle G E C (GwPut text) = as_json (sdk_put C (str_bytes text) None) id_json"
| "gw_handle G E C (GwGet oid) = as_json (sdk_get C oid) (\<lambda>ob. [(''object'', object_json (object_view G ob))])"
| "gw_handle G E C GwList = as_json (sdk_list C) (\<lambda>obs. [(''objects'', JArr (map info_json obs))])"
| "gw_handle G E C (GwExport oid) =
     as_json (sdk_export C oid) (\<lambda>b. [(''object'', object_json (object_view G (bundle_object b)))])"
| "gw_handle G E C (GwImport v) =
     andThen (lift_res (bundle_reconstruct G v)) (\<lambda>ob.
       as_json (sdk_import C \<lparr> bundle_version = bv_version v, bundle_object = ob \<rparr>) (\<lambda>_. []))"
| "gw_handle G E C GwPeers = as_json (sdk_peers C) (\<lambda>ps. [(''peers'', JArr (map peer_json ps))])"
| "gw_handle G E C (GwDial addr) = as_json (sdk_dial C addr) (\<lambda>_. [])"
| "gw_handle G E C (GwAnnounce oid) = as_json (sdk_announce C oid) (\<lambda>_. [])"
| "gw_handle G E C (GwFindProviders oid) =
     as_json (sdk_find_providers C oid) (\<lambda>ps. [(''peerIds'', JArr (map JStr ps))])"
| "gw_handle G E C (GwFetchObject p oid) =
     as_json (sdk_fetch_object C p oid) (\<lambda>b. [(''object'', object_json (object_view G (bundle_object b)))])"
| "gw_handle G E C (GwPublish topic text) = as_json (sdk_publish C topic (str_bytes text)) (\<lambda>_. [])"
| "gw_handle G E C (GwPublishAppPointer name manifest) =
     as_json (sdk_publish_app_pointer C name manifest) (\<lambda>_. [])"
| "gw_handle G E C (GwResolveAppPointer owner name) =
     as_json (sdk_resolve_app_pointer E C owner name) (\<lambda>m. [(''manifest'', jopt JStr m)])"
| "gw_handle G E C (GwPublishPointer name target) = as_json (sdk_publish_pointer C name target) (\<lambda>_. [])"
| "gw_handle G E C (GwResolvePointer owner name) =
     as_json (sdk_resolve_pointer C owner name) (\<lambda>p. [(''pointer'', jopt (pointer_json \<circ> pointer_view) p)])"
| "gw_handle G E C GwLoadProfile =
     as_json (sdk_load_profile C) (\<lambda>p. [(''profile'', jopt (profile_json \<circ> profile_view G) p)])"
| "gw_handle G E C (GwSaveProfile v) =
     andThen (lift_res (profile_of_view G v)) (\<lambda>p. as_json (sdk_save_profile C p) id_json)"
| "gw_handle G E C GwLoadContactList =
     as_json (sdk_load_contact_list C) (\<lambda>l. [(''list'', jopt (contact_list_json \<circ> contact_list_view G) l)])"
| "gw_handle G E C (GwSaveContactList v) =
     andThen (lift_res (contact_list_of_view G v)) (\<lambda>l. as_json (sdk_save_contact_list C l) id_json)"
| "gw_handle G E C GwLoadHomeIndex =
     as_json (sdk_load_home_index C) (\<lambda>ix. [(''index'', jopt (home_index_json \<circ> home_index_view) ix)])"
| "gw_handle G E C (GwSaveHomeIndex v) =
     andThen (lift_res (home_index_of_view v)) (\<lambda>ix. as_json (sdk_save_home_index C ix) id_json)"
| "gw_handle G E C (GwSetHomeEntryShared name sh) = as_json (sdk_set_home_entry_shared C name sh) id_json"
| "gw_handle G E C (GwShareObject name oid app rcpts) =
     andThen (lift_res (recipient_keys G rcpts)) (\<lambda>ks. as_json (sdk_share_object_for C name oid app ks) id_json)"
| "gw_handle G E C (GwClaimUsername u) = as_json (sdk_claim_username C u) (\<lambda>_. [])"
| "gw_handle G E C GwShowUsername = as_json (sdk_show_username C) (\<lambda>u. [(''username'', jopt JStr u)])"
| "gw_handle G E C (GwResolveUsername u) = as_json (sdk_resolve_username C u) (\<lambda>i. [(''owner'', jopt JStr i)])"
| "gw_handle G E C (GwExportIdentity pass) =
     as_json (sdk_export_identity C pass) (\<lambda>bs. [(''dataB64'', JStr (b64_encode G bs))])"
| "gw_handle G E C (GwImportIdentity data_b64 pass overwrite) =
     andThen (lift_res (ok_or (b64_decode G data_b64)
         (Bail (''invalid base64 dataB64: '' @ library_text G (Decode data_b64))))) (\<lambda>bs.
       as_json (sdk_import_identity C bs pass overwrite) (\<lambda>i.
         [(''identityId'', JStr i), (''restartRequired'', JBool True)]))"
| "gw_handle G E C (GwSubscribe topic) = fail (Bail ''subscribe must be handled as a streaming connection'')"

definition gw_text :: "'e gwenv_scheme \<Rightarrow> error \<Rightarrow> string" where
  "gw_text G e = (case e of Bail m \<Rightarrow> m | _ \<Rightarrow> library_text G e)"

definition dispatch ::
  "'e gwenv_scheme \<Rightarrow> 'o objenv_scheme \<Rightarrow> 's client \<Rightarrow> GatewayCommand \<Rightarrow> 's \<Rightarrow> 's \<times> GatewayEvent" where
  "dispatch G E C c s =
     (case gw_handle G E C c s of
        (s', Inr result) \<Rightarrow> (s', EvOk result)
      | (s', Inl e) \<Rightarrow> (s', EvError (gw_text G e)))"

section \<open>A session\<close>

definition ws_reply :: "'e gwenv_scheme \<Rightarrow> GatewayEvent \<Rightarrow> bytes" where
  "ws_reply G ev = write_frame OP_TEXT (event_enc G ev)"

text \<open>What \<open>select!\<close> takes next: a command of the browser, or what the subscription's channel gives (nothing
  once the pump has ended).  The read that loses the race is dropped, with the bytes of an
  incomplete frame that it had taken from the stream.\<close>

datatype turn = FromBrowser | FromTopic nat "GatewayEvent option"

record 's session =
  ses_node :: 's
  ses_in :: bytes
  ses_out :: bytes
  ses_topic :: "string option"

text \<open>\<open>None\<close> is a session that is still open.\<close>

fun handle_commands ::
  "'e gwenv_scheme \<Rightarrow> 'o objenv_scheme \<Rightarrow> 's client \<Rightarrow> turn list \<Rightarrow> 's session \<Rightarrow> 's session \<times> unit res option" where
  "handle_commands G E C [] x = (x, None)"
| "handle_commands G E C (FromBrowser # turns) x =
     (case read_command_frame (command_dec G) (ses_in x) (ses_out x) of
        (Inl e, out) \<Rightarrow> (x\<lparr>ses_out := out\<rparr>, Some (Inl e))
      | (Inr None, out) \<Rightarrow> (x\<lparr>ses_out := out\<rparr>, Some (Inr ()))
      | (Inr (Some (GwSubscribe topic, rest)), out) \<Rightarrow>
          handle_commands G E C turns (x\<lparr>ses_in := rest, ses_out := out, ses_topic := Some topic\<rparr>)
      | (Inr (Some (c, rest)), out) \<Rightarrow>
          (case dispatch G E C c (ses_node x) of
             (s', ev) \<Rightarrow>
               handle_commands G E C turns
                 (x\<lparr>ses_node := s', ses_in := rest, ses_out := out @ ws_reply G ev\<rparr>)))"
| "handle_commands G E C (FromTopic lost ev # turns) x =
     (if ses_topic x = None then handle_commands G E C turns x
      else let x = x\<lparr>ses_in := drop lost (ses_in x)\<rparr> in
        (case ev of
           Some ev \<Rightarrow> handle_commands G E C turns (x\<lparr>ses_out := ses_out x @ ws_reply G ev\<rparr>)
         | None \<Rightarrow> (x, Some (Inr ()))))"

section \<open>The pump of a subscription\<close>

lemma read_opt_shorter: "read_frame_opt K bs = Inr (Some (x, rest)) \<Longrightarrow> length rest < length bs"
  by (cases bs) (auto simp: read_frame_opt_def Let_def split: if_splits)

lemma next_shorter:
  assumes "subscription_next W txt S = Inr (Some m, S')"
  shows "length (sub_stream S') < length (sub_stream S)"
proof -
  obtain r where r: "read_frame_opt (response_codec W) (sub_stream S) = Inr r"
    using assms by (auto simp: subscription_next_def)
  with assms obtain x rest where x: "r = Some (x, rest)"
    by (cases r) (auto simp: subscription_next_def)
  with assms r have "S' = S\<lparr>sub_stream := rest\<rparr>"
    by (cases x) (simp_all add: subscription_next_def)
  with r x show ?thesis by (simp add: read_opt_shorter)
qed

function pump :: "'e gwenv_scheme \<Rightarrow> wire \<Rightarrow> (NodeResponse \<Rightarrow> string) \<Rightarrow> Subscription \<Rightarrow> GatewayEvent list" where
  "pump G W txt S =
     (case subscription_next W txt S of
        Inr (Some m, S') \<Rightarrow>
          EvPubSub (push_topic m) (push_source m) (from_utf8_lossy (push_data m)) (b64_encode G (push_data m))
          # pump G W txt S'
      | _ \<Rightarrow> [])"
  by pat_completeness auto

termination
  by (relation "measure (\<lambda>(G, W, txt, S). length (sub_stream S))") (auto intro: next_shorter)

declare pump.simps [simp del]

text \<open>\<open>connects\<close>: whether the pump's own client reaches the node.\<close>

definition pump_subscription ::
  "'e gwenv_scheme \<Rightarrow> wire \<Rightarrow> (NodeResponse \<Rightarrow> string) \<Rightarrow> 's server \<Rightarrow> bool \<Rightarrow> string \<Rightarrow> 's \<Rightarrow> 's \<times> GatewayEvent list" where
  "pump_subscription G W txt serve connects topic s =
     (if \<not> connects then (s, [EvError ''failed to connect to the node for subscription''])
      else case subscription_open W txt serve topic s of
             (s', Inr S) \<Rightarrow> (s', pump G W txt S)
           | (s', Inl e) \<Rightarrow>
               (s', [EvError (''failed to subscribe to '' @ [CHR 0x22] @ topic @ [CHR 0x22] @ '': '' @ gw_text G e)]))"

text \<open>\<open>gw_handle_client\<close> up to the session: the opening exchange, then the client.\<close>

definition gw_handle_client ::
  "'e gwenv_scheme \<Rightarrow> 'o objenv_scheme \<Rightarrow> 's client \<Rightarrow> string \<Rightarrow> unit res \<Rightarrow> turn list \<Rightarrow> bytes \<Rightarrow> 's
   \<Rightarrow> 's session \<times> unit res option" where
  "gw_handle_client G E C token connect turns bs s =
     (case ws_accept G token bs of
        (Inl e, out) \<Rightarrow> (\<lparr> ses_node = s, ses_in = [], ses_out = out, ses_topic = None \<rparr>, Some (Inl e))
      | (Inr Served, out) \<Rightarrow> (\<lparr> ses_node = s, ses_in = [], ses_out = out, ses_topic = None \<rparr>, Some (Inr ()))
      | (Inr (Socket rest), out) \<Rightarrow>
          let x = \<lparr> ses_node = s, ses_in = rest, ses_out = out, ses_topic = None \<rparr> in
          (case connect of
             Inl e \<Rightarrow> (x, Some (Inl e))
           | Inr _ \<Rightarrow> handle_commands G E C turns x))"

text \<open>\<open>Gateway::start_on\<close>: \<open>bind_port\<close> is what binding the loopback address to a port gives.\<close>

definition start_on :: "(u16 \<Rightarrow> string res) \<Rightarrow> string \<Rightarrow> u16 option \<Rightarrow> (string \<times> string) res" where
  "start_on bind_port token port =
     (case port of
        Some p \<Rightarrow>
          (case bind_port p of
             Inr addr \<Rightarrow> Inr (addr, token)
           | Inl _ \<Rightarrow> Inl (Bail (''failed to bind gateway listener on port '' @ nat_str (unat p))))
      | None \<Rightarrow>
          (case bind_port 0 of
             Inr addr \<Rightarrow> Inr (addr, token)
           | Inl _ \<Rightarrow> Inl (Bail ''failed to bind gateway listener'')))"

end
