(* ===== verification/Command_Run.thy ===== *)
theory Command_Run
  imports Command_Line Gateway Runtime_Open
begin

text \<open>
  canopee-cli/src/commands as the user sees them: what a command prints, what it leaves on disk and
  with which status it ends.  A command acts on \<open>run\<close>, the node behind the socket, the files of the
  machine, the two output streams and the node binaries it started; it returns, or it leaves the process.  What the machine
  decides is \<open>mainenv\<close>.  A panic leaves with its error; the line that the runtime prints for it is
  left out, and so are the descriptions that a library's own error adds to a message.
\<close>

record 's run =
  run_node :: 's
  run_files :: fs
  run_out :: string
  run_err :: string
  run_started :: "string list"

text \<open>\<open>process::exit\<close>, a failed \<open>unwrap\<close>, and the local server of an app, which runs until it is killed.\<close>

datatype leave = Exited nat | Panicked error | Serves string "(string \<times> bytes) list" bool

text \<open>What a chat takes next: a line typed, or what the subscription gives.\<close>

datatype chat_event = TypedLine string | Arrives PubSubPush | SubscriptionEnds

type_synonym ('s, 'a) cmd = "'s run \<Rightarrow> 's run \<times> (leave + 'a)"

fun exit_status :: "leave + unit \<Rightarrow> nat option" where
  "exit_status (Inr _) = Some 0"
| "exit_status (Inl (Exited n)) = Some n"
| "exit_status (Inl (Panicked _)) = Some 101"
| "exit_status (Inl (Serves _ _ _)) = None"

record 's mainenv = clienv +
  node_client :: "'s client"
  node_accepts :: "'s \<Rightarrow> bool"
  open_topic :: "string \<Rightarrow> ('s, unit) op"
  chat_events :: "chat_event list"
  main_open :: openenv
  device_label :: string
  main_config :: Config
  main_bundle_dec :: "bytes \<Rightarrow> ExportBundle option"
  main_alias_dec :: "string \<Rightarrow> aliases option"
  main_alias_enc :: "aliases \<Rightarrow> string"
  str_debug :: "string \<Rightarrow> string"
  manifest_debug :: "AppManifest \<Rightarrow> string"
  env_var :: "string \<Rightarrow> string option"
  walk_dir :: "string \<Rightarrow> (string \<Rightarrow> bool) \<Rightarrow> walk_entry list"
  typed_line :: "string res"
  temp_dir :: string
  home_dir :: "string option"
  current_exe :: "string res"
  spawned :: "string \<Rightarrow> nat option res"
  bind_local :: "u16 \<Rightarrow> string res"
  xdg_mime :: "string list \<Rightarrow> bool res"
  fresh_token :: string
  ctrl_c :: "unit res"
  gateway_ends :: "unit res option"

section \<open>Steps\<close>

definition proceed :: "'a \<Rightarrow> ('s, 'a) cmd" where
  "proceed x r = (r, Inr x)"

definition leaving :: "leave \<Rightarrow> ('s, 'a) cmd" where
  "leaving l r = (r, Inl l)"

definition chain :: "('s, 'a) cmd \<Rightarrow> ('a \<Rightarrow> ('s, 'b) cmd) \<Rightarrow> ('s, 'b) cmd" where
  "chain m k r = (case m r of (r', Inl l) \<Rightarrow> (r', Inl l) | (r', Inr x) \<Rightarrow> k x r')"

definition newline :: string where
  "newline = [CHR 0x0A]"

definition quoted :: "string \<Rightarrow> string" where
  "quoted s = [CHR 0x22] @ s @ [CHR 0x22]"

text \<open>\<open>print!\<close>, \<open>println!\<close>, several lines of it, and \<open>eprintln!\<close>.\<close>

definition print_text :: "string \<Rightarrow> ('s, unit) cmd" where
  "print_text s r = (r\<lparr>run_out := run_out r @ s\<rparr>, Inr ())"

definition say :: "string \<Rightarrow> ('s, unit) cmd" where
  "say s = print_text (s @ newline)"

definition say_all :: "string list \<Rightarrow> ('s, unit) cmd" where
  "say_all ls = print_text (concat (map (\<lambda>l. l @ newline) ls))"

definition complain :: "string \<Rightarrow> ('s, unit) cmd" where
  "complain s r = (r\<lparr>run_err := run_err r @ s @ newline\<rparr>, Inr ())"

definition die :: "string \<Rightarrow> ('s, 'a) cmd" where
  "die s = chain (complain s) (\<lambda>_. leaving (Exited 1))"

text \<open>A call of the client, with its result as a value; a panic inside it ends the process.\<close>

definition call :: "('s, 'a) op \<Rightarrow> ('s, 'a res) cmd" where
  "call m r =
     (case m (run_node r) of
        (s', Inl (Panic p)) \<Rightarrow> (r\<lparr>run_node := s'\<rparr>, Inl (Panicked (Panic p)))
      | (s', x) \<Rightarrow> (r\<lparr>run_node := s'\<rparr>, Inr x))"

definition unwrapped :: "'a res \<Rightarrow> ('s, 'a) cmd" where
  "unwrapped x = (case x of Inr v \<Rightarrow> proceed v | Inl e \<Rightarrow> leaving (Panicked e))"

definition err_text :: "'m clienv_scheme \<Rightarrow> error \<Rightarrow> string" where
  "err_text X e = (case e of Bail m \<Rightarrow> m | _ \<Rightarrow> error_display X e)"

text \<open>\<open>Err(e) => { eprintln!("Error: {what}{e}"); exit(1) }\<close>, and the same without leaving.\<close>

definition or_die :: "'m clienv_scheme \<Rightarrow> string \<Rightarrow> 'a res \<Rightarrow> ('s, 'a) cmd" where
  "or_die X what x =
     (case x of Inr v \<Rightarrow> proceed v | Inl e \<Rightarrow> die (''Error: '' @ what @ err_text X e))"

definition or_note :: "'m clienv_scheme \<Rightarrow> ('a \<Rightarrow> ('s, unit) cmd) \<Rightarrow> 'a res \<Rightarrow> ('s, unit) cmd" where
  "or_note X k x = (case x of Inr v \<Rightarrow> k v | Inl e \<Rightarrow> complain (''Error: '' @ err_text X e))"

definition must :: "'m clienv_scheme \<Rightarrow> ('s, 'a) op \<Rightarrow> ('s, 'a) cmd" where
  "must X m = chain (call m) (or_die X [])"

fun for_each :: "('a \<Rightarrow> ('s, unit) cmd) \<Rightarrow> 'a list \<Rightarrow> ('s, unit) cmd" where
  "for_each f [] = proceed ()"
| "for_each f (x # xs) = chain (f x) (\<lambda>_. for_each f xs)"

text \<open>\<open>tokio::fs::read\<close> and \<open>write\<close>, with their result as a value.\<close>

definition read_path :: "string \<Rightarrow> ('s, bytes res) cmd" where
  "read_path p r = (r, Inr (fs_read p (run_files r)))"

definition on_files :: "(fs \<Rightarrow> fs \<times> 'a res) \<Rightarrow> ('s, 'a res) cmd" where
  "on_files m r = (case m (run_files r) of (d, x) \<Rightarrow> (r\<lparr>run_files := d\<rparr>, Inr x))"

section \<open>Reaching the node\<close>

definition node_or_exit :: "('s, 'm) mainenv_scheme \<Rightarrow> ('s, unit) cmd" where
  "node_or_exit X r =
     (if node_accepts X (run_node r) then proceed () r
      else die (''Error: the Canopee node is not running.'' @ newline @
        ''Start it with `canopee start`, or run the `canopee-node` binary directly.'') r)"

definition client_or_exit :: "('s, 'm) mainenv_scheme \<Rightarrow> ('s, unit) cmd" where
  "client_or_exit X r =
     (if node_accepts X (run_node r) then proceed () r
      else die ''Error: Canopee node is not running'' r)"

text \<open>\<open>client.request(command).await.unwrap()\<close>, and the arms that every match on the response shares.\<close>

definition ask :: "('s, 'm) mainenv_scheme \<Rightarrow> NodeCommand \<Rightarrow> ('s, NodeResponse) cmd" where
  "ask X c = chain (call (sdk_request (node_client X) c)) unwrapped"

definition otherwise_note :: "string \<Rightarrow> NodeResponse \<Rightarrow> ('s, unit) cmd" where
  "otherwise_note label r = (case r of RspError message \<Rightarrow> complain (label @ message) | _ \<Rightarrow> proceed ())"

definition with_id :: "bool \<Rightarrow> string \<Rightarrow> ObjectId \<Rightarrow> ('s, unit) cmd" where
  "with_id ids line oid = (if ids then say_all [line, ''Id: '' @ oid] else say line)"

section \<open>Objects\<close>

definition run_put :: "('s, 'm) mainenv_scheme \<Rightarrow> bool \<Rightarrow> string \<Rightarrow> ('s, unit) cmd" where
  "run_put X ids path =
     chain (read_path path) (\<lambda>contents.
     chain (unwrapped contents) (\<lambda>bs.
     let name = file_name_of path in
     chain (node_or_exit X) (\<lambda>_.
     chain (ask X (CmdPut bs name)) (\<lambda>r.
       case r of
         RspObjectCreated oid \<Rightarrow>
           with_id ids (''Stored '' @ (case name of Some n \<Rightarrow> n | None \<Rightarrow> ''object'')) oid
       | _ \<Rightarrow> otherwise_note ''Error: '' r))))"

fun resolve_args :: "('s, 'm) mainenv_scheme \<Rightarrow> string list \<Rightarrow> ('s, ObjectId list) cmd" where
  "resolve_args X [] = proceed []"
| "resolve_args X (arg # args) =
     chain (must X (resolve_object_arg (node_client X) arg)) (\<lambda>(oid, _).
     chain (resolve_args X args) (\<lambda>oids. proceed (oid # oids)))"

definition run_concat ::
  "('s, 'm) mainenv_scheme \<Rightarrow> bool \<Rightarrow> string list \<Rightarrow> string option \<Rightarrow> ('s, unit) cmd" where
  "run_concat X ids args name =
     chain (client_or_exit X) (\<lambda>_.
     chain (resolve_args X args) (\<lambda>oids.
     chain (node_or_exit X) (\<lambda>_.
     chain (ask X (CmdConcat oids name)) (\<lambda>r.
       case r of
         RspConcatenated oid \<Rightarrow>
           chain (with_id ids ''Concatenated'' oid) (\<lambda>_.
           chain (call (sdk_get (node_client X) oid))
             (or_note X (\<lambda>ob. say (''Contents: '' @ from_utf8_lossy (payload_data (payload ob))))))
       | RspError message \<Rightarrow> die (''Error: '' @ message)
       | _ \<Rightarrow> proceed ()))))"

definition run_get ::
  "('s, 'm) mainenv_scheme \<Rightarrow> string \<Rightarrow> string option \<Rightarrow> ('s, unit) cmd" where
  "run_get X arg output =
     chain (client_or_exit X) (\<lambda>_.
     chain (must X (resolve_object_arg (node_client X) arg)) (\<lambda>(oid, resolved_name).
     chain (must X (sdk_get (node_client X) oid)) (\<lambda>ob.
     chain (call (object_name (node_client X) (obj_id ob))) (\<lambda>shown.
     let bs = payload_data (payload ob) in
     case output of
       Some path \<Rightarrow>
         chain (on_files (fs_write X path bs)) (\<lambda>written.
         chain (unwrapped written) (\<lambda>_.
           say (''Wrote '' @ nat_str (length bs) @ '' bytes to '' @ path @ '' ('' @
             (case shown of Inr (Some n) \<Rightarrow> n | _ \<Rightarrow> resolved_name) @ '')'')))
     | None \<Rightarrow>
         print_text (from_utf8_lossy bs @ (if bs \<noteq> [] \<and> last bs \<noteq> 10 then newline else []))))))"

text \<open>\<open>chars().take(n)\<close> and \<open>chars().count()\<close> on UTF-8 text: a continuation byte belongs to the
  character before it.\<close>

definition continuation :: "char \<Rightarrow> bool" where
  "continuation c = in_range 128 191 (of_nat (of_char c))"

fun take_chars :: "nat \<Rightarrow> string \<Rightarrow> string" where
  "take_chars n [] = []"
| "take_chars n (c # s) =
     (if continuation c then c # take_chars n s
      else case n of 0 \<Rightarrow> [] | Suc k \<Rightarrow> c # take_chars k s)"

definition char_count :: "string \<Rightarrow> nat" where
  "char_count s = length (filter (\<lambda>c. \<not> continuation c) s)"

definition printable :: "byte \<Rightarrow> byte" where
  "printable b = (if in_range 0x21 0x7E b \<or> b = 0x20 then b else 0x2E)"

fun object_type_debug :: "ObjectType \<Rightarrow> string" where
  "object_type_debug Blob = ''Blob''"
| "object_type_debug AppManifestT = ''AppManifest''"
| "object_type_debug AppPointerT = ''AppPointer''"
| "object_type_debug ProfileT = ''Profile''"
| "object_type_debug ContactListT = ''ContactList''"
| "object_type_debug HomeIndexT = ''HomeIndex''"
| "object_type_debug CapabilityT = ''Capability''"
| "object_type_debug CapabilityIndexT = ''CapabilityIndex''"

definition preview_lines :: "bytes \<Rightarrow> string list" where
  "preview_lines bs =
     (if from_utf8 bs \<noteq> None then
        let txt = from_utf8_lossy bs in
        [''Preview:'', take_chars 200 txt] @
        (if 200 < char_count txt then [bytes_str [0xE2, 0x80, 0xA6] @ '' (truncated)''] else [])
      else [''Preview: (binary, first bytes: '' @ hex_preview bs @ '')'',
            from_utf8_lossy (map printable (take 200 bs))])"

definition run_desc :: "('s, 'm) mainenv_scheme \<Rightarrow> bool \<Rightarrow> string \<Rightarrow> ('s, unit) cmd" where
  "run_desc X ids arg =
     chain (client_or_exit X) (\<lambda>_.
     chain (must X (resolve_object_arg (node_client X) arg)) (\<lambda>(oid, resolved_name).
     chain (must X (sdk_get (node_client X) oid)) (\<lambda>ob.
     chain (call (object_name (node_client X) (obj_id ob))) (\<lambda>shown.
     let name = (case shown of Inr (Some n) \<Rightarrow> n | _ \<Rightarrow> resolved_name); m = metadata (payload ob) in
     say_all (
       (if ids then [''Id: '' @ obj_id ob] else []) @
       [''Name: '' @ name, ''Owner: '' @ payload_owner (payload ob),
        ''Type: '' @ object_type_debug (object_type ob),
        ''Size: '' @ u64_str (meta_size m) @ '' bytes''] @
       (case content_type m of Some t \<Rightarrow> [''Content type: '' @ t] | None \<Rightarrow> []) @
       [''Created: '' @ u64_str (created_at m), []] @
       preview_lines (payload_data (payload ob)))))))"

text \<open>\<open>Debug\<close> of the newtypes \<open>IdentityId\<close> and \<open>ObjectId\<close>.\<close>

definition identity_debug :: "('s, 'm) mainenv_scheme \<Rightarrow> IdentityId \<Rightarrow> string" where
  "identity_debug X i = ''IdentityId('' @ str_debug X i @ '')''"

definition object_id_debug :: "('s, 'm) mainenv_scheme \<Rightarrow> ObjectId \<Rightarrow> string" where
  "object_id_debug X oid = ''ObjectId('' @ str_debug X oid @ '')''"

definition list_entry :: "('s, 'm) mainenv_scheme \<Rightarrow> bool \<Rightarrow> ObjectInfo \<Rightarrow> string list" where
  "list_entry X ids info =
     (if info_name info = None \<and> \<not> ids then []
      else [case info_name info of Some n \<Rightarrow> n | None \<Rightarrow> ''(unnamed object)''] @
        (if ids then [''Id: '' @ info_id info] else []) @
        [''Owner: '' @ identity_debug X (info_owner info),
         ''Size: '' @ u64_str (info_size info) @ '' bytes'',
         ''Signature: '' @ (if info_verified info then bytes_str [0xE2, 0x9C, 0x93] @ '' valid''
            else bytes_str [0xE2, 0x9C, 0x97] @ '' invalid''), []])"

definition run_list :: "('s, 'm) mainenv_scheme \<Rightarrow> bool \<Rightarrow> ('s, unit) cmd" where
  "run_list X ids =
     chain (node_or_exit X) (\<lambda>_.
     chain (ask X CmdList) (\<lambda>r.
       case r of
         RspObjects infos \<Rightarrow>
           say_all ([''Canopee Objects:'', []] @ concat (map (list_entry X ids) infos))
       | _ \<Rightarrow> otherwise_note ''Error: '' r))"

definition run_export :: "('s, 'm) mainenv_scheme \<Rightarrow> string \<Rightarrow> ('s, unit) cmd" where
  "run_export X arg =
     chain (node_or_exit X) (\<lambda>_.
     chain (ask X (CmdExport arg)) (\<lambda>r.
       case r of
         RspExported b \<Rightarrow> say (''Exported: '' @ object_id_debug X (obj_id (bundle_object b)))
       | _ \<Rightarrow> otherwise_note ''Error: '' r))"

definition run_import :: "('s, 'm) mainenv_scheme \<Rightarrow> string \<Rightarrow> ('s, unit) cmd" where
  "run_import X path =
     chain (read_path path) (\<lambda>contents.
     chain (unwrapped contents) (\<lambda>bs.
     chain (unwrapped (ok_or (main_bundle_dec X bs) (Decode path))) (\<lambda>bundle.
     chain (node_or_exit X) (\<lambda>_.
     chain (ask X (CmdImport bundle)) (\<lambda>r.
       case r of RspImported \<Rightarrow> say ''Imported'' | _ \<Rightarrow> otherwise_note ''Error: '' r)))))"

section \<open>Network\<close>

definition run_dial :: "('s, 'm) mainenv_scheme \<Rightarrow> string \<Rightarrow> ('s, unit) cmd" where
  "run_dial X addr =
     chain (node_or_exit X) (\<lambda>_.
     chain (ask X (CmdDial addr)) (\<lambda>r.
       case r of RspDialed \<Rightarrow> say ''Dialing...'' | _ \<Rightarrow> otherwise_note ''Error: '' r))"

definition run_listen_via_relay :: "('s, 'm) mainenv_scheme \<Rightarrow> string \<Rightarrow> ('s, unit) cmd" where
  "run_listen_via_relay X relay_addr =
     chain (node_or_exit X) (\<lambda>_.
     chain (ask X (CmdListenViaRelay relay_addr)) (\<lambda>r.
       case r of
         RspListeningViaRelay \<Rightarrow> say ''Requesting relay reservation...''
       | _ \<Rightarrow> otherwise_note ''Error: '' r))"

definition peer_name :: "PeerInfo \<Rightarrow> string res" where
  "peer_name p =
     (case peer_display_name p of
        Some n \<Rightarrow> Inr n
      | None \<Rightarrow> (case peer_username p of Some n \<Rightarrow> Inr n | None \<Rightarrow> short_peer_id (peer_info_id p)))"

definition show_peer :: "PeerInfo \<Rightarrow> ('s, unit) cmd" where
  "show_peer p =
     chain (unwrapped (peer_name p)) (\<lambda>name.
       say_all ([name, ''  Peer ID: '' @ peer_info_id p] @
         (case peer_username p of Some u \<Rightarrow> [''  Username: '' @ u] | None \<Rightarrow> []) @
         (case peer_identity p of Some i \<Rightarrow> [''  Identity: '' @ i] | None \<Rightarrow> []) @
         map (\<lambda>a. ''  Address: '' @ a) (peer_addresses p)))"

definition run_peers :: "('s, 'm) mainenv_scheme \<Rightarrow> ('s, unit) cmd" where
  "run_peers X =
     chain (client_or_exit X) (\<lambda>_.
     chain (call (sdk_peers (node_client X))) (or_note X (\<lambda>ps.
       if ps = [] then say ''No connected peers'' else for_each show_peer ps)))"

definition show_reservation :: "RelayReservationInfo \<Rightarrow> string list" where
  "show_reservation x =
     [''Relay: '' @ relay_peer_id x, ''  Renewal: '' @ (if relay_renewal x then ''true'' else ''false'')] @
     (if relay_listen_addrs x = [] then [''  Listen addresses: (pending)'']
      else map (\<lambda>a. ''  Listen address: '' @ a) (relay_listen_addrs x))"

definition run_relay_status :: "('s, 'm) mainenv_scheme \<Rightarrow> ('s, unit) cmd" where
  "run_relay_status X =
     chain (node_or_exit X) (\<lambda>_.
     chain (ask X CmdRelayReservations) (\<lambda>r.
       case r of
         RspRelayReservations xs \<Rightarrow>
           say_all ((if xs = [] then [''No accepted relay reservations yet''] else []) @
             concat (map show_reservation xs))
       | _ \<Rightarrow> otherwise_note ''Error: '' r))"

definition run_announce :: "('s, 'm) mainenv_scheme \<Rightarrow> bool \<Rightarrow> string \<Rightarrow> ('s, unit) cmd" where
  "run_announce X ids arg =
     chain (client_or_exit X) (\<lambda>_.
     chain (must X (resolve_object_arg (node_client X) arg)) (\<lambda>(oid, name).
     chain (must X (sdk_announce (node_client X) oid)) (\<lambda>_. with_id ids (''Announced '' @ name) oid)))"

definition run_find_providers :: "('s, 'm) mainenv_scheme \<Rightarrow> string \<Rightarrow> ('s, unit) cmd" where
  "run_find_providers X arg =
     chain (client_or_exit X) (\<lambda>_.
     chain (must X (resolve_object_arg (node_client X) arg)) (\<lambda>(oid, name).
     chain (must X (sdk_find_providers (node_client X) oid)) (\<lambda>ps.
       say_all ((if ps = [] then [''No providers found for '' @ name] else []) @ ps))))"

definition run_pub :: "('s, 'm) mainenv_scheme \<Rightarrow> string \<Rightarrow> string \<Rightarrow> ('s, unit) cmd" where
  "run_pub X topic message =
     chain (node_or_exit X) (\<lambda>_.
     chain (ask X (CmdPublish topic (str_bytes message))) (\<lambda>r.
       case r of RspPublished \<Rightarrow> say ''Published'' | _ \<Rightarrow> otherwise_note ''Error: '' r))"

definition run_fetch :: "('s, 'm) mainenv_scheme \<Rightarrow> bool \<Rightarrow> string \<Rightarrow> string \<Rightarrow> ('s, unit) cmd" where
  "run_fetch X ids peer arg =
     chain (client_or_exit X) (\<lambda>_.
     if looks_like_id arg then
       chain (must X (resolve_peer_arg (node_client X) peer)) (\<lambda>device.
       chain (must X (sdk_fetch_object (node_client X) device arg)) (\<lambda>bundle.
       chain (must X (import_idempotent X (node_client X) bundle)) (\<lambda>_.
         say (if ids then ''Fetched '' @ arg else ''Fetched and imported object''))))
     else
       chain (must X (resolve_owner_arg (node_client X) peer)) (\<lambda>(owner, device).
       chain (must X (sdk_resolve_pointer (node_client X) owner (''entry:'' @ arg))) (\<lambda>found.
       case found of
         None \<Rightarrow> die (''Error: '' @ quoted peer @ '' has not shared anything named '' @ quoted arg)
       | Some record \<Rightarrow>
           let target = ptr_manifest record in
           chain (must X (sdk_fetch_object (node_client X) device target)) (\<lambda>bundle.
           chain (must X (import_idempotent X (node_client X) bundle)) (\<lambda>_.
           chain (call (sdk_set_name (node_client X) target arg)) (\<lambda>named.
           chain (unwrapped named) (\<lambda>_.
             with_id ids (''Fetched '' @ quoted arg @ '' from '' @ peer) target)))))))"

text \<open>\<open>chat\<close>: lines typed and messages received, in the order in which they are taken; the list ends
  with the input.  The receiving task stops when its subscription ends or a sender's id cannot be
  shortened; its names are \<open>None\<close> from then on.\<close>

definition sender_name :: "(string \<times> string) list \<Rightarrow> PubSubPush \<Rightarrow> (string \<times> (string \<times> string) list) res" where
  "sender_name names m =
     (let sender = (case push_source m of Some p \<Rightarrow> p | None \<Rightarrow> ''unknown'') in
      case map_of names sender of
        Some n \<Rightarrow> Inr (n, names)
      | None \<Rightarrow> res_bind (short_peer_id sender) (\<lambda>n. Inr (n, (sender, n) # names)))"

fun chat_lines ::
  "('s, 'm) mainenv_scheme \<Rightarrow> string \<Rightarrow> (string \<times> string) list option \<Rightarrow> chat_event list \<Rightarrow> ('s, unit) cmd" where
  "chat_lines X topic names [] = proceed ()"
| "chat_lines X topic names (TypedLine line # evs) =
     (if line = [] then chat_lines X topic names evs
      else chain (call (sdk_publish (node_client X) topic (str_bytes line))) (\<lambda>sent.
           chain (or_note X (\<lambda>_. proceed ()) sent) (\<lambda>_. chat_lines X topic names evs)))"
| "chat_lines X topic None (ev # evs) = chat_lines X topic None evs"
| "chat_lines X topic (Some names) (Arrives m # evs) =
     (case sender_name names m of
        Inl _ \<Rightarrow> chat_lines X topic None evs
      | Inr (n, names') \<Rightarrow>
          chain (say (n @ '': '' @ from_utf8_lossy (push_data m))) (\<lambda>_. chat_lines X topic (Some names') evs))"
| "chat_lines X topic (Some names) (SubscriptionEnds # evs) =
     chain (say ''Subscription closed'') (\<lambda>_. chat_lines X topic None evs)"

fun peer_names :: "PeerInfo list \<Rightarrow> (string \<times> string) list res" where
  "peer_names [] = Inr []"
| "peer_names (p # ps) =
     res_bind (peer_name p) (\<lambda>n. res_bind (peer_names ps) (\<lambda>ns. Inr (AList.update (peer_info_id p) n ns)))"

definition run_chat :: "('s, 'm) mainenv_scheme \<Rightarrow> string \<Rightarrow> ('s, unit) cmd" where
  "run_chat X topic =
     chain (client_or_exit X) (\<lambda>_.
     chain (call (sdk_peers (node_client X))) (\<lambda>ps.
     chain (unwrapped (peer_names (rev (case ps of Inr ps \<Rightarrow> ps | Inl _ \<Rightarrow> [])))) (\<lambda>names.
     chain (call (open_topic X topic)) (\<lambda>subscribed.
     chain (unwrapped subscribed) (\<lambda>_.
     chain (say (''Chatting on topic '' @ [CHR 0x27] @ topic @ [CHR 0x27] @
       ''. Type a message and press enter to send.'')) (\<lambda>_.
       chat_lines X topic (Some names) (chat_events X)))))))"

section \<open>Identity\<close>

definition run_identity :: "('s, 'm) mainenv_scheme \<Rightarrow> ('s, unit) cmd" where
  "run_identity X =
     chain (node_or_exit X) (\<lambda>_.
     chain (ask X CmdIdentity) (\<lambda>r.
       case r of RspIdentity i \<Rightarrow> say (identity_debug X i) | _ \<Rightarrow> otherwise_note [] r))"

definition run_dh_key :: "('s, 'm) mainenv_scheme \<Rightarrow> ('s, unit) cmd" where
  "run_dh_key X =
     chain (client_or_exit X) (\<lambda>_.
     chain (call (sdk_dh_public_key (node_client X))) (or_note X (\<lambda>k. say (cli_b64_encode X k))))"

definition run_device :: "('s, 'm) mainenv_scheme \<Rightarrow> ('s, unit) cmd" where
  "run_device X =
     chain (client_or_exit X) (\<lambda>_.
     chain (call (sdk_device (node_client X))) (or_note X (\<lambda>(p, name). say_all [p, name])))"

definition run_devices :: "('s, 'm) mainenv_scheme \<Rightarrow> ('s, unit) cmd" where
  "run_devices X =
     chain (client_or_exit X) (\<lambda>_.
     chain (call (sdk_device_list (node_client X))) (or_note X (\<lambda>ds.
       say_all ((if ds = [] then [''No devices registered for this identity yet''] else []) @
         map (\<lambda>d. device_info_id d @ '' ('' @ device_info_name d @ '')'') ds))))"

definition run_profile :: "('s, 'm) mainenv_scheme \<Rightarrow> string option \<Rightarrow> ('s, unit) cmd" where
  "run_profile X name =
     chain (client_or_exit X) (\<lambda>_.
     case name of
       None \<Rightarrow>
         chain (call (sdk_load_profile (node_client X))) (or_note X (\<lambda>p.
           case p of
             Some p \<Rightarrow>
               say_all [''Display name: '' @ display_name p, ''Version: '' @ u64_str (profile_version p),
                 ''DH key: '' @ cli_b64_encode X (profile_dh_key p)]
           | None \<Rightarrow> say ''No profile set yet''))
     | Some name \<Rightarrow>
         chain (call (sdk_load_profile (node_client X))) (\<lambda>loaded.
         let current = (case loaded of Inr p \<Rightarrow> p | Inl _ \<Rightarrow> None) in
         chain (call (sdk_dh_public_key (node_client X))) (\<lambda>key.
         chain (or_die X (''could not read this node'' @ [CHR 0x27] @ ''s DH key: '') key) (\<lambda>key.
         chain (call (sdk_save_profile (node_client X)
             \<lparr> display_name = name, profile_dh_key = key, avatar = Option.bind current avatar,
               profile_version = 0 \<rparr>))
           (or_note X (\<lambda>oid. say (''Profile saved: '' @ oid)))))))"

datatype UsernameCommand = ClaimName string | ShowName | LookupName string

definition run_username :: "('s, 'm) mainenv_scheme \<Rightarrow> UsernameCommand \<Rightarrow> ('s, unit) cmd" where
  "run_username X c =
     chain (client_or_exit X) (\<lambda>_.
     case c of
       ClaimName u \<Rightarrow>
         chain (must X (sdk_claim_username (node_client X) u)) (\<lambda>_. say (''Claimed username '' @ quoted u))
     | ShowName \<Rightarrow>
         chain (must X (sdk_show_username (node_client X))) (\<lambda>u.
           say (case u of
             Some u \<Rightarrow> u
           | None \<Rightarrow> ''No username claimed yet (claim one with `canopee username claim <name>`)''))
     | LookupName u \<Rightarrow>
         chain (must X (sdk_resolve_username (node_client X) u)) (\<lambda>owner.
           say (case owner of
             Some i \<Rightarrow> u @ '' -> '' @ i
           | None \<Rightarrow> ''No username '' @ quoted u @ '' claimed'')))"

definition run_export_identity :: "('s, 'm) mainenv_scheme \<Rightarrow> string \<Rightarrow> string \<Rightarrow> ('s, unit) cmd" where
  "run_export_identity X passphrase output =
     chain (client_or_exit X) (\<lambda>_.
     chain (must X (sdk_export_identity (node_client X) passphrase)) (\<lambda>bs.
     chain (on_files (fs_write X output bs)) (\<lambda>written.
     chain (unwrapped written) (\<lambda>_.
       say (''Wrote '' @ nat_str (length bs) @ '' encrypted identity bytes to '' @ output)))))"

definition run_import_identity :: "('s, 'm) mainenv_scheme \<Rightarrow> string \<Rightarrow> string \<Rightarrow> bool \<Rightarrow> ('s, unit) cmd" where
  "run_import_identity X path passphrase overwrite =
     chain (read_path path) (\<lambda>contents.
     chain (unwrapped contents) (\<lambda>bs.
     chain (client_or_exit X) (\<lambda>_.
     chain (must X (sdk_import_identity (node_client X) bs passphrase overwrite)) (\<lambda>i.
       say_all [''Imported identity '' @ i, ''Restart the node to adopt it.'']))))"

end
