(* ===== verification/Command_Main.thy ===== *)
theory Command_Main
  imports Network_Manager Command_Run
begin

text \<open>
  canopee-cli: the daemon, sharing, capabilities, pairing, apps, aliases, the registration of the
  scheme (its Linux form) and the gateway, the enums of main.rs and its dispatch, with what holds of
  every command: the global \<open>--ids\<close> only changes what is printed, and without a node nothing is done.
  What the operations of \<open>App_Fetch\<close> print on the way, a line for each uploaded file and warnings, is left out.
  Reading the arguments into \<open>Commands\<close> is the \<open>clap\<close> crate's.
\<close>

section \<open>The daemon\<close>

definition run_init :: "('s, 'm) mainenv_scheme \<Rightarrow> ('s, unit) cmd" where
  "run_init X r =
     (let c = main_config X; port = env_var X ''CANOPEE_LISTEN_PORT'' in
      case open_with_config (main_open X) c port (device_label X) (run_files r) of
        Inl e \<Rightarrow>
          (r\<lparr>run_files := fst (open_parts (main_open X) c port (device_label X) (run_files r))\<rparr>, Inl (Panicked e))
      | Inr (R, s) \<Rightarrow>
          say_all [''Canopee initialized:'', ''Identity: '' @ identity_debug X (identity_id (rt_identity R))]
            (r\<lparr>run_files := rt_fs s\<rparr>))"

definition node_binary :: "('s, 'm) mainenv_scheme \<Rightarrow> fs \<Rightarrow> string res" where
  "node_binary X d =
     (case env_var X ''CANOPEE_NODE_BIN'' of
        Some path \<Rightarrow>
          if fs_exists path d then Inr path
          else Inl (Bail (''CANOPEE_NODE_BIN points at '' @ path @ '', which does not exist''))
      | None \<Rightarrow>
          res_bind (current_exe X) (\<lambda>exe.
          let missing = Inl (Bail (''could not find the `canopee-node` binary next to '' @ exe @ '' ''
                @ bytes_str [0xE2, 0x80, 0x94] @ '' build it with `cargo build --release -p canopee-node`, or set CANOPEE_NODE_BIN'')) in
          case parent_dir exe of
            None \<Rightarrow> missing
          | Some dir \<Rightarrow>
              let sibling = path_join dir ''canopee-node'' in
              if fs_exists sibling d then Inr sibling
              else (case (file_name_of dir, parent_dir dir) of
                      (Some prof, Some t) \<Rightarrow>
                        let built = path_join (path_join t prof) ''canopee-node'' in
                        if fs_exists built d then Inr built else missing
                    | _ \<Rightarrow> missing)))"

text \<open>\<open>NodeClient::is_running\<close>.\<close>

definition node_running :: "('s, 'm) mainenv_scheme \<Rightarrow> ('s, bool) cmd" where
  "node_running X r = (r, Inr (node_accepts X (run_node r)))"

definition start_binary :: "('s, 'm) mainenv_scheme \<Rightarrow> string \<Rightarrow> ('s, nat option res) cmd" where
  "start_binary X node r =
     (case spawned X node of
        Inl e \<Rightarrow> (r, Inr (Inl e))
      | Inr pid \<Rightarrow> (r\<lparr>run_started := run_started r @ [node]\<rparr>, Inr (Inr pid)))"

definition run_start :: "('s, 'm) mainenv_scheme \<Rightarrow> ('s, unit) cmd" where
  "run_start X =
     chain (on_files (\<lambda>d. (d, node_binary X d))) (\<lambda>node.
     chain (or_die X [] node) (\<lambda>node.
     chain (node_running X) (\<lambda>running.
     if running then die ''Error: the Canopee node is already running for this app root.'' else
     chain (start_binary X node) (\<lambda>child.
     chain (or_die X (''could not start '' @ node @ '': '') child) (\<lambda>child.
       say_all [''Canopee node started (pid '' @ nat_str (case child of Some pid \<Rightarrow> pid | None \<Rightarrow> 0) @ '')'',
         ''Node binary: '' @ node])))))"

definition run_status :: "('s, 'm) mainenv_scheme \<Rightarrow> ('s, unit) cmd" where
  "run_status X =
     chain (node_or_exit X) (\<lambda>_.
     chain (ask X CmdStatus) (\<lambda>r.
       case r of
         RspStatus identity n_objects n_peers \<Rightarrow>
           say_all [[], ''Canopee Node'', [], ''Running:'', ''yes'', [], ''Identity:'', identity,
             [], ''Objects:'', nat_str n_objects, [], ''Peers:'', nat_str n_peers]
       | _ \<Rightarrow> otherwise_note ''Error: '' r))"

definition run_stop :: "('s, 'm) mainenv_scheme \<Rightarrow> ('s, unit) cmd" where
  "run_stop X =
     chain (node_or_exit X) (\<lambda>_.
     chain (ask X CmdShutdown) (\<lambda>r.
       case r of RspShutdownAccepted \<Rightarrow> say ''Canopee node stopped'' | _ \<Rightarrow> otherwise_note [] r))"

section \<open>Sharing\<close>

definition run_share ::
  "('s, 'm) mainenv_scheme \<Rightarrow> bool \<Rightarrow> string \<Rightarrow> string option \<Rightarrow> string list \<Rightarrow> ('s, unit) cmd" where
  "run_share X ids name arg to_args =
     chain (client_or_exit X) (\<lambda>_.
     chain (must X (resolve_object_arg (node_client X) (case arg of Some a \<Rightarrow> a | None \<Rightarrow> name))) (\<lambda>(oid, _).
     chain (must X (cli_recipient_keys (node_client X) to_args)) (\<lambda>recipients.
     chain (call (sdk_share_object_for (node_client X) name oid (Some ''cli'') recipients)) (\<lambda>shared.
     chain (unwrapped shared) (\<lambda>_.
       if ids then
         say_all ([''Shared '' @ quoted name, ''Id: '' @ oid] @
           (if recipients \<noteq> [] then
              [''Shared with '' @ nat_str (length recipients) @
               '' contact(s) as a separate encrypted copy; the id above is your local original.'']
            else []))
       else say (''Shared '' @ quoted name))))))"

definition run_unshare :: "('s, 'm) mainenv_scheme \<Rightarrow> string \<Rightarrow> ('s, unit) cmd" where
  "run_unshare X name =
     chain (client_or_exit X) (\<lambda>_.
     chain (must X (sdk_unshare (node_client X) name)) (\<lambda>_. say (''Unshared '' @ quoted name)))"

definition home_lines :: "bool \<Rightarrow> HomeEntry \<Rightarrow> string list" where
  "home_lines ids e =
     [home_name e] @ (if ids then [''  Object: '' @ home_object e] else []) @
     [''  Type: '' @ object_type_debug (home_type e),
      ''  Shared: '' @ (if home_shared e then ''yes'' else ''no''),
      ''  App: '' @ (case home_app e of Some a \<Rightarrow> a | None \<Rightarrow> ''-'')]"

definition run_home :: "('s, 'm) mainenv_scheme \<Rightarrow> bool \<Rightarrow> ('s, unit) cmd" where
  "run_home X ids =
     chain (client_or_exit X) (\<lambda>_.
     chain (call (sdk_load_home_index (node_client X))) (or_note X (\<lambda>index.
       case index of
         Some index \<Rightarrow>
           say_all ((if home_entries index = [] then [''Home index is empty''] else []) @
             concat (map (home_lines ids) (home_entries index)))
       | None \<Rightarrow> say ''No home index yet'')))"

definition run_sync :: "('s, 'm) mainenv_scheme \<Rightarrow> string option \<Rightarrow> ('s, unit) cmd" where
  "run_sync X peer =
     chain (client_or_exit X) (\<lambda>_.
     chain (must X (case peer of
        Some p \<Rightarrow> sdk_sync_with_peer (node_client X) p
      | None \<Rightarrow> sdk_sync_with_all_devices (node_client X))) (\<lambda>result.
       if any_updated result then
         say_all ([''Synced:''] @
           (if profile_updated result then [''  profile updated''] else []) @
           (if contacts_updated result then [''  contacts updated''] else []) @
           (if devices_updated result then [''  devices updated''] else []))
       else say ''Already up to date''))"

definition run_contact_add :: "('s, 'm) mainenv_scheme \<Rightarrow> string \<Rightarrow> string \<Rightarrow> string \<Rightarrow> ('s, unit) cmd" where
  "run_contact_add X name peer dh_key_b64 =
     chain (client_or_exit X) (\<lambda>_.
     chain (must X (contact_add X (node_client X) name peer dh_key_b64)) (\<lambda>_.
       say (''Contact '' @ quoted name @ '' saved'')))"

section \<open>Capabilities and pairing\<close>

datatype CapCommand =
  CapGrant IdentityId string bool bool bool "u64 option"
| CapList
| CapRevoke CapabilityId
| CapCheck "string option" "string option" "string option" "string option"

definition capability_lines :: "CapabilityEntry \<Rightarrow> string list" where
  "capability_lines e =
     (let c = entry_cap e in
      [cap_id c @ '' (revoked: '' @ (if entry_revoked e then ''yes'' else ''no'') @ '')'',
       ''  '' @ cap_issuer c @ '' -> '' @ cap_subject c @ '' on '' @ canonical (cap_resource c),
       ''  permissions: '' @ join '', '' (sort (map permission_str (cap_permissions c))),
       ''  expires: '' @ (case expires_at c of Some t \<Rightarrow> u64_str t | None \<Rightarrow> ''never'')])"

definition run_cap :: "('s, 'm) mainenv_scheme \<Rightarrow> CapCommand \<Rightarrow> ('s, unit) cmd" where
  "run_cap X c =
     chain (client_or_exit X) (\<lambda>_.
     case c of
       CapGrant subject resource rd wr pub expires \<Rightarrow>
         chain (must X (cap_grant X (node_client X) subject resource rd wr pub expires)) (\<lambda>(cap, encoded).
           say_all ([''Granted '' @ cap_id cap @ '' on '' @ canonical (cap_resource cap) @ '' to '' @ cap_subject cap] @
             (case expires_at cap of Some t \<Rightarrow> [''Expires: '' @ u64_str t] | None \<Rightarrow> []) @
             [''Capability bundle (base64, for the subject):'', encoded]))
     | CapList \<Rightarrow>
         chain (must X (sdk_list_capabilities (node_client X))) (\<lambda>index.
           case index of
             Some ix \<Rightarrow>
               say_all ((if cap_entries ix = [] then [''No capabilities issued yet''] else []) @
                 concat (map capability_lines (cap_entries ix)))
           | None \<Rightarrow> say ''No capabilities issued yet'')
     | CapRevoke cid \<Rightarrow>
         chain (must X (sdk_revoke_capability (node_client X) cid)) (\<lambda>_. say (''Revoked capability '' @ cid))
     | CapCheck (Some bundle_b64) _ _ _ \<Rightarrow>
         chain (must X (cap_check_bundle X (node_client X) bundle_b64)) (\<lambda>(valid, reason).
         chain (say ((if valid then ''VALID'' else ''INVALID'') @ '': '' @ reason)) (\<lambda>_.
           if valid then proceed () else leaving (Exited 1)))
     | CapCheck None subject permission resource \<Rightarrow>
         chain (must X (cap_check_access (node_client X) subject permission resource)) (\<lambda>allowed.
           if allowed then say ''ACCESS GRANTED''
           else chain (say ''ACCESS DENIED'') (\<lambda>_. leaving (Exited 1))))"

definition run_pair :: "('s, 'm) mainenv_scheme \<Rightarrow> string option \<Rightarrow> string option \<Rightarrow> ('s, unit) cmd" where
  "run_pair X qr code =
     chain (client_or_exit X) (\<lambda>_.
     case qr of
       None \<Rightarrow>
         chain (must X (sdk_pair_initiate (node_client X))) (\<lambda>qr.
           say_all [''Pairing code: '' @ qr_code qr, [],
             ''Scan this QR (or read this payload to the other device) and run:'',
             ''  canopee pair '' @ cli_b64_encode X (enc (cli_pairing_qr X) qr) @ '' --code '' @ qr_code qr, [],
             ''The source device will copy your identity to '' @ qr_device_name qr @ '' ('' @ qr_device_id qr @ '').'',
             ''Restart this node after pairing to take the identity over.''])
     | Some payload_b64 \<Rightarrow>
         (case cli_b64_decode X payload_b64 of
            None \<Rightarrow> die ''The QR payload is not valid base64''
          | Some bs \<Rightarrow>
              (case dec (cli_pairing_qr X) bs of
                 None \<Rightarrow> die ''The QR payload is not valid pairing data''
               | Some qr \<Rightarrow>
                   chain
                     (case code of
                        Some c \<Rightarrow> proceed c
                      | None \<Rightarrow>
                          chain (print_text ''Type the pairing code shown on the device to approve: '') (\<lambda>_.
                          chain (unwrapped (typed_line X)) (\<lambda>line. proceed (trim line))))
                     (\<lambda>code.
                   chain (unwrapped (short_peer_id (qr_device_id qr))) (\<lambda>shown.
                   chain (say (''Pairing '' @ shown @ '' '' @ bytes_str [0xE2, 0x80, 0xA6])) (\<lambda>_.
                   chain (must X (sdk_pair_complete (node_client X) qr code)) say))))))"

section \<open>Apps\<close>

definition serve :: "('s, 'm) mainenv_scheme \<Rightarrow> (string \<times> bytes) list \<Rightarrow> u16 \<Rightarrow> bool \<Rightarrow> ('s, unit) cmd" where
  "serve X files port open_browser =
     chain (unwrapped (bind_local X port)) (\<lambda>addr.
     chain (say (''Serving app at http://'' @ addr)) (\<lambda>_. leaving (Serves addr files open_browser)))"

definition serve_fetched ::
  "('s, 'm) mainenv_scheme \<Rightarrow> ObjectId \<Rightarrow> string option \<Rightarrow> u16 \<Rightarrow> bool \<Rightarrow> ('s, unit) cmd" where
  "serve_fetched X mid peer port open_browser =
     chain (call (serve_app_on_http X (node_client X) mid peer)) (\<lambda>fetched.
     chain (or_die X ''failed to open app: '' fetched) (\<lambda>app.
       case app of
         ServeApp m files \<Rightarrow>
           chain (say (''Opening '' @ quoted (manifest_name m) @ '' by '' @ manifest_owner m)) (\<lambda>_.
             serve X files port open_browser)))"

definition open_with_default_app :: "('s, 'm) mainenv_scheme \<Rightarrow> bytes \<Rightarrow> string \<Rightarrow> ('s, unit) cmd" where
  "open_with_default_app X bs name =
     (let dir = path_join (temp_dir X) ''canopee-open''; path = temp_file_path (temp_dir X) name in
      if \<not> io_create_ok X dir then die (''Error: cannot create temp dir '' @ dir)
      else chain (on_files (fs_write X path bs)) (\<lambda>written.
        case written of
          Inl _ \<Rightarrow> die (''Error: cannot write '' @ path)
        | Inr _ \<Rightarrow>
            chain (say (''Opening '' @ path)) (\<lambda>_.
            chain (complain ''Opening files with the system app is only wired up on macOS yet.'') (\<lambda>_.
              complain (''The file is at: '' @ path)))))"

definition resolved_pointer :: "('s, 'm) mainenv_scheme \<Rightarrow> IdentityId \<Rightarrow> string \<Rightarrow> ('s, ObjectId) cmd" where
  "resolved_pointer X owner name =
     chain (call (sdk_resolve_app_pointer X (node_client X) owner name)) (\<lambda>found.
     chain (or_die X ''failed to resolve app pointer: '' found) (\<lambda>found.
       case found of
         Some mid \<Rightarrow> proceed mid
       | None \<Rightarrow> die (''Error: no app pointer found for '' @ quoted name)))"

definition run_open ::
  "('s, 'm) mainenv_scheme \<Rightarrow> string option \<Rightarrow> IdentityId option \<Rightarrow> string option \<Rightarrow> string option
   \<Rightarrow> u16 \<Rightarrow> bool \<Rightarrow> ('s, unit) cmd" where
  "run_open X arg owner name peer port open_browser =
     chain (client_or_exit X) (\<lambda>_.
     case (arg, owner, name) of
       (Some arg, _, _) \<Rightarrow>
         chain (must X (resolve_object_arg (node_client X) arg)) (\<lambda>(oid, shown).
         chain (call (sdk_get (node_client X) oid)) (\<lambda>got.
           case got of
             Inr ob \<Rightarrow>
               if object_type ob \<noteq> AppManifestT then
                 open_with_default_app X (payload_data (payload ob)) shown
               else serve_fetched X oid peer port open_browser
           | Inl _ \<Rightarrow> serve_fetched X oid peer port open_browser))
     | (None, Some owner, Some name) \<Rightarrow>
         chain (resolved_pointer X owner name) (\<lambda>mid. serve_fetched X mid peer port open_browser)
     | _ \<Rightarrow> die ''Error: pass either <id> or both --owner and --name'')"

text \<open>Without a node the address is kept, as far as the disk lets it.\<close>

definition keep_uri :: "('s, 'm) mainenv_scheme \<Rightarrow> string \<Rightarrow> ('s, unit) cmd" where
  "keep_uri X uri =
     (let pending = uri_pending_path (main_config X) in
      chain (on_files (fs_write X pending (str_bytes uri))) (\<lambda>_.
      chain (complain ''Error: Canopee node is not running'') (\<lambda>_.
        die (''The URI was saved to '' @ pending @ '' '' @ bytes_str [0xE2, 0x80, 0x94] @
          '' start a node (`canopee start`) and re-run: canopee handle '' @ quoted uri))))"

definition run_handle :: "('s, 'm) mainenv_scheme \<Rightarrow> string \<Rightarrow> u16 \<Rightarrow> ('s, unit) cmd" where
  "run_handle X uri port =
     chain (or_die X [] (split_uri uri)) (\<lambda>(owner, name).
     chain (on_files (\<lambda>d. (d, resolve_owner (main_alias_dec X) (main_config X) owner d))) (\<lambda>resolved.
     chain (or_die X [] resolved) (\<lambda>i.
     chain (node_running X) (\<lambda>up.
     if \<not> up then keep_uri X uri else
     chain (resolved_pointer X i name) (\<lambda>mid. serve_fetched X mid None port True)))))"

definition run_app_manifest :: "('s, 'm) mainenv_scheme \<Rightarrow> string \<Rightarrow> string \<Rightarrow> ('s, unit) cmd" where
  "run_app_manifest X directory name =
     chain (client_or_exit X) (\<lambda>_.
     chain (call (app_manifest X (node_client X) (walk_dir X directory) name)) (\<lambda>published.
     chain (unwrapped published) (\<lambda>oid.
       say_all [[], ''Application published and announced:'', oid, [],
         ''Republishing under the same name ('' @ quoted name @ '') will update what `open --owner ... --name ''
         @ name @ ''` resolves to.''])))"

definition run_app_info :: "('s, 'm) mainenv_scheme \<Rightarrow> ObjectId \<Rightarrow> ('s, unit) cmd" where
  "run_app_info X oid =
     chain (node_or_exit X) (\<lambda>_.
     chain (ask X (CmdGet oid)) (\<lambda>r.
       case r of
         RspObject ob \<Rightarrow>
           chain (unwrapped (ok_or (dec (cli_manifest X) (payload_data (payload ob))) (Decode oid))) (\<lambda>m.
             say_all [''Manifest:'', manifest_debug X m])
       | _ \<Rightarrow> otherwise_note ''Error: '' r))"

text \<open>Announcing is best effort: what fails is a warning.\<close>

definition announce_or_warn :: "('s, 'm) mainenv_scheme \<Rightarrow> ObjectId \<Rightarrow> ('s, unit) cmd" where
  "announce_or_warn X oid =
     chain (call (sdk_announce (node_client X) oid)) (\<lambda>sent.
       case sent of
         Inr _ \<Rightarrow> proceed ()
       | Inl e \<Rightarrow> complain (''Warning: failed to announce object: '' @ err_text X e))"

definition publish_edge :: "('s, 'm) mainenv_scheme \<Rightarrow> string" where
  "publish_edge X =
     (case env_var X ''CANOPEE_EDGE_ADDR'' of
        Some addr \<Rightarrow> if trim addr \<noteq> [] then addr else hd DEFAULT_BOOTSTRAP_ADDRS
      | None \<Rightarrow> hd DEFAULT_BOOTSTRAP_ADDRS)"

definition publish_domain :: "('s, 'm) mainenv_scheme \<Rightarrow> string" where
  "publish_domain X = (case env_var X ''CANOPEE_PUBLIC_BASE_DOMAIN'' of Some d \<Rightarrow> d | None \<Rightarrow> ''canopee.network'')"

definition publish_lines :: "('s, 'm) mainenv_scheme \<Rightarrow> string \<Rightarrow> string \<Rightarrow> ObjectId \<Rightarrow> string list" where
  "publish_lines X directory app_name mid =
     [''Publishing '' @ quoted directory @ '' as '' @ app_name, ''  Manifest: '' @ mid,
      ''  '' @ bytes_str [0xE2, 0x9C, 0x93] @ '' Application published!'',
      ''  Public: https://'' @ app_subdomain mid @ ''.'' @ publish_domain X @ ''/'', [],
      ''  Serving live from this node. Press Ctrl+C to take it offline.'']"

definition run_publish :: "('s, 'm) mainenv_scheme \<Rightarrow> string \<Rightarrow> ('s, unit) cmd" where
  "run_publish X directory =
     (let C = node_client X; app_name = app_name_from_directory X directory in
      chain (client_or_exit X) (\<lambda>_.
      chain (call (publish_directory C (walk_dir X directory))) (\<lambda>published.
      chain (or_die X ''failed to publish directory: '' published) (\<lambda>(entry, assts).
      chain (call (sdk_identity C)) (\<lambda>identity.
      chain (or_die X ''failed to read identity: '' identity) (\<lambda>identity.
      let manifest = \<lparr> manifest_name = app_name, manifest_owner = identity, entrypoint = entry, assets = assts \<rparr> in
      chain (call (sdk_put_object_public C (enc (cli_manifest X) manifest) AppManifestT (Some app_name))) (\<lambda>stored.
      chain (or_die X ''failed to store app manifest: '' stored) (\<lambda>mid.
      chain (for_each (announce_or_warn X) (mid # entry # map snd assts)) (\<lambda>_.
      chain (call (sdk_publish_pointer C (''app:'' @ app_name) mid)) (\<lambda>pointed.
      chain (case pointed of
          Inr _ \<Rightarrow> proceed ()
        | Inl e \<Rightarrow> complain (''Warning: failed to publish app pointer (open --name will lag): '' @ err_text X e)) (\<lambda>_.
      chain (call (sdk_start_serve_session C (publish_edge X) mid)) (\<lambda>started.
      chain (or_die X ''failed to start serve session: '' started) (\<lambda>_.
      chain (say_all (publish_lines X directory app_name mid)) (\<lambda>_.
      chain (or_die X ''failed to listen for Ctrl+C: '' (ctrl_c X)) (\<lambda>_.
      chain (call (sdk_stop_serve_session C)) (\<lambda>stopped.
        case stopped of
          Inr _ \<Rightarrow> say ''Application taken offline.''
        | Inl e \<Rightarrow> complain (''Warning: failed to stop serve session: '' @ err_text X e)))))))))))))))))"

section \<open>Aliases and the scheme\<close>

datatype AliasCommand = AliasSet string string | AliasList | AliasRemove string

definition run_alias :: "('s, 'm) mainenv_scheme \<Rightarrow> AliasCommand \<Rightarrow> ('s, unit) cmd" where
  "run_alias X c =
     (case c of
        AliasSet name owner \<Rightarrow>
          chain (on_files (set_alias X (main_alias_dec X) (main_alias_enc X) (main_config X) name owner))
            (or_note X (\<lambda>_. say (''alias '' @ quoted name @ '' -> '' @ owner)))
      | AliasList \<Rightarrow>
          chain (on_files (\<lambda>d. (d, list_aliases (main_alias_dec X) (main_config X) d))) (or_note X (\<lambda>al.
            say_all ((if al = [] then [''No aliases set''] else []) @
              map (\<lambda>(name, owner). name @ '' -> '' @ owner) al)))
      | AliasRemove name \<Rightarrow>
          chain (on_files (remove_alias X (main_alias_dec X) (main_alias_enc X) (main_config X) name))
            (or_note X (\<lambda>removed.
              if removed then say (''Removed alias '' @ quoted name)
              else say (''No alias '' @ quoted name @ '' found''))))"

definition desktop_dir :: "('s, 'm) mainenv_scheme \<Rightarrow> string" where
  "desktop_dir X =
     path_join (case home_dir X of Some h \<Rightarrow> h | None \<Rightarrow> temp_dir X) ''.local/share/applications''"

definition linux_desktop_file_path :: "('s, 'm) mainenv_scheme \<Rightarrow> string" where
  "linux_desktop_file_path X = path_join (desktop_dir X) ''canopee-uri-handler.desktop''"

definition desktop_entry :: "string \<Rightarrow> string" where
  "desktop_entry bin =
     concat (map (\<lambda>l. l @ newline)
       [''[Desktop Entry]'', ''Type=Application'', ''Name=Canopee URI'', ''Exec='' @ quoted bin @ '' handle %u'',
        ''MimeType=x-scheme-handler/canopee;x-scheme-handler/canOPee;'', ''NoDisplay=true''])"

definition register_linux :: "('s, 'm) mainenv_scheme \<Rightarrow> fs \<Rightarrow> fs \<times> unit res" where
  "register_linux X d =
     (case current_exe X of
        Inl e \<Rightarrow> (d, Inl e)
      | Inr bin \<Rightarrow>
          if \<not> io_create_ok X (desktop_dir X) then (d, Inl (Io (desktop_dir X)))
          else (case fs_write X (linux_desktop_file_path X) (str_bytes (desktop_entry bin)) d of
             (d', Inl e) \<Rightarrow> (d', Inl e)
           | (d', Inr _) \<Rightarrow>
               (d', case xdg_mime X [''default'', ''canopee-uri-handler.desktop'', ''x-scheme-handler/canopee''] of
                  Inr True \<Rightarrow> Inr ()
                | Inr False \<Rightarrow> Inl (Bail ''xdg-mime could not apply the scheme'')
                | Inl e \<Rightarrow> Inl (Bail ''could not run xdg-mime''))))"

text \<open>\<open>xdg-mime unset\<close> is called at the end and its result dropped.\<close>

definition unregister_linux :: "('s, 'm) mainenv_scheme \<Rightarrow> fs \<Rightarrow> fs \<times> unit res" where
  "unregister_linux X d = remove_if_exists X (linux_desktop_file_path X) d"

definition run_uri_register :: "('s, 'm) mainenv_scheme \<Rightarrow> ('s, unit) cmd" where
  "run_uri_register X =
     chain (on_files (register_linux X)) (\<lambda>x.
     chain (or_die X [] x) (\<lambda>_. say ''Registered canopee:// scheme handler''))"

definition run_uri_unregister :: "('s, 'm) mainenv_scheme \<Rightarrow> ('s, unit) cmd" where
  "run_uri_unregister X =
     chain (on_files (unregister_linux X)) (\<lambda>x.
     chain (or_die X [] x) (\<lambda>_. say ''Removed canopee:// scheme handler''))"

definition run_gateway :: "('s, 'm) mainenv_scheme \<Rightarrow> u16 option \<Rightarrow> ('s, unit) cmd" where
  "run_gateway X port =
     chain (or_die X [] (start_on (bind_local X) (fresh_token X) port)) (\<lambda>(addr, token).
     chain (say_all [''Canopee gateway ready for this machine only:'', ''  Demo page: '' @ page_url addr,
       ''  WebSocket: '' @ session_url addr (fresh_token X), [],
       ''Open the demo page in a browser, or point your app'' @ [CHR 0x27] @ ''s JavaScript at the '' @
       ''WebSocket URL with the client from crates/canopee-gateway/www/client.js.'',
       ''Press Ctrl-C to stop.'']) (\<lambda>_.
       case gateway_ends X of
         Some (Inr _) \<Rightarrow> proceed ()
       | Some (Inl e) \<Rightarrow> die (''Gateway error: '' @ err_text X e)
       | None \<Rightarrow> say ''Stopping gateway''))"

section \<open>The command line\<close>

datatype Commands =
  DoInit | DoIdentity | DoDevice | DoDevices | DoProfile "string option" | DoList | DoStart
| DoGet string "string option" | DoDesc string | DoPut string | DoConcat "string list" "string option"
| DoExport ObjectId | DoImport string | DoStatus | DoStop | DoDial string | DoListenViaRelay string
| DoPeers | DoRelayStatus | DoAnnounce string | DoFindProviders string | DoFetch string string
| DoShare string "string option" "string list" | DoDhKey | DoContactAdd string string string
| DoUnshare string | DoHome | DoPub string string | DoPublish string | DoChat string
| DoAppManifest string string | DoAppInfo ObjectId
| DoOpen "string option" "IdentityId option" "string option" "string option" u16 bool
| DoHandle string u16 | DoAlias AliasCommand | DoUriRegister | DoUriUnregister
| DoUsername UsernameCommand | DoCap CapCommand | DoGateway "u16 option"
| DoExportIdentity string string | DoImportIdentity string string bool
| DoPair "string option" "string option" | DoSync "string option"

fun run_main :: "('s, 'm) mainenv_scheme \<Rightarrow> bool \<Rightarrow> Commands \<Rightarrow> ('s, unit) cmd" where
  "run_main X ids DoInit = run_init X"
| "run_main X ids DoIdentity = run_identity X"
| "run_main X ids DoDevice = run_device X"
| "run_main X ids DoDevices = run_devices X"
| "run_main X ids (DoProfile name) = run_profile X name"
| "run_main X ids DoList = run_list X ids"
| "run_main X ids DoStart = run_start X"
| "run_main X ids (DoGet arg output) = run_get X arg output"
| "run_main X ids (DoDesc arg) = run_desc X ids arg"
| "run_main X ids (DoPut path) = run_put X ids path"
| "run_main X ids (DoConcat args name) = run_concat X ids args name"
| "run_main X ids (DoExport arg) = run_export X arg"
| "run_main X ids (DoImport path) = run_import X path"
| "run_main X ids DoStatus = run_status X"
| "run_main X ids DoStop = run_stop X"
| "run_main X ids (DoDial addr) = run_dial X addr"
| "run_main X ids (DoListenViaRelay addr) = run_listen_via_relay X addr"
| "run_main X ids DoPeers = run_peers X"
| "run_main X ids DoRelayStatus = run_relay_status X"
| "run_main X ids (DoAnnounce arg) = run_announce X ids arg"
| "run_main X ids (DoFindProviders arg) = run_find_providers X arg"
| "run_main X ids (DoFetch peer arg) = run_fetch X ids peer arg"
| "run_main X ids (DoShare name arg to_args) = run_share X ids name arg to_args"
| "run_main X ids DoDhKey = run_dh_key X"
| "run_main X ids (DoContactAdd name peer key) = run_contact_add X name peer key"
| "run_main X ids (DoUnshare name) = run_unshare X name"
| "run_main X ids DoHome = run_home X ids"
| "run_main X ids (DoPub topic message) = run_pub X topic message"
| "run_main X ids (DoPublish directory) = run_publish X directory"
| "run_main X ids (DoChat topic) = run_chat X topic"
| "run_main X ids (DoAppManifest directory name) = run_app_manifest X directory name"
| "run_main X ids (DoAppInfo oid) = run_app_info X oid"
| "run_main X ids (DoOpen arg owner name peer port browser) = run_open X arg owner name peer port browser"
| "run_main X ids (DoHandle uri port) = run_handle X uri port"
| "run_main X ids (DoAlias c) = run_alias X c"
| "run_main X ids DoUriRegister = run_uri_register X"
| "run_main X ids DoUriUnregister = run_uri_unregister X"
| "run_main X ids (DoUsername c) = run_username X c"
| "run_main X ids (DoCap c) = run_cap X c"
| "run_main X ids (DoGateway port) = run_gateway X port"
| "run_main X ids (DoExportIdentity passphrase output) = run_export_identity X passphrase output"
| "run_main X ids (DoImportIdentity path passphrase overwrite) = run_import_identity X path passphrase overwrite"
| "run_main X ids (DoPair qr code) = run_pair X qr code"
| "run_main X ids (DoSync peer) = run_sync X peer"

end
