(* ===== verification/Command_Facts.thy ===== *)
theory Command_Facts
  imports Command_Main
begin

text \<open>
  What holds of every command of canopee-cli: \<open>--ids\<close> only changes what is printed, a command that
  needs a node does nothing without one, and which failures the exit status shows.
\<close>

section \<open>Runs that differ in their output only\<close>

definition same_effect :: "'s run \<Rightarrow> 's run \<Rightarrow> bool" where
  "same_effect r1 r2 =
     (run_node r1 = run_node r2 \<and> run_files r1 = run_files r2 \<and> run_started r1 = run_started r2)"

definition alike :: "('s, 'a) cmd \<Rightarrow> ('s, 'a) cmd \<Rightarrow> bool" where
  "alike m1 m2 =
     (\<forall>r1 r2. same_effect r1 r2 \<longrightarrow> same_effect (fst (m1 r1)) (fst (m2 r2)) \<and> snd (m1 r1) = snd (m2 r2))"

lemma alikeD:
  "alike m1 m2 \<Longrightarrow> same_effect r1 r2 \<Longrightarrow> same_effect (fst (m1 r1)) (fst (m2 r2)) \<and> snd (m1 r1) = snd (m2 r2)"
  by (simp add: alike_def)

lemma same_effect_refl [simp]: "same_effect r r"
  by (simp add: same_effect_def)

lemma alike_basic:
  "alike (proceed x) (proceed x)" "alike (leaving l) (leaving l)"
  "alike (print_text s) (print_text t)" "alike (complain u) (complain v)"
  by (simp_all add: alike_def proceed_def leaving_def print_text_def complain_def same_effect_def)

lemma alike_print: "alike (say s) (say t)" "alike (say_all ss) (say_all ts)" "alike (say s) (say_all ts)"
  "alike (say_all ss) (say t)"
  by (simp_all add: say_def say_all_def alike_basic)

lemma alike_chain:
  assumes "alike m1 m2" "\<And>x. alike (k1 x) (k2 x)"
  shows "alike (chain m1 k1) (chain m2 k2)"
  unfolding alike_def
proof (intro allI impI)
  fix r1 r2 :: "'a run"
  assume "same_effect r1 r2"
  from alikeD [OF assms(1) this] alikeD [OF assms(2)]
  show "same_effect (fst (chain m1 k1 r1)) (fst (chain m2 k2 r2)) \<and> snd (chain m1 k1 r1) = snd (chain m2 k2 r2)"
    by (cases "m1 r1"; cases "m2 r2"; cases "snd (m1 r1)") (simp_all add: chain_def)
qed

lemma alike_call: "alike (call m) (call m)"
  by (auto simp: alike_def call_def same_effect_def split: prod.splits sum.splits error.splits)

lemma alike_files: "alike (on_files m) (on_files m)"
  by (auto simp: alike_def on_files_def same_effect_def split: prod.splits)

lemma alike_read: "alike (read_path p) (read_path p)"
  by (simp add: alike_def read_path_def same_effect_def)

lemma alike_die: "alike (die s) (die t)"
  by (simp add: die_def alike_chain alike_basic)

lemma alike_results:
  "alike (unwrapped x) (unwrapped x)" "alike (or_die X what x) (or_die X what x)"
  "alike (otherwise_note label r) (otherwise_note label r)" "alike (with_id b1 s oid) (with_id b2 t oid)"
  by (auto simp: unwrapped_def or_die_def otherwise_note_def with_id_def alike_basic alike_die alike_print
      split: sum.split NodeResponse.split)

lemma alike_note: "(\<And>v. alike (k1 v) (k2 v)) \<Longrightarrow> alike (or_note X k1 x) (or_note X k2 x)"
  by (auto simp: or_note_def alike_basic split: sum.split)

lemma alike_steps: "alike (must X m) (must X m)" "alike (ask X c) (ask X c)"
  by (simp_all add: must_def ask_def alike_chain alike_call alike_results)

lemma alike_test:
  assumes "\<And>r1 r2. same_effect r1 r2 \<Longrightarrow> P r1 = P r2" "alike a1 a2" "alike b1 b2"
  shows "alike (\<lambda>r. if P r then a1 r else b1 r) (\<lambda>r. if P r then a2 r else b2 r)"
  using assms unfolding alike_def by presburger

lemma alike_reach: "alike (node_or_exit X) (node_or_exit X)" "alike (client_or_exit X) (client_or_exit X)"
  unfolding node_or_exit_def [abs_def] client_or_exit_def [abs_def]
  by (rule alike_test; simp add: alike_basic alike_die same_effect_def)+

lemma alike_args: "alike (resolve_args X args) (resolve_args X args)"
  by (induction args) (auto intro!: alike_chain alike_steps alike_basic split: prod.split)

lemma alike_cases:
  "alike a1 a2 \<Longrightarrow> alike b1 b2 \<Longrightarrow> alike (if c then a1 else b1) (if c then a2 else b2)"
  "alike a1 a2 \<Longrightarrow> (\<And>x. alike (f1 x) (f2 x)) \<Longrightarrow>
     alike (case m of None \<Rightarrow> a1 | Some x \<Rightarrow> f1 x) (case m of None \<Rightarrow> a2 | Some x \<Rightarrow> f2 x)"
  "(\<And>x y. alike (g1 x y) (g2 x y)) \<Longrightarrow> alike (case p of (x, y) \<Rightarrow> g1 x y) (case p of (x, y) \<Rightarrow> g2 x y)"
  by (simp_all split: option.split prod.split)

lemmas alike_rules = alike_basic alike_print alike_chain alike_call alike_files alike_read alike_die
  alike_results alike_note alike_steps alike_reach alike_args alike_cases

lemma alike_ids:
  "alike (run_put X True path) (run_put X False path)"
  "alike (run_concat X True args name) (run_concat X False args name)"
  "alike (run_desc X True arg) (run_desc X False arg)"
  "alike (run_list X True) (run_list X False)"
  "alike (run_announce X True arg) (run_announce X False arg)"
  "alike (run_fetch X True peer arg) (run_fetch X False peer arg)"
  "alike (run_share X True sname oarg to_args) (run_share X False sname oarg to_args)"
  "alike (run_home X True) (run_home X False)"
  unfolding run_put_def run_concat_def run_desc_def run_list_def run_announce_def run_fetch_def run_share_def
    run_home_def Let_def if_True if_False
  by (rule alike_rules | (auto split: NodeResponse.split intro!: alike_rules) [1])+

text \<open>Property C39. The global flag \<open>--ids\<close> only changes what is printed: with it and without it a command
  sends the node the same requests, leaves the same files, starts the same processes and ends with
  the same status.\<close>

theorem ids_only_prints:
  "same_effect (fst (run_main X ids c r)) (fst (run_main X ids' c r)) \<and>
   snd (run_main X ids c r) = snd (run_main X ids' c r)"
proof -
  have "alike (run_main X True c) (run_main X False c)" if "run_main X True c \<noteq> run_main X False c"
    using that by (cases c) (simp_all add: alike_ids)
  from alikeD [OF this same_effect_refl, of r]
  have "same_effect (fst (run_main X True c r)) (fst (run_main X False c r)) \<and>
      snd (run_main X True c r) = snd (run_main X False c r)"
    by fastforce
  then show ?thesis by (cases ids; cases ids') (auto simp: same_effect_def)
qed

section \<open>Without a node\<close>

definition needs_node :: "Commands \<Rightarrow> bool" where
  "needs_node c =
     (case c of
        DoInit \<Rightarrow> False | DoStart \<Rightarrow> False | DoAlias _ \<Rightarrow> False | DoUriRegister \<Rightarrow> False
      | DoUriUnregister \<Rightarrow> False | DoGateway _ \<Rightarrow> False | _ \<Rightarrow> True)"

text \<open>A run that stopped before it did anything.\<close>

definition gave_up :: "'s run \<Rightarrow> 's run \<times> (leave + 'a) \<Rightarrow> bool" where
  "gave_up r x =
     (run_node (fst x) = run_node r \<and> run_started (fst x) = run_started r \<and> run_out (fst x) = run_out r \<and>
      (\<exists>l. snd x = Inl l \<and> (l = Exited 1 \<or> (\<exists>e. l = Panicked e))))"

lemma gave_up_chain: "gave_up r (m r) \<Longrightarrow> gave_up r (chain m k r)"
  by (cases "m r") (auto simp: gave_up_def chain_def)

lemma gave_up_die: "gave_up r (die s r)"
  by (simp add: gave_up_def die_def chain_def complain_def leaving_def)

lemma gave_up_reach:
  assumes "\<not> node_accepts X (run_node r)"
  shows "gave_up r (chain (client_or_exit X) k r)" "gave_up r (chain (node_or_exit X) k r)"
  by (rule gave_up_chain; simp add: assms client_or_exit_def node_or_exit_def gave_up_die)+

lemma gave_up_unwrapped: "(\<And>x. gave_up r (k x r)) \<Longrightarrow> gave_up r (chain (unwrapped v) k r)"
  by (cases v) (auto simp: gave_up_def chain_def unwrapped_def proceed_def leaving_def)

lemma gave_up_read: "(\<And>x. gave_up r (k x r)) \<Longrightarrow> gave_up r (chain (read_path p) k r)"
  by (simp add: chain_def read_path_def)

lemma gave_up_or_die: "(\<And>x. gave_up r (k x r)) \<Longrightarrow> gave_up r (chain (or_die X what v) k r)"
  by (cases v) (auto simp: or_die_def chain_def proceed_def intro: gave_up_chain [unfolded chain_def] gave_up_die)

lemma gave_up_look: "(\<And>x. gave_up r (k x r)) \<Longrightarrow> gave_up r (chain (on_files (\<lambda>d. (d, f d))) k r)"
  by (simp add: chain_def on_files_def)

lemma gave_up_running:
  "gave_up r (k (node_accepts X (run_node r)) r) \<Longrightarrow> gave_up r (chain (node_running X) k r)"
  by (simp add: chain_def node_running_def)

lemmas gave_up_rules = gave_up_running gave_up_read gave_up_unwrapped gave_up_or_die gave_up_look gave_up_reach

lemma keep_uri_run:
  "keep_uri X uri r = (r', x) \<Longrightarrow>
     run_files r' = fst (fs_write X (uri_pending_path (main_config X)) (str_bytes uri) (run_files r)) \<and> gave_up r (r', x)"
  by (auto simp: keep_uri_def Let_def chain_def on_files_def complain_def die_def leaving_def gave_up_def
      split: prod.splits)

lemmas gave_up_kept = keep_uri_run [THEN conjunct2, OF prod.collapse [symmetric], unfolded prod.collapse]

lemma handle_without_node:
  assumes "\<not> node_accepts X (run_node r)"
  shows "gave_up r (run_handle X uri port r)"
  unfolding run_handle_def
  by (auto split: prod.split intro!: gave_up_rules simp: assms prod.collapse intro: gave_up_kept)

lemma commands_without_node:
  "\<not> node_accepts X (run_node r) \<Longrightarrow> needs_node c \<Longrightarrow> gave_up r (run_main X ids c r)"
  by (cases c; simp only: run_main.simps needs_node_def Commands.case simp_thms
      run_identity_def run_device_def run_devices_def run_profile_def run_list_def run_get_def run_desc_def
      run_put_def run_concat_def run_export_def run_import_def run_status_def run_stop_def run_dial_def
      run_listen_via_relay_def run_peers_def run_relay_status_def run_announce_def run_find_providers_def
      run_fetch_def run_share_def run_dh_key_def run_contact_add_def run_unshare_def run_home_def run_pub_def
      run_publish_def run_chat_def run_app_manifest_def run_app_info_def run_open_def run_username_def run_cap_def
      run_export_identity_def run_import_identity_def run_pair_def run_sync_def Let_def;
      (rule gave_up_rules handle_without_node | assumption)+)

text \<open>Only \<open>handle\<close> writes a file before it gives up.\<close>

lemma handle_keeps_uri:
  assumes "split_uri uri = Inr (owner, name)"
    and "resolve_owner (main_alias_dec X) (main_config X) owner (run_files r) = Inr i"
    and "\<not> node_accepts X (run_node r)" "io_write X (uri_pending_path (main_config X)) (str_bytes uri) = Wrote"
  shows "fs_read (uri_pending_path (main_config X)) (run_files (fst (run_handle X uri port r))) = Inr (str_bytes uri)"
proof -
  have "run_handle X uri port r = keep_uri X uri r"
    using assms(1-3) by (simp add: run_handle_def chain_def or_die_def proceed_def on_files_def node_running_def)
  moreover obtain r' x where "keep_uri X uri r = (r', x)" by fastforce
  ultimately show ?thesis
    using keep_uri_run [of X uri r r' x] assms(4) by (simp add: fs_write_def update_conv')
qed

text \<open>Property C40. Without a running node a command that needs one does nothing: it leaves with a status
  other than 0 and prints no result, nothing reaches a node, nothing is started; and an address that
  the desktop hands over is kept in the file for pending addresses.\<close>

theorem without_node_nothing_happens:
  assumes "\<not> node_accepts X (run_node r)" "needs_node c" "run_main X ids c r = (r', x)"
  shows "run_node r' = run_node r \<and> run_started r' = run_started r \<and> run_out r' = run_out r \<and>
    exit_status x \<in> {Some 1, Some 101} \<and>
    (\<forall>uri port owner name i. c = DoHandle uri port \<longrightarrow> split_uri uri = Inr (owner, name) \<longrightarrow>
       resolve_owner (main_alias_dec X) (main_config X) owner (run_files r) = Inr i \<longrightarrow>
       io_write X (uri_pending_path (main_config X)) (str_bytes uri) = Wrote \<longrightarrow>
       fs_read (uri_pending_path (main_config X)) (run_files r') = Inr (str_bytes uri))"
proof -
  have "gave_up r (r', x)" using commands_without_node [OF assms(1, 2), of ids] assms(3) by simp
  moreover have "fs_read (uri_pending_path (main_config X)) (run_files r') = Inr (str_bytes uri)"
    if "c = DoHandle uri port" "split_uri uri = Inr (owner, name)"
      "resolve_owner (main_alias_dec X) (main_config X) owner (run_files r) = Inr i"
      "io_write X (uri_pending_path (main_config X)) (str_bytes uri) = Wrote" for uri port owner name i
    using handle_keeps_uri [OF that(2, 3) assms(1) that(4), of port] assms(3) that(1) by simp
  ultimately show ?thesis by (auto simp: gave_up_def)
qed

definition ex_mainenv :: "nat mainenv" where
  "ex_mainenv = sample_objenv [] \<lparr> cli_manifest = sample_codec (\<lambda>_. []) [],
     cli_exported_cap = sample_codec (\<lambda>_. []) [], cli_pairing_qr = sample_codec (\<lambda>_. []) [],
     cli_b64_encode = (\<lambda>_. []), cli_b64_decode = (\<lambda>_. None), error_display = (\<lambda>_. []),
     unicode_lower = (\<lambda>s. s), node_client = ex_counting_client, node_accepts = (\<lambda>n. 0 < n),
     open_topic = (\<lambda>_. ret ()), chat_events = [], main_open = ex_openenv 65, device_label = ''laptop'',
     main_config = with_root ''root'', main_bundle_dec = (\<lambda>_. None), main_alias_dec = (\<lambda>_. None),
     main_alias_enc = (\<lambda>_. []), str_debug = quoted, manifest_debug = manifest_name, env_var = (\<lambda>_. None),
     walk_dir = (\<lambda>_. ex_site), typed_line = Inr [], temp_dir = ''tmp'', home_dir = Some ''home'',
     current_exe = Inr ''bin/canopee'', spawned = (\<lambda>_. Inr (Some 7)), bind_local = (\<lambda>_. Inr ''127.0.0.1:80''),
     xdg_mime = (\<lambda>_. Inr True), fresh_token = ''token'', ctrl_c = Inr (), gateway_ends = None \<rparr>"

definition ex_run :: "nat \<Rightarrow> nat run" where
  "ex_run n = \<lparr> run_node = n, run_files = [], run_out = [], run_err = [], run_started = [] \<rparr>"

theorem without_node_nothing_happens_witness:
  "run_node (fst (run_main ex_mainenv True (DoHandle ''canopee://identity/4/blog'' 80) (ex_run 0))) = 0 \<and>
   fs_read ''root/uri-pending'' (run_files (fst (run_main ex_mainenv True (DoHandle ''canopee://identity/4/blog'' 80)
     (ex_run 0)))) = Inr (str_bytes ''canopee://identity/4/blog'')"
proof -
  let ?c = "DoHandle ''canopee://identity/4/blog'' 80"
  obtain r' x where run: "run_main ex_mainenv True ?c (ex_run 0) = (r', x)" by fastforce
  have facts: "\<not> node_accepts ex_mainenv (run_node (ex_run 0))" "needs_node ?c"
    "uri_pending_path (main_config ex_mainenv) = ''root/uri-pending''"
    "io_write ex_mainenv ''root/uri-pending'' (str_bytes ''canopee://identity/4/blog'') = Wrote"
    by (simp_all add: ex_mainenv_def ex_run_def needs_node_def uri_pending_path_def with_root_def path_join_def
        sample_objenv_def sample_crypto_def working_host_def)
  have "split_uri ''canopee://identity/4/blog'' = Inr (''canopee://identity/4'', ''blog'')"
    by (simp add: split_uri_def)
  moreover have "resolve_owner (main_alias_dec ex_mainenv) (main_config ex_mainenv) ''canopee://identity/4''
      (run_files (ex_run 0)) = Inr ''canopee://identity/4''"
    by (simp add: resolve_owner_def starts_with_def)
  ultimately show ?thesis
    using without_node_nothing_happens [OF facts(1, 2) run] facts(3, 4) run by (simp add: ex_run_def)
qed

section \<open>What the exit status tells\<close>

text \<open>The client's call gives its own result to the command.\<close>

lemma must_run:
  "must X m r =
     (case m (run_node r) of
        (s', Inr v) \<Rightarrow> (r\<lparr>run_node := s'\<rparr>, Inr v)
      | (s', Inl (Panic p)) \<Rightarrow> (r\<lparr>run_node := s'\<rparr>, Inl (Panicked (Panic p)))
      | (s', Inl e) \<Rightarrow> (r\<lparr>run_node := s', run_err := run_err r @ ''Error: '' @ err_text X e @ newline\<rparr>, Inl (Exited 1)))"
  by (auto simp: must_def chain_def call_def or_die_def die_def complain_def leaving_def proceed_def
      split: prod.split sum.split error.split)

lemma must_status:
  assumes "m (run_node r) = (s', v)"
  shows "exit_status (snd (chain (must X m) k r)) = Some 0 \<longleftrightarrow>
    (\<exists>x. v = Inr x \<and> exit_status (snd (k x (r\<lparr>run_node := s'\<rparr>))) = Some 0)"
  using assms by (cases v) (auto simp: chain_def must_run split: error.split)

lemma node_reached:
  assumes "node_accepts X (run_node r)"
  shows "chain (client_or_exit X) k r = k () r" "chain (node_or_exit X) k r = k () r"
  using assms by (simp_all add: chain_def client_or_exit_def node_or_exit_def proceed_def)

lemma not_reached:
  "\<not> node_accepts X (run_node r) \<Longrightarrow> needs_node c \<Longrightarrow> exit_status (snd (run_main X ids c r)) \<noteq> Some 0"
  using commands_without_node [of X r c ids] by (auto simp: gave_up_def)

lemmas run_steps = chain_def proceed_def leaving_def say_def say_all_def print_text_def complain_def die_def

text \<open>\<open>cap check\<close> succeeds exactly when the node answers that the capability is valid or the access
  allowed, so that a script may go by its exit status.\<close>

theorem check_status_is_answer:
  "exit_status (snd (run_main X ids (DoCap (CapCheck bundle64 subject permission resource)) r)) = Some 0 \<longleftrightarrow>
   node_accepts X (run_node r) \<and>
   (case bundle64 of
      Some b \<Rightarrow> \<exists>reason. snd (cap_check_bundle X (node_client X) b (run_node r)) = Inr (True, reason)
    | None \<Rightarrow> snd (cap_check_access (node_client X) subject permission resource (run_node r)) = Inr True)"
proof (cases "node_accepts X (run_node r)")
  case False
  with not_reached [OF False, of "DoCap (CapCheck bundle64 subject permission resource)" ids] show ?thesis
    by (simp add: needs_node_def)
next
  case True
  show ?thesis
  proof (cases bundle64)
    case None
    obtain s' v where "cap_check_access (node_client X) subject permission resource (run_node r) = (s', v)"
      by fastforce
    with True None show ?thesis
      by (simp add: run_cap_def node_reached must_status) (auto simp: run_steps split: prod.splits)
  next
    case (Some b)
    obtain s' v where "cap_check_bundle X (node_client X) b (run_node r) = (s', v)" by fastforce
    with True Some show ?thesis
      by (simp add: run_cap_def node_reached must_status) (auto simp: run_steps split: prod.splits)
  qed
qed

text \<open>A second daemon is not started.\<close>

theorem start_refuses_second:
  assumes "node_accepts X (run_node r)" "run_main X ids DoStart r = (r', x)"
  shows "run_started r' = run_started r \<and> exit_status x = Some 1"
  using assms
  by (auto simp: run_start_def on_files_def node_running_def or_die_def run_steps split: sum.splits)

text \<open>The commands that send one request and match on its response, with that request.\<close>

fun single_request :: "('s, 'm) mainenv_scheme \<Rightarrow> fs \<Rightarrow> Commands \<Rightarrow> NodeCommand option" where
  "single_request X d DoIdentity = Some CmdIdentity"
| "single_request X d DoList = Some CmdList"
| "single_request X d (DoPut path) =
     map_option (\<lambda>bs. CmdPut bs (file_name_of path)) (res_option (fs_read path d))"
| "single_request X d (DoExport oid) = Some (CmdExport oid)"
| "single_request X d (DoImport path) =
     map_option CmdImport (Option.bind (res_option (fs_read path d)) (main_bundle_dec X))"
| "single_request X d DoStatus = Some CmdStatus"
| "single_request X d DoStop = Some CmdShutdown"
| "single_request X d (DoDial addr) = Some (CmdDial addr)"
| "single_request X d (DoListenViaRelay addr) = Some (CmdListenViaRelay addr)"
| "single_request X d DoRelayStatus = Some CmdRelayReservations"
| "single_request X d (DoPub topic message) = Some (CmdPublish topic (str_bytes message))"
| "single_request X d (DoAppInfo oid) = Some (CmdGet oid)"
| "single_request X d c = None"

lemma ask_refused:
  "sdk_request (node_client X) q (run_node r) = (s', Inr (RspError m)) \<Longrightarrow>
     chain (ask X q) k r = k (RspError m) (r\<lparr>run_node := s'\<rparr>)"
  "chain (read_path p) k' r = k' (fs_read p (run_files r)) r"
  "chain (unwrapped (Inr v)) k'' r = k'' v r"
  by (simp_all add: ask_def chain_def call_def unwrapped_def proceed_def read_path_def)

text \<open>When the node refuses the request of such a command, the command prints the reason and still ends with
  status 0, where the commands that go through the client library end with status 1.\<close>

theorem refusal_ends_with_zero:
  assumes "single_request X (run_files r) c = Some q" "node_accepts X (run_node r)"
    and "sdk_request (node_client X) q (run_node r) = (s', Inr (RspError m))"
  shows "run_main X ids c r =
    (r\<lparr>run_node := s',
       run_err := run_err r @ (if c \<in> {DoIdentity, DoStop} then [] else ''Error: '') @ m @ newline\<rparr>, Inr ())"
  using assms
  by (cases "(X, run_files r, c)" rule: single_request.cases)
    (auto simp: run_identity_def run_list_def run_put_def run_export_def run_import_def run_status_def run_stop_def
      run_dial_def run_listen_via_relay_def run_relay_status_def run_pub_def run_app_info_def node_reached ask_refused
      otherwise_note_def complain_def Let_def bind_eq_Some_conv simp del: fs_read_Inr)

section \<open>Finding the node binary\<close>

lemma split_all_last: "CHR ''/'' \<notin> set w \<Longrightarrow> split_all CHR ''/'' (p @ CHR ''/'' # w) = split_all CHR ''/'' p @ [w]"
  by (induction p) (auto simp: split_all_single split: list.split)

lemma parent_dir_of: "CHR ''/'' \<notin> set w \<Longrightarrow> parent_dir (p @ CHR ''/'' # w) = Some p"
  using split_once_append [of "CHR ''/''" "rev w" "rev p"] by (simp add: parent_dir_def)

text \<open>The lookup that is meant for a checkout looks at the same path again: \<open>target/debug\<close> beside
  \<open>target/debug\<close> is the directory of the executable.\<close>

theorem checkout_lookup_is_sibling:
  assumes "env_var X ''CANOPEE_NODE_BIN'' = None" "current_exe X = Inr (t @ ''/'' @ prof @ ''/'' @ exe)"
    and "CHR ''/'' \<notin> set prof" "prof \<notin> {[], ''.'', ''..''}" "CHR ''/'' \<notin> set exe"
  shows "node_binary X d =
    (if fs_exists (t @ ''/'' @ prof @ ''/canopee-node'') d then Inr (t @ ''/'' @ prof @ ''/canopee-node'')
     else Inl (Bail (''could not find the `canopee-node` binary next to '' @ t @ ''/'' @ prof @ ''/'' @ exe @ '' ''
                @ bytes_str [0xE2, 0x80, 0x94] @ '' build it with `cargo build --release -p canopee-node`, or set CANOPEE_NODE_BIN'')))"
proof -
  have exe: "parent_dir (t @ ''/'' @ prof @ ''/'' @ exe) = Some (t @ ''/'' @ prof)"
    using parent_dir_of [OF assms(5), of "t @ ''/'' @ prof"] by simp
  have dir: "parent_dir (t @ ''/'' @ prof) = Some t" "file_name_of (t @ ''/'' @ prof) = Some prof"
    using parent_dir_of [OF assms(3), of t] assms(4) split_all_last [OF assms(3), of t]
    by (simp_all add: file_name_of_def)
  show ?thesis using exe dir assms(1, 2) by (simp add: node_binary_def path_join_def Let_def)
qed

section \<open>A file through the node and back\<close>

lemma chain_known:
  "m (run_node r) = (s', Inr v) \<Longrightarrow> chain (call m) k r = k (Inr v) (r\<lparr>run_node := s'\<rparr>)"
  "m (run_node r) = (s', Inr v) \<Longrightarrow> chain (must X m) k' r = k' v (r\<lparr>run_node := s'\<rparr>)"
  "sdk_request (node_client X) q (run_node r) = (s', Inr w) \<Longrightarrow> chain (ask X q) k'' r = k'' w (r\<lparr>run_node := s'\<rparr>)"
  "f (run_files r) = (d, x) \<Longrightarrow> chain (on_files f) k3 r = k3 x (r\<lparr>run_files := d\<rparr>)"
  "sdk_request (node_client X) q (run_node r) = (s', Inl e) \<Longrightarrow>
     chain (ask X q) k'' r = (r\<lparr>run_node := s'\<rparr>, Inl (Panicked e))"
  by (simp_all add: chain_def call_def must_run ask_def unwrapped_def proceed_def leaving_def on_files_def
      split: error.split)

definition stored_line :: "string \<Rightarrow> string" where
  "stored_line path = ''Stored '' @ (case file_name_of path of Some n \<Rightarrow> n | None \<Rightarrow> ''object'')"

lemma put_at_node:
  assumes "sdk_request (node_client X) = node_handle E R" "fs_read path (run_files r) = Inr bs"
    and "run_main X True (DoPut path) r = (r1, Inr ())"
    and "run_out r1 = run_out r @ stored_line path @ newline @ ''Id: '' @ oid @ newline"
  shows "\<exists>ob t. put_object_for E R bs Blob (file_name_of path) [] (sv_rt (run_node r)) = (t, Inr ob) \<and>
    obj_id ob = oid \<and> run_node r1 = run_node r\<lparr>sv_rt := t\<rparr>"
proof -
  obtain t v where put: "put_object_for E R bs Blob (file_name_of path) [] (sv_rt (run_node r)) = (t, v)" by fastforce
  have up: "node_accepts X (run_node r)"
    using commands_without_node [of X r "DoPut path" True] assms(3) by (auto simp: gave_up_def needs_node_def)
  show ?thesis
  proof (cases v)
    case (Inr ob)
    then have "node_handle E R (CmdPut bs (file_name_of path)) (run_node r) =
        (run_node r\<lparr>sv_rt := t\<rparr>, Inr (RspObjectCreated (obj_id ob)))"
      using put by (simp add: on_rt_def answer_def rt_put_def put_object_def andThen_apply)
    note asked = chain_known(3) [OF this [folded assms(1)]]
    have "r1 = r\<lparr>run_node := run_node r\<lparr>sv_rt := t\<rparr>,
        run_out := run_out r @ stored_line path @ newline @ ''Id: '' @ obj_id ob @ newline\<rparr>"
      using assms(2, 3) up
      by (simp add: run_put_def Let_def ask_refused node_reached with_id_def say_all_def print_text_def stored_line_def
          asked del: fs_read_Inr) 
    with assms(4) put Inr show ?thesis by simp
  next
    case (Inl e)
    obtain w where "node_handle E R (CmdPut bs (file_name_of path)) (run_node r) = (run_node r\<lparr>sv_rt := t\<rparr>, w)"
        "\<forall>oid. w \<noteq> Inr (RspObjectCreated oid)"
      using put Inl by (cases e) (auto simp: on_rt_def answer_def rt_put_def put_object_def andThen_apply)
    then have "run_out r1 = run_out r"
      using assms(1-3) up
      by (cases w) (auto simp: run_put_def Let_def ask_refused node_reached chain_known otherwise_note_def complain_def
          proceed_def simp del: fs_read_Inr node_handle.simps split: NodeResponse.splits)
    with assms(4) show ?thesis by (simp add: newline_def)
  qed
qed

text \<open>What \<open>put\<close> took from a file, \<open>get\<close> of the printed id writes to another, byte for byte.\<close>

theorem file_survives_put_and_get:
  assumes "sdk_request (node_client X) = node_handle E R" "fs_read path (run_files r) = Inr bs"
    and "run_main X True (DoPut path) r = (r1, Inr ())"
    and "run_out r1 = run_out r @ stored_line path @ newline @ ''Id: '' @ oid @ newline"
    and "aead_ok E" "x25519_ok E" "rnd_ok E (env_rnd E)" "identity_wf E (rt_identity R)" "hex_ok E"
    and "\<forall>t ob. put_object_for E R bs Blob (file_name_of path) [] (sv_rt (run_node r)) = (t, Inr ob) \<longrightarrow> decodes E ob"
    and "length (recipients E (rt_identity R) []) < 65536" "looks_like_id oid"
    and "node_accepts X (run_node r1)" "io_write X target bs = Wrote"
  shows "\<exists>r2. run_main X ids (DoGet oid (Some target)) r1 = (r2, Inr ()) \<and> fs_read target (run_files r2) = Inr bs"
proof -
  from put_at_node [OF assms(1-4)] obtain ob t where
    put: "put_object_for E R bs Blob (file_name_of path) [] (sv_rt (run_node r)) = (t, Inr ob)" "obj_id ob = oid"
    and s: "sv_rt (run_node r1) = t" by auto
  have "rt_get E R oid t = (t, Inr (set_data bs ob))"
    using put_then_opens(1) [OF assms(5-9) put(1) _ assms(11)] assms(10) put by blast
  then have got: "sdk_get (node_client X) oid (run_node r1) = (run_node r1, Inr (set_data bs ob))"
    using s by (simp add: sdk_get_def expecting_def andThen_apply assms(1) on_rt_def answer_def)
  have arg: "resolve_object_arg (node_client X) oid (run_node r1) = (run_node r1, Inr (oid, oid))"
    by (simp add: resolve_object_arg_def assms(12))
  obtain s2 shown where shown: "object_name (node_client X) (obj_id ob) (run_node r1) = (s2, Inr shown)"
    by (simp add: object_name_def andThen_apply)
  have "payload_data (payload (set_data bs ob)) = bs" "obj_id (set_data bs ob) = obj_id ob"
    by (simp_all add: set_data_def)
  then show ?thesis using assms(13, 14)
    by (simp add: run_get_def node_reached chain_known arg got shown fs_write_def ask_refused say_def print_text_def update_conv')
qed

end
