(* ===== verification/Gateway_Safety.thy ===== *)
theory Gateway_Safety
  imports Gateway Node_Safety
begin

text \<open>
  What a browser can make a node do: whatever bytes it sends over its session, the node is asked only
  for the commands that the gateway exposes.  A client whose exposed requests keep a relation on the
  state of the node keeps it through a whole session; the recorder of requests and the node itself
  are such clients.
\<close>

text \<open>The commands that are not for a web page: shutdown, removal, low-level transport and storage, devices,
  pairing, synchronisation, capabilities, serving.\<close>

definition administrative :: "NodeCommand \<Rightarrow> bool" where
  "administrative c =
     (case c of
        CmdShutdown \<Rightarrow> True
      | CmdDeleteObject _ \<Rightarrow> True
      | CmdListenViaRelay _ \<Rightarrow> True
      | CmdRelayReservations \<Rightarrow> True
      | CmdPutObject _ _ _ \<Rightarrow> True
      | CmdPutObjectPublic _ _ _ \<Rightarrow> True
      | CmdConcat _ _ \<Rightarrow> True
      | CmdSetName _ _ \<Rightarrow> True
      | CmdDhPublicKey \<Rightarrow> True
      | CmdDevice \<Rightarrow> True
      | CmdDeviceList \<Rightarrow> True
      | CmdAddDevice _ _ \<Rightarrow> True
      | CmdRemoveDevice _ \<Rightarrow> True
      | CmdInitiatePairing \<Rightarrow> True
      | CmdCompletePairing _ _ \<Rightarrow> True
      | CmdSyncFromPeer _ \<Rightarrow> True
      | CmdSyncDeviceList \<Rightarrow> True
      | CmdGrantCapability _ _ _ _ \<Rightarrow> True
      | CmdListCapabilities \<Rightarrow> True
      | CmdRevokeCapability _ \<Rightarrow> True
      | CmdCheckCapability _ \<Rightarrow> True
      | CmdCheckAccess _ _ _ \<Rightarrow> True
      | CmdStartServeSession _ _ \<Rightarrow> True
      | CmdStopServeSession \<Rightarrow> True
      | _ \<Rightarrow> False)"

section \<open>Sessions keep what exposed requests keep\<close>

locale exposed_client = state_relation R for R :: "'s \<Rightarrow> 's \<Rightarrow> bool" +
  fixes C :: "'s client"
  assumes exposed: "\<not> administrative c \<Longrightarrow> keeps R (sdk_request C c)"
begin

lemma expecting: "\<not> administrative c \<Longrightarrow> keeps R (expecting C c pick)"
  unfolding expecting_def by (intro bind lift exposed)

lemma as_json: "keeps R m \<Longrightarrow> keeps R (as_json m f)"
  unfolding as_json_def by (intro bind ret)

lemma command: "keeps R (gw_handle G E C c)"
  by (cases c; simp only: gw_handle.simps sdk_methods;
      intro bind lift fail as_json expecting; simp add: administrative_def)

lemma dispatched: "R s (fst (dispatch G E C c s))"
  using keepsD [OF command, of s G E c] by (auto simp: dispatch_def split: prod.splits sum.splits)

lemma session: "R (ses_node x) (ses_node (fst (handle_commands G E C turns x)))"
proof (induction turns arbitrary: x)
  case Nil
  show ?case by (simp add: stays)
next
  case (Cons turn turns)
  show ?case
  proof (cases turn)
    case (FromTopic lost ev)
    have "R (ses_node x) (ses_node (fst (handle_commands G E C turns
        (x\<lparr>ses_in := drop lost (ses_in x), ses_out := ses_out x @ ws_reply G e\<rparr>))))" for e
      using Cons [of "x\<lparr>ses_in := drop lost (ses_in x), ses_out := ses_out x @ ws_reply G e\<rparr>"] by simp
    with Cons [of x] show ?thesis by (simp add: FromTopic stays Let_def split: option.split)
  next
    case FromBrowser
    obtain r out where rd: "read_command_frame (command_dec G) (ses_in x) (ses_out x) = (r, out)" by fastforce
    show ?thesis
    proof (cases "\<exists>c rest. r = Inr (Some (c, rest))")
      case True
      then obtain c rest where r: "r = Inr (Some (c, rest))" by blast
      obtain s' ev where d: "dispatch G E C c (ses_node x) = (s', ev)" by fastforce
      have step: "R (ses_node x) (ses_node (fst (handle_commands G E C turns
          (x\<lparr>ses_node := s', ses_in := rest, ses_out := out @ ws_reply G ev\<rparr>))))"
        using dispatched [of "ses_node x" G E c] d
          Cons [of "x\<lparr>ses_node := s', ses_in := rest, ses_out := out @ ws_reply G ev\<rparr>"]
        by (auto intro: follows)
      have "R (ses_node x) (ses_node (fst (handle_commands G E C turns
          (x\<lparr>ses_in := rest, ses_out := out, ses_topic := Some t\<rparr>))))" for t
        using Cons [of "x\<lparr>ses_in := rest, ses_out := out, ses_topic := Some t\<rparr>"] by simp
      with step d show ?thesis
        by (cases c) (simp_all add: FromBrowser rd r)
    next
      case False
      then show ?thesis by (auto simp: FromBrowser rd stays split: sum.split option.split)
    qed
  qed
qed

end

section \<open>The recorder and the node\<close>

text \<open>A client that writes down the requests, answered in any way.\<close>

definition recorder ::
  "(NodeCommand list \<Rightarrow> NodeCommand \<Rightarrow> NodeResponse res) \<Rightarrow> (NodeResponse \<Rightarrow> string) \<Rightarrow> NodeCommand list client" where
  "recorder answers dbg = \<lparr> sdk_request = (\<lambda>c log. (log @ [c], answers log c)), debug_text = dbg \<rparr>"

definition asks_more :: "NodeCommand list \<Rightarrow> NodeCommand list \<Rightarrow> bool" where
  "asks_more log log' = (\<exists>cs. log' = log @ cs \<and> list_all (\<lambda>c. \<not> administrative c) cs)"

interpretation recorder: exposed_client asks_more "recorder answers dbg" for answers dbg
proof unfold_locales
  show "asks_more log log" for log by (simp add: asks_more_def)
  show "asks_more a b \<Longrightarrow> asks_more b c \<Longrightarrow> asks_more a c" for a b c
    by (auto simp: asks_more_def)
  show "\<not> administrative c \<Longrightarrow> keeps asks_more (sdk_request (recorder answers dbg) c)" for c
    by (simp add: keeps_def recorder_def asks_more_def)
qed

definition node_client :: "'e nodeenv_scheme \<Rightarrow> Runtime \<Rightarrow> (NodeResponse \<Rightarrow> string) \<Rightarrow> serving client" where
  "node_client E R dbg = \<lparr> sdk_request = node_handle E R, debug_text = dbg \<rparr>"

lemma exposed_never_deletes: "\<not> administrative c \<Longrightarrow> \<not> deletes c"
  by (cases c) (simp_all add: administrative_def)

interpretation browsed: exposed_client "\<lambda>s t. sound_setup E R \<longrightarrow> node_rel False E R s t" "node_client E R dbg"
  for E R dbg
proof unfold_locales
  show "sound_setup E R \<longrightarrow> node_rel False E R s s" for s by (simp add: node.stays)
  show "sound_setup E R \<longrightarrow> node_rel False E R s u"
    if "sound_setup E R \<longrightarrow> node_rel False E R s t" "sound_setup E R \<longrightarrow> node_rel False E R t u" for s t u
    using that by (auto intro: node.follows)
  show "keeps (\<lambda>s t. sound_setup E R \<longrightarrow> node_rel False E R s t) (sdk_request (node_client E R dbg) c)"
    if "\<not> administrative c" for c
    using handle_keeps [of E R False c] exposed_never_deletes [OF that]
    by (auto simp: keeps_def node_client_def)
qed

section \<open>Properties\<close>

text \<open>Property C31. Whatever bytes a browser sends, in whatever order they race with the messages of its
  topic, and whatever the node answers: during a session the node is asked only for what the gateway
  exposes, never to shut down, delete, pair, listen, serve, or touch devices and capabilities.\<close>

theorem browser_stays_in_subset:
  "\<exists>cs. ses_node (fst (handle_commands G E (recorder answers dbg) turns x)) = ses_node x @ cs \<and>
     list_all (\<lambda>c. \<not> administrative c) cs"
  using recorder.session [of x G E] unfolding asks_more_def .

text \<open>So no session takes an object out of the store.\<close>

theorem browser_deletes_nothing:
  assumes "sound_setup E R" "cache_path (rt_cache (sv_rt (ses_node x))) = cache_file_path (rt_config R)"
    "visible oid" "store_exists (store_root R) oid (rt_fs (sv_rt (ses_node x)))"
  shows "store_exists (store_root R) oid
    (rt_fs (sv_rt (ses_node (fst (handle_commands G E' (node_client E R dbg) turns x)))))"
proof -
  have "node_rel False E R (ses_node x) (ses_node (fst (handle_commands G E' (node_client E R dbg) turns x)))"
    using browsed.session assms(1) by blast
  moreover have "object_file R (object_path (store_root R) oid)" using assms(3) by auto
  ultimately show ?thesis
    using assms(2,4)
    unfolding node_rel_def runtime_step_def store_step_def store_exists_def fs_exists_def
    by (metis option.distinct(1))
qed

end
