(* ===== verification/Client_Contract.thy ===== *)
theory Client_Contract
  imports Node_Connection Node_Safety
begin

text \<open>
  The contract between the client library and the node: a request over the socket is a call of the
  node's dispatcher, every response of the node is one that the method which sent the command reads,
  and what the reader of a subscription makes of the node's frames.
\<close>

section \<open>Every response is understood\<close>

text \<open>A transport that answers one command with a given response.\<close>

definition echo :: "NodeCommand \<Rightarrow> NodeResponse \<Rightarrow> unit client" where
  "echo c r = \<lparr> sdk_request = (\<lambda>c' s. (s, if c' = c then Inr r else Inl (Bail ''another command''))),
                debug_text = (\<lambda>_. []) \<rparr>"

text \<open>The method returns a value, or the message of the node's error.\<close>

definition understood :: "NodeResponse \<Rightarrow> (unit, 'a) op \<Rightarrow> bool" where
  "understood r m = (case snd (m ()) of Inr _ \<Rightarrow> True | Inl e \<Rightarrow> \<exists>t. r = RspError t \<and> e = Bail t)"

lemma understood_expecting [simp]:
  "understood r (expecting (echo c r) c pick) \<longleftrightarrow> pick r \<noteq> None \<or> (\<exists>t. r = RspError t)"
  by (cases "pick r")
     (auto simp: understood_def expecting_def andThen_apply echo_def unexpected_def split: NodeResponse.splits)

fun client_reads :: "'e objenv_scheme \<Rightarrow> NodeCommand \<Rightarrow> NodeResponse \<Rightarrow> bool" where
  "client_reads E (CmdPut bs name) r = understood r (sdk_put (echo (CmdPut bs name) r) bs name)"
| "client_reads E (CmdPutObject bs ty name) r =
     understood r (sdk_put_object (echo (CmdPutObject bs ty name) r) bs ty name)"
| "client_reads E (CmdConcat ids name) r = understood r (sdk_concat (echo (CmdConcat ids name) r) ids name)"
| "client_reads E (CmdGet oid) r = understood r (sdk_get (echo (CmdGet oid) r) oid)"
| "client_reads E CmdList r = understood r (sdk_list (echo CmdList r))"
| "client_reads E (CmdDeleteObject oid) r = understood r (sdk_delete_object (echo (CmdDeleteObject oid) r) oid)"
| "client_reads E (CmdSetName oid name) r = understood r (sdk_set_name (echo (CmdSetName oid name) r) oid name)"
| "client_reads E (CmdExport oid) r = understood r (sdk_export (echo (CmdExport oid) r) oid)"
| "client_reads E (CmdImport b) r = understood r (sdk_import (echo (CmdImport b) r) b)"
| "client_reads E CmdStatus r = understood r (sdk_status (echo CmdStatus r))"
| "client_reads E CmdIdentity r = understood r (sdk_identity (echo CmdIdentity r))"
| "client_reads E CmdShutdown r = understood r (sdk_shutdown (echo CmdShutdown r))"
| "client_reads E (CmdDial a) r = understood r (sdk_dial (echo (CmdDial a) r) a)"
| "client_reads E (CmdListenViaRelay a) r = understood r (sdk_listen_via_relay (echo (CmdListenViaRelay a) r) a)"
| "client_reads E (CmdPublish t bs) r = understood r (sdk_publish (echo (CmdPublish t bs) r) t bs)"
| "client_reads E (CmdSubscribe t) r = (\<exists>m. r = RspError m)"
| "client_reads E CmdPeers r = understood r (sdk_peers (echo CmdPeers r))"
| "client_reads E CmdRelayReservations r = understood r (sdk_relay_reservations (echo CmdRelayReservations r))"
| "client_reads E (CmdFindProviders oid) r = understood r (sdk_find_providers (echo (CmdFindProviders oid) r) oid)"
| "client_reads E (CmdFetchObject p oid) r = understood r (sdk_fetch_object (echo (CmdFetchObject p oid) r) p oid)"
| "client_reads E (CmdAnnounce oid) r = understood r (sdk_announce (echo (CmdAnnounce oid) r) oid)"
| "client_reads E (CmdPublishAppPointer n m) r =
     understood r (sdk_publish_app_pointer (echo (CmdPublishAppPointer n m) r) n m)"
| "client_reads E (CmdResolveAppPointer i n) r =
     understood r (sdk_resolve_app_pointer E (echo (CmdResolveAppPointer i n) r) i n)"
| "client_reads E (CmdPublishPointer n t) r = understood r (sdk_publish_pointer (echo (CmdPublishPointer n t) r) n t)"
| "client_reads E (CmdResolvePointer i n) r = understood r (sdk_resolve_pointer (echo (CmdResolvePointer i n) r) i n)"
| "client_reads E (CmdSaveProfile p) r = understood r (sdk_save_profile (echo (CmdSaveProfile p) r) p)"
| "client_reads E CmdLoadProfile r = understood r (sdk_load_profile (echo CmdLoadProfile r))"
| "client_reads E (CmdSaveContactList l) r = understood r (sdk_save_contact_list (echo (CmdSaveContactList l) r) l)"
| "client_reads E CmdLoadContactList r = understood r (sdk_load_contact_list (echo CmdLoadContactList r))"
| "client_reads E (CmdSaveHomeIndex ix) r = understood r (sdk_save_home_index (echo (CmdSaveHomeIndex ix) r) ix)"
| "client_reads E CmdLoadHomeIndex r = understood r (sdk_load_home_index (echo CmdLoadHomeIndex r))"
| "client_reads E (CmdSetHomeEntryShared n b) r =
     understood r (sdk_set_home_entry_shared (echo (CmdSetHomeEntryShared n b) r) n b)"
| "client_reads E CmdDhPublicKey r = understood r (sdk_dh_public_key (echo CmdDhPublicKey r))"
| "client_reads E (CmdPutObjectPublic bs ty name) r =
     understood r (sdk_put_object_public (echo (CmdPutObjectPublic bs ty name) r) bs ty name)"
| "client_reads E (CmdShareObject n oid app ks) r =
     understood r (sdk_share_object_for (echo (CmdShareObject n oid app ks) r) n oid app ks)"
| "client_reads E (CmdClaimUsername u) r = understood r (sdk_claim_username (echo (CmdClaimUsername u) r) u)"
| "client_reads E (CmdResolveUsername u) r = understood r (sdk_resolve_username (echo (CmdResolveUsername u) r) u)"
| "client_reads E (CmdResolveProfile i) r = understood r (sdk_resolve_profile (echo (CmdResolveProfile i) r) i)"
| "client_reads E (CmdExportIdentity p) r = understood r (sdk_export_identity (echo (CmdExportIdentity p) r) p)"
| "client_reads E (CmdImportIdentity bs p b) r =
     understood r (sdk_import_identity (echo (CmdImportIdentity bs p b) r) bs p b)"
| "client_reads E CmdShowUsername r = understood r (sdk_show_username (echo CmdShowUsername r))"
| "client_reads E CmdDevice r = understood r (sdk_device (echo CmdDevice r))"
| "client_reads E CmdDeviceList r = understood r (sdk_device_list (echo CmdDeviceList r))"
| "client_reads E (CmdResolveOwnerDevice i) r =
     understood r (sdk_resolve_owner_device (echo (CmdResolveOwnerDevice i) r) i)"
| "client_reads E (CmdAddDevice d n) r = understood r (sdk_add_device (echo (CmdAddDevice d n) r) d n)"
| "client_reads E (CmdRemoveDevice d) r = understood r (sdk_remove_device (echo (CmdRemoveDevice d) r) d)"
| "client_reads E CmdInitiatePairing r = understood r (sdk_pair_initiate (echo CmdInitiatePairing r))"
| "client_reads E (CmdCompletePairing qr code) r =
     understood r (sdk_pair_complete (echo (CmdCompletePairing qr code) r) qr code)"
| "client_reads E (CmdSyncFromPeer p) r = understood r (sdk_sync_with_peer (echo (CmdSyncFromPeer p) r) p)"
| "client_reads E CmdSyncDeviceList r = understood r (sdk_sync_with_all_devices (echo CmdSyncDeviceList r))"
| "client_reads E (CmdGrantCapability i res ps t) r =
     understood r (sdk_grant_capability (echo (CmdGrantCapability i res ps t) r) i res ps t)"
| "client_reads E CmdListCapabilities r = understood r (sdk_list_capabilities (echo CmdListCapabilities r))"
| "client_reads E (CmdRevokeCapability cid) r =
     understood r (sdk_revoke_capability (echo (CmdRevokeCapability cid) r) cid)"
| "client_reads E (CmdCheckCapability c) r = understood r (sdk_check_capability (echo (CmdCheckCapability c) r) c)"
| "client_reads E (CmdCheckAccess i p res) r =
     understood r (sdk_check_access (echo (CmdCheckAccess i p res) r) i p res)"
| "client_reads E (CmdStartServeSession a oid) r =
     understood r (sdk_start_serve_session (echo (CmdStartServeSession a oid) r) a oid)"
| "client_reads E CmdStopServeSession r = understood r (sdk_stop_serve_session (echo CmdStopServeSession r))"

lemma answer_Inr:
  "answer E f m s = (s', Inr r) \<Longrightarrow> (\<exists>x. r = f x) \<or> (\<exists>t. r = RspError t)"
  by (auto simp: answer_def split: prod.splits sum.splits error.splits)

lemma on_rt_answer_Inr:
  "on_rt (answer E f m) s = (s', Inr r) \<Longrightarrow> (\<exists>x. r = f x) \<or> (\<exists>t. r = RspError t)"
  by (auto simp: on_rt_def split: prod.splits dest: answer_Inr)

lemma on_rt_ret_Inr: "on_rt (ret x) s = (s', Inr r) \<Longrightarrow> r = x"
  by (simp add: on_rt_def)

lemma on_rt_then_ret_Inr: "on_rt (andThen (attempt m) (\<lambda>x. ret (f x))) s = (s', Inr r) \<Longrightarrow> \<exists>x. r = f x"
  by (auto simp: on_rt_def andThen_apply split: prod.splits)

lemma on_rt_then_answer_Inr:
  "on_rt (andThen (attempt m) (\<lambda>x. answer E f (n x))) s = (s', Inr r) \<Longrightarrow> (\<exists>x. r = f x) \<or> (\<exists>t. r = RspError t)"
  by (auto simp: on_rt_def andThen_apply split: prod.splits dest: answer_Inr)

lemmas response_forms = on_rt_answer_Inr on_rt_ret_Inr on_rt_then_ret_Inr on_rt_then_answer_Inr answer_Inr

text \<open>Property C28. Every response of the node to a command is one that the client method which sends this
  command, and no other, takes for an answer: it returns a value, or the text of the node's error.\<close>

theorem client_understands_node:
  assumes "node_handle F R c s = (s', Inr r)"
  shows "client_reads E c r"
  using assms
  by (cases c; simp only: node_handle.simps client_reads.simps sdk_methods understood_expecting sdk_answers;
      fastforce dest: response_forms simp: resolve_app_pointer_def split: option.splits sum.splits)

theorem client_understands_node_witness:
  "\<exists>s' r. node_handle ex_nodeenv ex_runtime CmdIdentity (ex_serving []) = (s', Inr r) \<and>
     client_reads ex_nodeenv CmdIdentity r"
proof -
  have "node_handle ex_nodeenv ex_runtime CmdIdentity (ex_serving []) =
      (ex_serving [], Inr (RspIdentity (own_id ex_runtime)))"
    by (simp add: on_rt_def ex_serving_def)
  then show ?thesis using client_understands_node by metis
qed

section \<open>A request is a call\<close>

lemma unframe_written:
  assumes "length bs < 2 ^ 32"
  shows "unframe_message (be32 (length bs) @ bs @ rest) = Inr bs"
proof -
  have "of_le_bytes (le_bytes 4 (length bs)) = length bs"
    using assms by (intro of_le_bytes_le_bytes) simp
  with assms show ?thesis by (simp add: unframe_message_def be32_def Let_def)
qed

lemma client_frame_read [simp]:
  "length bs < 2 ^ 32 \<Longrightarrow> unframe_message (client_write_frame bs) = Inr bs"
  using unframe_written [of bs "[]"] by (simp add: client_write_frame_def)

lemma response_read:
  "length (enc (response_codec W) r) < 2 ^ 32 \<Longrightarrow>
   unframe_message (respond W r @ rest) = Inr (enc (response_codec W) r)"
  by (simp add: respond_def write_node_response_def frame_message_def unframe_written)

lemma not_a_subscription:
  "(\<And>t. c \<noteq> CmdSubscribe t) \<Longrightarrow> (case c of CmdSubscribe t \<Rightarrow> f t | _ \<Rightarrow> m) = m"
  by (cases c) auto

text \<open>What bincode promises: a value is decoded from its encoding, and its length fits the prefix.\<close>

definition fits :: "'a codec \<Rightarrow> 'a \<Rightarrow> bool" where
  "fits K x = (dec K (enc K x) = Some x \<and> length (enc K x) < 2 ^ 32)"

text \<open>Property C29. A request through the socket is a call of the dispatcher: when both messages fit their
  frames and the response reaches the client, the client gets the response of \<open>handle\<close> and leaves
  the node in the state that \<open>handle\<close> does; when the node's task dies in between, it gets an error
  and not a wrong answer.\<close>

theorem request_is_call:
  assumes "fits (command_codec W) c" "\<And>t. c \<noteq> CmdSubscribe t" "writes 0"
    "\<And>s' r. node_handle E R c s = (s', Inr r) \<Longrightarrow> fits (response_codec W) r"
  shows "node_request W (node_server E R writes W sub) c s =
    (fst (node_handle E R c s),
     case snd (node_handle E R c s) of Inr r \<Rightarrow> Inr r | Inl _ \<Rightarrow> Inl (Io ''unexpected end of file''))"
proof -
  let ?frame = "client_write_frame (enc (command_codec W) c)"
  have read: "read_command (dec (command_codec W)) ?frame = Inr c"
    using assms(1) by (simp add: fits_def read_command_def)
  have conn: "handle_connection E R writes W sub ?frame s =
      (case node_handle E R c s of
         (s', Inl e) \<Rightarrow> (s', Inl e)
       | (s', Inr r) \<Rightarrow> (s', Inr \<lparr> cn_out = respond W r, cn_unsubscribed = False, cn_shutdown = (c = CmdShutdown) \<rparr>))"
    using assms(3)
    by (simp add: handle_connection_def read not_a_subscription [OF assms(2)] andThen_apply
          split: prod.split sum.split)
  obtain s' res where h: "node_handle E R c s = (s', res)" by (cases "node_handle E R c s")
  show ?thesis
  proof (cases res)
    case (Inl e)
    with h conn show ?thesis
      by (simp add: node_request_def node_server_def client_read_frame_def unframe_message_def)
  next
    case (Inr r)
    then have "fits (response_codec W) r" using assms(4) h by simp
    with Inr h conn response_read [of W r "[]"] show ?thesis
      by (simp add: node_request_def node_server_def client_read_frame_def fits_def)
  qed
qed

definition ex_wire :: wire where
  "ex_wire = \<lparr> command_codec = \<lparr> enc = (\<lambda>_. [1]), dec = (\<lambda>_. Some CmdIdentity) \<rparr>,
     response_codec = \<lparr> enc = (\<lambda>_. [2]), dec = (\<lambda>_. Some (RspIdentity (own_id ex_runtime))) \<rparr> \<rparr>"

theorem request_is_call_witness:
  "node_request ex_wire (node_server ex_nodeenv ex_runtime (\<lambda>_. True) ex_wire (\<lambda>_. (Inr (), [])))
     CmdIdentity (ex_serving []) = (ex_serving [], Inr (RspIdentity (own_id ex_runtime)))"
proof -
  have h: "node_handle ex_nodeenv ex_runtime CmdIdentity (ex_serving []) =
      (ex_serving [], Inr (RspIdentity (own_id ex_runtime)))"
    by (simp add: on_rt_def ex_serving_def)
  show ?thesis
    by (subst request_is_call) (auto simp: h fits_def ex_wire_def simp del: node_handle.simps)
qed

section \<open>Reading a subscription\<close>

text \<open>The node writes the length of a frame with its highest byte first, the reader of a subscription
  takes it lowest byte first.\<close>

lemma be32_bytes:
  "be32 n = (let m = n mod 2 ^ 32 in
     [of_nat (m div 256 div 256 div 256), of_nat (m div 256 div 256), of_nat (m div 256), of_nat m])"
proof -
  have "le_bytes 4 m = [of_nat m, of_nat (m div 256), of_nat (m div 256 div 256), of_nat (m div 256 div 256 div 256)]"
    for m
  proof -
    have "(4 :: nat) = Suc (Suc (Suc (Suc 0)))" by simp
    then show ?thesis by (simp only: le_bytes.simps)
  qed
  then show ?thesis by (simp add: be32_def Let_def)
qed

lemma swapped_length:
  assumes "0 < n" "n < 2 ^ 16"
  shows "2 ^ 16 \<le> of_le_bytes (be32 n)"
proof -
  have small: "n mod 2 ^ 32 = n" "n div 256 div 256 = 0" "n div 256 < 256" using assms(2) by simp_all
  have "unat (of_nat (n div 256) :: byte) = n div 256" "unat (of_nat n :: byte) = n mod 256"
    using small(3) by (simp_all add: unat_of_nat take_bit_eq_mod)
  moreover have "be32 n = [0, 0, of_nat (n div 256), of_nat n]"
    by (simp only: be32_bytes Let_def small(1,2)) simp
  ultimately have "of_le_bytes (be32 n) = 2 ^ 16 * (n div 256 + 256 * (n mod 256))" by simp
  moreover have "1 \<le> n div 256 + 256 * (n mod 256)" using assms(1) mult_div_mod_eq [of 256 n] by linarith
  ultimately show ?thesis by (metis mult.right_neutral mult_le_mono2)
qed

lemma misread_frame:
  assumes "bs \<noteq> []" "length (frame_message bs @ rest) < 2 ^ 16"
  shows "read_frame_opt K (frame_message bs @ rest) = Inl (Io ''unexpected end of file'')"
proof -
  obtain b0 b1 b2 b3 where b: "be32 (length bs) = [b0, b1, b2, b3]"
    by (simp add: be32_bytes Let_def)
  have "2 ^ 16 \<le> of_le_bytes [b0, b1, b2, b3]"
    using swapped_length [of "length bs"] assms b by (simp add: frame_message_def)
  with assms(2) show ?thesis
    by (simp add: frame_message_def b read_frame_opt_def Let_def)
qed

lemma stream_starts:
  "fst (stream_topic writes W topic n evs) = [] \<or>
   (\<exists>m rest. fst (stream_topic writes W topic n evs) = respond W (RspPubSub m) @ rest)"
  by (induction writes W topic n evs rule: stream_topic.induct) (auto split: prod.splits)

text \<open>Property C30. A subscriber cannot read: whatever messages the node streams to it, as long as they
  are less than 64 KiB in all, the client's \<open>next\<close> fails instead of returning the first of them,
  because it takes the length prefix in the wrong byte order.\<close>

theorem subscriber_cannot_read:
  assumes "sub_stream S = fst (stream_topic writes W topic n evs)" "sub_stream S \<noteq> []"
    "length (sub_stream S) < 2 ^ 16" "\<And>m. enc (response_codec W) (RspPubSub m) \<noteq> []"
  shows "subscription_next W txt S = Inl (Io ''unexpected end of file'')"
proof -
  obtain m rest where s: "sub_stream S = frame_message (enc (response_codec W) (RspPubSub m)) @ rest"
    using stream_starts [of writes W topic n evs] assms(1,2)
    by (auto simp: respond_def write_node_response_def)
  have "read_frame_opt (response_codec W) (sub_stream S) = Inl (Io ''unexpected end of file'')"
    unfolding s by (rule misread_frame) (use assms(3,4) s in simp_all)
  then show ?thesis by (simp add: subscription_next_def)
qed

definition ex_subscription :: Subscription where
  "ex_subscription = \<lparr> sub_stream = [0, 0, 0, 1, 2], sub_topic = ''news'' \<rparr>"

theorem subscriber_cannot_read_witness:
  "fst (stream_topic (\<lambda>_. True) ex_wire ''news'' 1 [SubMessage ''news'' None [7]]) = sub_stream ex_subscription \<and>
   subscription_next ex_wire (\<lambda>_. []) ex_subscription = Inl (Io ''unexpected end of file'')"
proof -
  have s: "sub_stream ex_subscription = fst (stream_topic (\<lambda>_. True) ex_wire ''news'' 1 [SubMessage ''news'' None [7]])"
    by (simp add: ex_subscription_def respond_def write_node_response_def frame_message_def ex_wire_def
        be32_bytes Let_def)
  then have "subscription_next ex_wire (\<lambda>_. []) ex_subscription = Inl (Io ''unexpected end of file'')"
    by (rule subscriber_cannot_read) (simp_all add: ex_subscription_def ex_wire_def)
  with s show ?thesis by simp
qed

section \<open>App pointers of someone else\<close>

text \<open>The client checks the signature of an app pointer, which names its own owner, and nothing else: a
  record that somebody else signed, for another name, is returned as the owner's.\<close>

theorem client_takes_foreign_pointer:
  assumes "pointer_verify E p"
  shows "snd (sdk_resolve_app_pointer E (echo (CmdResolveAppPointer owner name) (RspAppPointer (Some p))) owner name ())
    = Inr (Some (ptr_manifest p))"
  using assms by (simp add: sdk_resolve_app_pointer_def expecting_def echo_def andThen_apply)

end
