(* ===== verification/Exchange_Refinement.thy ===== *)
theory Exchange_Refinement
  imports Loop_Promises
begin

text \<open>
  The object exchange as an abstract service, and the refinement of it by the event loop over the
  store, the cache and the serving set of the node.  The abstract state is a map of objects and the
  set of ids that are offered; peers ask for an id or push an object, and a push may fail.
\<close>

section \<open>The abstract service\<close>

record exchange =
  held :: "ObjectId \<Rightarrow> Object option"
  offered :: "ObjectId set"

definition exchange_answer :: "exchange \<Rightarrow> ObjectId \<Rightarrow> ObjectResponse" where
  "exchange_answer X oid =
     (case held X oid of
        Some ob \<Rightarrow> if oid \<in> offered X then ObjectFound \<lparr> bundle_version = 1, bundle_object = ob \<rparr> else NotFound
      | None \<Rightarrow> NotFound)"

definition exchange_take :: "IdentityId \<Rightarrow> Object \<Rightarrow> exchange \<Rightarrow> exchange" where
  "exchange_take me ob X =
     \<lparr> held = (held X)(obj_id ob \<mapsto> ob),
       offered = (if payload_owner (payload ob) = me then offered X else insert (obj_id ob) (offered X)) \<rparr>"

text \<open>A run with the responses it gives to peers, in their order.\<close>

inductive exchange_run ::
  "'e objenv_scheme \<Rightarrow> IdentityId \<Rightarrow> exchange \<Rightarrow> ObjectResponse list \<Rightarrow> exchange \<Rightarrow> bool" for E me where
  idle: "exchange_run E me X [] X"
| asked: "exchange_run E me X rs Y \<Longrightarrow> exchange_run E me X (rs @ [exchange_answer Y oid]) Y"
| pushed: "exchange_run E me X rs Y \<Longrightarrow> object_verify E ob \<Longrightarrow>
    exchange_run E me X (rs @ [Stored]) (exchange_take me ob Y)"
| refused: "exchange_run E me X rs Y \<Longrightarrow> exchange_run E me X (rs @ [StoreFailed why]) Y"

section \<open>The node as such a service\<close>

definition exchange_of :: "'e objenv_scheme \<Rightarrow> Runtime \<Rightarrow> rt \<Rightarrow> exchange" where
  "exchange_of E R t =
     \<lparr> held = (\<lambda>oid. res_option (get_verified E (store_root R) oid (rt_fs t))),
       offered = {oid. shared_contains (rt_shared t) oid \<or> is_cached (rt_cache t) oid} \<rparr>"

text \<open>The responses among the calls of the swarm.\<close>

definition responses :: "swarm_call list \<Rightarrow> ObjectResponse list" where
  "responses cs = concat (map (\<lambda>c. case c of RespondObject ch r \<Rightarrow> [r] | _ \<Rightarrow> []) cs)"

lemma responses_simps [simp]:
  "responses [] = []" "responses (a @ b) = responses a @ responses b"
  "responses (c # cs) = (case c of RespondObject ch r \<Rightarrow> r # responses cs | _ \<Rightarrow> responses cs)"
  by (simp_all add: responses_def split: swarm_call.split)

section \<open>Inputs that are no object request\<close>

text \<open>They leave the node as it is and answer no peer: what a peer sees of the loop stays.\<close>

definition seen :: "loop \<Rightarrow> rt \<times> ObjectResponse list" where
  "seen s = (lp_rt s, responses (lp_calls s))"

lemma seen_fields [simp]:
  "seen (reply tx a s) = seen s"
  "seen (s \<lparr> peers := ps \<rparr>) = seen s" "seen (s \<lparr> listen_addrs := ls \<rparr>) = seen s"
  "seen (s \<lparr> relay_reservations := rr \<rparr>) = seen s" "seen (s \<lparr> kad_bootstrapped := kb \<rparr>) = seen s"
  "seen (s \<lparr> lp_pubsub := pm \<rparr>) = seen s" "seen (s \<lparr> lp_tasks := ts \<rparr>) = seen s"
  "seen (s \<lparr> pairing_replies := xs \<rparr>) = seen s" "seen (s \<lparr> serve_replies := xs \<rparr>) = seen s"
  "seen (s \<lparr> serve_registry_replies := xs \<rparr>) = seen s"
  "seen (s \<lparr> lp_inbound := ib \<rparr>) = seen s"
  by (simp_all add: seen_def reply_def)

lemma seen_maps [simp]:
  "seen (pending_get_providers_update f s) = seen s" "seen (pending_put_record_update f s) = seen s"
  "seen (pending_get_record_update f s) = seen s" "seen (pending_get_object_update f s) = seen s"
  "seen (pending_replicate_update f s) = seen s" "seen (pending_pairing_request_update f s) = seen s"
  "seen (pending_serve_registration_update f s) = seen s" "seen (pending_serve_request_update f s) = seen s"
  by (simp_all add: seen_def)

lemma seen_call [simp]: "(\<And>ch r. c \<noteq> RespondObject ch r) \<Longrightarrow> seen (call c s) = seen s"
  by (cases c) (auto simp: seen_def call_def)

lemma seen_expect [simp]:
  "(\<And>ch r. c \<noteq> RespondObject ch r) \<Longrightarrow> (\<And>m s. seen (upd m s) = seen s) \<Longrightarrow> seen (expect upd W c tx s) = seen s"
  by (simp add: expect_def)

lemma seen_settle [simp]: "(\<And>m s. seen (upd m s) = seen s) \<Longrightarrow> seen (settle upd get i a s) = seen s"
  by (simp add: settle_def split: option.split)

lemma seen_fold: "(\<And>x s. seen (f x s) = seen s) \<Longrightarrow> seen (fold f xs s) = seen s"
  by (induction xs arbitrary: s) simp_all

lemma seen_stores [simp]: "seen (fst (send_stores W b ps s)) = seen s"
  by (induction ps arbitrary: s) (simp_all add: Let_def split_beta)

lemma seen_command [simp]: "seen (handle_command W c s) = seen s"
  by (cases c) (simp_all add: replicate_object_def split_beta del: send_stores.simps split: option.split)

lemma seen_finish [simp]: "seen (finish_task k s) = seen s"
  by (simp add: finish_task_def split_beta)

lemma seen_event:
  assumes "\<And>ch rq. ev \<noteq> ObjectRequestReceived ch rq"
  shows "seen (handle_swarm_event W E R ev s) = seen s"
  using assms
  by (cases ev) (auto simp: settle_object_def new_listen_addr_def connection_established_def ensure_peer_def
      identify_received_def Let_def seen_fold split_beta split: option.split)

lemma seen_reply [simp]:
  "seen (pairing_reply ch p s) = seen s" "seen (serve_reply ch q s) = seen s"
  "seen (serve_registry_reply ch r s) = seen s"
  by (simp_all add: pairing_reply_def serve_reply_def serve_registry_reply_def)

section \<open>Object requests\<close>

text \<open>What a turn may rely on: its codec and checks are those of the exchange, ids are hexadecimal, and a
  pushed object is decoded from its own encoding.\<close>

definition sound_input :: "'o objenv_scheme \<Rightarrow> 'e loopenv_scheme \<times> loop_input \<Rightarrow> bool" where
  "sound_input E x =
     (case x of (F, inp) \<Rightarrow>
        object_verify F = object_verify E \<and> object_dec F = object_dec E \<and> hex_ok F \<and>
        (case inp of
           OnEvent (ObjectRequestReceived ch (Store b)) \<Rightarrow> decodes F (bundle_object b)
         | _ \<Rightarrow> True))"

definition at_home :: "Runtime \<Rightarrow> IdentityId \<Rightarrow> rt \<Rightarrow> bool" where
  "at_home R me t =
     (cache_path (rt_cache t) = cache_file_path (rt_config R) \<and> own_identity (rt_cache t) = me)"

lemma get_verified_same:
  assumes "object_verify F = object_verify E" "object_dec F = object_dec E"
  shows "get_verified F root oid d = get_verified E root oid d"
  unfolding get_verified_def assms ..

lemma hidden_not_held: "hex_ok F \<Longrightarrow> \<not> visible oid \<Longrightarrow> res_option (get_verified F root oid d) = None"
  by (cases "get_verified F root oid d")
     (auto simp: get_verified_Inr hex_ok_def from_payload_def dest: object_verifyD(1))

lemma request_step:
  assumes "provide_object F R oid t = (t', b)" "at_home R me t"
    "object_verify F = object_verify E" "object_dec F = object_dec E"
  shows "exchange_of E R t' = exchange_of E R t" "at_home R me t'"
    "exchange_answer (exchange_of E R t) oid = (case b of Some bundle \<Rightarrow> ObjectFound bundle | None \<Rightarrow> NotFound)"
proof -
  note same = get_verified_same [OF assms(3,4)]
  show "exchange_of E R t' = exchange_of E R t" "at_home R me t'"
    using assms(1,2)
    by (auto simp: provide_object_def exchange_of_def at_home_def is_cached_def touch_served_def
        split: sum.splits if_splits)
  show "exchange_answer (exchange_of E R t) oid = (case b of Some bundle \<Rightarrow> ObjectFound bundle | None \<Rightarrow> NotFound)"
  proof (cases "get_verified E (store_root R) oid (rt_fs t)")
    case (Inr ob)
    then have "object_verify F ob" using assms(3) by (auto simp: get_verified_Inr)
    with Inr assms(1) same show ?thesis
      by (auto simp: provide_object_def exchange_answer_def exchange_of_def export_def split: if_splits)
  qed (use assms(1) same in \<open>simp add: provide_object_def exchange_answer_def exchange_of_def\<close>)
qed

lemma cache_write_held:
  assumes "roots_apart (rt_config R)" "hex_ok F" "cache_path c = cache_file_path (rt_config R)"
  shows "res_option (get_verified F (store_root R) oid (fst (persist G c d))) =
    res_option (get_verified F (store_root R) oid d)"
proof (cases "visible oid")
  case True
  obtain d' r where w: "index_save G (cache_path c) (cache_index c) d = (d', r)" by fastforce
  have "map_of d' (object_path (store_root R) oid) = map_of d (object_path (store_root R) oid)"
    using index_save_frame [OF w] app_files(3,4) [OF assms(1)] assms(3) object_fileI [OF True] by metis
  then have "get_verified F (store_root R) oid d' = get_verified F (store_root R) oid d"
    by (rule get_verified_cong)
  then show ?thesis by (simp add: persist_def w)
qed (simp add: hidden_not_held assms(2))

lemma put_held:
  assumes "put_verified F (store_root R) ob d = (d', r)" "hex_ok F" "decodes F ob"
  shows "res_option (get_verified F (store_root R) oid d') =
    (if is_ok r \<and> oid = obj_id ob then Some ob else res_option (get_verified F (store_root R) oid d))"
proof (cases "object_verify F ob")
  case False
  with assms(1) show ?thesis by (auto simp: put_verified_def)
next
  case True
  then have vis: "visible (obj_id ob)"
    using assms(2) object_verifyD(1) [of F ob] by (simp add: hex_ok_def from_payload_def)
  show ?thesis
  proof (cases "visible oid")
    case False
    with vis hidden_not_held [OF assms(2) False, of "store_root R" d]
      hidden_not_held [OF assms(2) False, of "store_root R" d'] show ?thesis by auto
  next
    case shown: True
    show ?thesis
    proof (cases r)
      case (Inl e)
      with objs.put_failed [of F "store_root R" ob d d' e oid] assms(1) vis shown show ?thesis by simp
    next
      case (Inr u)
      with objs.put_get [of F "store_root R" ob d d'] objs.put_other [of F "store_root R" ob d d' r oid]
        assms(1,3) vis shown
      show ?thesis by auto
    qed
  qed
qed

lemma push_step:
  assumes "accept_push F R ob t = (t', r)" "at_home R me t" "roots_apart (rt_config R)" "hex_ok F" "decodes F ob"
    "object_verify F = object_verify E" "object_dec F = object_dec E"
  shows "exchange_of E R t' = (if is_ok r then exchange_take me ob (exchange_of E R t) else exchange_of E R t)"
    "at_home R me t'" "is_ok r \<longrightarrow> object_verify E ob"
proof -
  obtain d p where put: "put_verified F (store_root R) ob (rt_fs t) = (d, p)" by fastforce
  have held: "res_option (get_verified E (store_root R) oid d) =
      (if is_ok p \<and> oid = obj_id ob then Some ob else res_option (get_verified E (store_root R) oid (rt_fs t)))" for oid
    using put_held [OF put assms(4,5)] get_verified_same [OF assms(6,7)] by simp
  have verified: "is_ok p \<Longrightarrow> object_verify E ob"
    using put assms(6) by (auto simp: put_verified_def split: if_splits)
  let ?c = "rt_cache t \<lparr> cache_index := touch (obj_id ob) (now F) (cache_index (rt_cache t)) \<rparr>"
  have persisted: "res_option (get_verified E (store_root R) oid (fst (persist F ?c d))) =
      res_option (get_verified E (store_root R) oid d)" for oid
    using cache_write_held [OF assms(3,4), of ?c oid F d] assms(2) get_verified_same [OF assms(6,7)]
    by (simp add: at_home_def)
  consider (failed) e where "p = Inl e" "t' = t\<lparr>rt_fs := d\<rparr>" "r = Inl e"
    | (own) "p = Inr ()" "payload_owner (payload ob) = me" "t' = t\<lparr>rt_fs := d\<rparr>" "r = Inr ()"
    | (foreign) "p = Inr ()" "payload_owner (payload ob) \<noteq> me" "r = Inr ()"
        "t' = t\<lparr>rt_fs := fst (persist F ?c d), rt_cache := ?c\<rparr>"
    using assms(1,2) put
    by (cases p) (auto simp: accept_push_def andThen_apply on_fs_def on_cache_apply mark_cached_def Let_def
        is_owned_def at_home_def split: if_splits)
  then show "exchange_of E R t' = (if is_ok r then exchange_take me ob (exchange_of E R t) else exchange_of E R t)"
    "at_home R me t'" "is_ok r \<longrightarrow> object_verify E ob"
    using assms(2) verified
    by (cases; auto simp: exchange_of_def exchange_take_def held persisted at_home_def fun_eq_iff is_cached_def
        cached.mem_add split: if_splits)+
qed

section \<open>The refinement\<close>

lemma exchange_run_trans:
  "exchange_run E me X rs Y \<Longrightarrow> exchange_run E me Y rs' Z \<Longrightarrow> exchange_run E me X (rs @ rs') Z"
proof (rotate_tac, induction rule: exchange_run.induct)
  case (asked Y' rs' Z oid)
  then show ?case using exchange_run.asked [of E me X "rs @ rs'" Z oid] by simp
next
  case (pushed Y' rs' Z ob)
  then show ?case using exchange_run.pushed [of E me X "rs @ rs'" Z ob] by simp
next
  case (refused Y' rs' Z why)
  then show ?case using exchange_run.refused [of E me X "rs @ rs'" Z why] by simp
qed simp

lemma one_step:
  "exchange_run E me X [exchange_answer X oid] X"
  "object_verify E ob \<Longrightarrow> exchange_run E me X [Stored] (exchange_take me ob X)"
  "exchange_run E me X [StoreFailed why] X"
  using exchange_run.asked [OF exchange_run.idle] exchange_run.pushed [OF exchange_run.idle]
    exchange_run.refused [OF exchange_run.idle] by fastforce+

text \<open>One turn: nothing, or one request of a peer with its response.\<close>

lemma step_refines:
  assumes "sound_input E (F, inp)" "roots_apart (rt_config R)" "at_home R me (lp_rt s)"
  shows "at_home R me (lp_rt (loop_step W F R inp s)) \<and>
    (\<exists>rs. exchange_run E me (exchange_of E R (lp_rt s)) rs (exchange_of E R (lp_rt (loop_step W F R inp s))) \<and>
      responses (lp_calls (loop_step W F R inp s)) = responses (lp_calls s) @ rs)"
proof (cases "\<exists>ch rq. inp = OnEvent (ObjectRequestReceived ch rq)")
  case True
  then obtain ch rq where inp: "inp = OnEvent (ObjectRequestReceived ch rq)" by blast
  obtain t r where rq: "object_request F R rq (lp_rt s) = (t, r)" by fastforce
  have sound: "object_verify F = object_verify E" "object_dec F = object_dec E" "hex_ok F"
    using assms(1) by (simp_all add: sound_input_def)
  have "at_home R me t \<and> exchange_run E me (exchange_of E R (lp_rt s)) [r] (exchange_of E R t)"
  proof (cases rq)
    case (GetObject oid)
    obtain t' b where p: "provide_object F R oid (lp_rt s) = (t', b)" by fastforce
    from request_step [OF p assms(3) sound(1,2)] one_step(1) [of E me "exchange_of E R (lp_rt s)" oid] p rq GetObject
    show ?thesis by (auto split: option.splits)
  next
    case (Store b)
    obtain t' p where a: "accept_push F R (bundle_object b) (lp_rt s) = (t', p)" by fastforce
    have "decodes F (bundle_object b)" using assms(1) by (simp add: sound_input_def inp Store)
    from push_step [OF a assms(3,2) sound(3) this sound(1,2)] a rq Store
    show ?thesis by (cases p) (auto intro: one_step)
  qed
  then show ?thesis by (auto simp: inp rq call_def)
next
  case False
  then have "seen (loop_step W F R inp s) = seen s"
    by (cases inp) (auto intro: seen_event)
  then have "lp_rt (loop_step W F R inp s) = lp_rt s"
    "responses (lp_calls (loop_step W F R inp s)) = responses (lp_calls s)"
    by (simp_all add: seen_def)
  with assms(3) show ?thesis by (auto intro: exI [of _ "[]"] exchange_run.idle)
qed

text \<open>Property C32. The event loop implements the exchange: after any inputs, in any order and with any failures
  of the disk, what its node holds and offers is a state that the abstract service can be in after
  giving exactly the responses that the loop sent to its peers.\<close>

theorem loop_refines_exchange:
  assumes "list_all (sound_input E) inputs" "roots_apart (rt_config R)" "at_home R me (lp_rt s)"
  shows "\<exists>rs. exchange_run E me (exchange_of E R (lp_rt s)) rs
      (exchange_of E R (lp_rt (run_event_loop W R inputs s))) \<and>
    responses (lp_calls (run_event_loop W R inputs s)) = responses (lp_calls s) @ rs"
  using assms(1,3)
proof (induction inputs arbitrary: s)
  case Nil
  show ?case by (auto simp: run_event_loop_def intro: exI [of _ "[]"] exchange_run.idle)
next
  case (Cons x inputs)
  obtain F inp where x: "x = (F, inp)" by fastforce
  let ?s = "loop_step W F R inp s"
  from Cons.prems x have "sound_input E (F, inp)" "list_all (sound_input E) inputs" by simp_all
  with step_refines [OF _ assms(2) Cons.prems(2)] obtain rs where
    "at_home R me (lp_rt ?s)" and step: "exchange_run E me (exchange_of E R (lp_rt s)) rs (exchange_of E R (lp_rt ?s))"
      "responses (lp_calls ?s) = responses (lp_calls s) @ rs" by blast
  with Cons.IH \<open>list_all (sound_input E) inputs\<close> obtain rs' where
    "exchange_run E me (exchange_of E R (lp_rt ?s)) rs' (exchange_of E R (lp_rt (run_event_loop W R inputs ?s)))"
    "responses (lp_calls (run_event_loop W R inputs ?s)) = responses (lp_calls ?s) @ rs'" by blast
  with step exchange_run_trans [OF step(1)] show ?case
    by (auto simp: x run_Cons)
qed

theorem loop_refines_exchange_witness:
  "\<exists>rs. exchange_run ex_loopenv (own_identity (rt_cache (lp_rt ex_loop))) (exchange_of ex_loopenv ex_runtime (lp_rt ex_loop)) rs
      (exchange_of ex_loopenv ex_runtime (lp_rt (run_event_loop ex_swarm ex_runtime [(ex_loopenv, OnEvent ex_push)] ex_loop))) \<and>
    rs = [Stored]"
proof -
  let ?inputs = "[(ex_loopenv, OnEvent ex_push)]"
  have "decodes ex_loopenv ex_foreign"
    by (simp add: decodes_def ex_loopenv_def ex_foreign_val)
  then have "list_all (sound_input ex_loopenv) ?inputs"
    by (simp add: sound_input_def ex_push_def ex_bundle_def ex_loopenv_def)
  moreover have "roots_apart (rt_config ex_runtime)"
    using ex_cache_apart by (simp add: cache_apart_def)
  moreover have "at_home ex_runtime (own_identity (rt_cache (lp_rt ex_loop))) (lp_rt ex_loop)"
    using ex_cache_apart [of "[]"] by (simp add: at_home_def ex_loop_defs cache_apart_def)
  ultimately obtain rs where
    "exchange_run ex_loopenv (own_identity (rt_cache (lp_rt ex_loop))) (exchange_of ex_loopenv ex_runtime (lp_rt ex_loop)) rs
      (exchange_of ex_loopenv ex_runtime (lp_rt (run_event_loop ex_swarm ex_runtime ?inputs ex_loop)))"
    "responses (lp_calls (run_event_loop ex_swarm ex_runtime ?inputs ex_loop)) = responses (lp_calls ex_loop) @ rs"
    using loop_refines_exchange by blast
  then show ?thesis
    using ex_push_calls by (auto simp: run_event_loop_def)
qed

section \<open>What the abstract service promises\<close>

theorem exchange_only_grows:
  assumes "exchange_run E me X rs Y"
  shows "offered X \<subseteq> offered Y" "held X oid \<noteq> None \<Longrightarrow> held Y oid \<noteq> None"
  using assms by (induction rule: exchange_run.induct) (auto simp: exchange_take_def)

end
