(* ===== verification/Spec2Isabelle.thy ===== *)
theory Spec2Isabelle
  imports Runtime_Open Node_Main Node_Sweep App_Server App_Round_Trip Chat_App Network_Manager Command_Facts Gateway_Safety Client_Contract Exchange_Refinement
begin

text \<open>
  Canopee (src/crates): a peer-to-peer store of signed, content-addressed objects, with mutable
  pointers over a DHT, apps served from the store, and a local daemon that applications and browsers
  talk to.

  \<^bold>\<open>The program.\<close>  Every object is signed by its author, named by the hash of its payload, and kept as
  a file (canopee-storage).  The runtime (canopee-runtime) owns the store, an index of what is only a
  cached copy of a peer's object, and the set of own objects it serves.  It encrypts private data for
  its recipients (canopee-identity), publishes pointers, user records and capabilities, and pairs
  devices.  It reaches peers through a handle of the network task (canopee-network), the one owner of
  the libp2p swarm.  The daemon (canopee-node) dispatches the commands that the client library
  (canopee-sdk) sends over a Unix socket.  The gateway (canopee-gateway) offers a subset of the client
  to a browser over a WebSocket; the edge (canopee-edge) relays public HTTP requests to the publisher
  of an app.

  \<^bold>\<open>The theories\<close>, in the order of their dependence.  In each, a struct is a record, an enum a
  datatype with the constructors of the source, a \<open>Result\<close> a sum whose left part is the \<open>error\<close>, and
  an operation that changes state a function that returns the changed state.

    \<^item> \<^verbatim>\<open>Prelude\<close>, \<^verbatim>\<open>Stateful\<close>, \<^verbatim>\<open>Keyed_Store\<close>: bytes, words, errors and the string routines of Rust's
      standard library; operations that thread a state and may fail, with the locale \<^verbatim>\<open>state_relation\<close>
      of relations that sequences of operations keep; the locales \<^verbatim>\<open>keyed_store\<close> and \<^verbatim>\<open>tracked_set\<close>.
    \<^item> \<^verbatim>\<open>Host_IO\<close>: the file system as the list of its entries.  Whether the host carries a call out, or
      tears a write, is an argument.
    \<^item> \<^verbatim>\<open>Crypto\<close>: the functions of the cryptographic crates as a record, and the documented laws of them
      as predicates: \<^verbatim>\<open>sign_ok\<close>, \<^verbatim>\<open>aead_ok\<close>, \<^verbatim>\<open>x25519_ok\<close>, \<^verbatim>\<open>argon2_ok\<close>, \<^verbatim>\<open>keypair_codec_ok\<close>.
    \<^item> \<^verbatim>\<open>Key_Envelope\<close>, \<^verbatim>\<open>Identities\<close>, \<^verbatim>\<open>Object_Envelope\<close>, \<^verbatim>\<open>Pairing_Crypto\<close>: canopee-identity.
    \<^item> \<^verbatim>\<open>Objects\<close>, \<^verbatim>\<open>Object_Store\<close>, \<^verbatim>\<open>Cache_Index\<close>, \<^verbatim>\<open>Signed_Records\<close> (pointers, capabilities, registrations),
      \<^verbatim>\<open>User_Data\<close>: canopee-storage.
    \<^item> \<^verbatim>\<open>Config_Uri\<close>: canopee-config and uri.rs of canopee-cli.
    \<^item> \<^verbatim>\<open>Http\<close>, \<^verbatim>\<open>Runtime_Base\<close>, \<^verbatim>\<open>Runtime_Objects\<close>, \<^verbatim>\<open>Runtime_Records\<close>, \<^verbatim>\<open>Runtime_Sharing\<close>,
      \<^verbatim>\<open>Runtime_Pairing\<close>, \<^verbatim>\<open>Runtime_Open\<close>, \<^verbatim>\<open>Serve_Session\<close>: canopee-runtime.  The state \<^verbatim>\<open>rt\<close> holds the file system, the
      cache index, the serving set, the pending pairing session and the log of calls to the network;
      the answers of peers are arguments.
    \<^item> \<^verbatim>\<open>Event_Loop\<close>, \<^verbatim>\<open>Network_Manager\<close>: canopee-network.  The state \<^verbatim>\<open>loop\<close> holds the maps of pending
      requests, the peers, the tasks that collect answers, the answers given so far and the log of the
      calls of the swarm.
    \<^item> \<^verbatim>\<open>Node\<close>, \<^verbatim>\<open>Node_Connection\<close>: canopee-node and canopee-protocol, and the socket of canopee-sdk.
    \<^item> \<^verbatim>\<open>Node_Main\<close>: the loop of the daemon from start to shutdown, its edge role, and main.rs of canopee-edge.
    \<^item> \<^verbatim>\<open>Sdk_Client\<close>: the methods of canopee-sdk over a transport.
    \<^item> \<^verbatim>\<open>Gateway_Protocol\<close>, \<^verbatim>\<open>Web_Socket\<close>, \<^verbatim>\<open>Gateway\<close>: canopee-gateway.
    \<^item> \<^verbatim>\<open>Edge\<close>: the registry and the front door of canopee-edge.
    \<^item> \<^verbatim>\<open>App_Server\<close>, \<^verbatim>\<open>App_Fetch\<close>: app.rs of canopee-cli, its HTTP server and its client half.
    \<^item> \<^verbatim>\<open>Command_Line\<close>, \<^verbatim>\<open>Command_Run\<close>, \<^verbatim>\<open>Command_Main\<close>, \<^verbatim>\<open>Command_Facts\<close>: canopee-cli, its helpers, every
      command with what it prints and the status it ends with, and the dispatch of main.rs.
    \<^item> \<^verbatim>\<open>Chat_App\<close>: the desktop chat of canopee-chat-test, which embeds a runtime.
    \<^item> \<^verbatim>\<open>App_Round_Trip\<close>: publishing and opening an app against the node that serves the requests.

  \<^bold>\<open>What is shown.\<close>  The properties are numbered; each stands with its component.

    \<^item> Storage (\<^verbatim>\<open>Object_Store\<close>): what is put is got, an interrupted put leaves the old object or none in
      the visible name.  The store is an instance of \<^verbatim>\<open>keyed_store\<close>; index and serving set are of
      \<^verbatim>\<open>tracked_set\<close>; pointers, capabilities and registrations of \<^verbatim>\<open>signed_record\<close>.
    \<^item> Secrecy and authority (\<^verbatim>\<open>Object_Envelope\<close>, \<^verbatim>\<open>Signed_Records\<close>): the recipients of an envelope read
      it; a capability permits what was granted and nothing else; what each signature covers, and what
      it leaves open.
    \<^item> The runtime (\<^verbatim>\<open>Runtime_Objects\<close>, \<^verbatim>\<open>Runtime_Safety\<close>): round trip of private data, the gate in front
      of a peer's request, import and eviction.  \<^verbatim>\<open>Runtime_Safety\<close> shows for each operation that it keeps
      the store intact and serves no more than it announces, through \<^verbatim>\<open>state_relation\<close>.
    \<^item> The node (\<^verbatim>\<open>Node_Safety\<close>, \<^verbatim>\<open>Node_Sweep\<close>): the node is the inductive set of reachable states \<^verbatim>\<open>node_reach\<close> over commands,
      peers' requests, synchronisation and sweeps in any order; its invariants are by rule induction.
      \<^verbatim>\<open>Node_Main\<close> shows that the daemon ends on a client's word and leaves nothing behind.
    \<^item> The network task (\<^verbatim>\<open>Loop_Accounts\<close>, \<^verbatim>\<open>Loop_Promises\<close>, \<^verbatim>\<open>Exchange_Refinement\<close>): every sender is
      answered once, with an answer of its type, or waits in one map (\<^verbatim>\<open>pending_map\<close>, interpreted on
      each of the seven maps); the object exchange is refined to an abstract map with an offered set.
    \<^item> The edges of the node (\<^verbatim>\<open>Client_Contract\<close>, \<^verbatim>\<open>Gateway_Safety\<close>, \<^verbatim>\<open>Web_Socket\<close>): a client request is a
      call of the dispatcher, the client reads every answer, a browser reaches only the exposed
      commands (\<^verbatim>\<open>exposed_client\<close>, interpreted on a recorder of requests and on the node).
    \<^item> HTTP (\<^verbatim>\<open>Http\<close>, \<^verbatim>\<open>Edge\<close>, \<^verbatim>\<open>App_Server\<close>): exact partial content, framing, only owners of an app register
      for it, and an app looks the same through an edge as on the local server.
    \<^item> Apps (\<^verbatim>\<open>App_Fetch\<close>, \<^verbatim>\<open>App_Round_Trip\<close>): a published directory is complete, and opens with the
      bytes it had.  What the command line needs of a node is the locale \<^verbatim>\<open>app_store\<close>, interpreted on
      the dispatcher of the node.
    \<^item> The command line (\<^verbatim>\<open>Command_Facts\<close>): \<open>--ids\<close> changes nothing but the output, no command acts without
      the node it needs, and what the exit status says.
    \<^item> The chat (\<^verbatim>\<open>Chat_App\<close>): two users who added each other read what the other one writes, also after
      a restart.

  \<^bold>\<open>Parameters.\<close>  Third-party code is an argument: cryptography, bincode, JSON and base64 codecs, gzip,
  SHA-1, the clock, randomness, the host's file system calls, the ids libp2p gives to requests, and what
  peers answer.  Each hypothesis on them is a documented law (a codec decodes what it encoded, a
  signature verifies, libp2p does not give an id twice), and each has an instance in the witnesses
  (\<^verbatim>\<open>sample_crypto\<close>, \<^verbatim>\<open>sample_objenv\<close> and the \<^verbatim>\<open>ex_\<close> definitions).

  \<^bold>\<open>Bounds.\<close>  No definition runs on fuel.  A loop over a list is structural; the readers of frames and
  requests, the sweep and the session recurse on what is left of their input, with a measure.  The
  retry of \<^verbatim>\<open>create_if_absent\<close> is bounded by the source.  Machine integers are words where the source
  computes with them (\<^verbatim>\<open>u64\<close> times and sizes, \<^verbatim>\<open>u32\<close> frame lengths, \<^verbatim>\<open>u16\<close> close codes), and the sum of cached
  sizes wraps as it does in the code.

  \<^bold>\<open>Not modelled.\<close>  Argument parsing of canopee-cli and its desktop integration on macOS and Windows; the
  accept loops of the edge and the gateway, time-outs as such (a
  time-out is an end of input or a lost answer); building a TLS configuration; the
  construction of the libp2p swarm (behaviour.rs); logging; the background tasks of a serve
  session (a session is a value in its slot, its task a call of the handler); the window of
  canopee-chat-test; the end-to-end tests.
\<close>

end
